(* ===== verification/Prelude.thy ===== *)
theory Prelude
  imports Main
begin

text \<open>
  The prelude: results of fallible operations threaded through a state, the combinators that
  stand for Go's \<open>if err != nil\<close> returns, and the lemmas on tables (lists of rows with a key)
  that the database, the stores and the handlers share.
\<close>

named_theorems result_simps \<open>equations of the result combinators and of the operations built from them\<close>
named_theorems inv_intros \<open>preservation of the invariants, one fact per operation\<close>

section \<open>Results\<close>

text \<open>
  A Go function that returns \<open>(T, error)\<close> and changes the state yields a sum (\<open>Inl\<close> the error)
  together with the next state.
\<close>

type_synonym ('e, 'a, 's) outcome = "('e + 'a) \<times> 's"

definition and_then ::
  "('e, 'a, 's) outcome \<Rightarrow> ('a \<Rightarrow> 's \<Rightarrow> ('e, 'b, 's) outcome) \<Rightarrow> ('e, 'b, 's) outcome" where
  "and_then r f = (case r of (Inl e, s) \<Rightarrow> (Inl e, s) | (Inr x, s) \<Rightarrow> f x s)"

definition map_err :: "('e \<Rightarrow> 'e2) \<Rightarrow> ('e, 'a, 's) outcome \<Rightarrow> ('e2, 'a, 's) outcome" where
  "map_err g r = (case r of (Inl e, s) \<Rightarrow> (Inl (g e), s) | (Inr x, s) \<Rightarrow> (Inr x, s))"

lemma and_then_simps [simp, result_simps]:
  "and_then (Inl e, s) f = (Inl e, s)"
  "and_then (Inr x, s) f = f x s"
  by (simp_all add: and_then_def)

lemma map_err_simps [simp, result_simps]:
  "map_err g (Inl e, s) = (Inl (g e), s)"
  "map_err g (Inr x, s) = (Inr x, s)"
  by (simp_all add: map_err_def)

lemma and_then_ok:
  "and_then r f = (Inr y, s') \<longleftrightarrow> (\<exists>x s. r = (Inr x, s) \<and> f x s = (Inr y, s'))"
  by (cases r; cases "fst r") auto

lemma and_then_err:
  "and_then r f = (Inl e, s') \<longleftrightarrow>
     r = (Inl e, s') \<or> (\<exists>x s. r = (Inr x, s) \<and> f x s = (Inl e, s'))"
  by (cases r; cases "fst r") auto

lemma map_err_ok: "map_err g r = (Inr y, s') \<longleftrightarrow> r = (Inr y, s')"
  by (cases r; cases "fst r") auto

lemma map_err_err:
  "map_err g r = (Inl e, s') \<longleftrightarrow> (\<exists>e'. r = (Inl e', s') \<and> e = g e')"
  by (cases r; cases "fst r") auto

lemmas outcome_iffs = and_then_ok and_then_err map_err_ok map_err_err

text \<open>A state invariant carried through the combinators.\<close>

lemma snd_map_err [simp]: "snd (map_err g r) = snd r"
  by (cases r; cases "fst r") auto

lemma and_then_inv [inv_intros]:
  assumes "I (snd r)" and "\<And>x s. I s \<Longrightarrow> I (snd (f x s))"
  shows "I (snd (and_then r f))"
  using assms by (cases r; cases "fst r") auto

section \<open>Tables: lists of rows with a key\<close>

text \<open>The update of every row whose key is \<open>k\<close>.\<close>

definition update_rows :: "('r \<Rightarrow> 'k) \<Rightarrow> 'k \<Rightarrow> ('r \<Rightarrow> 'r) \<Rightarrow> 'r list \<Rightarrow> 'r list" where
  "update_rows key k f rs = map (\<lambda>r. if key r = k then f r else r) rs"

text \<open>The first row with a key.\<close>

definition lookup_row :: "('r \<Rightarrow> 'k) \<Rightarrow> 'k \<Rightarrow> 'r list \<Rightarrow> 'r option" where
  "lookup_row key k rs = List.find (\<lambda>r. key r = k) rs"

lemma lookup_row_simps [simp]:
  "lookup_row key k [] = None"
  "lookup_row key k (r # rs) = (if key r = k then Some r else lookup_row key k rs)"
  by (simp_all add: lookup_row_def)

lemma lookup_row_Some_iff:
  assumes "distinct (map key rs)"
  shows "lookup_row key k rs = Some r \<longleftrightarrow> r \<in> set rs \<and> key r = k"
  using assms by (induction rs) (auto simp: image_iff split: if_splits)

lemma lookup_row_SomeD:
  "lookup_row key k rs = Some r \<Longrightarrow> r \<in> set rs \<and> key r = k"
  by (induction rs) (auto split: if_splits)

lemma lookup_row_None_iff:
  "lookup_row key k rs = None \<longleftrightarrow> (\<forall>r \<in> set rs. key r \<noteq> k)"
  by (induction rs) auto

lemma lookup_row_append:
  "lookup_row key k (rs @ ss) =
     (case lookup_row key k rs of None \<Rightarrow> lookup_row key k ss | Some r \<Rightarrow> Some r)"
  by (induction rs) auto

lemma update_rows_simps [simp]:
  "update_rows key k f [] = []"
  "update_rows key k f (r # rs) = (if key r = k then f r else r) # update_rows key k f rs"
  by (simp_all add: update_rows_def)

lemma length_update_rows [simp]: "length (update_rows key k f rs) = length rs"
  by (simp add: update_rows_def)

lemma set_update_rows:
  "set (update_rows key k f rs) =
     {r \<in> set rs. key r \<noteq> k} \<union> f ` {r \<in> set rs. key r = k}"
  by (induction rs) auto

lemma update_rows_mem:
  "r' \<in> set (update_rows key k f rs) \<Longrightarrow>
     (r' \<in> set rs \<and> key r' \<noteq> k) \<or> (\<exists>r \<in> set rs. key r = k \<and> r' = f r)"
  by (auto simp: set_update_rows)

lemma map_update_rows_same:
  assumes "\<And>r. key r = k \<Longrightarrow> g (f r) = g r"
  shows "map g (update_rows key k f rs) = map g rs"
  using assms by (induction rs) auto

lemma image_update_rows_same:
  assumes "\<And>r. key r = k \<Longrightarrow> g (f r) = g r"
  shows "g ` set (update_rows key k f rs) = g ` set rs"
  using assms by (induction rs) auto

lemma lookup_row_update_rows:
  assumes "\<And>r. key r = k \<Longrightarrow> key (f r) = k"
  shows "lookup_row key j (update_rows key k f rs) =
     (if j = k then map_option f (lookup_row key k rs) else lookup_row key j rs)"
  using assms by (induction rs) auto

lemma update_rows_id:
  "(\<forall>r \<in> set rs. key r \<noteq> k) \<Longrightarrow> update_rows key k f rs = rs"
  by (induction rs) auto

lemma distinct_map_snoc:
  "distinct (map g (rs @ [r])) \<longleftrightarrow> distinct (map g rs) \<and> (\<forall>s \<in> set rs. g s \<noteq> g r)"
  by (auto simp: image_iff)

text \<open>A unique column stays unique when one keyed row takes a value no other row holds.\<close>

lemma distinct_map_update_rows:
  assumes "distinct (map key rs)" and "distinct (map g rs)"
    and "\<And>r. r \<in> set rs \<Longrightarrow> key r = k \<Longrightarrow> g (f r) = v"
    and "\<And>r. r \<in> set rs \<Longrightarrow> key r \<noteq> k \<Longrightarrow> g r \<noteq> v"
  shows "distinct (map g (update_rows key k f rs))"
  using assms
proof (induction rs)
  case Nil
  then show ?case by simp
next
  case (Cons r rs)
  have IH: "distinct (map g (update_rows key k f rs))"
    using Cons by auto
  show ?case
  proof (cases "key r = k")
    case True
    then have "\<forall>s \<in> set rs. key s \<noteq> k" using Cons.prems(1) by (auto simp: image_iff)
    then have "update_rows key k f rs = rs" and "\<forall>s \<in> set rs. g s \<noteq> v"
      using Cons.prems(4) by (simp_all add: update_rows_id)
    moreover have "g (f r) = v" using True Cons.prems(3) by simp
    ultimately show ?thesis using True Cons.prems(2) by (auto simp: image_iff)
  next
    case False
    then have "g r \<noteq> v" using Cons.prems(4) by simp
    moreover have "g r \<notin> g ` set rs" using Cons.prems(2) by simp
    moreover have "g s = v \<or> g s \<in> g ` set rs" if "s \<in> set (update_rows key k f rs)" for s
      using update_rows_mem [OF that] Cons.prems(3) by auto
    ultimately have "g r \<notin> g ` set (update_rows key k f rs)" by (metis imageE)
    with False IH show ?thesis by simp
  qed
qed

lemma distinct_map_filter: "distinct (map g rs) \<Longrightarrow> distinct (map g (filter P rs))"
  by (induction rs) auto

end
