(* ===== verification/GoStrings.thy ===== *)
theory GoStrings
  imports Prelude "HOL-Library.Word"
begin

text \<open>
  The parts of Go's standard library on strings that the code uses, on byte strings
  (\<open>string\<close> is a list of bytes, as Go's \<open>string\<close> is): \<open>strings.TrimSpace\<close>, \<open>Split\<close>, prefixes,
  \<open>strconv.Atoi\<close>, decimal and hexadecimal rendering, and the character counts of UTF-8 text.
\<close>

type_synonym byte = "8 word"

section \<open>Bytes and UTF-8\<close>

definition code :: "char \<Rightarrow> nat" where
  "code c = of_char c"

definition is_ascii :: "char \<Rightarrow> bool" where
  "is_ascii c \<longleftrightarrow> code c < 128"

definition is_digit :: "char \<Rightarrow> bool" where
  "is_digit c \<longleftrightarrow> 48 \<le> code c \<and> code c \<le> 57"

definition is_lower :: "char \<Rightarrow> bool" where
  "is_lower c \<longleftrightarrow> 97 \<le> code c \<and> code c \<le> 122"

definition is_upper :: "char \<Rightarrow> bool" where
  "is_upper c \<longleftrightarrow> 65 \<le> code c \<and> code c \<le> 90"

definition upper_char :: "char \<Rightarrow> char" where
  "upper_char c = (if is_lower c then char_of (code c - 32) else c)"

definition lower_char :: "char \<Rightarrow> char" where
  "lower_char c = (if is_upper c then char_of (code c + 32) else c)"

lemma code_char_of [simp]: "n < 256 \<Longrightarrow> code (char_of n) = n"
  by (simp add: code_def)

lemma code_inject [simp]: "code c = code d \<longleftrightarrow> c = d"
  by (simp add: code_def)

lemma code_less_256 [simp]: "code c < 256"
  by (simp add: code_def)

lemma is_upper_upper_char: "is_lower c \<Longrightarrow> is_upper (upper_char c)"
  by (auto simp: is_lower_def is_upper_def upper_char_def)

lemma upper_char_id: "\<not> is_lower c \<Longrightarrow> upper_char c = c"
  by (simp add: upper_char_def)

text \<open>A UTF-8 continuation byte; a string has as many characters as other bytes.\<close>

definition is_cont :: "char \<Rightarrow> bool" where
  "is_cont c \<longleftrightarrow> 128 \<le> code c \<and> code c < 192"

definition char_len :: "string \<Rightarrow> nat" where
  "char_len s = length (filter (\<lambda>c. \<not> is_cont c) s)"

fun utf8_take :: "nat \<Rightarrow> string \<Rightarrow> string" where
  "utf8_take n [] = []"
| "utf8_take n (c # s) =
     (if is_cont c then c # utf8_take n s
      else (case n of 0 \<Rightarrow> [] | Suc m \<Rightarrow> c # utf8_take m s))"

lemma char_len_simps [simp]:
  "char_len [] = 0"
  "char_len (c # s) = (if is_cont c then char_len s else Suc (char_len s))"
  by (simp_all add: char_len_def)

lemma char_len_append [simp]: "char_len (s @ t) = char_len s + char_len t"
  by (simp add: char_len_def)

lemma char_len_le_length: "char_len s \<le> length s"
  by (simp add: char_len_def)

lemma char_len_utf8_take: "char_len (utf8_take n s) \<le> n"
  by (induction n s rule: utf8_take.induct) (auto split: nat.splits)

lemma utf8_take_prefix: "\<exists>t. s = utf8_take n s @ t"
  by (induction n s rule: utf8_take.induct) (auto split: nat.splits)

lemma ascii_char_len: "list_all is_ascii s \<Longrightarrow> char_len s = length s"
  by (induction s) (auto simp: is_ascii_def is_cont_def)

section \<open>strings.TrimSpace\<close>

text \<open>
  The white space of \<open>unicode.IsSpace\<close>: six ASCII characters, U+0085 and U+00A0 (two bytes in
  UTF-8), and the three-byte spaces U+1680, U+2000 to U+200A, U+2028, U+2029, U+202F, U+205F
  and U+3000.
\<close>

definition is_space1 :: "char \<Rightarrow> bool" where
  "is_space1 c \<longleftrightarrow> (9 \<le> code c \<and> code c \<le> 13) \<or> code c = 32"

definition is_space2 :: "char \<Rightarrow> char \<Rightarrow> bool" where
  "is_space2 a b \<longleftrightarrow> code a = 194 \<and> (code b = 133 \<or> code b = 160)"

definition is_space3 :: "char \<Rightarrow> char \<Rightarrow> char \<Rightarrow> bool" where
  "is_space3 a b c \<longleftrightarrow>
     (code a = 225 \<and> code b = 154 \<and> code c = 128) \<or>
     (code a = 226 \<and> code b = 128 \<and>
       ((128 \<le> code c \<and> code c \<le> 138) \<or> code c = 168 \<or> code c = 169 \<or> code c = 175)) \<or>
     (code a = 226 \<and> code b = 129 \<and> code c = 159) \<or>
     (code a = 227 \<and> code b = 128 \<and> code c = 128)"

fun trim_by :: "(char \<Rightarrow> char \<Rightarrow> bool) \<Rightarrow> (char \<Rightarrow> char \<Rightarrow> char \<Rightarrow> bool) \<Rightarrow> string \<Rightarrow> string" where
  "trim_by p2 p3 [] = []"
| "trim_by p2 p3 [a] = (if is_space1 a then [] else [a])"
| "trim_by p2 p3 [a, b] =
     (if is_space1 a then trim_by p2 p3 [b] else if p2 a b then [] else [a, b])"
| "trim_by p2 p3 (a # b # c # s) =
     (if is_space1 a then trim_by p2 p3 (b # c # s)
      else if p2 a b then trim_by p2 p3 (c # s)
      else if p3 a b c then trim_by p2 p3 s
      else a # b # c # s)"

definition trim_left :: "string \<Rightarrow> string" where
  "trim_left s = trim_by is_space2 is_space3 s"

definition trim_right :: "string \<Rightarrow> string" where
  "trim_right s = rev (trim_by (\<lambda>b a. is_space2 a b) (\<lambda>c b a. is_space3 a b c) (rev s))"

definition trim_space :: "string \<Rightarrow> string" where
  "trim_space s = trim_right (trim_left s)"

lemma trim_by_suffix: "\<exists>t. s = t @ trim_by p2 p3 s"
proof (induction p2 p3 s rule: trim_by.induct)
  case (4 p2 p3 a b c s)
  then show ?case by (auto intro: exI [of _ "[]"]) (metis append_Cons)+
qed auto

lemma trim_by_idem: "trim_by p2 p3 (trim_by p2 p3 s) = trim_by p2 p3 s"
  by (induction p2 p3 s rule: trim_by.induct) auto

lemma trim_left_idem [simp]: "trim_left (trim_left s) = trim_left s"
  by (simp add: trim_left_def trim_by_idem)

lemma trim_right_idem [simp]: "trim_right (trim_right s) = trim_right s"
  by (simp add: trim_right_def trim_by_idem)

lemma trim_by_nonspace: "trim_by p2 p3 s = a # t \<Longrightarrow> \<not> is_space1 a"
  by (induction p2 p3 s rule: trim_by.induct) (auto split: if_splits)

section \<open>Prefixes, splitting, joining\<close>

definition has_prefix :: "string \<Rightarrow> string \<Rightarrow> bool" where
  "has_prefix p s \<longleftrightarrow> take (length p) s = p"

definition trim_prefix :: "string \<Rightarrow> string \<Rightarrow> string" where
  "trim_prefix p s = (if has_prefix p s then drop (length p) s else s)"

definition trim_right_char :: "char \<Rightarrow> string \<Rightarrow> string" where
  "trim_right_char c s = rev (dropWhile (\<lambda>d. d = c) (rev s))"

fun split_on :: "char \<Rightarrow> string \<Rightarrow> string list" where
  "split_on c [] = [[]]"
| "split_on c (x # xs) =
     (if x = c then [] # split_on c xs
      else (case split_on c xs of [] \<Rightarrow> [[x]] | y # ys \<Rightarrow> (x # y) # ys))"

fun join_with :: "string \<Rightarrow> string list \<Rightarrow> string" where
  "join_with sep [] = []"
| "join_with sep [s] = s"
| "join_with sep (s # t # ts) = s @ sep @ join_with sep (t # ts)"

text \<open>\<open>strings.Cut\<close> at a one-byte separator: before, after.\<close>

fun cut_at :: "char \<Rightarrow> string \<Rightarrow> string \<times> string" where
  "cut_at c [] = ([], [])"
| "cut_at c (x # xs) = (if x = c then ([], xs) else (case cut_at c xs of (a, b) \<Rightarrow> (x # a, b)))"

lemma has_prefix_append [simp]: "has_prefix p (p @ s)"
  by (simp add: has_prefix_def)

lemma has_prefix_iff: "has_prefix p s \<longleftrightarrow> (\<exists>t. s = p @ t)"
  unfolding has_prefix_def by (metis append_take_drop_id append_eq_conv_conj)

lemma trim_prefix_append [simp]: "trim_prefix p (p @ s) = s"
  by (simp add: trim_prefix_def)

lemma split_on_nonempty [simp]: "split_on c s \<noteq> []"
  by (induction s) (auto split: list.splits)

lemma join_split_on: "join_with [c] (split_on c s) = s"
proof (induction s)
  case (Cons x xs)
  then show ?case by (cases "split_on c xs" rule: list.exhaust; cases "tl (split_on c xs)") auto
qed simp

lemma split_on_free: "t \<in> set (split_on c s) \<Longrightarrow> c \<notin> set t"
  by (induction s arbitrary: t) (auto split: if_splits list.splits)

lemma trim_right_char_last: "trim_right_char c s \<noteq> [] \<Longrightarrow> last (trim_right_char c s) \<noteq> c"
  unfolding trim_right_char_def
  by (metis (mono_tags, lifting) hd_dropWhile last_rev rev_is_Nil_conv)

section \<open>Numbers as text\<close>

definition digit_char :: "nat \<Rightarrow> char" where
  "digit_char d = ''0123456789'' ! d"

definition digit_val :: "char \<Rightarrow> nat" where
  "digit_val c = code c - 48"

fun nat_dec :: "nat \<Rightarrow> string" where
  "nat_dec n = (if n < 10 then [digit_char n] else nat_dec (n div 10) @ [digit_char (n mod 10)])"

declare nat_dec.simps [simp del]

definition int_dec :: "int \<Rightarrow> string" where
  "int_dec i = (if i < 0 then CHR ''-'' # nat_dec (nat (- i)) else nat_dec (nat i))"

definition dec_val :: "string \<Rightarrow> nat" where
  "dec_val s = foldl (\<lambda>a c. 10 * a + digit_val c) 0 s"

text \<open>
  \<open>strconv.Atoi\<close>: an optional sign and at least one decimal digit, and nothing else; a value
  outside the 64-bit range is an error.
\<close>

definition atoi :: "string \<Rightarrow> int option" where
  "atoi s =
     (let neg = has_prefix ''-'' s;
          t = (if neg \<or> has_prefix ''+'' s then tl s else s);
          v = (if neg then - int (dec_val t) else int (dec_val t))
      in if t \<noteq> [] \<and> list_all is_digit t \<and> - (2 ^ 63) \<le> v \<and> v < 2 ^ 63
         then Some v else None)"

definition hex_char :: "nat \<Rightarrow> char" where
  "hex_char d = ''0123456789abcdef'' ! d"

definition hex_encode :: "byte list \<Rightarrow> string" where
  "hex_encode bs = concat (map (\<lambda>b. [hex_char (unat b div 16), hex_char (unat b mod 16)]) bs)"

lemma digit_char_cases: "d < 10 \<Longrightarrow> d \<in> {0,1,2,3,4,5,6,7,8,9::nat}"
  by auto

lemma digit_val_char [simp]: "d < 10 \<Longrightarrow> digit_val (digit_char d) = d"
  by (drule digit_char_cases) (auto simp: digit_val_def digit_char_def code_def)

lemma is_digit_char [simp]: "d < 10 \<Longrightarrow> is_digit (digit_char d)"
  by (drule digit_char_cases) (auto simp: is_digit_def digit_char_def code_def)

lemma dec_val_append [simp]: "dec_val (s @ [c]) = 10 * dec_val s + digit_val c"
  by (simp add: dec_val_def)

lemma dec_val_nat_dec [simp]: "dec_val (nat_dec n) = n"
proof (induction n rule: nat_dec.induct)
  case (1 n)
  show ?case
  proof (cases "n < 10")
    case True
    then show ?thesis by (simp add: nat_dec.simps [of n]) (simp add: dec_val_def)
  next
    case False
    with 1 show ?thesis by (simp add: nat_dec.simps [of n])
  qed
qed

lemma nat_dec_digits: "list_all is_digit (nat_dec n)"
proof (induction n rule: nat_dec.induct)
  case (1 n)
  then show ?case by (cases "n < 10") (simp_all add: nat_dec.simps [of n])
qed

lemma nat_dec_nonempty [simp]: "nat_dec n \<noteq> []"
  by (subst nat_dec.simps) simp

lemma nat_dec_inject [simp]: "nat_dec m = nat_dec n \<longleftrightarrow> m = n"
  by (metis dec_val_nat_dec)

lemma length_hex_encode [simp]: "length (hex_encode bs) = 2 * length bs"
  by (induction bs) (auto simp: hex_encode_def)

end
