(* ===== verification/CkErrors.thy ===== *)
theory CkErrors
  imports GoStrings
begin

text \<open>
  The functions of packages outside the repository that the code calls (a record \<open>libs\<close>, an
  argument of every definition that uses one), and the error values: the sentinels of
  \<open>domain/ckerrors\<close>, \<open>application/auth\<close> and \<open>infrastructure/oauth2\<close>, and the trees that
  \<open>fmt.Errorf\<close> with \<open>%w\<close> builds, with \<open>errors.Is\<close> and \<open>errors.As\<close> on them.
\<close>

section \<open>External code\<close>

type_synonym uuid = "128 word"

text \<open>
  \<^item> \<open>lib_to_upper\<close>, \<open>lib_to_lower\<close>: \<open>strings.ToUpper\<close> and \<open>strings.ToLower\<close> on text with a byte
    above 127 (the Unicode tables);
  \<^item> \<open>lib_quote\<close>: the \<open>%q\<close> verb; \<open>lib_pg_text\<close>: the text of a driver error;
  \<^item> \<open>lib_by_name\<close> to \<open>lib_sub_country\<close>: the \<open>countries\<close> package (\<open>ByName\<close>, \<open>IsValid\<close>, \<open>Alpha2\<close>,
    \<open>SubdivisionCode.IsValid\<close>, \<open>SubdivisionCode.Country\<close>);
  \<^item> \<open>lib_uuid_parse\<close>, \<open>lib_uuid_string\<close>: \<open>uuid.Parse\<close> and \<open>UUID.String\<close>;
  \<^item> \<open>lib_sha256\<close>: \<open>sha256.Sum256\<close>;
  \<^item> \<open>lib_collate\<close>: the collation key of the database (\<open>strxfrm\<close>), compared byte by byte.
\<close>

record libs =
  lib_to_upper :: "string \<Rightarrow> string"
  lib_to_lower :: "string \<Rightarrow> string"
  lib_quote :: "string \<Rightarrow> string"
  lib_pg_text :: "string \<Rightarrow> string \<Rightarrow> string"
  lib_by_name :: "string \<Rightarrow> nat"
  lib_country_valid :: "nat \<Rightarrow> bool"
  lib_alpha2 :: "nat \<Rightarrow> string"
  lib_sub_valid :: "string \<Rightarrow> bool"
  lib_sub_country :: "string \<Rightarrow> nat"
  lib_uuid_parse :: "string \<Rightarrow> uuid option"
  lib_uuid_string :: "uuid \<Rightarrow> string"
  lib_sha256 :: "string \<Rightarrow> byte list"
  lib_collate :: "string \<Rightarrow> nat list"

definition to_upper :: "libs \<Rightarrow> string \<Rightarrow> string" where
  "to_upper L s = (if list_all is_ascii s then map upper_char s else lib_to_upper L s)"

definition to_lower :: "libs \<Rightarrow> string \<Rightarrow> string" where
  "to_lower L s = (if list_all is_ascii s then map lower_char s else lib_to_lower L s)"

section \<open>Sentinel errors\<close>

datatype sentinel =
    ErrUserNotFound | ErrPATNotFound | ErrPATExpired | ErrInvalidPAT | ErrUnauthorized
  | ErrEmailAlreadyRegistered
  | ErrProfileNotFound | ErrInvalidLocation | ErrProfileConflict
  | ErrProviderNotConfigured
  | ErrEmailNotVerified | ErrAuthorizationPending
  | ErrSlowDown | ErrAccessDenied | ErrDeviceCodeExpired | ErrInvalidDeviceCode
  | ErrNoRows | ErrServerClosed

fun auth_error_text :: "sentinel \<Rightarrow> string option" where
  "auth_error_text ErrUserNotFound = Some ''user not found''"
| "auth_error_text ErrPATNotFound = Some ''personal access token not found''"
| "auth_error_text ErrPATExpired = Some ''personal access token expired''"
| "auth_error_text ErrInvalidPAT = Some ''invalid personal access token''"
| "auth_error_text ErrUnauthorized = Some ''unauthorized''"
| "auth_error_text ErrEmailAlreadyRegistered = Some ''email already registered''"
| "auth_error_text _ = None"

fun profile_error_text :: "sentinel \<Rightarrow> string option" where
  "profile_error_text ErrProfileNotFound = Some ''profile not found''"
| "profile_error_text ErrInvalidLocation = Some ''invalid location''"
| "profile_error_text ErrProfileConflict = Some ''profile changed concurrently''"
| "profile_error_text _ = None"

fun device_error_text :: "sentinel \<Rightarrow> string option" where
  "device_error_text ErrSlowDown = Some ''slow_down''"
| "device_error_text ErrAccessDenied = Some ''access_denied''"
| "device_error_text ErrDeviceCodeExpired = Some ''expired_token''"
| "device_error_text ErrInvalidDeviceCode = Some ''invalid device code''"
| "device_error_text _ = None"

fun provider_error_text :: "sentinel \<Rightarrow> string option" where
  "provider_error_text ErrEmailNotVerified = Some ''email not verified by provider''"
| "provider_error_text ErrAuthorizationPending = Some ''authorization_pending''"
| "provider_error_text _ = None"

definition sentinel_text :: "sentinel \<Rightarrow> string" where
  "sentinel_text s =
     (case auth_error_text s of Some t \<Rightarrow> t
      | None \<Rightarrow> (case profile_error_text s of Some t \<Rightarrow> t
        | None \<Rightarrow> (case device_error_text s of Some t \<Rightarrow> t
          | None \<Rightarrow> (case provider_error_text s of Some t \<Rightarrow> t
            | None \<Rightarrow> (if s = ErrProviderNotConfigured then ''provider not configured''
                       else if s = ErrServerClosed then ''http: Server closed''
                       else ''no rows in result set'')))))"

section \<open>Error values\<close>

text \<open>
  A message without a wrapped error is a list of literal and quoted (\<open>%q\<close>) parts. \<open>Wrap p e\<close> is
  \<open>fmt.Errorf("p%w", e)\<close>, \<open>WrapTwo p e f\<close> is \<open>fmt.Errorf("p%w: %w", e, f)\<close> and \<open>WrapQuoted p e q\<close> is
  \<open>fmt.Errorf("p%w: %q", e, q)\<close>. \<open>PgError\<close> is a \<open>*pgconn.PgError\<close>: its code and constraint.
\<close>

datatype frag = Txt string | Quoted string

datatype goerr =
    Sentinel sentinel
  | EmailAlreadyRegisteredError string
  | PgError string string
  | Msg "frag list"
  | Wrap string goerr
  | WrapTwo string goerr goerr
  | WrapQuoted string goerr string

fun frag_text :: "libs \<Rightarrow> frag \<Rightarrow> string" where
  "frag_text L (Txt s) = s"
| "frag_text L (Quoted s) = lib_quote L s"

definition email_error_text :: "string \<Rightarrow> string" where
  "email_error_text prov =
     (if prov = [] then sentinel_text ErrEmailAlreadyRegistered
      else sentinel_text ErrEmailAlreadyRegistered @ '' with provider '' @ prov)"

fun error_text :: "libs \<Rightarrow> goerr \<Rightarrow> string" where
  "error_text L (Sentinel s) = sentinel_text s"
| "error_text L (EmailAlreadyRegisteredError p) = email_error_text p"
| "error_text L (PgError c n) = lib_pg_text L c n"
| "error_text L (Msg fs) = concat (map (frag_text L) fs)"
| "error_text L (Wrap p e) = p @ error_text L e"
| "error_text L (WrapTwo p e f) = p @ error_text L e @ '': '' @ error_text L f"
| "error_text L (WrapQuoted p e q) = p @ error_text L e @ '': '' @ lib_quote L q"

fun unwrap_email_error :: "goerr \<Rightarrow> sentinel option" where
  "unwrap_email_error (EmailAlreadyRegisteredError p) = Some ErrEmailAlreadyRegistered"
| "unwrap_email_error _ = None"

text \<open>\<open>errors.Is\<close> and \<open>errors.As\<close>: depth first through every wrapped error.\<close>

fun errors_is :: "goerr \<Rightarrow> sentinel \<Rightarrow> bool" where
  "errors_is (Sentinel s) t = (s = t)"
| "errors_is (EmailAlreadyRegisteredError p) t =
     (unwrap_email_error (EmailAlreadyRegisteredError p) = Some t)"
| "errors_is (PgError c n) t = False"
| "errors_is (Msg fs) t = False"
| "errors_is (Wrap p e) t = errors_is e t"
| "errors_is (WrapTwo p e f) t = (errors_is e t \<or> errors_is f t)"
| "errors_is (WrapQuoted p e q) t = errors_is e t"

fun errors_as_email :: "goerr \<Rightarrow> string option" where
  "errors_as_email (EmailAlreadyRegisteredError p) = Some p"
| "errors_as_email (Wrap p e) = errors_as_email e"
| "errors_as_email (WrapTwo p e f) =
     (case errors_as_email e of Some q \<Rightarrow> Some q | None \<Rightarrow> errors_as_email f)"
| "errors_as_email (WrapQuoted p e q) = errors_as_email e"
| "errors_as_email _ = None"

fun errors_as_pg :: "goerr \<Rightarrow> (string \<times> string) option" where
  "errors_as_pg (PgError c n) = Some (c, n)"
| "errors_as_pg (Wrap p e) = errors_as_pg e"
| "errors_as_pg (WrapTwo p e f) =
     (case errors_as_pg e of Some q \<Rightarrow> Some q | None \<Rightarrow> errors_as_pg f)"
| "errors_as_pg (WrapQuoted p e q) = errors_as_pg e"
| "errors_as_pg _ = None"

lemma errors_as_email_is:
  "errors_as_email e = Some p \<Longrightarrow> errors_is e ErrEmailAlreadyRegistered"
  by (induction e) (auto split: option.splits)

text \<open>The texts of the sentinels tell them apart.\<close>

lemma sentinel_text_inject [simp]: "sentinel_text s = sentinel_text t \<longleftrightarrow> s = t"
  by (cases s; cases t) (simp_all add: sentinel_text_def)

text \<open>\<open>fmt.Errorf("prefix%w", err)\<close> at a return.\<close>

type_synonym ('a, 's) go = "(goerr, 'a, 's) outcome"

abbreviation wrap :: "string \<Rightarrow> ('a, 's) go \<Rightarrow> ('a, 's) go" where
  "wrap p r \<equiv> map_err (Wrap p) r"

end
