(* ===== verification/GoTime.thy ===== *)
theory GoTime
  imports GoStrings
begin

text \<open>
  Calendar dates and instants: \<open>time.Parse\<close> and \<open>Format\<close> with the layout \<open>2006-01-02\<close>, instants as
  nanoseconds since the Unix epoch, and the microsecond precision of a \<open>TIMESTAMPTZ\<close> column.
\<close>

type_synonym instant = int

section \<open>Instants\<close>

definition second :: int where
  "second = 1000000000"

text \<open>The zero \<open>time.Time\<close> is midnight UTC of January 1, year 1.\<close>

definition zero_time :: instant where
  "zero_time = - 62135596800 * second"

definition is_zero :: "instant \<Rightarrow> bool" where
  "is_zero t \<longleftrightarrow> t = zero_time"

text \<open>What a timestamp column holds of an instant: whole microseconds.\<close>

definition to_timestamptz :: "instant \<Rightarrow> instant" where
  "to_timestamptz t = (t div 1000) * 1000"

lemma to_timestamptz_idem [simp]: "to_timestamptz (to_timestamptz t) = to_timestamptz t"
  by (simp add: to_timestamptz_def)

lemma to_timestamptz_bounds: "to_timestamptz t \<le> t \<and> t < to_timestamptz t + 1000"
  unfolding to_timestamptz_def by presburger

section \<open>Calendar dates\<close>

text \<open>
  A time parsed with \<open>time.DateOnly\<close> is midnight UTC of its date, and a \<open>DATE\<close> column holds the
  date: both are the date itself.
\<close>

datatype date = Date (d_year: nat) (d_month: nat) (d_day: nat)

definition is_leap :: "nat \<Rightarrow> bool" where
  "is_leap y \<longleftrightarrow> y mod 4 = 0 \<and> (y mod 100 \<noteq> 0 \<or> y mod 400 = 0)"

definition days_in :: "nat \<Rightarrow> nat \<Rightarrow> nat" where
  "days_in m y =
     (if m = 2 then (if is_leap y then 29 else 28)
      else if m = 4 \<or> m = 6 \<or> m = 9 \<or> m = 11 then 30 else 31)"

definition valid_date :: "date \<Rightarrow> bool" where
  "valid_date d \<longleftrightarrow> d_year d \<le> 9999 \<and> 1 \<le> d_month d \<and> d_month d \<le> 12 \<and>
     1 \<le> d_day d \<and> d_day d \<le> days_in (d_month d) (d_year d)"

definition pad2 :: "nat \<Rightarrow> string" where
  "pad2 n = [digit_char (n div 10 mod 10), digit_char (n mod 10)]"

definition pad4 :: "nat \<Rightarrow> string" where
  "pad4 n = pad2 (n div 100) @ pad2 (n mod 100)"

definition format_date :: "date \<Rightarrow> string" where
  "format_date d = pad4 (d_year d) @ ''-'' @ pad2 (d_month d) @ ''-'' @ pad2 (d_day d)"

definition parse_date :: "string \<Rightarrow> date option" where
  "parse_date s =
     (let y = take 4 s; m = take 2 (drop 5 s); d = take 2 (drop 8 s)
      in if length s = 10 \<and> list_all is_digit y \<and> s ! 4 = CHR ''-'' \<and>
            list_all is_digit m \<and> s ! 7 = CHR ''-'' \<and> list_all is_digit d
         then (let r = Date (dec_val y) (dec_val m) (dec_val d)
               in if 1 \<le> d_month r \<and> d_month r \<le> 12 \<and>
                     1 \<le> d_day r \<and> d_day r \<le> days_in (d_month r) (d_year r)
                  then Some r else None)
         else None)"

lemma days_in_le: "days_in m y \<le> 31"
  by (simp add: days_in_def)

lemma digit_val_less: "is_digit c \<Longrightarrow> digit_val c < 10"
  by (auto simp: is_digit_def digit_val_def)

lemma code_digit_char: "d < 10 \<Longrightarrow> code (digit_char d) = 48 + d"
  by (drule digit_char_cases) (auto simp: digit_char_def code_def)

lemma digit_char_val [simp]: "is_digit c \<Longrightarrow> digit_char (digit_val c) = c"
proof -
  assume c: "is_digit c"
  have "code (digit_char (digit_val c)) = code c"
    using c code_digit_char [OF digit_val_less [OF c]]
    by (simp add: digit_val_def is_digit_def)
  then show ?thesis by simp
qed

lemma dec_val_two: "dec_val [a, b] = 10 * digit_val a + digit_val b"
  by (simp add: dec_val_def)

lemma dec_val_four:
  "dec_val [a, b, c, d] = 1000 * digit_val a + 100 * digit_val b + 10 * digit_val c + digit_val d"
  by (simp add: dec_val_def)

lemma pad2_dec_val: "is_digit a \<Longrightarrow> is_digit b \<Longrightarrow> pad2 (dec_val [a, b]) = [a, b]"
  using digit_val_less [of a] digit_val_less [of b] by (simp add: pad2_def dec_val_two)

lemma dec_val_pad2: "n < 100 \<Longrightarrow> dec_val (pad2 n) = n"
  by (simp add: pad2_def dec_val_two)

lemma pad4_dec_val:
  assumes "is_digit a" "is_digit b" "is_digit c" "is_digit d"
  shows "pad4 (dec_val [a, b, c, d]) = [a, b, c, d]"
proof -
  note less = assms [THEN digit_val_less]
  have "dec_val [a, b, c, d] = 100 * dec_val [a, b] + dec_val [c, d]"
    by (simp add: dec_val_two dec_val_four)
  moreover have "dec_val [c, d] < 100" using less by (simp add: dec_val_two)
  ultimately show ?thesis using assms
    by (simp add: pad4_def pad2_dec_val)
qed

lemma dec_val_pad4: "n < 10000 \<Longrightarrow> dec_val (pad4 n) = n"
proof -
  assume n: "n < 10000"
  have "dec_val (pad4 n) = 100 * dec_val (pad2 (n div 100)) + dec_val (pad2 (n mod 100))"
    by (simp add: pad4_def pad2_def dec_val_two dec_val_four)
  moreover have "n div 100 < 100" using n by simp
  ultimately show ?thesis by (simp add: dec_val_pad2)
qed

lemma pad2_digits:
  obtains a b where "pad2 n = [a, b]" "is_digit a" "is_digit b"
  by (rule that [OF pad2_def]) simp_all

lemma pad4_digits:
  obtains a b c d where "pad4 n = [a, b, c, d]"
    "is_digit a" "is_digit b" "is_digit c" "is_digit d"
proof -
  obtain a b where "pad2 (n div 100) = [a, b]" "is_digit a" "is_digit b" by (rule pad2_digits)
  moreover obtain c d where "pad2 (n mod 100) = [c, d]" "is_digit c" "is_digit d"
    by (rule pad2_digits)
  ultimately show ?thesis by (intro that [of a b c d]) (simp_all add: pad4_def)
qed

lemma length_10_cases:
  assumes "length s = 10"
  obtains a b c d e f g h i j where "s = [a, b, c, d, e, f, g, h, i, j]"
  using assms by (auto simp: numeral_eq_Suc length_Suc_conv)

lemma parse_date_valid: "parse_date s = Some d \<Longrightarrow> valid_date d"
proof -
  assume p: "parse_date s = Some d"
  then have len: "length s = 10" by (auto simp: parse_date_def Let_def split: if_splits)
  then obtain a b c e t where s: "s = a # b # c # e # t" by (rule length_10_cases) blast
  with p have dg: "is_digit a" "is_digit b" "is_digit c" "is_digit e"
    by (auto simp: parse_date_def Let_def split: if_splits)
  have "dec_val [a, b, c, e] \<le> 9999"
    using dg [THEN digit_val_less] by (simp add: dec_val_four)
  with p s show ?thesis
    by (auto simp: parse_date_def Let_def valid_date_def split: if_splits)
qed

lemma format_parse_date: "parse_date s = Some d \<Longrightarrow> format_date d = s"
proof -
  assume p: "parse_date s = Some d"
  then have len: "length s = 10" by (auto simp: parse_date_def Let_def split: if_splits)
  then obtain a b c e f g h i j k where s: "s = [a, b, c, e, f, g, h, i, j, k]"
    by (rule length_10_cases)
  from p s show ?thesis
    by (auto simp: parse_date_def Let_def format_date_def pad4_dec_val pad2_dec_val
        split: if_splits)
qed

lemma parse_format_date: "valid_date d \<Longrightarrow> parse_date (format_date d) = Some d"
proof (cases d)
  case (Date y m n)
  assume v: "valid_date d"
  then have b: "y < 10000" "m < 100" "n < 100"
    using Date days_in_le [of m y] by (auto simp: valid_date_def)
  obtain a b c e where y: "pad4 y = [a, b, c, e]"
    "is_digit a" "is_digit b" "is_digit c" "is_digit e" by (rule pad4_digits)
  obtain f g where m: "pad2 m = [f, g]" "is_digit f" "is_digit g" by (rule pad2_digits)
  obtain h i where n: "pad2 n = [h, i]" "is_digit h" "is_digit i" by (rule pad2_digits)
  have vals: "dec_val [a, b, c, e] = y" "dec_val [f, g] = m" "dec_val [h, i] = n"
    using dec_val_pad4 [OF b(1)] dec_val_pad2 [OF b(2)] dec_val_pad2 [OF b(3)] y(1) m(1) n(1) by simp_all
  show ?thesis
    using v Date y m n vals
    by (simp add: parse_date_def format_date_def Let_def valid_date_def)
qed

end
