(* ===== verification/Domain.thy ===== *)
theory Domain
  imports CkErrors GoTime
begin

text \<open>
  The domain layer (\<open>api/internal/domain\<close>): users, personal access tokens, profiles, the JSON
  Merge Patch of a profile and the ISO 3166 validation of a location. The named string types of
  the source (\<open>Role\<close>, \<open>Provider\<close>, \<open>Gender\<close>, \<dots>) are strings with constants, as in the source:
  any string is a value of the type.
\<close>

section \<open>Users (domain/user)\<close>

type_synonym role = string
type_synonym provider = string

definition RoleAdmin :: role where "RoleAdmin = ''admin''"
definition RoleUser :: role where "RoleUser = ''user''"

definition ProviderGoogle :: provider where "ProviderGoogle = ''google''"
definition ProviderGitHub :: provider where "ProviderGitHub = ''github''"
definition ProviderPAT :: provider where "ProviderPAT = ''pat''"

record user =
  u_id :: uuid
  u_email :: string
  u_name :: string
  u_role :: role
  u_provider :: provider
  u_provider_id :: string
  u_created_at :: instant
  u_updated_at :: instant

definition is_admin :: "user \<Rightarrow> bool" where
  "is_admin u \<longleftrightarrow> u_role u = RoleAdmin"

lemmas user_consts = RoleAdmin_def RoleUser_def ProviderGoogle_def ProviderGitHub_def ProviderPAT_def

section \<open>Personal access tokens (domain/pat)\<close>

record pat =
  p_id :: uuid
  p_user_id :: uuid
  p_key_hash :: string
  p_salt :: string
  p_expires_at :: "instant option"
  p_created_at :: instant

definition is_expired :: "pat \<Rightarrow> instant \<Rightarrow> bool" where
  "is_expired p now = (case p_expires_at p of None \<Rightarrow> False | Some e \<Rightarrow> now > e)"

section \<open>Profiles (domain/profile)\<close>

type_synonym gender = string
type_synonym category = string
type_synonym court_side = string
type_synonym handedness = string

definition genders :: "gender list" where
  "genders = [''male'', ''female'']"

definition categories :: "category list" where
  "categories = [''first'', ''second'', ''third'', ''fourth'', ''fifth'']"

definition court_sides :: "court_side list" where
  "court_sides = [''drive'', ''backhand'', ''both'']"

definition handednesses :: "handedness list" where
  "handednesses = [''right'', ''left'']"

record preferences =
  pr_court_side :: "court_side option"
  pr_handedness :: "handedness option"

record profile =
  pf_user_id :: uuid
  pf_display_name :: string
  pf_city :: "string option"
  pf_region :: "string option"
  pf_country :: "string option"
  pf_gender :: "gender option"
  pf_date_of_birth :: "date option"
  pf_category :: "category option"
  pf_preferences :: preferences
  pf_created_at :: instant
  pf_updated_at :: instant

record list_params =
  lp_page :: "64 word"
  lp_page_size :: "64 word"
  lp_fields :: "string list"

record profile_list_item =
  li_id :: "uuid option"
  li_display_name :: "string option"
  li_city :: "string option"
  li_region :: "string option"
  li_country :: "string option"
  li_gender :: "gender option"
  li_category :: "category option"

section \<open>Merge patches (domain/profile/patch.go)\<close>

record 'a field =
  f_set :: bool
  f_value :: "'a option"

definition unchanged :: "'a field" where
  "unchanged = \<lparr>f_set = False, f_value = None\<rparr>"

definition cleared :: "'a field" where
  "cleared = \<lparr>f_set = True, f_value = None\<rparr>"

definition set_to :: "'a \<Rightarrow> 'a field" where
  "set_to v = \<lparr>f_set = True, f_value = Some v\<rparr>"

definition is_clear :: "'a field \<Rightarrow> bool" where
  "is_clear f \<longleftrightarrow> f_set f \<and> f_value f = None"

lemma field_simps [simp]:
  "f_set unchanged = False" "f_value unchanged = None"
  "f_set cleared = True" "f_value cleared = None"
  "f_set (set_to v) = True" "f_value (set_to v) = Some v"
  by (simp_all add: unchanged_def cleared_def set_to_def)

record preferences_patch =
  pp_clear :: bool
  pp_court_side :: "court_side field"
  pp_handedness :: "handedness field"

record profile_patch =
  pt_display_name :: "string option"
  pt_city :: "string field"
  pt_region :: "string field"
  pt_country :: "string field"
  pt_gender :: "gender field"
  pt_date_of_birth :: "date field"
  pt_category :: "category field"
  pt_preferences :: preferences_patch

definition prefs_is_empty :: "preferences_patch \<Rightarrow> bool" where
  "prefs_is_empty p \<longleftrightarrow> \<not> pp_clear p \<and> \<not> f_set (pp_court_side p) \<and> \<not> f_set (pp_handedness p)"

definition is_empty :: "profile_patch \<Rightarrow> bool" where
  "is_empty p \<longleftrightarrow> pt_display_name p = None \<and>
     \<not> f_set (pt_city p) \<and> \<not> f_set (pt_region p) \<and> \<not> f_set (pt_country p) \<and>
     \<not> f_set (pt_gender p) \<and> \<not> f_set (pt_date_of_birth p) \<and> \<not> f_set (pt_category p) \<and>
     prefs_is_empty (pt_preferences p)"

text \<open>
  A patch the constructors of the source build: an unset field carries no value
  (\<open>Unchanged\<close>, \<open>Cleared\<close> and \<open>SetTo\<close> are the only ways the code makes a field).
\<close>

definition field_wf :: "'a field \<Rightarrow> bool" where
  "field_wf f \<longleftrightarrow> (f_set f \<or> f_value f = None)"

definition patch_wf :: "profile_patch \<Rightarrow> bool" where
  "patch_wf p \<longleftrightarrow> field_wf (pt_city p) \<and> field_wf (pt_region p) \<and> field_wf (pt_country p) \<and>
     field_wf (pt_gender p) \<and> field_wf (pt_date_of_birth p) \<and> field_wf (pt_category p) \<and>
     field_wf (pp_court_side (pt_preferences p)) \<and> field_wf (pp_handedness (pt_preferences p))"

lemma field_wf_simps [simp]:
  "field_wf unchanged" "field_wf cleared" "field_wf (set_to v)"
  by (simp_all add: field_wf_def)

text \<open>
  The specification of a patch (RFC 7396 on the fields of a profile): what a field, the
  preferences and a whole profile hold afterwards.
\<close>

definition patched :: "'a field \<Rightarrow> 'a option \<Rightarrow> 'a option" where
  "patched f old = (if f_set f then f_value f else old)"

definition patched_prefs :: "preferences_patch \<Rightarrow> preferences \<Rightarrow> preferences" where
  "patched_prefs p old =
     (let base = (if pp_clear p then \<lparr>pr_court_side = None, pr_handedness = None\<rparr> else old)
      in \<lparr>pr_court_side = patched (pp_court_side p) (pr_court_side base),
          pr_handedness = patched (pp_handedness p) (pr_handedness base)\<rparr>)"

definition patched_profile :: "profile_patch \<Rightarrow> profile \<Rightarrow> profile" where
  "patched_profile p q = q\<lparr>
     pf_display_name := (case pt_display_name p of None \<Rightarrow> pf_display_name q | Some n \<Rightarrow> n),
     pf_city := patched (pt_city p) (pf_city q),
     pf_region := patched (pt_region p) (pf_region q),
     pf_country := patched (pt_country p) (pf_country q),
     pf_gender := patched (pt_gender p) (pf_gender q),
     pf_date_of_birth := patched (pt_date_of_birth p) (pf_date_of_birth q),
     pf_category := patched (pt_category p) (pf_category q),
     pf_preferences := patched_prefs (pt_preferences p) (pf_preferences q)\<rparr>"

lemma patched_simps [simp]:
  "patched unchanged old = old" "patched cleared old = None" "patched (set_to v) old = Some v"
  by (simp_all add: patched_def)

lemma patched_twice: "patched f (patched f old) = patched f old"
  by (simp add: patched_def)

lemma patched_prefs_twice: "patched_prefs p (patched_prefs p old) = patched_prefs p old"
  by (simp add: patched_prefs_def Let_def patched_def)

lemma patched_prefs_empty: "prefs_is_empty p \<Longrightarrow> patched_prefs p old = old"
  by (cases old) (simp add: patched_prefs_def prefs_is_empty_def patched_def)

section \<open>Location validation (domain/profile/validate.go)\<close>

definition validate_location_raw :: "libs \<Rightarrow> string option \<Rightarrow> string option \<Rightarrow> goerr option" where
  "validate_location_raw L country region =
     (case country of
        None \<Rightarrow>
          (case region of
             None \<Rightarrow> None
           | Some r \<Rightarrow> Some (Msg [Txt ''region requires country to be provided'']))
      | Some c \<Rightarrow>
          if c = [] then Some (Msg [Txt ''country code must not be empty''])
          else if length c \<noteq> 2 \<or> c \<noteq> to_upper L c then
            Some (Msg [Txt ''invalid country code '', Quoted c,
                       Txt '': must be an uppercase ISO 3166-1 alpha-2 code''])
          else
            (let cc = lib_by_name L c in
             if \<not> lib_country_valid L cc then
               Some (Msg [Txt ''invalid country code '', Quoted c,
                          Txt '': not a recognised ISO 3166-1 alpha-2 code''])
             else if lib_alpha2 L cc \<noteq> c then
               Some (Msg [Txt ''invalid country code '', Quoted c,
                          Txt '': not a recognised ISO 3166-1 alpha-2 code''])
             else
               (case region of
                  None \<Rightarrow> None
                | Some r \<Rightarrow>
                    if r = [] then Some (Msg [Txt ''region code must not be empty''])
                    else if \<not> lib_sub_valid L r then
                      Some (Msg [Txt ''invalid region code '', Quoted r,
                                 Txt '': not a recognised ISO 3166-2 code''])
                    else if lib_sub_country L r \<noteq> cc then
                      Some (Msg [Txt ''region code '', Quoted r,
                                 Txt '' does not belong to country '', Quoted c])
                    else None)))"

definition validate_location :: "libs \<Rightarrow> string option \<Rightarrow> string option \<Rightarrow> goerr option" where
  "validate_location L country region =
     (case validate_location_raw L country region of
        Some e \<Rightarrow> Some (WrapTwo [] (Sentinel ErrInvalidLocation) e)
      | None \<Rightarrow> None)"

text \<open>What a valid location is, without the order of the checks.\<close>

definition valid_country :: "libs \<Rightarrow> string \<Rightarrow> bool" where
  "valid_country L c \<longleftrightarrow> length c = 2 \<and> to_upper L c = c \<and>
     lib_country_valid L (lib_by_name L c) \<and> lib_alpha2 L (lib_by_name L c) = c"

definition valid_region :: "libs \<Rightarrow> string \<Rightarrow> string \<Rightarrow> bool" where
  "valid_region L c r \<longleftrightarrow> r \<noteq> [] \<and> lib_sub_valid L r \<and> lib_sub_country L r = lib_by_name L c"

lemma validate_location_iff:
  "validate_location L country region = None \<longleftrightarrow>
     (case country of
        None \<Rightarrow> region = None
      | Some c \<Rightarrow> valid_country L c \<and> (\<forall>r. region = Some r \<longrightarrow> valid_region L c r))"
  by (auto simp: validate_location_def validate_location_raw_def valid_country_def
      valid_region_def Let_def split: option.splits)

lemma validate_location_err:
  "validate_location L country region = Some e \<Longrightarrow> errors_is e ErrInvalidLocation"
  by (auto simp: validate_location_def split: option.splits)

text \<open>
  What the \<open>countries\<close> package documents of its codes: an alpha-2 code (ISO 3166-1) is made of
  capital letters; a subdivision code (ISO 3166-2) starts with the alpha-2 code of its country and
  a hyphen, is plain ASCII and at most six characters long.
\<close>

definition iso_regions_prefixed :: "libs \<Rightarrow> bool" where
  "iso_regions_prefixed L \<longleftrightarrow>
     (\<forall>c. lib_country_valid L c \<longrightarrow> list_all is_upper (lib_alpha2 L c)) \<and>
     (\<forall>r. lib_sub_valid L r \<longrightarrow> lib_country_valid L (lib_sub_country L r) \<longrightarrow>
        has_prefix (lib_alpha2 L (lib_sub_country L r) @ ''-'') r \<and>
        list_all is_ascii r \<and> length r \<le> 6)"

end
