(* ===== verification/Database.thy ===== *)
theory Database
  imports Domain "HOL-Library.List_Lexorder"
begin

text \<open>
  The tables of \<open>db/schema\<close> and the SQL statements the repositories send, with the constraints of
  the schema (keys, \<open>UNIQUE\<close>, \<open>CHECK\<close>, foreign keys, column widths) and the PostgreSQL error code of
  each violation. A failed statement changes nothing. Every statement takes the time of its
  transaction (\<open>NOW()\<close>) and the identifier \<open>gen_random_uuid()\<close> returns.
\<close>

section \<open>Rows and tables\<close>

record profile_row =
  pw_user_id :: uuid
  pw_display_name :: string
  pw_city :: "string option"
  pw_region :: "string option"
  pw_country :: "string option"
  pw_gender :: "string option"
  pw_date_of_birth :: "date option"
  pw_category :: "string option"
  pw_preferences :: "string \<rightharpoonup> string"
  pw_created_at :: instant
  pw_updated_at :: instant

record database =
  db_users :: "user list"
  db_pats :: "pat list"
  db_profiles :: "profile_row list"

definition empty_database :: database where
  "empty_database = \<lparr>db_users = [], db_pats = [], db_profiles = []\<rparr>"

text \<open>
  A value stored in a \<open>VARCHAR(n)\<close> column: rejected when it has more than \<open>n\<close> characters, unless
  the excess is spaces only, which are cut off.
\<close>

definition varchar :: "nat \<Rightarrow> string \<Rightarrow> string option" where
  "varchar n s =
     (if char_len s \<le> n then Some s
      else if list_all (\<lambda>c. c = CHR '' '') (drop (length (utf8_take n s)) s)
      then Some (utf8_take n s) else None)"

lemma varchar_len: "varchar n s = Some t \<Longrightarrow> char_len t \<le> n"
  by (auto simp: varchar_def char_len_utf8_take split: if_splits)

lemma varchar_short [simp]: "char_len s \<le> n \<Longrightarrow> varchar n s = Some s"
  by (simp add: varchar_def)

text \<open>
  \<open>LIKE\<close>: a percent sign matches any text, an underscore one character, a backslash the next
  pattern character literally, any other character itself.
\<close>

fun like_any :: "(string \<Rightarrow> bool) \<Rightarrow> string \<Rightarrow> bool" where
  "like_any m [] = m []"
| "like_any m (c # s) = (m (c # s) \<or> like_any m s)"

fun sql_like :: "string \<Rightarrow> string \<Rightarrow> bool" where
  "sql_like [] s = (s = [])"
| "sql_like (p # ps) s =
     (if p = CHR ''%'' then like_any (sql_like ps) s
      else if p = CHR ''_'' then
        (case s of [] \<Rightarrow> False | c # t \<Rightarrow> sql_like ps (dropWhile is_cont t))
      else if p = CHR 0x5C then
        (case ps of [] \<Rightarrow> False
         | q # qs \<Rightarrow> (case s of [] \<Rightarrow> False | c # t \<Rightarrow> c = q \<and> sql_like qs t))
      else (case s of [] \<Rightarrow> False | c # t \<Rightarrow> c = p \<and> sql_like ps t))"

definition wildcard :: "char \<Rightarrow> bool" where
  "wildcard c \<longleftrightarrow> c = CHR ''%'' \<or> c = CHR ''_'' \<or> c = CHR 0x5C"

lemma like_any_True [simp]: "like_any (sql_like []) s"
  by (induction s) auto

lemma sql_like_prefix:
  "list_all (\<lambda>c. \<not> wildcard c) p \<Longrightarrow> sql_like (p @ ''%'') s \<longleftrightarrow> has_prefix p s"
proof (induction p arbitrary: s)
  case Nil
  then show ?case by (simp add: has_prefix_def)
next
  case (Cons c p)
  then show ?case by (cases s) (auto simp: has_prefix_def wildcard_def)
qed

section \<open>Constraints\<close>

definition role_check :: "string \<Rightarrow> bool" where
  "role_check r \<longleftrightarrow> r = ''admin'' \<or> r = ''user''"

definition provider_check :: "string \<Rightarrow> bool" where
  "provider_check p \<longleftrightarrow> p = ''google'' \<or> p = ''github'' \<or> p = ''pat''"

definition gender_check :: "string option \<Rightarrow> bool" where
  "gender_check g = (case g of None \<Rightarrow> True | Some x \<Rightarrow> x \<in> set [''male'', ''female''])"

definition category_check :: "string option \<Rightarrow> bool" where
  "category_check g =
     (case g of None \<Rightarrow> True
      | Some x \<Rightarrow> x \<in> set [''first'', ''second'', ''third'', ''fourth'', ''fifth''])"

definition region_country_check :: "string option \<Rightarrow> string option \<Rightarrow> bool" where
  "region_country_check region country =
     (case region of None \<Rightarrow> True
      | Some r \<Rightarrow> (case country of None \<Rightarrow> False | Some c \<Rightarrow> sql_like (c @ ''-%'') r))"

definition opt_len :: "nat \<Rightarrow> string option \<Rightarrow> bool" where
  "opt_len n s = (case s of None \<Rightarrow> True | Some t \<Rightarrow> char_len t \<le> n)"

definition user_ok :: "user \<Rightarrow> bool" where
  "user_ok u \<longleftrightarrow> role_check (u_role u) \<and> provider_check (u_provider u) \<and>
     char_len (u_email u) \<le> 255 \<and> char_len (u_name u) \<le> 255 \<and> char_len (u_provider_id u) \<le> 255"

definition pat_ok :: "pat \<Rightarrow> bool" where
  "pat_ok p \<longleftrightarrow> char_len (p_key_hash p) \<le> 255 \<and> char_len (p_salt p) \<le> 255"

definition profile_ok :: "profile_row \<Rightarrow> bool" where
  "profile_ok p \<longleftrightarrow> gender_check (pw_gender p) \<and> category_check (pw_category p) \<and>
     region_country_check (pw_region p) (pw_country p) \<and>
     char_len (pw_display_name p) \<le> 255 \<and> opt_len 255 (pw_city p) \<and>
     opt_len 10 (pw_region p) \<and> opt_len 2 (pw_country p)"

abbreviation user_key :: "user \<Rightarrow> provider \<times> string" where
  "user_key u \<equiv> (u_provider u, u_provider_id u)"

definition users_inv :: "user list \<Rightarrow> bool" where
  "users_inv us \<longleftrightarrow> distinct (map u_id us) \<and> distinct (map u_email us) \<and>
     distinct (map user_key us) \<and> (\<forall>u \<in> set us. user_ok u)"

definition pats_inv :: "user list \<Rightarrow> pat list \<Rightarrow> bool" where
  "pats_inv us ps \<longleftrightarrow> distinct (map p_id ps) \<and>
     (\<forall>p \<in> set ps. pat_ok p \<and> p_user_id p \<in> u_id ` set us)"

definition profiles_inv :: "user list \<Rightarrow> profile_row list \<Rightarrow> bool" where
  "profiles_inv us ps \<longleftrightarrow> distinct (map pw_user_id ps) \<and>
     (\<forall>p \<in> set ps. profile_ok p \<and> pw_user_id p \<in> u_id ` set us)"

definition db_inv :: "database \<Rightarrow> bool" where
  "db_inv d \<longleftrightarrow> users_inv (db_users d) \<and> pats_inv (db_users d) (db_pats d) \<and>
     profiles_inv (db_users d) (db_profiles d)"

section \<open>Statements on users\<close>

type_synonym 'a sql = "instant \<Rightarrow> uuid \<Rightarrow> database \<Rightarrow> (goerr + 'a) \<times> database"

definition sql_rows :: "'a option \<Rightarrow> database \<Rightarrow> (goerr + 'a) \<times> database" where
  "sql_rows r d = (case r of None \<Rightarrow> (Inl (Sentinel ErrNoRows), d) | Some x \<Rightarrow> (Inr x, d))"

definition sql_user_by_id :: "uuid \<Rightarrow> user sql" where
  "sql_user_by_id uid now new d = sql_rows (lookup_row u_id uid (db_users d)) d"

definition sql_user_by_provider :: "provider \<Rightarrow> string \<Rightarrow> user sql" where
  "sql_user_by_provider prov pid now new d =
     sql_rows (lookup_row user_key (prov, pid) (db_users d)) d"

definition sql_user_by_email :: "string \<Rightarrow> user sql" where
  "sql_user_by_email email now new d = sql_rows (lookup_row u_email email (db_users d)) d"

definition sql_count_users :: "int sql" where
  "sql_count_users now new d = (Inr (int (length (db_users d))), d)"

definition insert_user :: "user \<Rightarrow> database \<Rightarrow> (goerr + user) \<times> database" where
  "insert_user u d =
     (if u_id u \<in> u_id ` set (db_users d) then (Inl (PgError ''23505'' ''users_pkey''), d)
      else if u_email u \<in> u_email ` set (db_users d)
      then (Inl (PgError ''23505'' ''users_email_key''), d)
      else (Inr u, d\<lparr>db_users := db_users d @ [u]\<rparr>))"

definition update_user :: "user \<Rightarrow> database \<Rightarrow> (goerr + user) \<times> database" where
  "update_user u d =
     (if u_email u \<in> u_email ` {v \<in> set (db_users d). u_id v \<noteq> u_id u}
      then (Inl (PgError ''23505'' ''users_email_key''), d)
      else (Inr u, d\<lparr>db_users := update_rows u_id (u_id u) (\<lambda>_. u) (db_users d)\<rparr>))"

definition sql_upsert_user :: "string \<Rightarrow> string \<Rightarrow> role \<Rightarrow> provider \<Rightarrow> string \<Rightarrow> user sql" where
  "sql_upsert_user email name role prov pid now new d =
     (case (varchar 255 email, varchar 255 name, varchar 50 role, varchar 50 prov, varchar 255 pid) of
        (Some e, Some n, Some r, Some p, Some i) \<Rightarrow>
          if \<not> provider_check p then (Inl (PgError ''23514'' ''users_provider_check''), d)
          else if \<not> role_check r then (Inl (PgError ''23514'' ''users_role_check''), d)
          else (case lookup_row user_key (p, i) (db_users d) of
                  Some old \<Rightarrow> update_user (old\<lparr>u_email := e, u_name := n, u_updated_at := now\<rparr>) d
                | None \<Rightarrow>
                    insert_user \<lparr>u_id = new, u_email = e, u_name = n, u_role = r, u_provider = p,
                      u_provider_id = i, u_created_at = now, u_updated_at = now\<rparr> d)
      | _ \<Rightarrow> (Inl (PgError ''22001'' []), d))"

text \<open>\<open>UPDATE users SET role = \<dots>\<close>: the number of rows affected.\<close>

definition sql_update_role :: "role \<Rightarrow> uuid \<Rightarrow> nat sql" where
  "sql_update_role role uid now new d =
     (case lookup_row u_id uid (db_users d) of
        None \<Rightarrow> (Inr 0, d)
      | Some u \<Rightarrow>
          (case varchar 50 role of
             None \<Rightarrow> (Inl (PgError ''22001'' []), d)
           | Some r \<Rightarrow>
               if \<not> role_check r then (Inl (PgError ''23514'' ''users_role_check''), d)
               else (Inr 1, d\<lparr>db_users :=
                      update_rows u_id uid (\<lambda>v. v\<lparr>u_role := r, u_updated_at := now\<rparr>) (db_users d)\<rparr>)))"

section \<open>Statements on personal access tokens\<close>

definition sql_all_pats :: "pat list sql" where
  "sql_all_pats now new d = (Inr (db_pats d), d)"

definition sql_pat_by_id :: "uuid \<Rightarrow> pat sql" where
  "sql_pat_by_id pid now new d = sql_rows (lookup_row p_id pid (db_pats d)) d"

definition sql_insert_pat :: "uuid \<Rightarrow> string \<Rightarrow> string \<Rightarrow> instant option \<Rightarrow> pat sql" where
  "sql_insert_pat uid hash salt expires now new d =
     (case (varchar 255 hash, varchar 255 salt) of
        (Some h, Some s) \<Rightarrow>
          if new \<in> p_id ` set (db_pats d)
          then (Inl (PgError ''23505'' ''personal_access_tokens_pkey''), d)
          else if uid \<notin> u_id ` set (db_users d)
          then (Inl (PgError ''23503'' ''personal_access_tokens_user_id_fkey''), d)
          else (let p = \<lparr>p_id = new, p_user_id = uid, p_key_hash = h, p_salt = s,
                         p_expires_at = map_option to_timestamptz expires, p_created_at = now\<rparr>
                in (Inr p, d\<lparr>db_pats := db_pats d @ [p]\<rparr>))
      | _ \<Rightarrow> (Inl (PgError ''22001'' []), d))"

definition sql_delete_pat :: "uuid \<Rightarrow> nat sql" where
  "sql_delete_pat pid now new d =
     (Inr (length (filter (\<lambda>p. p_id p = pid) (db_pats d))),
      d\<lparr>db_pats := filter (\<lambda>p. p_id p \<noteq> pid) (db_pats d)\<rparr>)"

section \<open>Statements on profiles\<close>

definition sql_ensure_profile :: "uuid \<Rightarrow> string \<Rightarrow> unit sql" where
  "sql_ensure_profile uid name now new d =
     (case varchar 255 name of
        None \<Rightarrow> (Inl (PgError ''22001'' []), d)
      | Some n \<Rightarrow>
          if uid \<in> pw_user_id ` set (db_profiles d) then (Inr (), d)
          else if uid \<notin> u_id ` set (db_users d)
          then (Inl (PgError ''23503'' ''user_profiles_user_id_fkey''), d)
          else (Inr (), d\<lparr>db_profiles := db_profiles d @
                 [\<lparr>pw_user_id = uid, pw_display_name = n, pw_city = None, pw_region = None,
                   pw_country = None, pw_gender = None, pw_date_of_birth = None,
                   pw_category = None, pw_preferences = Map.empty,
                   pw_created_at = now, pw_updated_at = now\<rparr>]\<rparr>))"

definition sql_profile_by_user :: "uuid \<Rightarrow> profile_row sql" where
  "sql_profile_by_user uid now new d = sql_rows (lookup_row pw_user_id uid (db_profiles d)) d"

text \<open>
  The dynamic \<open>UPDATE user_profiles\<close>: \<open>SET\<close> clauses that name placeholders, and their arguments.
  \<open>SetColumn c n\<close> is \<open>c = $n\<close>; \<open>MergePreferences i j k\<close> is the JSONB expression
  \<open>((CASE WHEN $i THEN '{}' ELSE preferences END) || $j) - $k\<close>.
\<close>

datatype sql_arg =
    ANull | AText string | ADate date | ATime instant | ABool bool | AUuid uuid
  | AJson "string \<rightharpoonup> string" | ATextArray "string list"

datatype set_clause =
    SetColumn string nat
  | MergePreferences nat nat nat

definition sql_param :: "sql_arg list \<Rightarrow> nat \<Rightarrow> sql_arg option" where
  "sql_param args n = (if 1 \<le> n \<and> n \<le> length args then Some (args ! (n - 1)) else None)"

definition mismatch :: goerr where
  "mismatch = PgError ''42804'' []"

definition text_value :: "nat \<Rightarrow> sql_arg \<Rightarrow> goerr + string option" where
  "text_value n a =
     (case a of
        ANull \<Rightarrow> Inr None
      | AText s \<Rightarrow> (case varchar n s of None \<Rightarrow> Inl (PgError ''22001'' []) | Some t \<Rightarrow> Inr (Some t))
      | _ \<Rightarrow> Inl mismatch)"

definition set_column :: "string \<Rightarrow> sql_arg \<Rightarrow> profile_row \<Rightarrow> goerr + profile_row" where
  "set_column col a r =
     (if col = ''display_name'' then
        (case text_value 255 a of Inl e \<Rightarrow> Inl e | Inr None \<Rightarrow> Inl (PgError ''23502'' [])
         | Inr (Some t) \<Rightarrow> Inr (r\<lparr>pw_display_name := t\<rparr>))
      else if col = ''city'' then
        (case text_value 255 a of Inl e \<Rightarrow> Inl e | Inr v \<Rightarrow> Inr (r\<lparr>pw_city := v\<rparr>))
      else if col = ''region'' then
        (case text_value 10 a of Inl e \<Rightarrow> Inl e | Inr v \<Rightarrow> Inr (r\<lparr>pw_region := v\<rparr>))
      else if col = ''country'' then
        (case text_value 2 a of Inl e \<Rightarrow> Inl e | Inr v \<Rightarrow> Inr (r\<lparr>pw_country := v\<rparr>))
      else if col = ''gender'' then
        (case text_value 10 a of Inl e \<Rightarrow> Inl e | Inr v \<Rightarrow> Inr (r\<lparr>pw_gender := v\<rparr>))
      else if col = ''category'' then
        (case text_value 10 a of Inl e \<Rightarrow> Inl e | Inr v \<Rightarrow> Inr (r\<lparr>pw_category := v\<rparr>))
      else if col = ''date_of_birth'' then
        (case a of ANull \<Rightarrow> Inr (r\<lparr>pw_date_of_birth := None\<rparr>)
         | ADate dt \<Rightarrow> Inr (r\<lparr>pw_date_of_birth := Some dt\<rparr>) | _ \<Rightarrow> Inl mismatch)
      else if col = ''updated_at'' then
        (case a of ATime t \<Rightarrow> Inr (r\<lparr>pw_updated_at := to_timestamptz t\<rparr>)
         | ANull \<Rightarrow> Inl (PgError ''23502'' []) | _ \<Rightarrow> Inl mismatch)
      else Inl (PgError ''42703'' []))"

definition merge_jsonb :: "bool \<Rightarrow> (string \<rightharpoonup> string) \<Rightarrow> string list \<Rightarrow> (string \<rightharpoonup> string) \<Rightarrow> (string \<rightharpoonup> string)" where
  "merge_jsonb clear add remove old =
     (\<lambda>k. if k \<in> set remove then None
          else ((if clear then Map.empty else old) ++ add) k)"

fun clause_column :: "set_clause \<Rightarrow> string" where
  "clause_column (SetColumn c n) = c"
| "clause_column (MergePreferences i j k) = ''preferences''"

text \<open>The right sides are evaluated on the old row.\<close>

fun exec_clause :: "sql_arg list \<Rightarrow> profile_row \<Rightarrow> set_clause \<Rightarrow> profile_row \<Rightarrow> goerr + profile_row" where
  "exec_clause args old (SetColumn c n) r =
     (case sql_param args n of None \<Rightarrow> Inl (PgError ''42P02'' []) | Some a \<Rightarrow> set_column c a r)"
| "exec_clause args old (MergePreferences i j k) r =
     (case (sql_param args i, sql_param args j, sql_param args k) of
        (Some (ABool c), Some (AJson s), Some (ATextArray d)) \<Rightarrow>
          Inr (r\<lparr>pw_preferences := merge_jsonb c s d (pw_preferences old)\<rparr>)
      | _ \<Rightarrow> Inl mismatch)"

fun exec_clauses :: "sql_arg list \<Rightarrow> profile_row \<Rightarrow> set_clause list \<Rightarrow> profile_row \<Rightarrow> goerr + profile_row" where
  "exec_clauses args old [] r = Inr r"
| "exec_clauses args old (c # cs) r =
     (case exec_clause args old c r of Inl e \<Rightarrow> Inl e | Inr r' \<Rightarrow> exec_clauses args old cs r')"

definition check_profile :: "profile_row \<Rightarrow> goerr option" where
  "check_profile r =
     (if \<not> category_check (pw_category r) then Some (PgError ''23514'' ''user_profiles_category_check'')
      else if \<not> gender_check (pw_gender r) then Some (PgError ''23514'' ''user_profiles_gender_check'')
      else if \<not> region_country_check (pw_region r) (pw_country r)
      then Some (PgError ''23514'' ''user_profiles_region_country_check'')
      else None)"

definition sql_update_profile :: "set_clause list \<Rightarrow> sql_arg list \<Rightarrow> nat \<Rightarrow> profile_row sql" where
  "sql_update_profile cs args idx now new d =
     (if \<not> distinct (map clause_column cs) then (Inl (PgError ''42701'' []), d)
      else (case sql_param args idx of
        Some (AUuid uid) \<Rightarrow>
          (case lookup_row pw_user_id uid (db_profiles d) of
             None \<Rightarrow> (Inl (Sentinel ErrNoRows), d)
           | Some old \<Rightarrow>
               (case exec_clauses args old cs old of
                  Inl e \<Rightarrow> (Inl e, d)
                | Inr r \<Rightarrow>
                    (case check_profile r of
                       Some e \<Rightarrow> (Inl e, d)
                     | None \<Rightarrow> (Inr r, d\<lparr>db_profiles :=
                         update_rows pw_user_id uid (\<lambda>_. r) (db_profiles d)\<rparr>))))
      | _ \<Rightarrow> (Inl mismatch, d)))"

text \<open>
  The list query: users joined with their profiles, ordered by display name (under the
  collation of the database) and then by user identifier.
\<close>

datatype order_key = OrderKey (ok_name: "nat list") (ok_id: uuid)

instantiation order_key :: linorder
begin

definition less_eq_order_key :: "order_key \<Rightarrow> order_key \<Rightarrow> bool" where
  "a \<le> b \<longleftrightarrow> ok_name a < ok_name b \<or> (ok_name a = ok_name b \<and> ok_id a \<le> ok_id b)"

definition less_order_key :: "order_key \<Rightarrow> order_key \<Rightarrow> bool" where
  "a < b \<longleftrightarrow> ok_name a < ok_name b \<or> (ok_name a = ok_name b \<and> ok_id a < ok_id b)"

instance
proof
  fix x y z :: order_key
  show "(x < y) = (x \<le> y \<and> \<not> y \<le> x)"
    by (auto simp: less_eq_order_key_def less_order_key_def)
  show "x \<le> x" by (simp add: less_eq_order_key_def)
  show "x \<le> y \<Longrightarrow> y \<le> z \<Longrightarrow> x \<le> z"
    by (auto simp: less_eq_order_key_def)
  show "x \<le> y \<Longrightarrow> y \<le> x \<Longrightarrow> x = y"
    by (cases x; cases y) (auto simp: less_eq_order_key_def)
  show "x \<le> y \<or> y \<le> x"
    by (auto simp: less_eq_order_key_def)
qed

end

type_synonym joined = "user \<times> profile_row"

definition join_profiles :: "database \<Rightarrow> joined list" where
  "join_profiles d =
     concat (map (\<lambda>u. map (\<lambda>p. (u, p)) (filter (\<lambda>p. pw_user_id p = u_id u) (db_profiles d)))
       (db_users d))"

definition joined_key :: "libs \<Rightarrow> joined \<Rightarrow> order_key" where
  "joined_key L j = OrderKey (lib_collate L (pw_display_name (snd j))) (u_id (fst j))"

definition sorted_join :: "libs \<Rightarrow> database \<Rightarrow> joined list" where
  "sorted_join L d = sort_key (joined_key L) (join_profiles d)"

definition sql_count_profiles :: "int sql" where
  "sql_count_profiles now new d = (Inr (int (length (join_profiles d))), d)"

definition sql_list_profiles :: "libs \<Rightarrow> int \<Rightarrow> int \<Rightarrow> joined list sql" where
  "sql_list_profiles L limit offset now new d =
     (if offset < 0 then (Inl (PgError ''2201X'' []), d)
      else if limit < 0 then (Inl (PgError ''2201W'' []), d)
      else (Inr (take (nat limit) (drop (nat offset) (sorted_join L d))), d))"

end
