(* ===== verification/DatabaseInv.thy ===== *)
theory DatabaseInv
  imports Database
begin

text \<open>
  Every statement keeps the invariant of the schema, and what each statement returns and
  changes. The program's \<open>NOW()\<close> and \<open>gen_random_uuid()\<close> are arbitrary here: a clashing identifier
  is a key violation, not a broken table.
\<close>

lemma db_invD:
  assumes "db_inv d"
  shows "users_inv (db_users d)" and "pats_inv (db_users d) (db_pats d)"
    and "profiles_inv (db_users d) (db_profiles d)"
  using assms by (simp_all add: db_inv_def)

lemma db_inv_empty: "db_inv empty_database"
  by (simp add: db_inv_def empty_database_def users_inv_def pats_inv_def profiles_inv_def)

text \<open>The foreign keys only depend on the set of user identifiers.\<close>

lemma pats_inv_mono:
  "pats_inv us ps \<Longrightarrow> u_id ` set us \<subseteq> u_id ` set vs \<Longrightarrow> pats_inv vs ps"
  by (auto simp: pats_inv_def)

lemma profiles_inv_mono:
  "profiles_inv us ps \<Longrightarrow> u_id ` set us \<subseteq> u_id ` set vs \<Longrightarrow> profiles_inv vs ps"
  by (auto simp: profiles_inv_def)

lemma db_inv_users:
  assumes "db_inv d" and "users_inv us" and "u_id ` set (db_users d) \<subseteq> u_id ` set us"
  shows "db_inv (d\<lparr>db_users := us\<rparr>)"
  using assms by (auto simp: db_inv_def intro: pats_inv_mono profiles_inv_mono)

section \<open>Users\<close>

lemma users_inv_snoc:
  assumes "users_inv us" and "user_ok u"
    and "u_id u \<notin> u_id ` set us" and "u_email u \<notin> u_email ` set us"
    and "user_key u \<notin> user_key ` set us"
  shows "users_inv (us @ [u])"
  using assms by (auto simp: users_inv_def)

lemma users_inv_update:
  assumes "users_inv us" and "user_ok u"
    and "\<And>v. v \<in> set us \<Longrightarrow> u_id v = u_id u \<Longrightarrow> user_key v = user_key u"
    and "u_email u \<notin> u_email ` {v \<in> set us. u_id v \<noteq> u_id u}"
  shows "users_inv (update_rows u_id (u_id u) (\<lambda>_. u) us)"
proof -
  let ?us = "update_rows u_id (u_id u) (\<lambda>_. u) us"
  have ids: "map u_id ?us = map u_id us"
    by (rule map_update_rows_same) simp
  have keys: "map user_key ?us = map user_key us"
    using assms(3) by (auto simp: update_rows_def)
  have "distinct (map u_email ?us)"
  proof (rule distinct_map_update_rows [where v = "u_email u"])
    show "u_email v \<noteq> u_email u" if "v \<in> set us" "u_id v \<noteq> u_id u" for v
      using assms(4) that by (metis (mono_tags, lifting) image_eqI mem_Collect_eq)
  qed (use assms(1) in \<open>simp_all add: users_inv_def\<close>)
  moreover have "\<forall>v \<in> set ?us. user_ok v"
    using assms(1,2) by (auto simp: users_inv_def set_update_rows)
  ultimately show ?thesis
    using assms(1) ids keys by (simp add: users_inv_def)
qed

lemma insert_user_inv:
  assumes "db_inv d" and "user_ok u" and "user_key u \<notin> user_key ` set (db_users d)"
  shows "db_inv (snd (insert_user u d))"
proof -
  have "users_inv (db_users d @ [u])"
    if "u_id u \<notin> u_id ` set (db_users d)" "u_email u \<notin> u_email ` set (db_users d)"
    using users_inv_snoc [OF db_invD(1) [OF assms(1)] assms(2) that assms(3)] .
  then show ?thesis
    using assms(1) by (auto simp: insert_user_def intro!: db_inv_users)
qed

lemma update_user_inv:
  assumes "db_inv d" and "user_ok u"
    and "\<And>v. v \<in> set (db_users d) \<Longrightarrow> u_id v = u_id u \<Longrightarrow> user_key v = user_key u"
  shows "db_inv (snd (update_user u d))"
proof -
  have "users_inv (update_rows u_id (u_id u) (\<lambda>_. u) (db_users d))"
    if "u_email u \<notin> u_email ` {v \<in> set (db_users d). u_id v \<noteq> u_id u}"
    using users_inv_update [OF db_invD(1) [OF assms(1)] assms(2) assms(3) that] .
  moreover have "u_id ` set (db_users d) \<subseteq>
      u_id ` set (update_rows u_id (u_id u) (\<lambda>_. u) (db_users d))"
    by (simp add: image_update_rows_same)
  ultimately show ?thesis
    using assms(1) by (auto simp: update_user_def intro!: db_inv_users)
qed

lemma users_inv_unique:
  assumes "users_inv us" "u \<in> set us" "v \<in> set us"
  shows "u_id u = u_id v \<Longrightarrow> u = v" and "u_email u = u_email v \<Longrightarrow> u = v"
    and "user_key u = user_key v \<Longrightarrow> u = v"
  using assms by (auto simp: users_inv_def distinct_map inj_on_def)

lemma upsert_user_inv:
  assumes inv: "db_inv d"
  shows "db_inv (snd (sql_upsert_user email name role prov pid now new d))"
proof -
  have ok: "user_ok u" if "u \<in> set (db_users d)" for u
    using inv that by (simp add: db_inv_def users_inv_def)
  show ?thesis
  proof (cases "\<exists>e n r p i. varchar 255 email = Some e \<and> varchar 255 name = Some n \<and>
      varchar 50 role = Some r \<and> varchar 50 prov = Some p \<and> varchar 255 pid = Some i \<and>
      provider_check p \<and> role_check r")
    case True
    then obtain e n r p i where v: "varchar 255 email = Some e" "varchar 255 name = Some n"
      "varchar 50 role = Some r" "varchar 50 prov = Some p" "varchar 255 pid = Some i"
      "provider_check p" "role_check r" by blast
    note len = v(1,2,5) [THEN varchar_len]
    show ?thesis
    proof (cases "lookup_row user_key (p, i) (db_users d)")
      case None
      then have "(p, i) \<notin> user_key ` set (db_users d)"
        by (auto simp: lookup_row_None_iff image_iff)
      with None v len inv show ?thesis
        by (auto simp: sql_upsert_user_def user_ok_def intro!: insert_user_inv)
    next
      case (Some old)
      from lookup_row_SomeD [OF Some]
      have old: "old \<in> set (db_users d)" "user_key old = (p, i)" by simp_all
      let ?u = "old\<lparr>u_email := e, u_name := n, u_updated_at := now\<rparr>"
      have "snd (sql_upsert_user email name role prov pid now new d) = snd (update_user ?u d)"
        using Some v by (simp add: sql_upsert_user_def)
      moreover have "user_ok ?u" using ok [OF old(1)] len by (simp add: user_ok_def)
      moreover have "user_key w = user_key ?u" if "w \<in> set (db_users d)" "u_id w = u_id ?u" for w
        using users_inv_unique(1) [OF db_invD(1) [OF inv] that(1) old(1)] that(2) by simp
      ultimately show ?thesis using update_user_inv [OF inv] by simp
    qed
  next
    case False
    then show ?thesis
      using inv by (auto simp: sql_upsert_user_def split: option.splits)
  qed
qed

lemma update_role_inv:
  assumes inv: "db_inv d"
  shows "db_inv (snd (sql_update_role role uid now new d))"
proof -
  have users: "users_inv (update_rows u_id uid (\<lambda>v. v\<lparr>u_role := r, u_updated_at := now\<rparr>) (db_users d))"
    (is "users_inv ?us") if "role_check r" for r
  proof -
    have "map u_id ?us = map u_id (db_users d)" "map u_email ?us = map u_email (db_users d)"
      "map user_key ?us = map user_key (db_users d)"
      by (simp_all add: map_update_rows_same)
    moreover have "\<forall>v \<in> set ?us. user_ok v"
      using inv that by (auto simp: db_inv_def users_inv_def set_update_rows user_ok_def)
    ultimately show ?thesis using inv by (simp add: db_inv_def users_inv_def)
  qed
  have "u_id ` set (db_users d) \<subseteq> u_id ` set (update_rows u_id uid
      (\<lambda>v. v\<lparr>u_role := r, u_updated_at := now\<rparr>) (db_users d))" for r
    by (simp add: image_update_rows_same)
  then show ?thesis
    using inv users
    by (auto simp: sql_update_role_def split: option.splits intro!: db_inv_users)
qed

section \<open>Personal access tokens\<close>

lemma insert_pat_inv:
  assumes "db_inv d"
  shows "db_inv (snd (sql_insert_pat uid hash salt expires now new d))"
  using assms
  by (auto simp: sql_insert_pat_def Let_def db_inv_def pats_inv_def pat_ok_def
      dest: varchar_len split: option.splits)

lemma delete_pat_inv:
  assumes "db_inv d"
  shows "db_inv (snd (sql_delete_pat pid now new d))"
  using assms
  by (auto simp: sql_delete_pat_def db_inv_def pats_inv_def intro: distinct_map_filter)

section \<open>Profiles\<close>

lemma ensure_profile_inv:
  assumes "db_inv d"
  shows "db_inv (snd (sql_ensure_profile uid name now new d))"
  using assms
  by (auto simp: sql_ensure_profile_def db_inv_def profiles_inv_def profile_ok_def
      gender_check_def category_check_def region_country_check_def opt_len_def
      dest: varchar_len split: option.splits)

text \<open>What the clauses of an \<open>UPDATE\<close> keep: the owner of the row and the widths of its columns.\<close>

definition widths_ok :: "profile_row \<Rightarrow> bool" where
  "widths_ok p \<longleftrightarrow> char_len (pw_display_name p) \<le> 255 \<and> opt_len 255 (pw_city p) \<and>
     opt_len 10 (pw_region p) \<and> opt_len 2 (pw_country p)"

lemma opt_len_simps [simp]: "opt_len n None" "opt_len n (Some s) \<longleftrightarrow> char_len s \<le> n"
  by (simp_all add: opt_len_def)

lemma opt_len_varchar [simp]: "opt_len n (varchar n s)"
  by (cases "varchar n s") (auto dest: varchar_len)

lemma text_value_len: "text_value n a = Inr v \<Longrightarrow> opt_len n v"
  by (cases a) (auto simp: text_value_def split: option.splits)

lemma set_column_keeps:
  assumes "set_column c a r = Inr r'" and "widths_ok r"
  shows "widths_ok r' \<and> pw_user_id r' = pw_user_id r \<and> pw_created_at r' = pw_created_at r \<and>
     pw_preferences r' = pw_preferences r"
  using assms unfolding set_column_def
  by (simp split: if_split_asm)
    (auto simp: widths_ok_def dest: text_value_len split: sum.splits option.splits sql_arg.splits)

lemma exec_clause_keeps:
  assumes "exec_clause args old c r = Inr r'" and "widths_ok r"
  shows "widths_ok r' \<and> pw_user_id r' = pw_user_id r \<and> pw_created_at r' = pw_created_at r"
  using assms
  by (cases c) (auto simp: widths_ok_def split: option.splits sql_arg.splits dest: set_column_keeps)

lemma exec_clauses_keeps:
  assumes "exec_clauses args old cs r = Inr r'" and "widths_ok r"
  shows "widths_ok r' \<and> pw_user_id r' = pw_user_id r \<and> pw_created_at r' = pw_created_at r"
  using assms
proof (induction cs arbitrary: r)
  case (Cons c cs)
  then obtain r1 where r1: "exec_clause args old c r = Inr r1" "exec_clauses args old cs r1 = Inr r'"
    by (auto split: sum.splits)
  show ?case using exec_clause_keeps [OF r1(1) Cons.prems(2)] Cons.IH [OF r1(2)] by simp
qed simp

lemma check_profile_ok: "check_profile r = None \<Longrightarrow> widths_ok r \<Longrightarrow> profile_ok r"
  by (auto simp: check_profile_def profile_ok_def widths_ok_def split: if_splits)

lemma profiles_inv_update:
  assumes "profiles_inv us ps" and "profile_ok r" and "pw_user_id r = uid"
    and "uid \<in> u_id ` set us"
  shows "profiles_inv us (update_rows pw_user_id uid (\<lambda>_. r) ps)"
proof -
  have "map pw_user_id (update_rows pw_user_id uid (\<lambda>_. r) ps) = map pw_user_id ps"
    using assms(3) by (intro map_update_rows_same) simp
  then show ?thesis
    using assms by (auto simp: profiles_inv_def set_update_rows)
qed

lemma update_profile_inv:
  assumes inv: "db_inv d"
  shows "db_inv (snd (sql_update_profile cs args idx now new d))"
proof (cases "fst (sql_update_profile cs args idx now new d)")
  case (Inl e)
  then show ?thesis
    using inv by (auto simp: sql_update_profile_def
        split: option.splits sql_arg.splits sum.splits if_splits)
next
  case (Inr r)
  then obtain uid old where o: "lookup_row pw_user_id uid (db_profiles d) = Some old"
      "exec_clauses args old cs old = Inr r" "check_profile r = None"
      and snd: "snd (sql_update_profile cs args idx now new d) =
        d\<lparr>db_profiles := update_rows pw_user_id uid (\<lambda>_. r) (db_profiles d)\<rparr>"
    by (auto simp: sql_update_profile_def
        split: option.splits sql_arg.splits sum.splits if_splits)
  from o(1) have old: "old \<in> set (db_profiles d)" "pw_user_id old = uid"
    by (auto dest: lookup_row_SomeD)
  then have "widths_ok old" "uid \<in> u_id ` set (db_users d)"
    using inv by (auto simp: db_inv_def profiles_inv_def profile_ok_def widths_ok_def)
  with o old have "profile_ok r" "pw_user_id r = uid"
    using exec_clauses_keeps check_profile_ok by auto
  then have "profiles_inv (db_users d) (update_rows pw_user_id uid (\<lambda>_. r) (db_profiles d))"
    using inv \<open>uid \<in> u_id ` set (db_users d)\<close> by (auto simp: db_inv_def intro: profiles_inv_update)
  then show ?thesis using inv by (simp add: snd db_inv_def)
qed

section \<open>Statements as data, and other clients\<close>

text \<open>
  The statements that write. Other requests and other instances of the server send the same
  statements between those of one request: they are lists of \<open>stmt\<close>, each with its time and
  its generated identifier.
\<close>

datatype stmt =
    UpsertUser string string role provider string
  | UpdateRole role uuid
  | InsertPat uuid string string "instant option"
  | DeletePat uuid
  | EnsureProfile uuid string
  | UpdateProfile "set_clause list" "sql_arg list" nat

fun exec_stmt :: "instant \<Rightarrow> uuid \<Rightarrow> stmt \<Rightarrow> database \<Rightarrow> database" where
  "exec_stmt now new (UpsertUser e n r p i) d = snd (sql_upsert_user e n r p i now new d)"
| "exec_stmt now new (UpdateRole r i) d = snd (sql_update_role r i now new d)"
| "exec_stmt now new (InsertPat u h s x) d = snd (sql_insert_pat u h s x now new d)"
| "exec_stmt now new (DeletePat i) d = snd (sql_delete_pat i now new d)"
| "exec_stmt now new (EnsureProfile u n) d = snd (sql_ensure_profile u n now new d)"
| "exec_stmt now new (UpdateProfile c a i) d = snd (sql_update_profile c a i now new d)"

lemma exec_stmt_inv: "db_inv d \<Longrightarrow> db_inv (exec_stmt now new s d)"
  by (cases s) (simp_all add: upsert_user_inv update_role_inv insert_pat_inv delete_pat_inv
      ensure_profile_inv update_profile_inv)

fun exec_stmts :: "(instant \<times> uuid \<times> stmt) list \<Rightarrow> database \<Rightarrow> database" where
  "exec_stmts [] d = d"
| "exec_stmts ((now, new, s) # ss) d = exec_stmts ss (exec_stmt now new s d)"

lemma exec_stmts_inv: "db_inv d \<Longrightarrow> db_inv (exec_stmts ss d)"
  by (induction ss d rule: exec_stmts.induct) (simp_all add: exec_stmt_inv)

end
