(* ===== verification/World.thy ===== *)
theory World
  imports DatabaseInv
begin

text \<open>
  The world the server runs in. Every contact with it (a round trip to the database, a reading
  of the clock, a draw of random bytes) has a number, and an environment \<open>env\<close> says what happens
  at each number: the time, the generated identifier, the random bytes, whether the connection
  fails, and which statements other clients commit just before. The functions of an environment
  are arbitrary, so a theorem about every environment covers every schedule of failures and
  every interleaving of the statements of concurrent requests.
\<close>

text \<open>
  A round trip succeeds, is lost before the statement runs, or runs without its reply
  arriving (the connection drops after the commit). The text is the driver's message.
\<close>

datatype fault = NoFault | Lost string | Unacked string

record env =
  clock_at :: "nat \<Rightarrow> instant"
  uuid_at :: "nat \<Rightarrow> uuid"
  rand_at :: "nat \<Rightarrow> nat \<Rightarrow> byte"
  rand_fails_at :: "nat \<Rightarrow> bool"
  fault_at :: "nat \<Rightarrow> fault"
  others_at :: "nat \<Rightarrow> (instant \<times> uuid \<times> stmt) list"

record world =
  w_db :: database
  w_tick :: nat

type_synonym 'a io = "world \<Rightarrow> ('a, world) go"

definition db_roundtrip :: "env \<Rightarrow> 'a sql \<Rightarrow> 'a io" where
  "db_roundtrip E q w =
     (let n = w_tick w;
          d = exec_stmts (others_at E n) (w_db w);
          r = q (to_timestamptz (clock_at E n)) (uuid_at E n) d
      in (case fault_at E n of
            NoFault \<Rightarrow> (fst r, \<lparr>w_db = snd r, w_tick = Suc n\<rparr>)
          | Lost m \<Rightarrow> (Inl (Msg [Txt m]), \<lparr>w_db = d, w_tick = Suc n\<rparr>)
          | Unacked m \<Rightarrow> (Inl (Msg [Txt m]), \<lparr>w_db = snd r, w_tick = Suc n\<rparr>)))"

text \<open>\<open>time.Now()\<close>, and \<open>rand.Read\<close> of \<open>n\<close> bytes.\<close>

definition time_now :: "env \<Rightarrow> world \<Rightarrow> instant \<times> world" where
  "time_now E w = (clock_at E (w_tick w), w\<lparr>w_tick := Suc (w_tick w)\<rparr>)"

definition rand_read :: "env \<Rightarrow> nat \<Rightarrow> byte list io" where
  "rand_read E n w =
     (let w' = w\<lparr>w_tick := Suc (w_tick w)\<rparr>
      in if rand_fails_at E (w_tick w) then (Inl (Msg [Txt ''rand'']), w')
         else (Inr (map (rand_at E (w_tick w)) [0..<n]), w'))"

text \<open>\<open>uuid.NewString()\<close> in the application.\<close>

definition new_uuid :: "env \<Rightarrow> world \<Rightarrow> uuid \<times> world" where
  "new_uuid E w = (uuid_at E (w_tick w), w\<lparr>w_tick := Suc (w_tick w)\<rparr>)"

section \<open>The invariant of the world\<close>

definition world_inv :: "world \<Rightarrow> bool" where
  "world_inv w \<longleftrightarrow> db_inv (w_db w)"

lemma world_inv_tick [simp]: "world_inv (w\<lparr>w_tick := n\<rparr>) = world_inv w"
  by (simp add: world_inv_def)

lemma db_roundtrip_inv [inv_intros]:
  assumes "world_inv w" and "\<And>now new d. db_inv d \<Longrightarrow> db_inv (snd (q now new d))"
  shows "world_inv (snd (db_roundtrip E q w))"
  using assms
  by (auto simp: db_roundtrip_def Let_def world_inv_def exec_stmts_inv split: fault.splits)

lemma time_now_inv [inv_intros]: "world_inv w \<Longrightarrow> world_inv (snd (time_now E w))"
  by (simp add: time_now_def)

lemma rand_read_inv [inv_intros]: "world_inv w \<Longrightarrow> world_inv (snd (rand_read E n w))"
  by (simp add: rand_read_def Let_def)

lemma new_uuid_inv [inv_intros]: "world_inv w \<Longrightarrow> world_inv (snd (new_uuid E w))"
  by (simp add: new_uuid_def)

lemma app_reads_db [simp]:
  "w_db (snd (time_now E w)) = w_db w" "w_db (snd (new_uuid E w)) = w_db w"
  "w_db (snd (rand_read E n w)) = w_db w"
  by (simp_all add: time_now_def new_uuid_def rand_read_def Let_def)

section \<open>What a round trip tells\<close>

text \<open>A reply means the statement ran on the database at that moment.\<close>

lemma db_roundtrip_ok:
  assumes "db_roundtrip E q w = (Inr x, w')"
  obtains d now new where "d = exec_stmts (others_at E (w_tick w)) (w_db w)"
    "now = to_timestamptz (clock_at E (w_tick w))" "new = uuid_at E (w_tick w)"
    "q now new d = (Inr x, w_db w')" "w_tick w' = Suc (w_tick w)"
  using assms by (auto simp: db_roundtrip_def Let_def prod_eq_iff split: fault.splits)

text \<open>An error that wraps a sentinel or a database error also comes from the statement.\<close>

definition driver_error :: "goerr \<Rightarrow> bool" where
  "driver_error e \<longleftrightarrow> (\<exists>m. e = Msg [Txt m])"

lemma driver_error_plain:
  "driver_error e \<Longrightarrow> \<not> errors_is e s \<and> errors_as_pg e = None \<and> errors_as_email e = None"
  by (auto simp: driver_error_def)

lemma db_roundtrip_err:
  assumes "db_roundtrip E q w = (Inl e, w')" and "\<not> driver_error e"
  obtains d now new where "d = exec_stmts (others_at E (w_tick w)) (w_db w)"
    "now = to_timestamptz (clock_at E (w_tick w))" "new = uuid_at E (w_tick w)"
    "q now new d = (Inl e, w_db w')" "w_tick w' = Suc (w_tick w)"
  using assms
  by (auto simp: db_roundtrip_def Let_def prod_eq_iff driver_error_def split: fault.splits)

text \<open>A quiet environment: no failure and no other client.\<close>

definition quiet :: "env \<Rightarrow> bool" where
  "quiet E \<longleftrightarrow> (\<forall>n. fault_at E n = NoFault \<and> others_at E n = [] \<and> \<not> rand_fails_at E n)"

lemma quiet_roundtrip:
  "quiet E \<Longrightarrow> db_roundtrip E q w =
     (let r = q (to_timestamptz (clock_at E (w_tick w))) (uuid_at E (w_tick w)) (w_db w)
      in (fst r, \<lparr>w_db = snd r, w_tick = Suc (w_tick w)\<rparr>))"
  by (simp add: quiet_def db_roundtrip_def Let_def)

lemma quiet_rand_read:
  "quiet E \<Longrightarrow> rand_read E n w =
     (Inr (map (rand_at E (w_tick w)) [0..<n]), w\<lparr>w_tick := Suc (w_tick w)\<rparr>)"
  by (simp add: quiet_def rand_read_def Let_def)

text \<open>
  A sample environment for concrete runs: the clock advances one second at each contact, and
  generated identifiers and random bytes are the number of the contact.
\<close>

definition sample_env :: env where
  "sample_env = \<lparr>clock_at = (\<lambda>n. int n * second), uuid_at = (\<lambda>n. of_nat n + 100),
     rand_at = (\<lambda>n i. of_nat n), rand_fails_at = (\<lambda>n. False), fault_at = (\<lambda>n. NoFault),
     others_at = (\<lambda>n. [])\<rparr>"

lemma quiet_sample_env: "quiet sample_env"
  by (simp add: quiet_def sample_env_def)

end
