(* ===== verification/JwtAdapter.thy ===== *)
theory JwtAdapter
  imports World
begin

text \<open>
  The JWT adapter (\<open>infrastructure/jwt/jwt.go\<close>) and its manager (\<open>application/auth/jwt_manager.go\<close>),
  over a parameter that stands for the \<open>golang-jwt\<close> library.
\<close>

section \<open>The library\<close>

record claims =
  cl_subject :: string
  cl_issued_at :: "instant option"
  cl_expires_at :: "instant option"
  cl_email :: string
  cl_role :: role

text \<open>The signing method a token names: one of the HMAC family, or any other; with its \<open>alg\<close>.\<close>

datatype jwt_method = HMAC string | OtherMethod string

text \<open>
  \<^item> \<open>jl_numeric_date\<close>: \<open>NewNumericDate\<close>;
  \<^item> \<open>jl_sign\<close>: \<open>NewWithClaims(SigningMethodHS256, claims).SignedString(secret)\<close>;
  \<^item> \<open>jl_parse\<close>: \<open>ParseWithClaims\<close> with a key function, at a time; the claims, if the token carries
    some of the asked type, and \<open>token.Valid\<close>;
  \<^item> \<open>jl_is_expired\<close>: \<open>errors.Is(err, ErrTokenExpired)\<close>;
  \<^item> \<open>jl_verifies m k t c\<close>: the token \<open>t\<close> names the method \<open>m\<close>, carries the claims \<open>c\<close>, and its
    signature is right under the key \<open>k\<close>.
\<close>

record jwt_lib =
  jl_numeric_date :: "instant \<Rightarrow> instant"
  jl_sign :: "string \<Rightarrow> claims \<Rightarrow> goerr + string"
  jl_parse :: "(jwt_method \<Rightarrow> goerr + string) \<Rightarrow> instant \<Rightarrow> string \<Rightarrow> goerr + (claims option \<times> bool)"
  jl_is_expired :: "goerr \<Rightarrow> bool"
  jl_verifies :: "jwt_method \<Rightarrow> string \<Rightarrow> string \<Rightarrow> claims \<Rightarrow> bool"

definition not_expired :: "claims \<Rightarrow> instant \<Rightarrow> bool" where
  "not_expired c now = (case cl_expires_at c of None \<Rightarrow> True | Some e \<Rightarrow> now < e)"

definition whole_seconds :: "claims \<Rightarrow> bool" where
  "whole_seconds c \<longleftrightarrow> (\<forall>t. cl_issued_at c = Some t \<or> cl_expires_at c = Some t \<longrightarrow> second dvd t)"

text \<open>
  What the code relies on (the documentation of \<open>golang-jwt\<close>): a numeric date is a time cut to
  the second; signing claims with HS256 gives a token that names HS256, carries those claims and
  verifies under the key; a parse asks the key function for the key of the token's method,
  verifies the signature under it and the expiry, and succeeds exactly then.
\<close>

definition jwt_lib_ok :: "jwt_lib \<Rightarrow> bool" where
  "jwt_lib_ok J \<longleftrightarrow>
     (\<forall>t. jl_numeric_date J t = (t div second) * second) \<and>
     (\<forall>k c. whole_seconds c \<longrightarrow>
        (\<exists>t. jl_sign J k c = Inr t \<and> jl_verifies J (HMAC ''HS256'') k t c)) \<and>
     (\<forall>m m' k k' t c c'. jl_verifies J m k t c \<longrightarrow> jl_verifies J m' k' t c' \<longrightarrow> m = m' \<and> c = c') \<and>
     (\<forall>f now t c. jl_parse J f now t = Inr (Some c, True) \<longleftrightarrow>
        (\<exists>m k. f m = Inr k \<and> jl_verifies J m k t c \<and> not_expired c now))"

section \<open>The adapter\<close>

record jwt_adapter =
  ja_secret :: string
  ja_expiry :: int

text \<open>\<open>New\<close> reads the two settings from Viper, \<open>NewWithConfig\<close> takes them.\<close>

definition jwt_new :: "string \<Rightarrow> int \<Rightarrow> goerr + jwt_adapter" where
  "jwt_new secret expiry =
     (if secret = [] then Inl (Msg [Txt ''jwt: COURTKNIGHTS_JWT_SECRET is required''])
      else Inr \<lparr>ja_secret = secret, ja_expiry = (if expiry = 0 then 3600 * second else expiry)\<rparr>)"

definition jwt_new_with_config :: "string \<Rightarrow> int \<Rightarrow> goerr + jwt_adapter" where
  "jwt_new_with_config secret expiry =
     (if secret = [] then Inl (Msg [Txt ''jwt: secret must not be empty''])
      else Inr \<lparr>ja_secret = secret, ja_expiry = expiry\<rparr>)"

definition user_claims :: "libs \<Rightarrow> jwt_lib \<Rightarrow> jwt_adapter \<Rightarrow> instant \<Rightarrow> user \<Rightarrow> claims" where
  "user_claims L J a now u = \<lparr>cl_subject = lib_uuid_string L (u_id u),
     cl_issued_at = Some (jl_numeric_date J now),
     cl_expires_at = Some (jl_numeric_date J (now + ja_expiry a)),
     cl_email = u_email u, cl_role = u_role u\<rparr>"

definition jwt_sign :: "libs \<Rightarrow> env \<Rightarrow> jwt_lib \<Rightarrow> jwt_adapter \<Rightarrow> user \<Rightarrow> string io" where
  "jwt_sign L E J a u w =
     (case time_now E w of (now, w1) \<Rightarrow>
        (case jl_sign J (ja_secret a) (user_claims L J a now u) of
           Inl e \<Rightarrow> (Inl (Wrap ''jwt: sign: '' e), w1)
         | Inr tok \<Rightarrow> (Inr tok, w1)))"

definition jwt_key_func :: "jwt_adapter \<Rightarrow> jwt_method \<Rightarrow> goerr + string" where
  "jwt_key_func a m =
     (case m of
        HMAC alg \<Rightarrow> Inr (ja_secret a)
      | OtherMethod alg \<Rightarrow> Inl (Msg [Txt ''jwt: unexpected signing method: '', Txt alg]))"

definition jwt_validate :: "env \<Rightarrow> jwt_lib \<Rightarrow> jwt_adapter \<Rightarrow> string \<Rightarrow> claims io" where
  "jwt_validate E J a token w =
     (case time_now E w of (now, w1) \<Rightarrow>
        (case jl_parse J (jwt_key_func a) now token of
           Inl e \<Rightarrow>
             if jl_is_expired J e
             then (Inl (WrapTwo ''jwt: validate: '' (Sentinel ErrUnauthorized) e), w1)
             else (Inl (WrapTwo ''jwt: validate: '' (Sentinel ErrUnauthorized) e), w1)
         | Inr (None, valid) \<Rightarrow> (Inl (Wrap ''jwt: validate: '' (Sentinel ErrUnauthorized)), w1)
         | Inr (Some c, valid) \<Rightarrow>
             if \<not> valid then (Inl (Wrap ''jwt: validate: '' (Sentinel ErrUnauthorized)), w1)
             else (Inr c, w1)))"

section \<open>The manager\<close>

record jwt_manager =
  jm_sign :: "user \<Rightarrow> string io"
  jm_validate :: "string \<Rightarrow> claims io"

definition new_jwt_manager :: "libs \<Rightarrow> env \<Rightarrow> jwt_lib \<Rightarrow> jwt_adapter \<Rightarrow> jwt_manager" where
  "new_jwt_manager L E J a = \<lparr>
     jm_sign = (\<lambda>u w. wrap ''jwt manager: sign: '' (jwt_sign L E J a u w)),
     jm_validate = (\<lambda>t w. wrap ''jwt manager: validate: '' (jwt_validate E J a t w))\<rparr>"

lemma new_jwt_manager_simps [simp]:
  "jm_sign (new_jwt_manager L E J a) u w = wrap ''jwt manager: sign: '' (jwt_sign L E J a u w)"
  "jm_validate (new_jwt_manager L E J a) t w =
     wrap ''jwt manager: validate: '' (jwt_validate E J a t w)"
  by (simp_all add: new_jwt_manager_def)

section \<open>Properties\<close>

lemma jwt_keeps_db [simp]:
  "w_db (snd (jwt_sign L E J a u w)) = w_db w" "w_db (snd (jwt_validate E J a t w)) = w_db w"
  by (auto simp: jwt_sign_def jwt_validate_def time_now_def split: sum.split option.split)

lemma jwt_inv [inv_intros]:
  "world_inv w \<Longrightarrow> world_inv (snd (jwt_sign L E J a u w))"
  "world_inv w \<Longrightarrow> world_inv (snd (jwt_validate E J a t w))"
  by (simp_all add: world_inv_def)

lemma jwt_validate_unauthorized:
  "jwt_validate E J a t w = (Inl e, w') \<Longrightarrow> errors_is e ErrUnauthorized"
  by (auto simp: jwt_validate_def split: prod.splits sum.splits option.splits if_splits)

lemma jwt_validate_parsed:
  "jwt_validate E J a t w = (Inr c, w') \<longleftrightarrow>
     jl_parse J (jwt_key_func a) (clock_at E (w_tick w)) t = Inr (Some c, True) \<and>
     w' = w\<lparr>w_tick := Suc (w_tick w)\<rparr>"
  by (auto simp: jwt_validate_def time_now_def split: sum.splits option.splits if_splits prod.splits)

text \<open>A token is accepted exactly when it verifies, under an HMAC method, with the secret.\<close>

lemma jwt_validate_iff:
  assumes "jwt_lib_ok J"
  shows "jwt_validate E J a t w = (Inr c, w') \<longleftrightarrow>
    (\<exists>alg. jl_verifies J (HMAC alg) (ja_secret a) t c) \<and> not_expired c (clock_at E (w_tick w)) \<and>
    w' = w\<lparr>w_tick := Suc (w_tick w)\<rparr>"
proof -
  have "jl_parse J (jwt_key_func a) now t = Inr (Some c, True) \<longleftrightarrow>
    (\<exists>m k. jwt_key_func a m = Inr k \<and> jl_verifies J m k t c \<and> not_expired c now)" for now
    using assms by (simp add: jwt_lib_ok_def)
  moreover have "jwt_key_func a m = Inr k \<longleftrightarrow> k = ja_secret a \<and> (\<exists>alg. m = HMAC alg)" for m k
    by (cases m) (auto simp: jwt_key_func_def)
  ultimately show ?thesis by (auto simp: jwt_validate_parsed)
qed

lemma whole_seconds_user_claims: "jwt_lib_ok J \<Longrightarrow> whole_seconds (user_claims L J a now u)"
  by (auto simp: whole_seconds_def user_claims_def jwt_lib_ok_def)

lemma jwt_sign_ok:
  assumes "jwt_lib_ok J"
  obtains t where "jwt_sign L E J a u w = (Inr t, w\<lparr>w_tick := Suc (w_tick w)\<rparr>)"
    "jl_verifies J (HMAC ''HS256'') (ja_secret a) t (user_claims L J a (clock_at E (w_tick w)) u)"
proof -
  obtain t where "jl_sign J (ja_secret a) (user_claims L J a (clock_at E (w_tick w)) u) = Inr t"
    "jl_verifies J (HMAC ''HS256'') (ja_secret a) t (user_claims L J a (clock_at E (w_tick w)) u)"
    using assms whole_seconds_user_claims [OF assms] unfolding jwt_lib_ok_def by metis
  then show thesis by (intro that [of t]) (simp_all add: jwt_sign_def time_now_def)
qed

text \<open>
  Sign, then validate: the claims are the user's as long as the lifetime, cut to the second, has
  not passed; afterwards the token is refused.
\<close>

lemma jwt_sign_validate:
  assumes "jwt_lib_ok J" and "jwt_sign L E J a u w = (Inr t, w1)"
  shows "jwt_validate E J a t v =
      (Inr (user_claims L J a (clock_at E (w_tick w)) u), v\<lparr>w_tick := Suc (w_tick v)\<rparr>) \<longleftrightarrow>
    clock_at E (w_tick v) < (clock_at E (w_tick w) + ja_expiry a) div second * second"
proof -
  let ?c = "user_claims L J a (clock_at E (w_tick w)) u"
  obtain t' where "jwt_sign L E J a u w = (Inr t', w\<lparr>w_tick := Suc (w_tick w)\<rparr>)"
    "jl_verifies J (HMAC ''HS256'') (ja_secret a) t' ?c"
    using jwt_sign_ok [OF assms(1)] .
  with assms(2) have "jl_verifies J (HMAC ''HS256'') (ja_secret a) t ?c" by simp
  then have "(\<exists>alg. jl_verifies J (HMAC alg) (ja_secret a) t ?c)" by blast
  moreover have "jl_numeric_date J n = n div second * second" for n
    using assms(1) by (simp add: jwt_lib_ok_def)
  then have "not_expired ?c (clock_at E (w_tick v)) \<longleftrightarrow>
    clock_at E (w_tick v) < (clock_at E (w_tick w) + ja_expiry a) div second * second"
    by (simp add: not_expired_def user_claims_def)
  ultimately show ?thesis by (simp add: jwt_validate_iff [OF assms(1)])
qed

lemma jwt_sign_expires:
  assumes "jwt_lib_ok J" and "jwt_sign L E J a u w = (Inr t, w1)"
    and "(clock_at E (w_tick w) + ja_expiry a) div second * second \<le> clock_at E (w_tick v)"
  shows "\<exists>e v'. jwt_validate E J a t v = (Inl e, v') \<and> errors_is e ErrUnauthorized"
proof -
  let ?c = "user_claims L J a (clock_at E (w_tick w)) u"
  obtain r v' where r: "jwt_validate E J a t v = (r, v')" by (cases "jwt_validate E J a t v")
  show ?thesis
  proof (cases r)
    case (Inl e)
    with r jwt_validate_unauthorized [of E J a t v e v'] show ?thesis by auto
  next
    case (Inr c)
    with r obtain alg where alg: "jl_verifies J (HMAC alg) (ja_secret a) t c"
      "jwt_validate E J a t v = (Inr c, v\<lparr>w_tick := Suc (w_tick v)\<rparr>)"
      using jwt_validate_iff [OF assms(1)] by metis
    obtain t' where "jwt_sign L E J a u w = (Inr t', w\<lparr>w_tick := Suc (w_tick w)\<rparr>)"
      "jl_verifies J (HMAC ''HS256'') (ja_secret a) t' ?c"
      using jwt_sign_ok [OF assms(1)] .
    with assms(2) have "jl_verifies J (HMAC ''HS256'') (ja_secret a) t ?c" by simp
    with alg(1) have "c = ?c" using assms(1) unfolding jwt_lib_ok_def by metis
    with jwt_sign_validate [OF assms(1,2), of v] alg(2) assms(3) show ?thesis by simp
  qed
qed

end
