(* ===== verification/GoJson.thy ===== *)
theory GoJson
  imports GoStrings
begin

text \<open>
  What the code uses of \<open>encoding/json\<close>: the values of a text (a lexer and a parser with an explicit
  stack, in one pass each), strings unquoted to UTF-8, and the assignment of members to the fields
  of a struct (exact name first, then by case folding; \<open>null\<close> leaves a field alone).
\<close>

section \<open>UTF-8\<close>

definition utf8_encode :: "nat \<Rightarrow> string" where
  "utf8_encode r =
     (if r < 128 then [char_of r]
      else if r < 2048 then [char_of (192 + r div 64), char_of (128 + r mod 64)]
      else if r < 65536 then
        [char_of (224 + r div 4096), char_of (128 + (r div 64) mod 64), char_of (128 + r mod 64)]
      else [char_of (240 + r div 262144), char_of (128 + (r div 4096) mod 64),
            char_of (128 + (r div 64) mod 64), char_of (128 + r mod 64)])"

definition rune_error :: nat where
  "rune_error = 65533"

text \<open>The width of the rune a text starts with, 0 when its bytes are not valid UTF-8.\<close>

definition cont_in :: "nat \<Rightarrow> nat \<Rightarrow> char \<Rightarrow> bool" where
  "cont_in lo hi c \<longleftrightarrow> lo \<le> code c \<and> code c \<le> hi"

fun utf8_width :: "string \<Rightarrow> nat" where
  "utf8_width (a # b # c # d # s) =
     (if code a < 128 then 1
      else if cont_in 194 223 a \<and> cont_in 128 191 b then 2
      else if cont_in 224 239 a \<and> cont_in (if code a = 224 then 160 else 128)
                (if code a = 237 then 159 else 191) b \<and> cont_in 128 191 c then 3
      else if cont_in 240 244 a \<and> cont_in (if code a = 240 then 144 else 128)
                (if code a = 244 then 143 else 191) b \<and> cont_in 128 191 c \<and> cont_in 128 191 d then 4
      else 0)"
| "utf8_width [a, b, c] =
     (if code a < 128 then 1
      else if cont_in 194 223 a \<and> cont_in 128 191 b then 2
      else if cont_in 224 239 a \<and> cont_in (if code a = 224 then 160 else 128)
                (if code a = 237 then 159 else 191) b \<and> cont_in 128 191 c then 3
      else 0)"
| "utf8_width [a, b] =
     (if code a < 128 then 1 else if cont_in 194 223 a \<and> cont_in 128 191 b then 2 else 0)"
| "utf8_width [a] = (if code a < 128 then 1 else 0)"
| "utf8_width [] = 0"

text \<open>Every byte that does not belong to a valid rune becomes U+FFFD.\<close>

function utf8_fix :: "string \<Rightarrow> string" where
  "utf8_fix [] = []"
| "utf8_fix (a # s) =
     (case utf8_width (a # s) of
        0 \<Rightarrow> utf8_encode rune_error @ utf8_fix s
      | Suc n \<Rightarrow> a # take n s @ utf8_fix (drop n s))"
  by pat_completeness auto
termination by (relation "measure length") auto

lemma ascii_width: "code a < 128 \<Longrightarrow> utf8_width (a # s) = 1"
proof (cases s)
  case (Cons b t)
  assume "code a < 128"
  moreover obtain c d u where "t = [] \<or> t = [c] \<or> t = c # d # u" by (metis list.exhaust)
  ultimately show ?thesis using Cons by auto
qed simp

lemma utf8_fix_ascii: "list_all is_ascii s \<Longrightarrow> utf8_fix s = s"
  by (induction s) (auto simp: ascii_width is_ascii_def)

section \<open>The lexer\<close>

datatype json =
    JNull | JBool bool | JNum string | JStr string
  | JArr "json list" | JObj "(string \<times> json) list"

datatype token = TPunct char | TStr string | TNum string | TTrue | TFalse | TNull | TErr

text \<open>The items of a string literal: a byte, or a code unit written \<open>\uXXXX\<close>.\<close>

datatype str_item = RawByte char | CodeUnit nat

definition hex_val :: "char \<Rightarrow> nat option" where
  "hex_val c =
     (if is_digit c then Some (code c - 48)
      else if 97 \<le> code c \<and> code c \<le> 102 then Some (code c - 87)
      else if 65 \<le> code c \<and> code c \<le> 70 then Some (code c - 55)
      else None)"

definition hex4 :: "char \<Rightarrow> char \<Rightarrow> char \<Rightarrow> char \<Rightarrow> nat option" where
  "hex4 a b c d =
     (case (hex_val a, hex_val b, hex_val c, hex_val d) of
        (Some w, Some x, Some y, Some z) \<Rightarrow> Some (w * 4096 + x * 256 + y * 16 + z)
      | _ \<Rightarrow> None)"

definition escape_byte :: "char \<Rightarrow> char option" where
  "escape_byte e =
     (if e = CHR 0x22 \<or> e = CHR 0x5C \<or> e = CHR ''/'' then Some e
      else if e = CHR ''b'' then Some (char_of (8::nat))
      else if e = CHR ''f'' then Some (char_of (12::nat))
      else if e = CHR ''n'' then Some (char_of (10::nat))
      else if e = CHR ''r'' then Some (char_of (13::nat))
      else if e = CHR ''t'' then Some (char_of (9::nat))
      else None)"

text \<open>The items up to the closing quote, and the text after it.\<close>

fun scan_string :: "str_item list \<Rightarrow> string \<Rightarrow> (str_item list \<times> string) option" where
  "scan_string acc [] = None"
| "scan_string acc (c # s) =
     (if c = CHR 0x22 then Some (rev acc, s)
      else if code c < 32 then None
      else if c \<noteq> CHR 0x5C then scan_string (RawByte c # acc) s
      else (case s of
              [] \<Rightarrow> None
            | e # t \<Rightarrow>
                if e = CHR ''u'' then
                  (case t of
                     h1 # h2 # h3 # h4 # r \<Rightarrow>
                       (case hex4 h1 h2 h3 h4 of
                          None \<Rightarrow> None | Some n \<Rightarrow> scan_string (CodeUnit n # acc) r)
                   | _ \<Rightarrow> None)
                else (case escape_byte e of
                        None \<Rightarrow> None | Some b \<Rightarrow> scan_string (RawByte b # acc) t)))"

definition is_high :: "nat \<Rightarrow> bool" where
  "is_high u \<longleftrightarrow> 55296 \<le> u \<and> u < 56320"

definition is_low :: "nat \<Rightarrow> bool" where
  "is_low u \<longleftrightarrow> 56320 \<le> u \<and> u < 57344"

text \<open>\<open>unquote\<close>: a surrogate pair is one rune, a lone surrogate is U+FFFD.\<close>

fun unquote_items :: "str_item list \<Rightarrow> string" where
  "unquote_items [] = []"
| "unquote_items (RawByte c # s) = c # unquote_items s"
| "unquote_items (CodeUnit u # CodeUnit v # s) =
     (if is_high u \<and> is_low v
      then utf8_encode (65536 + (u - 55296) * 1024 + (v - 56320)) @ unquote_items s
      else if is_high u \<or> is_low u then utf8_encode rune_error @ unquote_items (CodeUnit v # s)
      else utf8_encode u @ unquote_items (CodeUnit v # s))"
| "unquote_items (CodeUnit u # s) =
     (if is_high u \<or> is_low u then utf8_encode rune_error @ unquote_items s
      else utf8_encode u @ unquote_items s)"

definition unquote :: "str_item list \<Rightarrow> string" where
  "unquote items = utf8_fix (unquote_items items)"

text \<open>The digits a text starts with.\<close>

definition digits :: "string \<Rightarrow> string" where
  "digits s = takeWhile is_digit s"

definition after_digits :: "string \<Rightarrow> string" where
  "after_digits s = dropWhile is_digit s"

definition scan_int :: "string \<Rightarrow> string option" where
  "scan_int s =
     (case s of
        [] \<Rightarrow> None
      | c # t \<Rightarrow> if \<not> is_digit c then None else if c = CHR ''0'' then Some t else Some (after_digits s))"

definition scan_frac :: "string \<Rightarrow> string option" where
  "scan_frac s =
     (case s of
        [] \<Rightarrow> Some s
      | c # t \<Rightarrow> if c \<noteq> CHR ''.'' then Some s else if digits t = [] then None else Some (after_digits t))"

definition json_space :: "char \<Rightarrow> bool" where
  "json_space c \<longleftrightarrow> code c \<in> {9, 10, 13, 32}"

lemma scan_string_shorter:
  "scan_string acc s = Some (items, r) \<Longrightarrow> length r < length s"
  by (induction acc s rule: scan_string.induct) (force split: if_splits list.splits option.splits)+

lemma digits_after: "digits s @ after_digits s = s"
  by (simp add: digits_def after_digits_def)

lemma after_digits_length: "length (after_digits s) \<le> length s"
  by (simp add: after_digits_def length_dropWhile_le)

lemma scan_int_shorter: "scan_int s = Some r \<Longrightarrow> length r < length s"
  using length_dropWhile_le [of is_digit]
  by (cases s) (auto simp: scan_int_def after_digits_def less_Suc_eq_le split: if_splits)

lemma scan_frac_le: "scan_frac s = Some r \<Longrightarrow> length r \<le> length s"
  using after_digits_length
  by (cases s) (auto simp: scan_frac_def le_SucI split: if_splits)

definition skip_sign :: "string \<Rightarrow> string" where
  "skip_sign t = (case t of [] \<Rightarrow> t | d # v \<Rightarrow> if d = CHR ''+'' \<or> d = CHR ''-'' then v else t)"

lemma skip_sign_length: "length (skip_sign t) \<le> length t"
  by (cases t) (simp_all add: skip_sign_def)

definition scan_exp :: "string \<Rightarrow> string option" where
  "scan_exp s =
     (case s of
        [] \<Rightarrow> Some s
      | c # t \<Rightarrow>
          if c \<noteq> CHR ''e'' \<and> c \<noteq> CHR ''E'' then Some s
          else if digits (skip_sign t) = [] then None else Some (after_digits (skip_sign t)))"

lemma scan_exp_le: "scan_exp s = Some r \<Longrightarrow> length r \<le> length s"
proof (cases s)
  case (Cons c t)
  assume "scan_exp s = Some r"
  then have "r = s \<or> r = after_digits (skip_sign t)"
    using Cons by (simp add: scan_exp_def split: if_splits)
  then show ?thesis
    using after_digits_length [of "skip_sign t"] skip_sign_length [of t] Cons by auto
qed (simp add: scan_exp_def)

definition scan_number :: "string \<Rightarrow> string option" where
  "scan_number s =
     (let s0 = (case s of [] \<Rightarrow> s | c # t \<Rightarrow> if c = CHR ''-'' then t else s)
      in (case scan_int s0 of None \<Rightarrow> None
          | Some s1 \<Rightarrow> (case scan_frac s1 of None \<Rightarrow> None | Some s2 \<Rightarrow> scan_exp s2)))"

lemma scan_number_shorter: "scan_number s = Some r \<Longrightarrow> length r < length s"
proof -
  assume *: "scan_number s = Some r"
  let ?s0 = "case s of [] \<Rightarrow> s | c # t \<Rightarrow> if c = CHR ''-'' then t else s"
  obtain s1 s2 where "scan_int ?s0 = Some s1" "scan_frac s1 = Some s2" "scan_exp s2 = Some r"
    using * by (auto simp: scan_number_def Let_def split: option.splits)
  moreover have "length ?s0 \<le> length s" by (cases s) auto
  ultimately show ?thesis
    using scan_int_shorter [of ?s0 s1] scan_frac_le [of s1 s2] scan_exp_le [of s2 r] by linarith
qed

definition json_punct :: "char \<Rightarrow> bool" where
  "json_punct c \<longleftrightarrow> c \<in> set ''{}[]:,''"

function lex :: "string \<Rightarrow> token list" where
  "lex [] = []"
| "lex (c # s) =
     (if json_space c then lex s
      else if json_punct c then TPunct c # lex s
      else if c = CHR 0x22 then
        (case scan_string [] s of None \<Rightarrow> [TErr] | Some (items, r) \<Rightarrow> TStr (unquote items) # lex r)
      else if c = CHR ''-'' \<or> is_digit c then
        (case scan_number (c # s) of
           None \<Rightarrow> [TErr]
         | Some r \<Rightarrow> TNum (take (length (c # s) - length r) (c # s)) # lex r)
      else if has_prefix ''true'' (c # s) then TTrue # lex (drop 3 s)
      else if has_prefix ''false'' (c # s) then TFalse # lex (drop 4 s)
      else if has_prefix ''null'' (c # s) then TNull # lex (drop 3 s)
      else [TErr])"
  by pat_completeness auto
termination
proof (relation "measure length", goal_cases)
  case (4 c s p items r)
  then show ?case using scan_string_shorter [of "[]" s items r] by simp
next
  case (5 c s r)
  then show ?case using scan_number_shorter [of "c # s" r] by simp
qed simp_all

section \<open>The parser\<close>

text \<open>
  A frame is an open array (its values, last first) or an open object (its members, last first,
  and the key that waits for its value). A mode is what may come next.
\<close>

datatype frame = InArr "json list" | InObj "(string \<times> json) list" string

datatype pmode = WantValue bool | WantKey bool | WantColon | AfterValue

datatype pstep = Fail | Done json | More pmode "frame list"

definition max_nesting_depth :: nat where
  "max_nesting_depth = 10000"

definition finish :: "json \<Rightarrow> frame list \<Rightarrow> pstep" where
  "finish v fs =
     (case fs of
        [] \<Rightarrow> Done v
      | InArr vs # gs \<Rightarrow> More AfterValue (InArr (v # vs) # gs)
      | InObj ms k # gs \<Rightarrow> More AfterValue (InObj ((k, v) # ms) [] # gs))"

definition push_frame :: "frame \<Rightarrow> pmode \<Rightarrow> frame list \<Rightarrow> pstep" where
  "push_frame f m fs = (if length fs < max_nesting_depth then More m (f # fs) else Fail)"

definition close_arr :: "frame list \<Rightarrow> pstep" where
  "close_arr fs = (case fs of InArr vs # gs \<Rightarrow> finish (JArr (rev vs)) gs | _ \<Rightarrow> Fail)"

definition close_obj :: "frame list \<Rightarrow> pstep" where
  "close_obj fs = (case fs of InObj ms k # gs \<Rightarrow> finish (JObj (rev ms)) gs | _ \<Rightarrow> Fail)"

definition value_step :: "bool \<Rightarrow> frame list \<Rightarrow> token \<Rightarrow> pstep" where
  "value_step may_close fs t =
     (case t of
        TPunct c \<Rightarrow>
          if c = CHR ''['' then push_frame (InArr []) (WantValue True) fs
          else if c = CHR ''{'' then push_frame (InObj [] []) (WantKey True) fs
          else if c = CHR '']'' \<and> may_close then close_arr fs
          else Fail
      | TStr s \<Rightarrow> finish (JStr s) fs
      | TNum n \<Rightarrow> finish (JNum n) fs
      | TTrue \<Rightarrow> finish (JBool True) fs
      | TFalse \<Rightarrow> finish (JBool False) fs
      | TNull \<Rightarrow> finish JNull fs
      | TErr \<Rightarrow> Fail)"

definition key_step :: "bool \<Rightarrow> frame list \<Rightarrow> token \<Rightarrow> pstep" where
  "key_step may_close fs t =
     (case t of
        TStr k \<Rightarrow> (case fs of InObj ms j # gs \<Rightarrow> More WantColon (InObj ms k # gs) | _ \<Rightarrow> Fail)
      | TPunct c \<Rightarrow> if c = CHR ''}'' \<and> may_close then close_obj fs else Fail
      | _ \<Rightarrow> Fail)"

definition after_step :: "frame list \<Rightarrow> token \<Rightarrow> pstep" where
  "after_step fs t =
     (case t of
        TPunct c \<Rightarrow>
          if c = CHR '','' then
            (case fs of InArr vs # gs \<Rightarrow> More (WantValue False) fs
             | InObj ms k # gs \<Rightarrow> More (WantKey False) fs | [] \<Rightarrow> Fail)
          else if c = CHR '']'' then close_arr fs
          else if c = CHR ''}'' then close_obj fs
          else Fail
      | _ \<Rightarrow> Fail)"

definition json_step :: "pmode \<Rightarrow> frame list \<Rightarrow> token \<Rightarrow> pstep" where
  "json_step m fs t =
     (case m of
        WantValue may_close \<Rightarrow> value_step may_close fs t
      | WantKey may_close \<Rightarrow> key_step may_close fs t
      | WantColon \<Rightarrow> if t = TPunct (CHR '':'') then More (WantValue False) fs else Fail
      | AfterValue \<Rightarrow> after_step fs t)"

fun parse_tokens :: "pmode \<Rightarrow> frame list \<Rightarrow> token list \<Rightarrow> (json \<times> token list) option" where
  "parse_tokens m fs [] = None"
| "parse_tokens m fs (t # ts) =
     (case json_step m fs t of
        Fail \<Rightarrow> None
      | Done v \<Rightarrow> Some (v, ts)
      | More m' fs' \<Rightarrow> parse_tokens m' fs' ts)"

text \<open>\<open>Decoder.Decode\<close>: the first value and what follows; \<open>Unmarshal\<close>: a single value.\<close>

definition json_decode_first :: "string \<Rightarrow> (json \<times> token list) option" where
  "json_decode_first s = parse_tokens (WantValue False) [] (lex s)"

definition json_unmarshal :: "string \<Rightarrow> json option" where
  "json_unmarshal s =
     (case json_decode_first s of Some (v, []) \<Rightarrow> Some v | _ \<Rightarrow> None)"

text \<open>The members of an object decoded into a map: the last of equal names wins.\<close>

definition members_map :: "(string \<times> json) list \<Rightarrow> string \<rightharpoonup> json" where
  "members_map ms = map_of (rev ms)"

section \<open>Structs\<close>

text \<open>
  The folding of a name: ASCII letters to upper case, and the two other characters whose simple
  folding is an ASCII letter, U+017F (long s) and U+212A (Kelvin sign).
\<close>

fun fold_name :: "string \<Rightarrow> string" where
  "fold_name (a # b # c # s) =
     (if code a = 197 \<and> code b = 191 then CHR ''S'' # fold_name (c # s)
      else if code a = 226 \<and> code b = 132 \<and> code c = 170 then CHR ''K'' # fold_name s
      else upper_char a # fold_name (b # c # s))"
| "fold_name [a, b] =
     (if code a = 197 \<and> code b = 191 then [CHR ''S''] else upper_char a # fold_name [b])"
| "fold_name [a] = [upper_char a]"
| "fold_name [] = []"

definition field_for :: "string list \<Rightarrow> string \<Rightarrow> string option" where
  "field_for fields k =
     (if k \<in> set fields then Some k else List.find (\<lambda>f. fold_name f = fold_name k) fields)"

text \<open>The values the members give a field, in their order.\<close>

definition field_values :: "string list \<Rightarrow> (string \<times> json) list \<Rightarrow> string \<Rightarrow> json list" where
  "field_values fields ms f = map snd (filter (\<lambda>m. field_for fields (fst m) = Some f) ms)"

text \<open>The value a field ends with; \<open>None\<close> is a type error.\<close>

fun decode_with :: "(json \<Rightarrow> 'a option) \<Rightarrow> 'a \<Rightarrow> json list \<Rightarrow> 'a option" where
  "decode_with f old [] = Some old"
| "decode_with f old (v # vs) =
     (if v = JNull then decode_with f old vs
      else (case f v of None \<Rightarrow> None | Some x \<Rightarrow> decode_with f x vs))"

definition as_string :: "json \<Rightarrow> string option" where
  "as_string v = (case v of JStr s \<Rightarrow> Some s | _ \<Rightarrow> None)"

definition as_bool :: "json \<Rightarrow> bool option" where
  "as_bool v = (case v of JBool b \<Rightarrow> Some b | _ \<Rightarrow> None)"

definition as_int64 :: "json \<Rightarrow> int option" where
  "as_int64 v = (case v of JNum n \<Rightarrow> atoi n | _ \<Rightarrow> None)"

text \<open>The members of a value decoded into a struct: \<open>null\<close> is a struct left as it was.\<close>

definition struct_members :: "json \<Rightarrow> (string \<times> json) list option" where
  "struct_members v = (case v of JObj ms \<Rightarrow> Some ms | JNull \<Rightarrow> Some [] | _ \<Rightarrow> None)"

definition array_values :: "json \<Rightarrow> json list option" where
  "array_values v = (case v of JArr vs \<Rightarrow> Some vs | JNull \<Rightarrow> Some [] | _ \<Rightarrow> None)"

section \<open>Properties\<close>

text \<open>The tokens of a value, and that the parser reads exactly that value back.\<close>

fun tokens :: "json \<Rightarrow> token list"
  and tokens_list :: "json list \<Rightarrow> token list"
  and tokens_members :: "(string \<times> json) list \<Rightarrow> token list" where
  "tokens JNull = [TNull]"
| "tokens (JBool b) = [if b then TTrue else TFalse]"
| "tokens (JNum n) = [TNum n]"
| "tokens (JStr s) = [TStr s]"
| "tokens (JArr vs) = TPunct (CHR ''['') # tokens_list vs @ [TPunct (CHR '']'')]"
| "tokens (JObj ms) = TPunct (CHR ''{'') # tokens_members ms @ [TPunct (CHR ''}'')]"
| "tokens_list [] = []"
| "tokens_list (v # vs) =
     tokens v @ (if vs = [] then [] else TPunct (CHR '','') # tokens_list vs)"
| "tokens_members [] = []"
| "tokens_members (m # ms) =
     TStr (fst m) # TPunct (CHR '':'') # tokens (snd m) @
     (if ms = [] then [] else TPunct (CHR '','') # tokens_members ms)"

fun depth :: "json \<Rightarrow> nat"
  and depth_list :: "json list \<Rightarrow> nat"
  and depth_members :: "(string \<times> json) list \<Rightarrow> nat" where
  "depth (JArr vs) = Suc (depth_list vs)"
| "depth (JObj ms) = Suc (depth_members ms)"
| "depth _ = 0"
| "depth_list [] = 0"
| "depth_list (v # vs) = max (depth v) (depth_list vs)"
| "depth_members [] = 0"
| "depth_members (m # ms) = max (depth (snd m)) (depth_members ms)"

definition resume :: "pstep \<Rightarrow> token list \<Rightarrow> (json \<times> token list) option" where
  "resume p ts =
     (case p of Fail \<Rightarrow> None | Done v \<Rightarrow> Some (v, ts) | More m fs \<Rightarrow> parse_tokens m fs ts)"

lemma parse_tokens_resume: "parse_tokens m fs (t # ts) = resume (json_step m fs t) ts"
  by (simp add: resume_def)

lemmas step_defs = json_step_def value_step_def key_step_def after_step_def push_frame_def
  close_arr_def close_obj_def

lemma resume_More [simp]: "resume (More m fs) ts = parse_tokens m fs ts"
  by (simp add: resume_def)

lemma finish_frames [simp]:
  "finish v (InArr vs # gs) = More AfterValue (InArr (v # vs) # gs)"
  "finish v (InObj ms k # gs) = More AfterValue (InObj ((k, v) # ms) [] # gs)"
  by (simp_all add: finish_def)

declare parse_tokens.simps(2) [simp del]

lemma parse_tokens_tokens:
  "length fs + depth v \<le> max_nesting_depth \<Longrightarrow>
     parse_tokens (WantValue b) fs (tokens v @ ts) = resume (finish v fs) ts"
  "vs \<noteq> [] \<Longrightarrow> length fs + depth_list vs < max_nesting_depth \<Longrightarrow>
     parse_tokens (WantValue b) (InArr acc # fs) (tokens_list vs @ TPunct (CHR '']'') # ts) =
       resume (finish (JArr (rev acc @ vs)) fs) ts"
  "ms \<noteq> [] \<Longrightarrow> length fs + depth_members ms < max_nesting_depth \<Longrightarrow>
     parse_tokens (WantKey b) (InObj macc k # fs) (tokens_members ms @ TPunct (CHR ''}'') # ts) =
       resume (finish (JObj (rev macc @ ms)) fs) ts"
proof (induction v and vs and ms arbitrary: fs b ts and fs b acc ts and fs b macc k ts
    rule: tokens_tokens_list_tokens_members.induct)
  case (5 vs)
  then show ?case
    by (cases "vs = []") (simp_all add: parse_tokens_resume step_defs)
next
  case (6 ms)
  then show ?case
    by (cases "ms = []") (simp_all add: parse_tokens_resume step_defs)
next
  case (8 v vs)
  then show ?case
    by (cases "vs = []") (simp_all add: parse_tokens_resume step_defs)
next
  case (10 m ms)
  then show ?case
    by (cases "ms = []") (simp_all add: parse_tokens_resume step_defs)
qed (simp_all add: parse_tokens_resume step_defs)

lemma parse_tokens_roundtrip:
  "depth v \<le> max_nesting_depth \<Longrightarrow> parse_tokens (WantValue False) [] (tokens v @ ts) = Some (v, ts)"
  using parse_tokens_tokens(1) [of "[]" v False ts] by (simp add: resume_def finish_def)

end
