(* ===== verification/GoMime.thy ===== *)
theory GoMime
  imports CkErrors
begin

text \<open>
  \<open>mime.ParseMediaType\<close>: the media type of a \<open>Content-Type\<close> header, with the errors of its
  parameters. The values of the parameters are not used by the code and only kept to find
  conflicting duplicates.
\<close>

definition t_special :: "char \<Rightarrow> bool" where
  "t_special c \<longleftrightarrow> c \<in> set ''()<>@,;:/[]?='' \<or> c = CHR 0x5C \<or> c = CHR 0x22"

definition token_char :: "char \<Rightarrow> bool" where
  "token_char c \<longleftrightarrow> 32 < code c \<and> code c < 127 \<and> \<not> t_special c"

definition consume_token :: "string \<Rightarrow> string \<times> string" where
  "consume_token s = (takeWhile token_char s, dropWhile token_char s)"

definition check_media_type :: "string \<Rightarrow> bool" where
  "check_media_type s =
     (case consume_token s of (typ, rest) \<Rightarrow>
        typ \<noteq> [] \<and>
        (rest = [] \<or>
          (hd rest = CHR ''/'' \<and>
            (case consume_token (tl rest) of (subtype, rest') \<Rightarrow> subtype \<noteq> [] \<and> rest' = []))))"

text \<open>The rest of a quoted string and the text after the closing quote.\<close>

fun consume_quoted :: "string \<Rightarrow> string \<Rightarrow> (string \<times> string) option" where
  "consume_quoted acc [] = None"
| "consume_quoted acc (r # s) =
     (if r = CHR 0x22 then Some (rev acc, s)
      else (case s of
              e # t \<Rightarrow>
                if r = CHR 0x5C \<and> t_special e then consume_quoted (e # acc) t
                else if code r = 13 \<or> code r = 10 then None
                else consume_quoted (r # acc) s
            | [] \<Rightarrow> None))"

definition consume_value :: "string \<Rightarrow> string \<times> string" where
  "consume_value v =
     (case v of
        [] \<Rightarrow> ([], [])
      | c # s \<Rightarrow>
          if c \<noteq> CHR 0x22 then consume_token v
          else (case consume_quoted [] s of None \<Rightarrow> ([], v) | Some r \<Rightarrow> r))"

text \<open>A parameter: its name, its value and the text after it; no name means a parse error.\<close>

definition consume_media_param :: "string \<Rightarrow> (string \<times> string \<times> string) option" where
  "consume_media_param v =
     (case trim_left v of
        [] \<Rightarrow> None
      | c # s \<Rightarrow>
          if c \<noteq> CHR '';'' then None
          else (case consume_token (trim_left s) of (param, rest) \<Rightarrow>
            if param = [] then None
            else (case trim_left rest of
                    [] \<Rightarrow> None
                  | e # u \<Rightarrow>
                      if e \<noteq> CHR ''='' then None
                      else (case consume_value (trim_left u) of (value, rest2) \<Rightarrow>
                        if value = [] \<and> rest2 = trim_left u then None
                        else Some (map lower_char param, value, rest2)))))"

datatype media_error = NoMediaType | InvalidMediaParameter

lemma trim_left_length: "length (trim_left s) \<le> length s"
proof -
  obtain t where "s = t @ trim_left s" using trim_by_suffix unfolding trim_left_def by blast
  then show ?thesis by (metis length_append le_add2)
qed

lemma consume_token_length: "length (snd (consume_token s)) \<le> length s"
  by (simp add: consume_token_def length_dropWhile_le)

lemma consume_quoted_length: "consume_quoted acc s = Some (x, r) \<Longrightarrow> length r < length s"
  by (induction acc s rule: consume_quoted.induct) (auto split: if_splits list.splits)

lemma consume_value_length: "length (snd (consume_value s)) \<le> length s"
proof (cases s)
  case (Cons c t)
  then show ?thesis
    using consume_token_length [of s] consume_quoted_length [of "[]" t]
    by (cases "consume_quoted [] t") (auto simp: consume_value_def less_Suc_eq_le less_imp_le split: prod.splits)
qed (simp add: consume_value_def)

lemma consume_media_param_shorter:
  assumes "consume_media_param v = Some (p, x, r)"
  shows "length r < length v"
proof -
  from assms obtain c s where v: "trim_left v = c # s"
    by (auto simp: consume_media_param_def split: list.splits)
  with assms obtain e u where "trim_left (snd (consume_token (trim_left s))) = e # u"
    "r = snd (consume_value (trim_left u))"
    by (auto simp: consume_media_param_def split: list.splits if_splits prod.splits)
  then show ?thesis
    using v trim_left_length [of v] trim_left_length [of s] consume_token_length [of "trim_left s"]
      trim_left_length [of "snd (consume_token (trim_left s))"] trim_left_length [of u]
      consume_value_length [of "trim_left u"] by simp
qed

text \<open>
  The loop over the parameters. A name with an asterisk belongs to a continuation and is kept
  apart by its base name; since that is a prefix of the name, one association list holds them all.
\<close>

function media_params :: "(string \<times> string) list \<Rightarrow> string \<Rightarrow> media_error option" where
  "media_params seen v0 =
     (let v = trim_left v0 in
      if v = [] then None
      else (case consume_media_param v of
              None \<Rightarrow> if trim_space v = '';'' then None else Some InvalidMediaParameter
            | Some (key, value, rest) \<Rightarrow>
                (case map_of seen key of
                   Some old \<Rightarrow> if old \<noteq> value then Some NoMediaType
                               else media_params ((key, value) # seen) rest
                 | None \<Rightarrow> media_params ((key, value) # seen) rest)))"
  by pat_completeness auto
termination
  by (relation "measure (length \<circ> snd)")
    (auto dest!: consume_media_param_shorter intro: less_le_trans trim_left_length)

declare media_params.simps [simp del]

text \<open>The media type and the error: a bad parameter leaves the type, other errors empty it.\<close>

definition parse_media_type :: "libs \<Rightarrow> string \<Rightarrow> string \<times> media_error option" where
  "parse_media_type L v =
     (let base = takeWhile (\<lambda>c. c \<noteq> CHR '';'') v;
          mediatype = trim_space (to_lower L base)
      in if \<not> check_media_type mediatype then ([], Some NoMediaType)
         else (case media_params [] (drop (length base) v) of
                 None \<Rightarrow> (mediatype, None)
               | Some NoMediaType \<Rightarrow> ([], Some NoMediaType)
               | Some InvalidMediaParameter \<Rightarrow> (mediatype, Some InvalidMediaParameter)))"

end
