(* ===== verification/HttpCommon.thy ===== *)
theory HttpCommon
  imports JwtAdapter GoJson GoMime
begin

text \<open>
  Requests and responses of the HTTP layer, and \<open>api/common\<close>: the JWT middleware and the decoding
  of a JSON Merge Patch body. What the Echo framework computes for a handler (path and query
  parameters, \<open>Bind\<close>) is a field of the request or a parameter.
\<close>

section \<open>Requests and responses\<close>

text \<open>
  \<open>rq_header\<close>, \<open>rq_param\<close> and \<open>rq_query\<close> are \<open>Header.Get\<close>, \<open>c.Param\<close> and \<open>c.QueryParam\<close>: the empty
  text when absent.
\<close>

record request =
  rq_header :: "string \<Rightarrow> string"
  rq_param :: "string \<Rightarrow> string"
  rq_query :: "string \<Rightarrow> string"
  rq_body :: string

text \<open>
  \<^item> \<open>wb_bind\<close>: \<open>c.Bind\<close> of a request to a struct of string fields with these JSON names; a field it
    does not set is absent;
  \<^item> \<open>wb_time_json\<close>: the JSON text of a time (\<open>Time.MarshalJSON\<close> in the zone of the server).
\<close>

record web =
  wb_bind :: "request \<Rightarrow> string list \<Rightarrow> goerr + (string \<rightharpoonup> string)"
  wb_time_json :: "instant \<Rightarrow> string"

datatype response =
    HTTPError nat string
  | Redirect nat string
  | JSON nat json
  | NoContent nat
  | Panic

text \<open>The values the middleware sets on the context.\<close>

record ctx =
  cx_sub :: "string option"
  cx_email :: "string option"
  cx_role :: "string option"

definition empty_ctx :: ctx where
  "empty_ctx = \<lparr>cx_sub = None, cx_email = None, cx_role = None\<rparr>"

type_synonym handler = "ctx \<Rightarrow> request \<Rightarrow> world \<Rightarrow> response \<times> world"

fun status :: "response \<Rightarrow> nat" where
  "status (HTTPError n m) = n"
| "status (Redirect n u) = n"
| "status (JSON n v) = n"
| "status (NoContent n) = n"
| "status Panic = 500"

text \<open>The text of an \<open>*echo.HTTPError\<close> used as an error.\<close>

definition http_error_text :: "nat \<Rightarrow> string \<Rightarrow> string" where
  "http_error_text n m = ''code='' @ nat_dec n @ '', message='' @ m"

text \<open>A struct field that Go marshals as \<open>null\<close> or, with \<open>omitempty\<close>, leaves out.\<close>

definition opt_json :: "string option \<Rightarrow> json" where
  "opt_json v = (case v of None \<Rightarrow> JNull | Some s \<Rightarrow> JStr s)"

definition omit_empty :: "string \<Rightarrow> string option \<Rightarrow> (string \<times> json) list" where
  "omit_empty k v = (case v of None \<Rightarrow> [] | Some s \<Rightarrow> [(k, JStr s)])"

text \<open>A string field of a bound request.\<close>

definition bound :: "(string \<rightharpoonup> string) \<Rightarrow> string \<Rightarrow> string" where
  "bound m k = (case m k of None \<Rightarrow> [] | Some s \<Rightarrow> s)"

section \<open>The JWT middleware\<close>

definition is_admin_ctx :: "ctx \<Rightarrow> bool" where
  "is_admin_ctx c \<longleftrightarrow> (case cx_role c of None \<Rightarrow> [] | Some r \<Rightarrow> r) = ''admin''"

definition unauthorized_response :: response where
  "unauthorized_response = HTTPError 401 (sentinel_text ErrUnauthorized)"

definition jwt_middleware :: "jwt_manager \<Rightarrow> handler \<Rightarrow> handler" where
  "jwt_middleware J next c r w =
     (let header = rq_header r ''Authorization'' in
      if header = [] \<or> \<not> has_prefix ''Bearer '' header then (unauthorized_response, w)
      else (case jm_validate J (trim_prefix ''Bearer '' header) w of
              (Inl e, w1) \<Rightarrow> (unauthorized_response, w1)
            | (Inr cl, w1) \<Rightarrow>
                next (c\<lparr>cx_sub := Some (cl_subject cl), cx_email := Some (cl_email cl),
                        cx_role := Some (cl_role cl)\<rparr>) r w1))"

lemma jwt_middleware_cases:
  obtains (Refused) w1 where "jwt_middleware J next c r w = (unauthorized_response, w1)"
      "w_db w1 = w_db w \<or> (\<exists>t e. jm_validate J t w = (Inl e, w1))"
  | (Passed) t cl w1 where "rq_header r ''Authorization'' = ''Bearer '' @ t"
      "jm_validate J t w = (Inr cl, w1)"
      "jwt_middleware J next c r w =
         next (c\<lparr>cx_sub := Some (cl_subject cl), cx_email := Some (cl_email cl),
                 cx_role := Some (cl_role cl)\<rparr>) r w1"
proof (cases "has_prefix ''Bearer '' (rq_header r ''Authorization'')")
  case False
  then have "jwt_middleware J next c r w = (unauthorized_response, w)"
    by (simp add: jwt_middleware_def)
  then show thesis by (rule Refused) simp
next
  case True
  then obtain t where t: "rq_header r ''Authorization'' = ''Bearer '' @ t"
    by (auto simp: has_prefix_iff)
  obtain v w1 where v: "jm_validate J t w = (v, w1)" by (cases "jm_validate J t w")
  have run: "jwt_middleware J next c r w = (case jm_validate J t w of
      (Inl e, w1) \<Rightarrow> (unauthorized_response, w1)
    | (Inr cl, w1) \<Rightarrow> next (c\<lparr>cx_sub := Some (cl_subject cl), cx_email := Some (cl_email cl),
        cx_role := Some (cl_role cl)\<rparr>) r w1)"
    using trim_prefix_append [of "''Bearer ''" t] has_prefix_append [of "''Bearer ''" t]
    by (simp add: jwt_middleware_def t Let_def)
  show thesis
  proof (cases v)
    case (Inl e)
    with run v show thesis by (intro Refused [of w1]) auto
  next
    case (Inr cl)
    with run v t show thesis by (intro Passed [of t cl w1]) simp_all
  qed
qed

section \<open>JSON Merge Patch bodies\<close>

definition merge_patch_type :: string where
  "merge_patch_type = ''application/merge-patch+json''"

definition decode_merge_patch :: "libs \<Rightarrow> request \<Rightarrow> response + (string \<times> json) list" where
  "decode_merge_patch L r =
     (case parse_media_type L (rq_header r ''Content-Type'') of (mediatype, err) \<Rightarrow>
        if err \<noteq> None \<or> (mediatype \<noteq> merge_patch_type \<and> mediatype \<noteq> ''application/json'')
        then Inl (HTTPError 415 (''content type must be '' @ merge_patch_type @ '' or application/json''))
        else (case json_decode_first (rq_body r) of
                None \<Rightarrow> Inl (HTTPError 400 ''request body must be a JSON object'')
              | Some (raw, rest) \<Rightarrow>
                  if rest \<noteq> [] then Inl (HTTPError 400 ''request body must contain a single JSON object'')
                  else (case raw of
                          JObj ms \<Rightarrow> Inr ms
                        | _ \<Rightarrow> Inl (HTTPError 400 ''request body must be a JSON object''))))"

lemma decode_merge_patch_ok:
  "decode_merge_patch L r = Inr ms \<longleftrightarrow>
     (\<exists>m. parse_media_type L (rq_header r ''Content-Type'') = (m, None) \<and>
        (m = merge_patch_type \<or> m = ''application/json'')) \<and>
     json_unmarshal (rq_body r) = Some (JObj ms)"
  by (auto simp: decode_merge_patch_def json_unmarshal_def split: prod.splits option.splits
      json.splits list.splits if_splits)

lemma decode_merge_patch_error:
  "decode_merge_patch L r = Inl e \<Longrightarrow> status e = 415 \<or> status e = 400"
  by (auto simp: decode_merge_patch_def split: prod.splits option.splits json.splits if_splits)

end
