(* ===== verification/PgRows.thy ===== *)
theory PgRows
  imports World
begin

text \<open>
  How the repositories read rows (\<open>scanUser\<close>, \<open>scanPAT\<close>, \<open>scanProfile\<close>, \<open>scanProfileListItem\<close> in
  \<open>infrastructure/postgres\<close>): a statement answers with the columns of its \<open>SELECT\<close> or \<open>RETURNING\<close> list,
  in that order, and \<open>Scan\<close> assigns them by position. That every list agrees with its scan is the
  contract \<open>row_reader\<close>, interpreted on the four of them.
\<close>

section \<open>Columns and scans\<close>

datatype col = CNull | CUuid uuid | CText string | CTime instant | CDate date | CJsonb "string \<rightharpoonup> string"

text \<open>
  The destinations of \<open>Scan\<close>: a variable holds no \<open>NULL\<close>, a pointer does. A value that its
  destination cannot hold is an error of the driver.
\<close>

definition scanned :: "'a option \<Rightarrow> goerr + 'a" where
  "scanned r = (case r of None \<Rightarrow> Inl (Msg [Txt ''can not scan into dest'']) | Some x \<Rightarrow> Inr x)"

definition text_col :: "string option \<Rightarrow> col" where
  "text_col v = (case v of None \<Rightarrow> CNull | Some s \<Rightarrow> CText s)"

fun uuid_val :: "col \<Rightarrow> uuid option" where
  "uuid_val (CUuid u) = Some u"
| "uuid_val _ = None"

fun text_val :: "col \<Rightarrow> string option" where
  "text_val (CText s) = Some s"
| "text_val _ = None"

fun time_val :: "col \<Rightarrow> instant option" where
  "time_val (CTime t) = Some t"
| "time_val _ = None"

fun jsonb_val :: "col \<Rightarrow> (string \<rightharpoonup> string) option" where
  "jsonb_val (CJsonb m) = Some m"
| "jsonb_val _ = None"

fun text_ptr :: "col \<Rightarrow> string option option" where
  "text_ptr CNull = Some None"
| "text_ptr (CText s) = Some (Some s)"
| "text_ptr _ = None"

fun time_ptr :: "col \<Rightarrow> instant option option" where
  "time_ptr CNull = Some None"
| "time_ptr (CTime t) = Some (Some t)"
| "time_ptr _ = None"

fun date_ptr :: "col \<Rightarrow> date option option" where
  "date_ptr CNull = Some None"
| "date_ptr (CDate d) = Some (Some d)"
| "date_ptr _ = None"

lemma ptr_cols [simp]:
  "text_ptr (text_col v) = Some v"
  "time_ptr (case t of None \<Rightarrow> CNull | Some x \<Rightarrow> CTime x) = Some t"
  "date_ptr (case d of None \<Rightarrow> CNull | Some x \<Rightarrow> CDate x) = Some d"
  by (simp_all add: text_col_def split: option.split)

section \<open>Reading the rows of a statement\<close>

text \<open>One row, or all of them; an error of a scan ends the reading.\<close>

definition query_row ::
  "(col list \<Rightarrow> goerr + 'b) \<Rightarrow> ('a \<Rightarrow> string \<Rightarrow> col) \<Rightarrow> string list \<Rightarrow> ('a, 's) go \<Rightarrow> ('b, 's) go" where
  "query_row scan column select r = and_then r (\<lambda>row w. (scan (map (column row) select), w))"

fun scan_rows :: "(col list \<Rightarrow> goerr + 'b) \<Rightarrow> ('a \<Rightarrow> string \<Rightarrow> col) \<Rightarrow> string list \<Rightarrow> 'a list \<Rightarrow> goerr + 'b list" where
  "scan_rows scan column select [] = Inr []"
| "scan_rows scan column select (row # rows) =
     (case scan (map (column row) select) of
        Inl e \<Rightarrow> Inl e
      | Inr x \<Rightarrow> (case scan_rows scan column select rows of Inl e \<Rightarrow> Inl e | Inr xs \<Rightarrow> Inr (x # xs)))"

locale row_reader =
  fixes scan :: "col list \<Rightarrow> goerr + 'b" and column :: "'a \<Rightarrow> string \<Rightarrow> col"
    and select :: "string list" and dest :: "'a \<Rightarrow> 'b"
  assumes scan_row: "scan (map (column row) select) = Inr (dest row)"
begin

lemma query_row_ok: "query_row scan column select (Inr row, w) = (Inr (dest row), w)"
  by (simp add: query_row_def scan_row)

lemma query_row_eq: "query_row scan column select r = and_then r (\<lambda>row w. (Inr (dest row), w))"
  by (simp add: query_row_def scan_row)

lemma scan_rows_ok: "scan_rows scan column select rows = Inr (map dest rows)"
  by (induction rows) (simp_all add: scan_row)

end

lemma map_err_reads [simp]:
  "map_err g (and_then r (\<lambda>x w. (Inr (f x), w))) = and_then (map_err g r) (\<lambda>x w. (Inr (f x), w))"
  by (cases r; cases "fst r") auto

section \<open>Users\<close>

definition user_select :: "string list" where
  "user_select = [''id'', ''email'', ''name'', ''role'', ''provider'', ''provider_id'', ''created_at'', ''updated_at'']"

definition user_column :: "user \<Rightarrow> string \<Rightarrow> col" where
  "user_column u c =
     (if c = ''id'' then CUuid (u_id u) else if c = ''email'' then CText (u_email u)
      else if c = ''name'' then CText (u_name u) else if c = ''role'' then CText (u_role u)
      else if c = ''provider'' then CText (u_provider u) else if c = ''provider_id'' then CText (u_provider_id u)
      else if c = ''created_at'' then CTime (u_created_at u) else if c = ''updated_at'' then CTime (u_updated_at u)
      else CNull)"

definition scan_user :: "col list \<Rightarrow> goerr + user" where
  "scan_user cs = scanned (case cs of
     [c1, c2, c3, c4, c5, c6, c7, c8] \<Rightarrow>
       Option.bind (uuid_val c1) (\<lambda>i. Option.bind (text_val c2) (\<lambda>e. Option.bind (text_val c3) (\<lambda>n.
       Option.bind (text_val c4) (\<lambda>r. Option.bind (text_val c5) (\<lambda>p. Option.bind (text_val c6) (\<lambda>pid.
       Option.bind (time_val c7) (\<lambda>created. Option.bind (time_val c8) (\<lambda>updated.
         Some \<lparr>u_id = i, u_email = e, u_name = n, u_role = r, u_provider = p, u_provider_id = pid,
               u_created_at = created, u_updated_at = updated\<rparr>))))))))
   | _ \<Rightarrow> None)"

interpretation user_rows: row_reader scan_user user_column user_select "\<lambda>u. u"
  by unfold_locales (simp add: scan_user_def scanned_def user_select_def user_column_def)

lemma query_user [simp]: "query_row scan_user user_column user_select r = r"
  unfolding user_rows.query_row_eq by (cases r; cases "fst r") auto

section \<open>Tokens\<close>

definition pat_select :: "string list" where
  "pat_select = [''id'', ''user_id'', ''key_hash'', ''salt'', ''expires_at'', ''created_at'']"

definition pat_column :: "pat \<Rightarrow> string \<Rightarrow> col" where
  "pat_column p c =
     (if c = ''id'' then CUuid (p_id p) else if c = ''user_id'' then CUuid (p_user_id p)
      else if c = ''key_hash'' then CText (p_key_hash p) else if c = ''salt'' then CText (p_salt p)
      else if c = ''expires_at'' then (case p_expires_at p of None \<Rightarrow> CNull | Some t \<Rightarrow> CTime t)
      else if c = ''created_at'' then CTime (p_created_at p) else CNull)"

definition scan_pat :: "col list \<Rightarrow> goerr + pat" where
  "scan_pat cs = scanned (case cs of
     [c1, c2, c3, c4, c5, c6] \<Rightarrow>
       Option.bind (uuid_val c1) (\<lambda>i. Option.bind (uuid_val c2) (\<lambda>u. Option.bind (text_val c3) (\<lambda>h.
       Option.bind (text_val c4) (\<lambda>s. Option.bind (time_ptr c5) (\<lambda>expires. Option.bind (time_val c6) (\<lambda>created.
         Some \<lparr>p_id = i, p_user_id = u, p_key_hash = h, p_salt = s, p_expires_at = expires,
               p_created_at = created\<rparr>))))))
   | _ \<Rightarrow> None)"

interpretation pat_rows: row_reader scan_pat pat_column pat_select "\<lambda>p. p"
  by unfold_locales (simp add: scan_pat_def scanned_def pat_select_def pat_column_def)

lemma query_pat [simp]: "query_row scan_pat pat_column pat_select r = r"
  unfolding pat_rows.query_row_eq by (cases r; cases "fst r") auto

lemma scan_pats [simp]: "scan_rows scan_pat pat_column pat_select ps = Inr ps"
  by (simp add: pat_rows.scan_rows_ok)

section \<open>Profiles\<close>

definition profile_select :: "string list" where
  "profile_select = [''user_id'', ''display_name'', ''city'', ''region'', ''country'', ''gender'',
     ''date_of_birth'', ''category'', ''preferences'', ''created_at'', ''updated_at'']"

definition profile_column :: "profile_row \<Rightarrow> string \<Rightarrow> col" where
  "profile_column r c =
     (if c = ''user_id'' then CUuid (pw_user_id r) else if c = ''display_name'' then CText (pw_display_name r)
      else if c = ''city'' then text_col (pw_city r) else if c = ''region'' then text_col (pw_region r)
      else if c = ''country'' then text_col (pw_country r) else if c = ''gender'' then text_col (pw_gender r)
      else if c = ''date_of_birth'' then (case pw_date_of_birth r of None \<Rightarrow> CNull | Some d \<Rightarrow> CDate d)
      else if c = ''category'' then text_col (pw_category r)
      else if c = ''preferences'' then CJsonb (pw_preferences r)
      else if c = ''created_at'' then CTime (pw_created_at r)
      else if c = ''updated_at'' then CTime (pw_updated_at r) else CNull)"

text \<open>The JSON of the preferences goes into a struct of two optional members.\<close>

definition unmarshal_preferences :: "(string \<rightharpoonup> string) \<Rightarrow> preferences" where
  "unmarshal_preferences m = \<lparr>pr_court_side = m ''court_side'', pr_handedness = m ''handedness''\<rparr>"

definition scan_profile :: "col list \<Rightarrow> goerr + profile" where
  "scan_profile cs = scanned (case cs of
     [c1, c2, c3, c4, c5, c6, c7, c8, c9, c10, c11] \<Rightarrow>
       Option.bind (uuid_val c1) (\<lambda>i. Option.bind (text_val c2) (\<lambda>n. Option.bind (text_ptr c3) (\<lambda>city.
       Option.bind (text_ptr c4) (\<lambda>region. Option.bind (text_ptr c5) (\<lambda>country. Option.bind (text_ptr c6) (\<lambda>gender.
       Option.bind (date_ptr c7) (\<lambda>dob. Option.bind (text_ptr c8) (\<lambda>category. Option.bind (jsonb_val c9) (\<lambda>prefs.
       Option.bind (time_val c10) (\<lambda>created. Option.bind (time_val c11) (\<lambda>updated.
         Some \<lparr>pf_user_id = i, pf_display_name = n, pf_city = city, pf_region = region, pf_country = country,
               pf_gender = gender, pf_date_of_birth = dob, pf_category = category,
               pf_preferences = unmarshal_preferences prefs, pf_created_at = created, pf_updated_at = updated\<rparr>)))))))))))
   | _ \<Rightarrow> None)"

text \<open>The profile of a row, field by field.\<close>

definition profile_of :: "profile_row \<Rightarrow> profile" where
  "profile_of r = \<lparr>pf_user_id = pw_user_id r, pf_display_name = pw_display_name r,
     pf_city = pw_city r, pf_region = pw_region r, pf_country = pw_country r,
     pf_gender = pw_gender r, pf_date_of_birth = pw_date_of_birth r, pf_category = pw_category r,
     pf_preferences = unmarshal_preferences (pw_preferences r),
     pf_created_at = pw_created_at r, pf_updated_at = pw_updated_at r\<rparr>"

interpretation profile_rows: row_reader scan_profile profile_column profile_select profile_of
  by unfold_locales (simp add: scan_profile_def scanned_def profile_select_def profile_column_def profile_of_def)

lemma query_profile [simp]:
  "query_row scan_profile profile_column profile_select r = and_then r (\<lambda>row w. (Inr (profile_of row), w))"
  by (rule profile_rows.query_row_eq)

section \<open>Entries of the list\<close>

definition item_select :: "string list" where
  "item_select = [''u.id'', ''p.display_name'', ''p.city'', ''p.region'', ''p.country'', ''p.gender'', ''p.category'']"

definition item_column :: "user \<times> profile_row \<Rightarrow> string \<Rightarrow> col" where
  "item_column j c =
     (if has_prefix ''u.'' c then user_column (fst j) (drop 2 c) else profile_column (snd j) (drop 2 c))"

definition scan_list_item :: "col list \<Rightarrow> goerr + profile_list_item" where
  "scan_list_item cs = scanned (case cs of
     [c1, c2, c3, c4, c5, c6, c7] \<Rightarrow>
       Option.bind (uuid_val c1) (\<lambda>i. Option.bind (text_val c2) (\<lambda>n. Option.bind (text_ptr c3) (\<lambda>city.
       Option.bind (text_ptr c4) (\<lambda>region. Option.bind (text_ptr c5) (\<lambda>country. Option.bind (text_ptr c6) (\<lambda>gender.
       Option.bind (text_ptr c7) (\<lambda>category.
         Some \<lparr>li_id = Some i, li_display_name = Some n, li_city = city, li_region = region, li_country = country,
               li_gender = gender, li_category = category\<rparr>)))))))
   | _ \<Rightarrow> None)"

definition item_of :: "user \<times> profile_row \<Rightarrow> profile_list_item" where
  "item_of j =
     (let u = fst j; p = snd j
      in \<lparr>li_id = Some (u_id u), li_display_name = Some (pw_display_name p), li_city = pw_city p,
          li_region = pw_region p, li_country = pw_country p, li_gender = pw_gender p,
          li_category = pw_category p\<rparr>)"

interpretation item_rows: row_reader scan_list_item item_column item_select item_of
  by unfold_locales
    (simp add: scan_list_item_def scanned_def item_select_def item_column_def user_column_def profile_column_def item_of_def has_prefix_def Let_def)

lemma scan_items [simp]: "scan_rows scan_list_item item_column item_select js = Inr (map item_of js)"
  by (rule item_rows.scan_rows_ok)

end
