(* ===== verification/RepoInterfaces.thy ===== *)
theory RepoInterfaces
  imports PgRows
begin

text \<open>
  The repository interfaces of the domain layer (\<open>repository.go\<close> of \<open>user\<close>, \<open>pat\<close> and \<open>profile\<close>):
  a record of operations each, and a locale with what the interface's comments promise of
  them. The managers take any implementation; the PostgreSQL one is interpreted in
  \<open>PgRepositories\<close>.
\<close>

section \<open>user.UserRepository\<close>

record user_repository =
  ur_find_by_id :: "uuid \<Rightarrow> user io"
  ur_find_by_provider :: "provider \<Rightarrow> string \<Rightarrow> user io"
  ur_find_by_email :: "string \<Rightarrow> user io"
  ur_upsert :: "user \<Rightarrow> user io"
  ur_update_role :: "uuid \<Rightarrow> role \<Rightarrow> unit io"
  ur_count_all :: "int io"

text \<open>
  The contract: \<open>Inv\<close> is the invariant the operations keep and \<open>users\<close> the stored users. A lookup
  returns a stored user, or \<open>ErrUserNotFound\<close> only when there is none; \<open>Upsert\<close> returns the stored
  user of the identity, or \<open>ErrEmailAlreadyRegistered\<close> only when another user has the email.
\<close>

locale user_repository_contract =
  fixes R :: user_repository
    and users :: "world \<Rightarrow> user list"
    and Inv :: "world \<Rightarrow> bool"
  assumes find_by_id_inv: "Inv w \<Longrightarrow> Inv (snd (ur_find_by_id R i w))"
    and find_by_provider_inv: "Inv w \<Longrightarrow> Inv (snd (ur_find_by_provider R p j w))"
    and find_by_email_inv: "Inv w \<Longrightarrow> Inv (snd (ur_find_by_email R m w))"
    and upsert_inv: "Inv w \<Longrightarrow> Inv (snd (ur_upsert R u w))"
    and update_role_inv: "Inv w \<Longrightarrow> Inv (snd (ur_update_role R i r w))"
    and count_all_inv: "Inv w \<Longrightarrow> Inv (snd (ur_count_all R w))"
    and find_by_id_ok:
      "ur_find_by_id R i w = (Inr u, w') \<Longrightarrow> u \<in> set (users w') \<and> u_id u = i"
    and find_by_id_missing:
      "ur_find_by_id R i w = (Inl e, w') \<Longrightarrow> errors_is e ErrUserNotFound \<Longrightarrow>
         \<forall>u \<in> set (users w'). u_id u \<noteq> i"
    and find_by_email_ok:
      "ur_find_by_email R m w = (Inr u, w') \<Longrightarrow> u \<in> set (users w') \<and> u_email u = m"
    and upsert_ok:
      "ur_upsert R u w = (Inr v, w') \<Longrightarrow> v \<in> set (users w') \<and>
         varchar 255 (u_email u) = Some (u_email v) \<and> varchar 255 (u_name u) = Some (u_name v) \<and>
         varchar 50 (u_provider u) = Some (u_provider v) \<and>
         varchar 255 (u_provider_id u) = Some (u_provider_id v)"
    and upsert_conflict:
      "ur_upsert R u w = (Inl e, w') \<Longrightarrow> errors_is e ErrEmailAlreadyRegistered \<Longrightarrow>
         \<exists>v \<in> set (users w'). varchar 255 (u_email u) = Some (u_email v)"
    and update_role_ok:
      "ur_update_role R i r w = (Inr (), w') \<Longrightarrow>
         \<exists>u \<in> set (users w'). u_id u = i \<and> varchar 50 r = Some (u_role u)"
    and update_role_missing:
      "ur_update_role R i r w = (Inl e, w') \<Longrightarrow> errors_is e ErrUserNotFound \<Longrightarrow>
         \<forall>u \<in> set (users w'). u_id u \<noteq> i"
    and count_all_ok: "ur_count_all R w = (Inr n, w') \<Longrightarrow> n = int (length (users w'))"

section \<open>pat.PATRepository\<close>

record pat_repository =
  pa_find_all :: "pat list io"
  pa_find_by_id :: "uuid \<Rightarrow> pat io"
  pa_save :: "pat \<Rightarrow> pat io"
  pa_delete :: "uuid \<Rightarrow> unit io"

locale pat_repository_contract =
  fixes P :: pat_repository
    and pats :: "world \<Rightarrow> pat list"
    and Inv :: "world \<Rightarrow> bool"
  assumes find_all_inv: "Inv w \<Longrightarrow> Inv (snd (pa_find_all P w))"
    and pat_find_by_id_inv: "Inv w \<Longrightarrow> Inv (snd (pa_find_by_id P i w))"
    and save_inv: "Inv w \<Longrightarrow> Inv (snd (pa_save P p w))"
    and delete_inv: "Inv w \<Longrightarrow> Inv (snd (pa_delete P i w))"
    and find_all_ok: "pa_find_all P w = (Inr ps, w') \<Longrightarrow> ps = pats w'"
    and save_ok:
      "pa_save P p w = (Inr q, w') \<Longrightarrow> q \<in> set (pats w') \<and> p_user_id q = p_user_id p \<and>
         varchar 255 (p_key_hash p) = Some (p_key_hash q) \<and>
         varchar 255 (p_salt p) = Some (p_salt q) \<and>
         p_expires_at q = map_option to_timestamptz (p_expires_at p)"
    and delete_ok: "pa_delete P i w = (Inr (), w') \<Longrightarrow> \<forall>p \<in> set (pats w'). p_id p \<noteq> i"
    and delete_missing:
      "pa_delete P i w = (Inl e, w') \<Longrightarrow> errors_is e ErrPATNotFound \<Longrightarrow>
         \<forall>p \<in> set (pats w'). p_id p \<noteq> i"

section \<open>profile.ProfileRepository\<close>

record profile_repository =
  pf_ensure_exists :: "uuid \<Rightarrow> string \<Rightarrow> unit io"
  pf_find_by_user_id :: "uuid \<Rightarrow> profile io"
  pf_update :: "uuid \<Rightarrow> profile_patch \<Rightarrow> profile io"
  pf_list :: "list_params \<Rightarrow> (profile_list_item list \<times> int) io"

text \<open>\<open>profiles w\<close> is the stored profile of a user, if there is one.\<close>

locale profile_repository_contract =
  fixes F :: profile_repository
    and profiles :: "world \<Rightarrow> uuid \<Rightarrow> profile option"
    and Inv :: "world \<Rightarrow> bool"
  assumes ensure_exists_inv: "Inv w \<Longrightarrow> Inv (snd (pf_ensure_exists F i n w))"
    and find_by_user_id_inv: "Inv w \<Longrightarrow> Inv (snd (pf_find_by_user_id F i w))"
    and update_inv: "Inv w \<Longrightarrow> Inv (snd (pf_update F i p w))"
    and list_inv: "Inv w \<Longrightarrow> Inv (snd (pf_list F lp w))"
    and ensure_exists_ok: "pf_ensure_exists F i n w = (Inr (), w') \<Longrightarrow> profiles w' i \<noteq> None"
    and find_by_user_id_ok:
      "pf_find_by_user_id F i w = (Inr q, w') \<Longrightarrow> profiles w' i = Some q"
    and find_by_user_id_missing:
      "pf_find_by_user_id F i w = (Inl e, w') \<Longrightarrow> errors_is e ErrProfileNotFound \<Longrightarrow>
         profiles w' i = None"
    and update_ok: "pf_update F i p w = (Inr q, w') \<Longrightarrow> profiles w' i = Some q"

end
