(* ===== verification/PgRepositories.thy ===== *)
theory PgRepositories
  imports RepoInterfaces
begin

text \<open>
  The PostgreSQL repositories (\<open>infrastructure/postgres\<close>): each operation is one round trip, with
  the mapping of driver errors to the sentinels of the domain. The contracts of
  \<open>RepoInterfaces\<close> are interpreted on them at the end of each part.
\<close>

section \<open>UserRepository\<close>

text \<open>Mapping of \<open>pgx.ErrNoRows\<close> to a sentinel under the operation's prefix.\<close>

definition no_rows_to :: "sentinel \<Rightarrow> string \<Rightarrow> goerr \<Rightarrow> goerr" where
  "no_rows_to s p e = (if errors_is e ErrNoRows then Wrap p (Sentinel s) else Wrap p e)"

definition pg_find_user :: "env \<Rightarrow> uuid \<Rightarrow> user io" where
  "pg_find_user E uid w =
     map_err (no_rows_to ErrUserNotFound ''postgres: FindByID: '')
       (query_row scan_user user_column user_select (db_roundtrip E (sql_user_by_id uid) w))"

definition pg_find_user_by_provider :: "env \<Rightarrow> provider \<Rightarrow> string \<Rightarrow> user io" where
  "pg_find_user_by_provider E prov pid w =
     map_err (no_rows_to ErrUserNotFound ''postgres: FindByProvider: '')
       (query_row scan_user user_column user_select (db_roundtrip E (sql_user_by_provider prov pid) w))"

definition pg_find_user_by_email :: "env \<Rightarrow> string \<Rightarrow> user io" where
  "pg_find_user_by_email E email w =
     map_err (no_rows_to ErrUserNotFound ''postgres: FindByEmail: '')
       (query_row scan_user user_column user_select (db_roundtrip E (sql_user_by_email email) w))"

definition users_email_constraint :: string where
  "users_email_constraint = ''users_email_key''"

definition is_email_taken :: "goerr \<Rightarrow> bool" where
  "is_email_taken e \<longleftrightarrow> errors_as_pg e = Some (''23505'', users_email_constraint)"

definition pg_upsert_user :: "env \<Rightarrow> user \<Rightarrow> user io" where
  "pg_upsert_user E u w =
     map_err
       (\<lambda>e. if is_email_taken e then Wrap ''postgres: Upsert: '' (Sentinel ErrEmailAlreadyRegistered)
            else Wrap ''postgres: Upsert: '' e)
       (query_row scan_user user_column user_select (db_roundtrip E
         (sql_upsert_user (u_email u) (u_name u) (u_role u) (u_provider u) (u_provider_id u)) w))"

definition pg_count_users :: "env \<Rightarrow> int io" where
  "pg_count_users E w = wrap ''postgres: CountAll: '' (db_roundtrip E sql_count_users w)"

definition pg_update_role :: "env \<Rightarrow> uuid \<Rightarrow> role \<Rightarrow> unit io" where
  "pg_update_role E uid role w =
     and_then (wrap ''postgres: UpdateRole: '' (db_roundtrip E (sql_update_role role uid) w))
       (\<lambda>n w. if n = 0 then (Inl (Wrap ''postgres: UpdateRole: '' (Sentinel ErrUserNotFound)), w)
              else (Inr (), w))"

definition pg_user_repository :: "env \<Rightarrow> user_repository" where
  "pg_user_repository E = \<lparr>
     ur_find_by_id = pg_find_user E, ur_find_by_provider = pg_find_user_by_provider E,
     ur_find_by_email = pg_find_user_by_email E, ur_upsert = pg_upsert_user E,
     ur_update_role = pg_update_role E, ur_count_all = pg_count_users E\<rparr>"

lemma pg_user_repository_simps [simp]:
  "ur_find_by_id (pg_user_repository E) = pg_find_user E"
  "ur_find_by_provider (pg_user_repository E) = pg_find_user_by_provider E"
  "ur_find_by_email (pg_user_repository E) = pg_find_user_by_email E"
  "ur_upsert (pg_user_repository E) = pg_upsert_user E"
  "ur_update_role (pg_user_repository E) = pg_update_role E"
  "ur_count_all (pg_user_repository E) = pg_count_users E"
  by (simp_all add: pg_user_repository_def)

abbreviation stored_users :: "world \<Rightarrow> user list" where
  "stored_users w \<equiv> db_users (w_db w)"

text \<open>Facts on the statements that the contract needs.\<close>

lemma sql_rows_cases:
  "sql_rows r d = (Inr x, d') \<longleftrightarrow> r = Some x \<and> d' = d"
  "sql_rows r d = (Inl e, d') \<longleftrightarrow> r = None \<and> e = Sentinel ErrNoRows \<and> d' = d"
  by (auto simp: sql_rows_def split: option.splits)

lemma snd_sql_rows [simp]: "snd (sql_rows r d) = d"
  by (simp add: sql_rows_def split: option.splits)

lemma reads_keep [simp]:
  "snd (sql_user_by_id i now new d) = d" "snd (sql_user_by_provider p s now new d) = d"
  "snd (sql_user_by_email s now new d) = d" "snd (sql_count_users now new d) = d"
  "snd (sql_all_pats now new d) = d" "snd (sql_pat_by_id i now new d) = d"
  "snd (sql_profile_by_user i now new d) = d" "snd (sql_count_profiles now new d) = d"
  "snd (sql_list_profiles L l k now new d) = d"
  by (simp_all add: sql_user_by_id_def sql_user_by_provider_def sql_user_by_email_def
      sql_count_users_def sql_all_pats_def sql_pat_by_id_def sql_profile_by_user_def
      sql_count_profiles_def sql_list_profiles_def)

lemma no_rows_to_is:
  "errors_is (no_rows_to s p e) s \<longleftrightarrow> errors_is e ErrNoRows \<or> errors_is e s"
  by (simp add: no_rows_to_def)

lemma sql_upsert_user_ok:
  assumes "sql_upsert_user email name role prov pid now new d = (Inr v, d')"
  shows "v \<in> set (db_users d') \<and> varchar 255 email = Some (u_email v) \<and>
    varchar 255 name = Some (u_name v) \<and> varchar 50 prov = Some (u_provider v) \<and>
    varchar 255 pid = Some (u_provider_id v)"
proof -
  from assms obtain e n r p i where v: "varchar 255 email = Some e" "varchar 255 name = Some n"
    "varchar 50 role = Some r" "varchar 50 prov = Some p" "varchar 255 pid = Some i"
    "provider_check p" "role_check r"
    by (auto simp: sql_upsert_user_def split: option.splits if_splits)
  show ?thesis
  proof (cases "lookup_row user_key (p, i) (db_users d)")
    case None
    with assms v show ?thesis
      by (auto simp: sql_upsert_user_def insert_user_def split: if_splits)
  next
    case (Some old)
    from lookup_row_SomeD [OF Some] have old: "old \<in> set (db_users d)" "user_key old = (p, i)"
      by simp_all
    from assms v Some have up: "update_user (old\<lparr>u_email := e, u_name := n, u_updated_at := now\<rparr>) d = (Inr v, d')"
      by (simp add: sql_upsert_user_def)
    then have d': "v = old\<lparr>u_email := e, u_name := n, u_updated_at := now\<rparr>"
      "db_users d' = update_rows u_id (u_id v) (\<lambda>_. v) (db_users d)"
      by (auto simp: update_user_def split: if_splits)
    have "v \<in> set (db_users d')" unfolding d'(2) set_update_rows
      using old(1) d'(1) by auto
    with d'(1) old(2) v show ?thesis by simp
  qed
qed

lemma sql_upsert_user_conflict:
  assumes "sql_upsert_user email name role prov pid now new d = (Inl e, d')"
  shows "d' = d \<and> (\<exists>c n. e = PgError c n) \<and>
    (is_email_taken e \<longrightarrow> (\<exists>v \<in> set (db_users d). varchar 255 email = Some (u_email v)))"
  using assms
  by (auto simp: sql_upsert_user_def update_user_def insert_user_def is_email_taken_def
      users_email_constraint_def image_iff split: option.splits if_splits)

lemma sql_upsert_user_error_state:
  "sql_upsert_user email name role prov pid now new d = (Inl e, d') \<Longrightarrow> d' = d"
  using sql_upsert_user_conflict by blast

lemma sql_update_role_ok:
  assumes "sql_update_role role uid now new d = (Inr n, d')"
  shows "(n = 0 \<and> d' = d \<and> (\<forall>u \<in> set (db_users d). u_id u \<noteq> uid)) \<or>
    (n = 1 \<and> (\<exists>u \<in> set (db_users d'). u_id u = uid \<and> varchar 50 role = Some (u_role u)))"
proof (cases "lookup_row u_id uid (db_users d)")
  case None
  with assms show ?thesis by (auto simp: sql_update_role_def lookup_row_None_iff)
next
  case (Some u)
  with assms obtain r where r: "varchar 50 role = Some r" "n = 1"
    "db_users d' = update_rows u_id uid (\<lambda>v. v\<lparr>u_role := r, u_updated_at := now\<rparr>) (db_users d)"
    by (auto simp: sql_update_role_def split: option.splits if_splits)
  from lookup_row_SomeD [OF Some] have "u \<in> set (db_users d)" "u_id u = uid" by simp_all
  then have "u\<lparr>u_role := r, u_updated_at := now\<rparr> \<in> set (db_users d')"
    unfolding r(3) set_update_rows by blast
  moreover have "u_id (u\<lparr>u_role := r, u_updated_at := now\<rparr>) = uid" using \<open>u_id u = uid\<close> by simp
  ultimately show ?thesis using r by (metis user.select_convs(4) user.update_convs(4,8) user.surjective)
qed

lemma sql_update_role_err:
  "sql_update_role role uid now new d = (Inl e, d') \<Longrightarrow> d' = d \<and> (\<exists>c n. e = PgError c n)"
  by (auto simp: sql_update_role_def split: option.splits if_splits)

interpretation pg_users: user_repository_contract "pg_user_repository E" stored_users world_inv for E
proof (unfold_locales, goal_cases)
  case (1 w i)
  then show ?case by (simp add: pg_find_user_def db_roundtrip_inv)
next
  case (2 w p j)
  then show ?case by (simp add: pg_find_user_by_provider_def db_roundtrip_inv)
next
  case (3 w m)
  then show ?case by (simp add: pg_find_user_by_email_def db_roundtrip_inv)
next
  case (4 w u)
  then show ?case by (simp add: pg_upsert_user_def db_roundtrip_inv upsert_user_inv)
next
  case (5 w i r)
  have "world_inv (snd (db_roundtrip E (sql_update_role r i) w))"
    using 5 by (simp add: db_roundtrip_inv update_role_inv)
  then show ?case by (simp add: pg_update_role_def and_then_inv)
next
  case (6 w)
  then show ?case by (simp add: pg_count_users_def db_roundtrip_inv)
next
  case (7 i w u w')
  then show ?case
    by (auto simp: pg_find_user_def map_err_ok sql_user_by_id_def sql_rows_cases
        dest: lookup_row_SomeD elim!: db_roundtrip_ok)
next
  case (8 i w e w')
  then obtain e' where e': "db_roundtrip E (sql_user_by_id i) w = (Inl e', w')"
    "e = no_rows_to ErrUserNotFound ''postgres: FindByID: '' e'"
    by (auto simp: pg_find_user_def map_err_err)
  with 8 have "\<not> driver_error e'"
    by (auto simp: no_rows_to_is dest: driver_error_plain)
  with e' show ?case
    by (auto simp: sql_user_by_id_def sql_rows_cases lookup_row_None_iff elim!: db_roundtrip_err)
next
  case (9 m w u w')
  then show ?case
    by (auto simp: pg_find_user_by_email_def map_err_ok sql_user_by_email_def sql_rows_cases
        dest: lookup_row_SomeD elim!: db_roundtrip_ok)
next
  case (10 u w v w')
  then show ?case
    by (auto simp: pg_upsert_user_def map_err_ok dest: sql_upsert_user_ok elim!: db_roundtrip_ok)
next
  case (11 u w e w')
  then obtain e' where e': "db_roundtrip E
      (sql_upsert_user (u_email u) (u_name u) (u_role u) (u_provider u) (u_provider_id u)) w = (Inl e', w')"
    "is_email_taken e' \<or> errors_is e' ErrEmailAlreadyRegistered"
    by (auto simp: pg_upsert_user_def map_err_err split: if_splits)
  then have "\<not> driver_error e'"
    by (auto simp: is_email_taken_def dest: driver_error_plain)
  with e' show ?case
    by (auto dest!: sql_upsert_user_conflict elim!: db_roundtrip_err)
next
  case (12 i r w w')
  then obtain n where "db_roundtrip E (sql_update_role r i) w = (Inr n, w')" "n \<noteq> 0"
    by (auto simp: pg_update_role_def outcome_iffs split: if_splits)
  then show ?case by (auto dest!: sql_update_role_ok elim!: db_roundtrip_ok)
next
  case (13 i r w e w')
  show ?case
  proof (cases "db_roundtrip E (sql_update_role r i) w = (Inr 0, w')")
    case True
    then show ?thesis by (auto dest!: sql_update_role_ok elim!: db_roundtrip_ok)
  next
    case False
    with 13 obtain e' where e': "db_roundtrip E (sql_update_role r i) w = (Inl e', w')"
      "errors_is e' ErrUserNotFound"
      by (auto simp: pg_update_role_def outcome_iffs split: if_splits)
    then have "\<not> driver_error e'" by (auto dest: driver_error_plain)
    with e' show ?thesis by (auto dest!: sql_update_role_err elim!: db_roundtrip_err)
  qed
next
  case (14 w n w')
  then show ?case
    by (auto simp: pg_count_users_def map_err_ok sql_count_users_def elim!: db_roundtrip_ok)
qed

section \<open>PATRepository\<close>

definition pg_find_all_pats :: "env \<Rightarrow> pat list io" where
  "pg_find_all_pats E w =
     and_then (wrap ''postgres: FindAll PATs: '' (db_roundtrip E sql_all_pats w))
       (\<lambda>rows w. wrap ''postgres: FindAll PATs scan: '' (scan_rows scan_pat pat_column pat_select rows, w))"

definition pg_find_pat :: "env \<Rightarrow> uuid \<Rightarrow> pat io" where
  "pg_find_pat E i w =
     map_err (no_rows_to ErrPATNotFound ''postgres: FindByID PAT: '')
       (query_row scan_pat pat_column pat_select (db_roundtrip E (sql_pat_by_id i) w))"

definition pg_save_pat :: "env \<Rightarrow> pat \<Rightarrow> pat io" where
  "pg_save_pat E p w =
     wrap ''postgres: Save PAT: '' (query_row scan_pat pat_column pat_select
       (db_roundtrip E (sql_insert_pat (p_user_id p) (p_key_hash p) (p_salt p) (p_expires_at p)) w))"

definition pg_delete_pat :: "env \<Rightarrow> uuid \<Rightarrow> unit io" where
  "pg_delete_pat E i w =
     and_then (wrap ''postgres: Delete PAT: '' (db_roundtrip E (sql_delete_pat i) w))
       (\<lambda>n w. if n = 0 then (Inl (Wrap ''postgres: Delete PAT: '' (Sentinel ErrPATNotFound)), w)
              else (Inr (), w))"

definition pg_pat_repository :: "env \<Rightarrow> pat_repository" where
  "pg_pat_repository E = \<lparr>pa_find_all = pg_find_all_pats E, pa_find_by_id = pg_find_pat E,
     pa_save = pg_save_pat E, pa_delete = pg_delete_pat E\<rparr>"

lemma pg_pat_repository_simps [simp]:
  "pa_find_all (pg_pat_repository E) = pg_find_all_pats E"
  "pa_find_by_id (pg_pat_repository E) = pg_find_pat E"
  "pa_save (pg_pat_repository E) = pg_save_pat E"
  "pa_delete (pg_pat_repository E) = pg_delete_pat E"
  by (simp_all add: pg_pat_repository_def)

abbreviation stored_pats :: "world \<Rightarrow> pat list" where
  "stored_pats w \<equiv> db_pats (w_db w)"

lemma sql_insert_pat_ok:
  "sql_insert_pat uid h s x now new d = (Inr q, d') \<Longrightarrow>
     q \<in> set (db_pats d') \<and> p_user_id q = uid \<and> varchar 255 h = Some (p_key_hash q) \<and>
     varchar 255 s = Some (p_salt q) \<and> p_expires_at q = map_option to_timestamptz x"
  by (auto simp: sql_insert_pat_def Let_def split: option.splits if_splits)

lemma sql_delete_pat_ok:
  "sql_delete_pat pid now new d = (r, d') \<Longrightarrow> \<forall>p \<in> set (db_pats d'). p_id p \<noteq> pid"
  by (auto simp: sql_delete_pat_def)

interpretation pg_pats: pat_repository_contract "pg_pat_repository E" stored_pats world_inv for E
proof (unfold_locales, goal_cases)
  case (1 w)
  then have "world_inv (snd (db_roundtrip E sql_all_pats w))" by (simp add: db_roundtrip_inv)
  then show ?case by (simp add: pg_find_all_pats_def and_then_inv)
next
  case (2 w i)
  then have "world_inv (snd (db_roundtrip E (sql_pat_by_id i) w))" by (simp add: db_roundtrip_inv)
  then show ?case by (simp add: pg_find_pat_def and_then_inv)
next
  case (3 w p)
  then have "world_inv (snd (db_roundtrip E
      (sql_insert_pat (p_user_id p) (p_key_hash p) (p_salt p) (p_expires_at p)) w))"
    by (simp add: db_roundtrip_inv insert_pat_inv)
  then show ?case by (simp add: pg_save_pat_def and_then_inv)
next
  case (4 w i)
  then have "world_inv (snd (db_roundtrip E (sql_delete_pat i) w))"
    by (simp add: db_roundtrip_inv delete_pat_inv)
  then show ?case by (simp add: pg_delete_pat_def and_then_inv)
next
  case (5 w ps w')
  then show ?case
    by (auto simp: pg_find_all_pats_def outcome_iffs sql_all_pats_def elim!: db_roundtrip_ok)
next
  case (6 p w q w')
  then show ?case
    by (auto simp: pg_save_pat_def outcome_iffs dest!: sql_insert_pat_ok elim!: db_roundtrip_ok)
next
  case (7 i w w')
  then show ?case
    by (auto simp: pg_delete_pat_def outcome_iffs dest!: sql_delete_pat_ok split: if_splits
        elim!: db_roundtrip_ok)
next
  case (8 i w e w')
  show ?case
  proof (cases "\<exists>e'. db_roundtrip E (sql_delete_pat i) w = (Inl e', w') \<and> errors_is e' ErrPATNotFound")
    case True
    then show ?thesis
      by (auto dest: driver_error_plain dest!: sql_delete_pat_ok elim!: db_roundtrip_err)
  next
    case False
    with 8 have "db_roundtrip E (sql_delete_pat i) w = (Inr 0, w')"
      by (auto simp: pg_delete_pat_def outcome_iffs split: if_splits)
    then show ?thesis by (auto dest!: sql_delete_pat_ok elim!: db_roundtrip_ok)
  qed
qed

end
