(* ===== verification/UserManager.thy ===== *)
theory UserManager
  imports PgRepositories
begin

text \<open>
  The user manager (\<open>application/auth/user_manager.go\<close>, \<open>helpers.go\<close>): sign-in by an OAuth identity,
  the personal access tokens, roles and the bootstrap of the first administrator. It is written
  over the repository interfaces; its lemmas are proved once, from the contracts, in the
  locale \<open>user_manager_context\<close>, and hold for the PostgreSQL repositories by interpretation.
\<close>

section \<open>Keys and salts\<close>

definition hash_key :: "libs \<Rightarrow> string \<Rightarrow> string \<Rightarrow> string" where
  "hash_key L key salt = hex_encode (lib_sha256 L (key @ salt))"

definition generate_raw_key :: "env \<Rightarrow> string io" where
  "generate_raw_key E w = and_then (rand_read E 32 w) (\<lambda>b w. (Inr (hex_encode b), w))"

definition generate_salt :: "env \<Rightarrow> string io" where
  "generate_salt E w = and_then (rand_read E 16 w) (\<lambda>b w. (Inr (hex_encode b), w))"

definition is_expired_now :: "env \<Rightarrow> pat \<Rightarrow> world \<Rightarrow> bool \<times> world" where
  "is_expired_now E p w =
     (case p_expires_at p of None \<Rightarrow> (False, w)
      | Some e \<Rightarrow> (case time_now E w of (now, w') \<Rightarrow> (is_expired p now, w')))"

text \<open>Hexadecimal text has no space, so a column holds it whole or rejects it.\<close>

lemma hex_char_not_space: "d < 16 \<Longrightarrow> hex_char d \<noteq> CHR '' ''"
proof -
  assume "d < 16"
  then have "hex_char d \<in> set ''0123456789abcdef''"
    unfolding hex_char_def by (intro nth_mem) simp
  then show ?thesis by auto
qed

lemma hex_encode_no_space: "CHR '' '' \<notin> set (hex_encode bs)"
proof (induction bs)
  case (Cons b bs)
  have "unat b < 256" using unsigned_less [of b] by simp
  then have "unat b div 16 < 16" "unat b mod 16 < 16" by (simp_all add: div_less_iff_less_mult)
  then have "hex_char (unat b div 16) \<noteq> CHR '' ''" "hex_char (unat b mod 16) \<noteq> CHR '' ''"
    by (simp_all only: hex_char_not_space not_False_eq_True)
  with Cons show ?case by (auto simp: hex_encode_def)
qed (simp add: hex_encode_def)

lemma varchar_no_space:
  assumes "CHR '' '' \<notin> set s" and "varchar n s = Some t"
  shows "t = s"
proof (cases "char_len s \<le> n")
  case True
  with assms(2) show ?thesis by simp
next
  case False
  with assms(2) have sp: "list_all (\<lambda>c. c = CHR '' '') (drop (length (utf8_take n s)) s)"
    and t: "t = utf8_take n s"
    by (auto simp: varchar_def split: if_splits)
  obtain r where r: "s = utf8_take n s @ r" using utf8_take_prefix [of s n] by auto
  then have "drop (length (utf8_take n s)) s = r" by (metis append_eq_conv_conj)
  with sp assms(1) r have "r = []" by (cases r) (auto, metis UnCI list.set_intros(1) set_append)
  with r t show ?thesis by simp
qed

section \<open>Operations\<close>

definition email_owner_error :: "user_repository \<Rightarrow> string \<Rightarrow> world \<Rightarrow> goerr \<times> world" where
  "email_owner_error U email w =
     (case ur_find_by_email U email w of
        (Inl e, w') \<Rightarrow> (EmailAlreadyRegisteredError [], w')
      | (Inr owner, w') \<Rightarrow>
          (if u_provider owner = ProviderPAT then EmailAlreadyRegisteredError []
           else EmailAlreadyRegisteredError (u_provider owner), w'))"

definition resolve_by_oauth ::
  "user_repository \<Rightarrow> provider \<Rightarrow> string \<Rightarrow> string \<Rightarrow> string \<Rightarrow> user io" where
  "resolve_by_oauth U prov pid email name w =
     (let u = \<lparr>u_id = 0, u_email = email, u_name = name, u_role = RoleUser, u_provider = prov,
               u_provider_id = pid, u_created_at = zero_time, u_updated_at = zero_time\<rparr>
      in (case ur_upsert U u w of
            (Inl e, w1) \<Rightarrow>
              if errors_is e ErrEmailAlreadyRegistered
              then (case email_owner_error U email w1 of
                      (e', w2) \<Rightarrow> (Inl (Wrap ''user manager: ResolveByOAuth: '' e'), w2))
              else (Inl (Wrap ''user manager: ResolveByOAuth: '' e), w1)
          | (Inr result, w1) \<Rightarrow> (Inr result, w1)))"

definition match_pat :: "libs \<Rightarrow> string \<Rightarrow> pat list \<Rightarrow> pat option" where
  "match_pat L raw ps = List.find (\<lambda>p. hash_key L raw (p_salt p) = p_key_hash p) ps"

definition resolve_by_pat ::
  "libs \<Rightarrow> env \<Rightarrow> user_repository \<Rightarrow> pat_repository \<Rightarrow> string \<Rightarrow> user io" where
  "resolve_by_pat L E U P raw w =
     and_then (wrap ''user manager: ResolveByPAT: '' (pa_find_all P w))
       (\<lambda>ps w.
          case match_pat L raw ps of
            None \<Rightarrow> (Inl (Wrap ''user manager: ResolveByPAT: '' (Sentinel ErrInvalidPAT)), w)
          | Some matched \<Rightarrow>
              (case is_expired_now E matched w of
                 (expired, w) \<Rightarrow>
                   if expired
                   then (Inl (Wrap ''user manager: ResolveByPAT: '' (Sentinel ErrPATExpired)), w)
                   else wrap ''user manager: ResolveByPAT: '' (ur_find_by_id U (p_user_id matched) w)))"

definition create_pat ::
  "libs \<Rightarrow> env \<Rightarrow> user_repository \<Rightarrow> pat_repository \<Rightarrow> uuid \<Rightarrow> instant option \<Rightarrow> string io" where
  "create_pat L E U P uid expires w =
     and_then (wrap ''user manager: CreatePAT: find user: '' (ur_find_by_id U uid w)) (\<lambda>_ w.
     and_then (wrap ''user manager: CreatePAT: generate key: '' (generate_raw_key E w)) (\<lambda>raw w.
     and_then (wrap ''user manager: CreatePAT: generate salt: '' (generate_salt E w)) (\<lambda>salt w.
     and_then (wrap ''user manager: CreatePAT: save: ''
                (pa_save P \<lparr>p_id = 0, p_user_id = uid, p_key_hash = hash_key L raw salt,
                   p_salt = salt, p_expires_at = expires, p_created_at = zero_time\<rparr> w))
       (\<lambda>_ w. (Inr raw, w)))))"

definition revoke_pat :: "pat_repository \<Rightarrow> uuid \<Rightarrow> unit io" where
  "revoke_pat P i w = wrap ''user manager: RevokePAT: '' (pa_delete P i w)"

definition list_pats :: "pat_repository \<Rightarrow> pat list io" where
  "list_pats P w = wrap ''user manager: ListPATs: '' (pa_find_all P w)"

definition update_user_role :: "user_repository \<Rightarrow> uuid \<Rightarrow> role \<Rightarrow> unit io" where
  "update_user_role U uid role w =
     wrap ''user manager: UpdateUserRole: '' (ur_update_role U uid role w)"

definition find_user :: "user_repository \<Rightarrow> uuid \<Rightarrow> user io" where
  "find_user U uid w = wrap ''user manager: FindByID: '' (ur_find_by_id U uid w)"

text \<open>
  The first half of \<open>BootstrapAdmin\<close> counts the users, the second creates the administrator and
  the token. The result is the new user, if one was created, and the token text.
\<close>

definition bootstrap_create ::
  "libs \<Rightarrow> env \<Rightarrow> user_repository \<Rightarrow> pat_repository \<Rightarrow> string \<Rightarrow> string \<Rightarrow> string \<Rightarrow>
     (user option \<times> string) io" where
  "bootstrap_create L E U P email name raw w =
     and_then (wrap ''user manager: BootstrapAdmin: generate salt: '' (generate_salt E w)) (\<lambda>salt w.
     case new_uuid E w of (placeholder, w) \<Rightarrow>
     and_then (wrap ''user manager: BootstrapAdmin: upsert user: ''
                (ur_upsert U \<lparr>u_id = 0, u_email = email, u_name = name, u_role = RoleAdmin,
                   u_provider = ProviderPAT, u_provider_id = lib_uuid_string L placeholder,
                   u_created_at = zero_time, u_updated_at = zero_time\<rparr> w)) (\<lambda>u w.
     and_then (wrap ''user manager: BootstrapAdmin: save PAT: ''
                (pa_save P \<lparr>p_id = 0, p_user_id = u_id u, p_key_hash = hash_key L raw salt,
                   p_salt = salt, p_expires_at = None, p_created_at = zero_time\<rparr> w))
       (\<lambda>_ w. (Inr (Some u, raw), w))))"

definition bootstrap_admin ::
  "libs \<Rightarrow> env \<Rightarrow> user_repository \<Rightarrow> pat_repository \<Rightarrow> string \<Rightarrow> string \<Rightarrow> string \<Rightarrow>
     (user option \<times> string) io" where
  "bootstrap_admin L E U P email name raw w =
     and_then (wrap ''user manager: BootstrapAdmin: count users: '' (ur_count_all U w)) (\<lambda>count w.
       if count > 0 then (Inr (None, []), w) else bootstrap_create L E U P email name raw w)"

section \<open>The manager as an interface\<close>

record user_manager =
  um_resolve_by_oauth :: "provider \<Rightarrow> string \<Rightarrow> string \<Rightarrow> string \<Rightarrow> user io"
  um_resolve_by_pat :: "string \<Rightarrow> user io"
  um_create_pat :: "uuid \<Rightarrow> instant option \<Rightarrow> string io"
  um_revoke_pat :: "uuid \<Rightarrow> unit io"
  um_list_pats :: "pat list io"
  um_bootstrap_admin :: "string \<Rightarrow> string \<Rightarrow> string \<Rightarrow> (user option \<times> string) io"
  um_update_user_role :: "uuid \<Rightarrow> role \<Rightarrow> unit io"
  um_find_by_id :: "uuid \<Rightarrow> user io"

definition new_user_manager :: "libs \<Rightarrow> env \<Rightarrow> user_repository \<Rightarrow> pat_repository \<Rightarrow> user_manager" where
  "new_user_manager L E U P = \<lparr>
     um_resolve_by_oauth = resolve_by_oauth U, um_resolve_by_pat = resolve_by_pat L E U P,
     um_create_pat = create_pat L E U P, um_revoke_pat = revoke_pat P, um_list_pats = list_pats P,
     um_bootstrap_admin = bootstrap_admin L E U P, um_update_user_role = update_user_role U,
     um_find_by_id = find_user U\<rparr>"

lemma new_user_manager_simps [simp]:
  "um_resolve_by_oauth (new_user_manager L E U P) = resolve_by_oauth U"
  "um_resolve_by_pat (new_user_manager L E U P) = resolve_by_pat L E U P"
  "um_create_pat (new_user_manager L E U P) = create_pat L E U P"
  "um_revoke_pat (new_user_manager L E U P) = revoke_pat P"
  "um_list_pats (new_user_manager L E U P) = list_pats P"
  "um_bootstrap_admin (new_user_manager L E U P) = bootstrap_admin L E U P"
  "um_update_user_role (new_user_manager L E U P) = update_user_role U"
  "um_find_by_id (new_user_manager L E U P) = find_user U"
  by (simp_all add: new_user_manager_def)

lemma match_pat_SomeD:
  "match_pat L raw ps = Some p \<Longrightarrow> p \<in> set ps \<and> hash_key L raw (p_salt p) = p_key_hash p"
  by (auto simp: match_pat_def find_Some_iff)

lemma is_expired_now_fresh:
  "is_expired_now E p w = (False, w') \<Longrightarrow> \<not> is_expired p (clock_at E (w_tick w)) \<and> (\<exists>n. w' = w\<lparr>w_tick := n\<rparr>)"
  by (cases w; cases "p_expires_at p")
    (auto simp: is_expired_now_def is_expired_def time_now_def)

section \<open>What follows from the contracts\<close>

text \<open>
  The two repositories share the invariant, which only depends on the database: reading the
  clock or drawing random bytes does not touch it.
\<close>

locale user_manager_context =
  user_repository_contract U users Inv + pat_repository_contract P pats Inv
  for U :: user_repository and users :: "world \<Rightarrow> user list"
    and P :: pat_repository and pats :: "world \<Rightarrow> pat list" and Inv :: "world \<Rightarrow> bool" +
  fixes L :: libs and E :: env
  assumes inv_tick: "Inv (w\<lparr>w_tick := n\<rparr>) = Inv w"
    and users_tick: "users (w\<lparr>w_tick := n\<rparr>) = users w"
    and pats_tick: "pats (w\<lparr>w_tick := n\<rparr>) = pats w"
begin

lemma email_owner_error_inv: "Inv w \<Longrightarrow> Inv (snd (email_owner_error U email w))"
  using find_by_email_inv [of w email]
  by (cases "ur_find_by_email U email w"; cases "fst (ur_find_by_email U email w)")
    (auto simp: email_owner_error_def)

lemma resolve_by_oauth_keeps: "Inv w \<Longrightarrow> Inv (snd (resolve_by_oauth U p i e n w))"
proof -
  assume w: "Inv w"
  let ?u = "\<lparr>u_id = 0, u_email = e, u_name = n, u_role = RoleUser, u_provider = p,
    u_provider_id = i, u_created_at = zero_time, u_updated_at = zero_time\<rparr>"
  obtain r w1 where up: "ur_upsert U ?u w = (r, w1)" by (cases "ur_upsert U ?u w")
  with upsert_inv [OF w, of ?u] have "Inv w1" by simp
  from email_owner_error_inv [OF this, of e] up \<open>Inv w1\<close> show ?thesis
    by (cases r; cases "email_owner_error U e w1") (simp_all add: resolve_by_oauth_def)
qed

lemma is_expired_now_inv: "Inv w \<Longrightarrow> Inv (snd (is_expired_now E p w))"
  by (auto simp: is_expired_now_def time_now_def inv_tick split: option.splits)

lemma rand_keeps:
  "Inv w \<Longrightarrow> Inv (snd (generate_raw_key E w))" "Inv w \<Longrightarrow> Inv (snd (generate_salt E w))"
  by (auto simp: generate_raw_key_def generate_salt_def rand_read_def Let_def inv_tick)

lemma resolve_by_pat_keeps:
  assumes "Inv w"
  shows "Inv (snd (resolve_by_pat L E U P raw w))"
  unfolding resolve_by_pat_def
proof (rule and_then_inv [where I = Inv])
  show "Inv (snd (wrap ''user manager: ResolveByPAT: '' (pa_find_all P w)))"
    using assms by (simp add: find_all_inv)
next
  fix ps w
  assume w: "Inv w"
  show "Inv (snd (case match_pat L raw ps of
      None \<Rightarrow> (Inl (Wrap ''user manager: ResolveByPAT: '' (Sentinel ErrInvalidPAT)), w)
    | Some matched \<Rightarrow> (case is_expired_now E matched w of (expired, w) \<Rightarrow>
        if expired then (Inl (Wrap ''user manager: ResolveByPAT: '' (Sentinel ErrPATExpired)), w)
        else wrap ''user manager: ResolveByPAT: '' (ur_find_by_id U (p_user_id matched) w))))"
    using w is_expired_now_inv [OF w]
    by (auto simp: find_by_id_inv split: option.split prod.split) (metis snd_conv find_by_id_inv)+
qed

lemma create_pat_keeps: "Inv w \<Longrightarrow> Inv (snd (create_pat L E U P uid x w))"
  unfolding create_pat_def
  by (intro and_then_inv [where I = Inv]) (simp_all add: find_by_id_inv save_inv rand_keeps)

lemma revoke_pat_keeps: "Inv w \<Longrightarrow> Inv (snd (revoke_pat P i w))"
  by (simp add: revoke_pat_def delete_inv)

lemma list_pats_keeps: "Inv w \<Longrightarrow> Inv (snd (list_pats P w))"
  by (simp add: list_pats_def find_all_inv)

lemma update_user_role_keeps: "Inv w \<Longrightarrow> Inv (snd (update_user_role U uid r w))"
  by (simp add: update_user_role_def update_role_inv)

lemma find_user_keeps: "Inv w \<Longrightarrow> Inv (snd (find_user U uid w))"
  by (simp add: find_user_def find_by_id_inv)

lemma bootstrap_admin_keeps:
  assumes "Inv w"
  shows "Inv (snd (bootstrap_admin L E U P email name raw w))"
proof -
  have "Inv (snd (bootstrap_create L E U P email name raw w))" if "Inv w" for w
    unfolding bootstrap_create_def new_uuid_def prod.case
    by (intro and_then_inv [where I = Inv]) (simp_all add: that inv_tick upsert_inv save_inv rand_keeps)
  with assms show ?thesis
    unfolding bootstrap_admin_def by (intro and_then_inv [where I = Inv]) (auto simp: count_all_inv)
qed

text \<open>A sign-in returns the stored user of the identity.\<close>

lemma resolve_by_oauth_cases:
  fixes prov pid email name
  defines "u0 \<equiv> \<lparr>u_id = 0, u_email = email, u_name = name, u_role = RoleUser, u_provider = prov,
    u_provider_id = pid, u_created_at = zero_time, u_updated_at = zero_time\<rparr>"
  obtains (Signed_In) u w1 where "ur_upsert U u0 w = (Inr u, w1)"
      "resolve_by_oauth U prov pid email name w = (Inr u, w1)"
  | (Taken) e w1 e' w2 where "ur_upsert U u0 w = (Inl e, w1)"
      "errors_is e ErrEmailAlreadyRegistered" "email_owner_error U email w1 = (e', w2)"
      "resolve_by_oauth U prov pid email name w =
         (Inl (Wrap ''user manager: ResolveByOAuth: '' e'), w2)"
  | (Failed) e w1 where "ur_upsert U u0 w = (Inl e, w1)" "\<not> errors_is e ErrEmailAlreadyRegistered"
      "resolve_by_oauth U prov pid email name w =
         (Inl (Wrap ''user manager: ResolveByOAuth: '' e), w1)"
proof -
  obtain r w1 where up: "ur_upsert U u0 w = (r, w1)" by (cases "ur_upsert U u0 w")
  obtain e' w2 where own: "email_owner_error U email w1 = (e', w2)"
    by (cases "email_owner_error U email w1")
  show thesis
    using up own that unfolding u0_def
    by (cases r) (auto simp: resolve_by_oauth_def split: if_splits)
qed

lemma resolve_by_oauth_result:
  assumes "resolve_by_oauth U prov pid email name w = (Inr u, w')"
  shows "u \<in> set (users w') \<and> varchar 50 prov = Some (u_provider u) \<and>
    varchar 255 pid = Some (u_provider_id u) \<and> varchar 255 email = Some (u_email u)"
  using assms
  by (cases rule: resolve_by_oauth_cases [of email name prov pid w]) (auto dest!: upsert_ok)

text \<open>
  The provider a conflict names is the provider of a stored account with that email, never the
  provider of a token-only account.
\<close>

lemma email_owner_error_discloses:
  assumes "email_owner_error U email w = (e, w')" and "errors_as_email e = Some q" and "q \<noteq> []"
  shows "q \<noteq> ProviderPAT \<and> (\<exists>v \<in> set (users w'). u_email v = email \<and> u_provider v = q)"
proof -
  obtain r w2 where f: "ur_find_by_email U email w = (r, w2)" by (cases "ur_find_by_email U email w")
  with assms obtain v where r: "r = Inr v" "w2 = w'" "u_provider v \<noteq> ProviderPAT" "q = u_provider v"
    by (cases r) (auto simp: email_owner_error_def split: if_splits)
  with find_by_email_ok [of email w v w'] f show ?thesis by auto
qed

lemma resolve_by_oauth_discloses:
  assumes "resolve_by_oauth U prov pid email name w = (Inl e, w')"
    and "errors_as_email e = Some q" and "q \<noteq> []"
  shows "q \<noteq> ProviderPAT \<and> (\<exists>v \<in> set (users w'). u_email v = email \<and> u_provider v = q)"
  using assms
proof (cases rule: resolve_by_oauth_cases [of email name prov pid w])
  case (Failed e1 w1)
  have "errors_as_email e1 = Some q" using assms(1,2) Failed(3) by auto
  with errors_as_email_is [of e1 q] Failed(2) show ?thesis by simp
qed (auto dest: email_owner_error_discloses)

text \<open>
  A token authenticates as a stored user only when a stored, unexpired token of that user has
  its hash.
\<close>

lemma resolve_by_pat_result:
  assumes "resolve_by_pat L E U P raw w = (Inr u, w')"
  shows "u \<in> set (users w') \<and>
    (\<exists>w1 p. pa_find_all P w = (Inr (pats w1), w1) \<and> p \<in> set (pats w1) \<and>
       hash_key L raw (p_salt p) = p_key_hash p \<and> \<not> is_expired p (clock_at E (w_tick w1)) \<and>
       u_id u = p_user_id p)"
proof -
  from assms obtain ps w1 where all: "pa_find_all P w = (Inr ps, w1)"
    by (auto simp: resolve_by_pat_def outcome_iffs)
  with assms obtain p w2 where p: "match_pat L raw ps = Some p"
      "is_expired_now E p w1 = (False, w2)" "ur_find_by_id U (p_user_id p) w2 = (Inr u, w')"
    by (auto simp: resolve_by_pat_def outcome_iffs split: option.splits prod.splits if_splits)
  from find_by_id_ok [OF p(3)] have "u \<in> set (users w')" "u_id u = p_user_id p" by simp_all
  moreover have "\<not> is_expired p (clock_at E (w_tick w1))" using is_expired_now_fresh [OF p(2)] by blast
  ultimately show ?thesis
    using find_all_ok [OF all] all match_pat_SomeD [OF p(1)] by blast
qed

text \<open>A created token is stored with the hash of the text that is returned, for its user.\<close>

lemma create_pat_result:
  assumes "create_pat L E U P uid x w = (Inr raw, w')"
  shows "\<exists>p \<in> set (pats w'). p_user_id p = uid \<and> p_key_hash p = hash_key L raw (p_salt p) \<and>
    p_expires_at p = map_option to_timestamptz x"
proof -
  from assms obtain salt w3 bs cs q where salt: "salt = hex_encode cs" "raw = hex_encode bs"
    and save: "pa_save P \<lparr>p_id = 0, p_user_id = uid, p_key_hash = hash_key L raw salt,
      p_salt = salt, p_expires_at = x, p_created_at = zero_time\<rparr> w3 = (Inr q, w')"
    by (auto simp: create_pat_def outcome_iffs generate_raw_key_def generate_salt_def)
  from save_ok [OF save] have q: "q \<in> set (pats w')" "p_user_id q = uid"
    "varchar 255 (hash_key L raw salt) = Some (p_key_hash q)" "varchar 255 salt = Some (p_salt q)"
    "p_expires_at q = map_option to_timestamptz x" by simp_all
  from q(3) have "p_key_hash q = hash_key L raw salt"
    unfolding hash_key_def by (rule varchar_no_space [OF hex_encode_no_space])
  moreover from q(4) have "p_salt q = salt"
    unfolding salt by (rule varchar_no_space [OF hex_encode_no_space])
  ultimately show ?thesis using q by auto
qed

lemma revoke_pat_result:
  "revoke_pat P i w = (Inr (), w') \<Longrightarrow> \<forall>p \<in> set (pats w'). p_id p \<noteq> i"
  by (auto simp: revoke_pat_def map_err_ok dest: delete_ok)

lemma bootstrap_skips:
  assumes "ur_count_all U w = (Inr n, w1)" and "users w1 \<noteq> []"
  shows "bootstrap_admin L E U P email name raw w = (Inr (None, []), w1)"
proof -
  have "n > 0" using count_all_ok [OF assms(1)] assms(2) by simp
  then show ?thesis using assms(1) by (simp add: bootstrap_admin_def)
qed

end

interpretation pg_um: user_manager_context "pg_user_repository E" stored_users
  "pg_pat_repository E" stored_pats world_inv L E for L E
  by unfold_locales simp_all

end
