(* ===== verification/PgProfiles.thy ===== *)
theory PgProfiles
  imports PgRepositories
begin

text \<open>
  The PostgreSQL profile repository (\<open>infrastructure/postgres/profile_repository.go\<close>): the
  builder of the dynamic \<open>UPDATE\<close>, the merge of the preferences, the scan of a row, and the
  paginated list.
\<close>

section \<open>The update builder\<close>

record update_builder =
  ub_clauses :: "set_clause list"
  ub_args :: "sql_arg list"

definition new_builder :: update_builder where
  "new_builder = \<lparr>ub_clauses = [], ub_args = []\<rparr>"

text \<open>\<open>arg\<close> returns the number of the placeholder.\<close>

definition ub_arg :: "sql_arg \<Rightarrow> update_builder \<Rightarrow> nat \<times> update_builder" where
  "ub_arg v b = (let b' = b\<lparr>ub_args := ub_args b @ [v]\<rparr> in (length (ub_args b'), b'))"

definition ub_set :: "string \<Rightarrow> sql_arg \<Rightarrow> update_builder \<Rightarrow> update_builder" where
  "ub_set column v b =
     (case ub_arg v b of (n, b') \<Rightarrow> b'\<lparr>ub_clauses := ub_clauses b' @ [SetColumn column n]\<rparr>)"

definition set_field :: "('a \<Rightarrow> sql_arg) \<Rightarrow> string \<Rightarrow> 'a field \<Rightarrow> update_builder \<Rightarrow> update_builder" where
  "set_field to_arg column f b =
     (if \<not> f_set f then b
      else (case f_value f of None \<Rightarrow> ub_set column ANull b | Some v \<Rightarrow> ub_set column (to_arg v) b))"

definition merge_preference ::
  "string \<Rightarrow> string field \<Rightarrow> (string \<rightharpoonup> string) \<times> string list \<Rightarrow> (string \<rightharpoonup> string) \<times> string list" where
  "merge_preference key f acc =
     (case acc of (add, remove) \<Rightarrow>
        if \<not> f_set f then (add, remove)
        else (case f_value f of None \<Rightarrow> (add, remove @ [key]) | Some v \<Rightarrow> (add(key \<mapsto> v), remove)))"

definition merge_preferences :: "preferences_patch \<Rightarrow> update_builder \<Rightarrow> update_builder" where
  "merge_preferences p b =
     (if prefs_is_empty p then b
      else
        (let acc = merge_preference ''handedness'' (pp_handedness p)
                     (merge_preference ''court_side'' (pp_court_side p) (Map.empty, []));
             (i, b1) = ub_arg (ABool (pp_clear p)) b;
             (j, b2) = ub_arg (AJson (fst acc)) b1;
             (k, b3) = ub_arg (ATextArray (snd acc)) b2
         in b3\<lparr>ub_clauses := ub_clauses b3 @ [MergePreferences i j k]\<rparr>))"

definition patch_builder :: "profile_patch \<Rightarrow> instant \<Rightarrow> update_builder" where
  "patch_builder p now =
     (let b0 = new_builder;
          b1 = (case pt_display_name p of None \<Rightarrow> b0 | Some n \<Rightarrow> ub_set ''display_name'' (AText n) b0);
          b2 = set_field AText ''city'' (pt_city p) b1;
          b3 = set_field AText ''region'' (pt_region p) b2;
          b4 = set_field AText ''country'' (pt_country p) b3;
          b5 = set_field AText ''gender'' (pt_gender p) b4;
          b6 = set_field ADate ''date_of_birth'' (pt_date_of_birth p) b5;
          b7 = set_field AText ''category'' (pt_category p) b6;
          b8 = merge_preferences (pt_preferences p) b7
      in ub_set ''updated_at'' (ATime now) b8)"

text \<open>The text of the statement, clause by clause and as a whole.\<close>

definition placeholder :: "nat \<Rightarrow> string" where
  "placeholder n = CHR 0x24 # nat_dec n"

fun clause_sql :: "set_clause \<Rightarrow> string" where
  "clause_sql (SetColumn c n) = c @ '' = '' @ placeholder n"
| "clause_sql (MergePreferences i j k) =
     ''preferences = ((CASE WHEN '' @ placeholder i @
     '' THEN '' @ [CHR 0x27] @ ''{}'' @ [CHR 0x27] @ ''::jsonb ELSE preferences END) || '' @
     placeholder j @ ''::jsonb) - '' @ placeholder k @ ''::text[]''"

definition build_update_query :: "set_clause list \<Rightarrow> nat \<Rightarrow> string" where
  "build_update_query cs idx =
     ''UPDATE user_profiles SET '' @ join_with '', '' (map clause_sql cs) @
     '' WHERE user_id = '' @ placeholder idx @
     '' RETURNING '' @ join_with '', '' profile_select"

section \<open>The operations\<close>

definition pg_ensure_exists :: "env \<Rightarrow> uuid \<Rightarrow> string \<Rightarrow> unit io" where
  "pg_ensure_exists E uid name w =
     wrap ''postgres: EnsureExists profile: '' (db_roundtrip E (sql_ensure_profile uid name) w)"

definition pg_find_profile :: "env \<Rightarrow> uuid \<Rightarrow> profile io" where
  "pg_find_profile E uid w =
     map_err (no_rows_to ErrProfileNotFound ''postgres: FindByUserID profile: '')
       (query_row scan_profile profile_column profile_select (db_roundtrip E (sql_profile_by_user uid) w))"

definition region_country_constraint :: string where
  "region_country_constraint = ''user_profiles_region_country_check''"

definition is_region_country_violation :: "goerr \<Rightarrow> bool" where
  "is_region_country_violation e \<longleftrightarrow> errors_as_pg e = Some (''23514'', region_country_constraint)"

definition update_profile_error :: "goerr \<Rightarrow> goerr" where
  "update_profile_error e =
     (if errors_is e ErrNoRows then Wrap ''postgres: Update profile: '' (Sentinel ErrProfileNotFound)
      else if is_region_country_violation e
      then Wrap ''postgres: Update profile: '' (Sentinel ErrProfileConflict)
      else Wrap ''postgres: Update profile: '' e)"

definition pg_update_profile :: "env \<Rightarrow> uuid \<Rightarrow> profile_patch \<Rightarrow> profile io" where
  "pg_update_profile E uid patch w =
     (if is_empty patch then pg_find_profile E uid w
      else
        (let (now, w1) = time_now E w;
             b = patch_builder patch now;
             args = ub_args b @ [AUuid uid]
         in map_err update_profile_error (query_row scan_profile profile_column profile_select
              (db_roundtrip E (sql_update_profile (ub_clauses b) args (length args)) w1))))"

text \<open>\<open>(params.Page - 1) * params.PageSize\<close>, on Go's 64-bit \<open>int\<close>.\<close>

definition list_offset :: "list_params \<Rightarrow> 64 word" where
  "list_offset lp = (lp_page lp - 1) * lp_page_size lp"

definition pg_list_profiles :: "libs \<Rightarrow> env \<Rightarrow> list_params \<Rightarrow> (profile_list_item list \<times> int) io" where
  "pg_list_profiles L E lp w =
     (let offset = list_offset lp
      in and_then (wrap ''postgres: List profiles count: '' (db_roundtrip E sql_count_profiles w))
           (\<lambda>total w.
              and_then (wrap ''postgres: List profiles: ''
                          (db_roundtrip E (sql_list_profiles L (sint (lp_page_size lp)) (sint offset)) w))
                (\<lambda>rows w.
                   and_then (wrap ''postgres: List profiles scan: ''
                               (scan_rows scan_list_item item_column item_select rows, w))
                     (\<lambda>items w. (Inr (items, total), w)))))"

definition pg_profile_repository :: "libs \<Rightarrow> env \<Rightarrow> profile_repository" where
  "pg_profile_repository L E = \<lparr>pf_ensure_exists = pg_ensure_exists E,
     pf_find_by_user_id = pg_find_profile E, pf_update = pg_update_profile E,
     pf_list = pg_list_profiles L E\<rparr>"

lemma pg_profile_repository_simps [simp]:
  "pf_ensure_exists (pg_profile_repository L E) = pg_ensure_exists E"
  "pf_find_by_user_id (pg_profile_repository L E) = pg_find_profile E"
  "pf_update (pg_profile_repository L E) = pg_update_profile E"
  "pf_list (pg_profile_repository L E) = pg_list_profiles L E"
  by (simp_all add: pg_profile_repository_def)

definition stored_profile :: "world \<Rightarrow> uuid \<Rightarrow> profile option" where
  "stored_profile w i = map_option profile_of (lookup_row pw_user_id i (db_profiles (w_db w)))"

section \<open>The builder and the patch\<close>

text \<open>
  The statement the builder makes is the patch: every placeholder names its own argument, so
  running the clauses sets each field of the patch and nothing else. \<open>fits\<close> says the texts fit
  their columns.
\<close>

definition field_fits :: "nat \<Rightarrow> string field \<Rightarrow> bool" where
  "field_fits n f \<longleftrightarrow> (f_set f \<longrightarrow> opt_len n (f_value f))"

definition patch_fits :: "profile_patch \<Rightarrow> bool" where
  "patch_fits p \<longleftrightarrow> opt_len 255 (pt_display_name p) \<and> field_fits 255 (pt_city p) \<and>
     field_fits 10 (pt_region p) \<and> field_fits 2 (pt_country p) \<and>
     field_fits 10 (pt_gender p) \<and> field_fits 10 (pt_category p)"

text \<open>What a builder does to a row: its clauses, run on the row.\<close>

definition runs_to :: "update_builder \<Rightarrow> sql_arg list \<Rightarrow> profile_row \<Rightarrow> profile_row \<Rightarrow> bool" where
  "runs_to b extra old r \<longleftrightarrow> exec_clauses (ub_args b @ extra) old (ub_clauses b) old = Inr r"

lemma exec_clauses_append:
  "exec_clauses args old (cs @ ds) r =
     (case exec_clauses args old cs r of Inl e \<Rightarrow> Inl e | Inr r' \<Rightarrow> exec_clauses args old ds r')"
  by (induction cs arbitrary: r) (auto split: sum.splits)

lemma sql_param_last: "sql_param (args @ v # extra) (Suc (length args)) = Some v"
  by (simp add: sql_param_def)

lemma runs_to_new: "runs_to new_builder extra old old"
  by (simp add: runs_to_def new_builder_def)

lemma runs_to_ub_set:
  assumes "\<And>extra. runs_to b extra old r" and "set_column c v r = Inr r'"
  shows "runs_to (ub_set c v b) extra old r'"
  using assms(1) [of "v # extra"] assms(2)
  by (simp add: runs_to_def ub_set_def ub_arg_def exec_clauses_append sql_param_last)

lemma runs_to_set_field:
  assumes "\<And>extra. runs_to b extra old r"
    and "f_set f \<Longrightarrow> set_column c (case f_value f of None \<Rightarrow> ANull | Some v \<Rightarrow> to_arg v) r = Inr r'"
    and "\<not> f_set f \<Longrightarrow> r' = r"
  shows "runs_to (set_field to_arg c f b) extra old r'"
proof (cases "f_set f")
  case True
  have "runs_to (ub_set c (case f_value f of None \<Rightarrow> ANull | Some v \<Rightarrow> to_arg v) b) extra old r'"
    by (rule runs_to_ub_set [OF assms(1) assms(2) [OF True]])
  with True show ?thesis by (cases "f_value f") (simp_all add: set_field_def)
next
  case False
  then have "set_field to_arg c f b = b" by (simp add: set_field_def)
  then show ?thesis unfolding assms(3) [OF False] using assms(1) [of extra] by simp
qed

lemma text_value_fits:
  "opt_len n v \<Longrightarrow> text_value n (case v of None \<Rightarrow> ANull | Some s \<Rightarrow> AText s) = Inr v"
  by (cases v) (simp_all add: text_value_def)

text \<open>The JSON map and the removals of a preferences patch, as a patch of the stored map.\<close>

definition patched_map :: "preferences_patch \<Rightarrow> (string \<rightharpoonup> string) \<Rightarrow> (string \<rightharpoonup> string)" where
  "patched_map p m =
     (let base = (if pp_clear p then Map.empty else m)
      in base(''court_side'' := patched (pp_court_side p) (base ''court_side''),
              ''handedness'' := patched (pp_handedness p) (base ''handedness'')))"

lemma merge_jsonb_patch:
  "merge_jsonb (pp_clear p)
     (fst (merge_preference ''handedness'' (pp_handedness p)
        (merge_preference ''court_side'' (pp_court_side p) (Map.empty, []))))
     (snd (merge_preference ''handedness'' (pp_handedness p)
        (merge_preference ''court_side'' (pp_court_side p) (Map.empty, [])))) m
   = patched_map p m"
  by (cases "f_set (pp_court_side p)"; cases "f_value (pp_court_side p)";
      cases "f_set (pp_handedness p)"; cases "f_value (pp_handedness p)"; cases "pp_clear p")
    (simp_all add: merge_jsonb_def merge_preference_def patched_map_def patched_def fun_eq_iff
      map_add_def)

lemma sql_param_mid: "sql_param (args @ xs @ v # extra) (Suc (length args + length xs)) = Some v"
  using sql_param_last [of "args @ xs" v extra] by simp

lemma runs_to_merge_preferences:
  assumes "\<And>extra. runs_to b extra old r" and "pw_preferences r = pw_preferences old"
  shows "runs_to (merge_preferences p b) extra old
    (r\<lparr>pw_preferences := patched_map p (pw_preferences old)\<rparr>)"
proof (cases "prefs_is_empty p")
  case True
  then have "patched_map p (pw_preferences old) = pw_preferences r"
    using assms(2) by (auto simp: patched_map_def prefs_is_empty_def patched_def)
  then show ?thesis using assms(1) True by (simp add: merge_preferences_def)
next
  case False
  let ?acc = "merge_preference ''handedness'' (pp_handedness p)
      (merge_preference ''court_side'' (pp_court_side p) (Map.empty, []))"
  let ?args = "ub_args b @ [ABool (pp_clear p), AJson (fst ?acc), ATextArray (snd ?acc)] @ extra"
  have "sql_param ?args (Suc (length (ub_args b))) = Some (ABool (pp_clear p))"
    "sql_param ?args (Suc (Suc (length (ub_args b)))) = Some (AJson (fst ?acc))"
    "sql_param ?args (Suc (Suc (Suc (length (ub_args b))))) = Some (ATextArray (snd ?acc))"
    using sql_param_mid [of "ub_args b" "[]"] sql_param_mid [of "ub_args b" "[ABool (pp_clear p)]"]
      sql_param_mid [of "ub_args b" "[ABool (pp_clear p), AJson (fst ?acc)]"] by simp_all
  then show ?thesis
    using assms(1) [of "[ABool (pp_clear p), AJson (fst ?acc), ATextArray (snd ?acc)] @ extra"] False
    by (simp add: runs_to_def merge_preferences_def ub_arg_def Let_def exec_clauses_append
        merge_jsonb_patch)
qed

definition patched_row :: "profile_patch \<Rightarrow> instant \<Rightarrow> profile_row \<Rightarrow> profile_row" where
  "patched_row p now r = r\<lparr>
     pw_display_name := (case pt_display_name p of None \<Rightarrow> pw_display_name r | Some n \<Rightarrow> n),
     pw_city := patched (pt_city p) (pw_city r),
     pw_region := patched (pt_region p) (pw_region r),
     pw_country := patched (pt_country p) (pw_country r),
     pw_gender := patched (pt_gender p) (pw_gender r),
     pw_date_of_birth := patched (pt_date_of_birth p) (pw_date_of_birth r),
     pw_category := patched (pt_category p) (pw_category r),
     pw_preferences := patched_map (pt_preferences p) (pw_preferences r),
     pw_updated_at := to_timestamptz now\<rparr>"

lemma scan_patched_row:
  "profile_of (patched_row p now r) =
     (patched_profile p (profile_of r))\<lparr>pf_updated_at := to_timestamptz now\<rparr>"
  by (cases "pt_display_name p") (simp_all add: profile_of_def unmarshal_preferences_def patched_row_def
      patched_profile_def patched_prefs_def patched_map_def Let_def)

lemma runs_to_text_field:
  assumes "\<And>extra. runs_to b extra old r" and "field_fits n f"
    and "\<And>a. set_column c a r = (case text_value n a of Inl e \<Rightarrow> Inl e | Inr v \<Rightarrow> Inr (upd v))"
    and "upd (get r) = r"
  shows "runs_to (set_field AText c f b) extra old (upd (patched f (get r)))"
proof (rule runs_to_set_field [OF assms(1)])
  assume "f_set f"
  then show "set_column c (case f_value f of None \<Rightarrow> ANull | Some v \<Rightarrow> AText v) r
      = Inr (upd (patched f (get r)))"
    using assms(2) by (simp add: assms(3) field_fits_def text_value_fits patched_def)
qed (simp add: patched_def assms(4))

theorem patch_builder_runs:
  assumes fits: "patch_fits p"
  shows "runs_to (patch_builder p now) extra old (patched_row p now old)"
proof -
  define b1 where "b1 = (case pt_display_name p of None \<Rightarrow> new_builder
    | Some n \<Rightarrow> ub_set ''display_name'' (AText n) new_builder)"
  define r1 where "r1 = old\<lparr>pw_display_name :=
    (case pt_display_name p of None \<Rightarrow> pw_display_name old | Some n \<Rightarrow> n)\<rparr>"
  have 1: "runs_to b1 m old r1" for m
  proof (cases "pt_display_name p")
    case None
    then show ?thesis by (simp add: b1_def r1_def runs_to_new)
  next
    case (Some n)
    then have "set_column ''display_name'' (AText n) old = Inr r1"
      using fits by (simp add: patch_fits_def set_column_def text_value_def r1_def)
    with Some show ?thesis using runs_to_ub_set [OF runs_to_new] by (simp add: b1_def)
  qed
  define r2 where "r2 = r1\<lparr>pw_city := patched (pt_city p) (pw_city r1)\<rparr>"
  have 2: "runs_to (set_field AText ''city'' (pt_city p) b1) m old r2" for m
    unfolding r2_def using fits
    by (intro runs_to_text_field [where n = 255 and get = pw_city] 1)
      (simp_all add: patch_fits_def set_column_def)
  define r3 where "r3 = r2\<lparr>pw_region := patched (pt_region p) (pw_region r2)\<rparr>"
  define r4 where "r4 = r3\<lparr>pw_country := patched (pt_country p) (pw_country r3)\<rparr>"
  define r5 where "r5 = r4\<lparr>pw_gender := patched (pt_gender p) (pw_gender r4)\<rparr>"
  define r6 where "r6 = r5\<lparr>pw_date_of_birth := patched (pt_date_of_birth p) (pw_date_of_birth r5)\<rparr>"
  define r7 where "r7 = r6\<lparr>pw_category := patched (pt_category p) (pw_category r6)\<rparr>"
  define b3 where "b3 = set_field AText ''region'' (pt_region p) (set_field AText ''city'' (pt_city p) b1)"
  define b4 where "b4 = set_field AText ''country'' (pt_country p) b3"
  define b5 where "b5 = set_field AText ''gender'' (pt_gender p) b4"
  define b6 where "b6 = set_field ADate ''date_of_birth'' (pt_date_of_birth p) b5"
  define b7 where "b7 = set_field AText ''category'' (pt_category p) b6"
  have 3: "runs_to b3 m old r3" for m
    unfolding b3_def r3_def using fits
    by (intro runs_to_text_field [where n = 10 and get = pw_region] 2)
      (simp_all add: patch_fits_def set_column_def)
  have 4: "runs_to b4 m old r4" for m
    unfolding b4_def r4_def using fits
    by (intro runs_to_text_field [where n = 2 and get = pw_country] 3)
      (simp_all add: patch_fits_def set_column_def)
  have 5: "runs_to b5 m old r5" for m
    unfolding b5_def r5_def using fits
    by (intro runs_to_text_field [where n = 10 and get = pw_gender] 4)
      (simp_all add: patch_fits_def set_column_def)
  have 6: "runs_to b6 m old r6" for m
    unfolding b6_def
    by (rule runs_to_set_field [OF 5])
      (simp_all add: r6_def patched_def set_column_def split: option.splits)
  have 7: "runs_to b7 m old r7" for m
    unfolding b7_def r7_def using fits
    by (intro runs_to_text_field [where n = 10 and get = pw_category] 6)
      (simp_all add: patch_fits_def set_column_def)
  have prefs: "pw_preferences r7 = pw_preferences old"
    by (simp add: r7_def r6_def r5_def r4_def r3_def r2_def r1_def)
  have 8: "runs_to (merge_preferences (pt_preferences p) b7) m old
      (r7\<lparr>pw_preferences := patched_map (pt_preferences p) (pw_preferences old)\<rparr>)" for m
    by (rule runs_to_merge_preferences [OF 7 prefs])
  have "patch_builder p now = ub_set ''updated_at'' (ATime now) (merge_preferences (pt_preferences p) b7)"
    by (simp add: patch_builder_def Let_def b1_def b3_def b4_def b5_def b6_def b7_def)
  moreover have "set_column ''updated_at'' (ATime now)
      (r7\<lparr>pw_preferences := patched_map (pt_preferences p) (pw_preferences old)\<rparr>)
      = Inr (patched_row p now old)"
    by (simp add: set_column_def patched_row_def r7_def r6_def r5_def r4_def r3_def r2_def r1_def)
  ultimately show ?thesis using runs_to_ub_set [OF 8] by simp
qed

end
