(* ===== verification/PgProfileContract.thy ===== *)
theory PgProfileContract
  imports PgProfiles
begin

text \<open>
  What the profile repository guarantees: the \<open>UPDATE\<close> it sends is the patch, its columns are
  distinct, the stored row afterwards is the returned one; and the interpretation of the
  repository's contract.
\<close>

section \<open>The columns of the statement\<close>

lemma columns_ub_set:
  "map clause_column (ub_clauses (ub_set c v b)) = map clause_column (ub_clauses b) @ [c]"
  by (simp add: ub_set_def ub_arg_def)

lemma columns_set_field:
  "map clause_column (ub_clauses (set_field to_arg c f b)) =
     map clause_column (ub_clauses b) @ (if f_set f then [c] else [])"
  by (simp add: set_field_def columns_ub_set split: option.split)

lemma columns_merge_preferences:
  "map clause_column (ub_clauses (merge_preferences p b)) =
     map clause_column (ub_clauses b) @ (if prefs_is_empty p then [] else [''preferences''])"
  by (simp add: merge_preferences_def ub_arg_def Let_def)

text \<open>Columns added one after another, each for the first time.\<close>

definition columns_within :: "string set \<Rightarrow> update_builder \<Rightarrow> bool" where
  "columns_within S b \<longleftrightarrow> distinct (map clause_column (ub_clauses b)) \<and>
     set (map clause_column (ub_clauses b)) \<subseteq> S"

lemma columns_within_new: "columns_within {} new_builder"
  by (simp add: columns_within_def new_builder_def)

lemma columns_within_step:
  assumes "columns_within S b" and "c \<notin> S"
  shows "columns_within (insert c S) (ub_set c v b)"
    and "columns_within (insert c S) (set_field to_arg c f b)"
    and "c = ''preferences'' \<Longrightarrow> columns_within (insert c S) (merge_preferences p b)"
    and "columns_within (insert c S) b"
  using assms unfolding columns_within_def
  by (auto simp only: columns_ub_set columns_set_field columns_merge_preferences) (auto split: if_splits)

lemma patch_builder_columns: "distinct (map clause_column (ub_clauses (patch_builder p now)))"
proof -
  let ?b1 = "case pt_display_name p of None \<Rightarrow> new_builder
    | Some n \<Rightarrow> ub_set ''display_name'' (AText n) new_builder"
  have b1: "columns_within {''display_name''} ?b1"
    using columns_within_step [OF columns_within_new] by (auto split: option.split)
  note b2 = columns_within_step(2) [OF b1, of "''city''" AText "pt_city p"]
  note b3 = columns_within_step(2) [OF b2, of "''region''" AText "pt_region p"]
  note b4 = columns_within_step(2) [OF b3, of "''country''" AText "pt_country p"]
  note b5 = columns_within_step(2) [OF b4, of "''gender''" AText "pt_gender p"]
  note b6 = columns_within_step(2) [OF b5, of "''date_of_birth''" ADate "pt_date_of_birth p"]
  note b7 = columns_within_step(2) [OF b6, of "''category''" AText "pt_category p"]
  note b8 = columns_within_step(3) [OF b7, of "''preferences''" "pt_preferences p"]
  note b9 = columns_within_step(1) [OF b8, of "''updated_at''" "ATime now"]
  show ?thesis
    using b9 by (simp add: patch_builder_def Let_def columns_within_def)
qed

section \<open>The statement is the patch\<close>

lemma set_column_owner: "set_column c a r = Inr r' \<Longrightarrow> pw_user_id r' = pw_user_id r"
  unfolding set_column_def
  by (simp split: if_split_asm) (auto split: sum.splits option.splits sql_arg.splits)

lemma exec_clause_owner: "exec_clause args old c r = Inr r' \<Longrightarrow> pw_user_id r' = pw_user_id r"
  by (cases c) (auto split: option.splits sql_arg.splits dest: set_column_owner)

lemma exec_clauses_owner:
  "exec_clauses args old cs r = Inr r' \<Longrightarrow> pw_user_id r' = pw_user_id r"
proof (induction cs arbitrary: r)
  case (Cons c cs)
  then show ?case by (auto split: sum.splits dest: exec_clause_owner)
qed simp

lemma sql_update_profile_stores:
  assumes "sql_update_profile cs (args @ [AUuid uid]) (Suc (length args)) now new d = (Inr r, d')"
  shows "lookup_row pw_user_id uid (db_profiles d') = Some r"
proof -
  from assms obtain old where old: "lookup_row pw_user_id uid (db_profiles d) = Some old"
    "exec_clauses (args @ [AUuid uid]) old cs old = Inr r"
    "db_profiles d' = update_rows pw_user_id uid (\<lambda>_. r) (db_profiles d)"
    by (auto simp: sql_update_profile_def sql_param_last split: if_splits option.splits sum.splits)
  have "pw_user_id r = uid"
    using exec_clauses_owner [OF old(2)] lookup_row_SomeD [OF old(1)] by simp
  then show ?thesis using old by (simp add: lookup_row_update_rows)
qed

text \<open>The statement the repository sends for a patch of a user's profile.\<close>

definition patch_statement :: "profile_patch \<Rightarrow> instant \<Rightarrow> uuid \<Rightarrow> profile_row sql" where
  "patch_statement p t uid =
     (let b = patch_builder p t; args = ub_args b @ [AUuid uid]
      in sql_update_profile (ub_clauses b) args (length args))"

lemma patch_statement_eq:
  assumes "patch_fits p"
  shows "patch_statement p t uid now new d =
     (case lookup_row pw_user_id uid (db_profiles d) of
        None \<Rightarrow> (Inl (Sentinel ErrNoRows), d)
      | Some old \<Rightarrow>
          (case check_profile (patched_row p t old) of
             Some e \<Rightarrow> (Inl e, d)
           | None \<Rightarrow> (Inr (patched_row p t old),
               d\<lparr>db_profiles := update_rows pw_user_id uid (\<lambda>_. patched_row p t old) (db_profiles d)\<rparr>)))"
proof -
  have "exec_clauses (ub_args (patch_builder p t) @ [AUuid uid]) old (ub_clauses (patch_builder p t)) old
      = Inr (patched_row p t old)" for old
    using patch_builder_runs [OF assms] by (simp add: runs_to_def)
  then show ?thesis
    by (simp add: patch_statement_def sql_update_profile_def patch_builder_columns Let_def
        sql_param_last split: option.split)
qed

lemma pg_update_profile_eq:
  "pg_update_profile E uid p w =
     (if is_empty p then pg_find_profile E uid w
      else and_then (map_err update_profile_error
             (db_roundtrip E (patch_statement p (clock_at E (w_tick w)) uid)
                (w\<lparr>w_tick := Suc (w_tick w)\<rparr>)))
           (\<lambda>r w. (Inr (profile_of r), w)))"
  by (simp add: pg_update_profile_def time_now_def patch_statement_def Let_def)

lemma pg_find_profile_ok:
  "pg_find_profile E uid w = (Inr q, w') \<Longrightarrow> stored_profile w' uid = Some q"
  by (auto simp: pg_find_profile_def outcome_iffs sql_profile_by_user_def sql_rows_cases
      stored_profile_def elim!: db_roundtrip_ok)

lemma update_profile_error_is:
  "errors_is (update_profile_error e) ErrProfileNotFound \<longleftrightarrow>
     errors_is e ErrNoRows \<or> (\<not> is_region_country_violation e \<and> errors_is e ErrProfileNotFound)"
  "errors_is (update_profile_error e) ErrProfileConflict \<longleftrightarrow>
     \<not> errors_is e ErrNoRows \<and> (is_region_country_violation e \<or> errors_is e ErrProfileConflict)"
  by (auto simp: update_profile_error_def)

lemma patch_statement_inv: "db_inv d \<Longrightarrow> db_inv (snd (patch_statement p t uid now new d))"
  by (simp add: patch_statement_def Let_def update_profile_inv)

interpretation pg_profiles: profile_repository_contract "pg_profile_repository L E" stored_profile world_inv
  for L E
proof (unfold_locales, goal_cases)
  case (1 w i n)
  then show ?case by (simp add: pg_ensure_exists_def db_roundtrip_inv ensure_profile_inv)
next
  case (2 w i)
  then have "world_inv (snd (db_roundtrip E (sql_profile_by_user i) w))" by (simp add: db_roundtrip_inv)
  then show ?case by (simp add: pg_find_profile_def and_then_inv)
next
  case (3 w i p)
  have "world_inv (snd (db_roundtrip E (sql_profile_by_user i) w))"
    using 3 by (simp add: db_roundtrip_inv)
  moreover have "world_inv (snd (db_roundtrip E (patch_statement p t i) (w\<lparr>w_tick := n\<rparr>)))" for t n
    using 3 by (simp add: db_roundtrip_inv patch_statement_inv)
  ultimately show ?case
    by (simp add: pg_update_profile_eq pg_find_profile_def and_then_inv)
next
  case (4 w lp)
  have "world_inv (snd (db_roundtrip E sql_count_profiles w))"
    using 4 by (simp add: db_roundtrip_inv)
  moreover have "world_inv v \<Longrightarrow> world_inv (snd (db_roundtrip E (sql_list_profiles L l k) v))" for v l k
    by (simp add: db_roundtrip_inv)
  ultimately show ?case
    by (simp add: pg_list_profiles_def Let_def and_then_inv)
next
  case (5 i n w w')
  have "lookup_row pw_user_id i (db_profiles d') \<noteq> None"
    if "sql_ensure_profile i n now new d = (Inr (), d')" for now new d d'
    using that by (auto simp: sql_ensure_profile_def lookup_row_None_iff split: option.splits if_splits)
  with 5 show ?case
    by (auto simp: pg_ensure_exists_def map_err_ok stored_profile_def elim!: db_roundtrip_ok)
next
  case (6 i w q w')
  then show ?case by (simp add: pg_find_profile_ok)
next
  case (7 i w e w')
  then obtain e' where e': "db_roundtrip E (sql_profile_by_user i) w = (Inl e', w')"
    "e = no_rows_to ErrProfileNotFound ''postgres: FindByUserID profile: '' e'"
    by (auto simp: pg_find_profile_def outcome_iffs)
  with 7 have "\<not> driver_error e'" by (auto simp: no_rows_to_is dest: driver_error_plain)
  with e' show ?case
    by (auto simp: sql_profile_by_user_def sql_rows_cases stored_profile_def elim!: db_roundtrip_err)
next
  case (8 i p w q w')
  show ?case
  proof (cases "is_empty p")
    case True
    with 8 show ?thesis by (simp add: pg_update_profile_def pg_find_profile_ok)
  next
    case False
    have stores: "lookup_row pw_user_id i (db_profiles d') = Some r"
      if "patch_statement p t i now new d = (Inr r, d')" for t now new d r d'
      using that by (simp add: patch_statement_def Let_def sql_update_profile_stores)
    with False 8 show ?thesis
      by (auto simp: pg_update_profile_eq outcome_iffs stored_profile_def elim!: db_roundtrip_ok)
  qed
qed

end
