(* ===== verification/ProfileManager.thy ===== *)
theory ProfileManager
  imports PgProfileContract
begin

text \<open>
  The profile manager (\<open>application/profile/manager.go\<close>): the location rules that keep country and
  region consistent, and the operations over the profile repository.
\<close>

section \<open>The location rules\<close>

definition same_value :: "string option \<Rightarrow> string option \<Rightarrow> bool" where
  "same_value a b =
     (case a of None \<Rightarrow> (case b of None \<Rightarrow> True | Some y \<Rightarrow> False)
      | Some x \<Rightarrow> (case b of None \<Rightarrow> False | Some y \<Rightarrow> x = y))"

text \<open>The country a region must belong to, and the patch after the automatic clearing.\<close>

definition effective_country :: "profile \<Rightarrow> profile_patch \<Rightarrow> string option" where
  "effective_country stored patch =
     (if f_set (pt_country patch) then f_value (pt_country patch) else pf_country stored)"

definition clear_stale_region :: "profile \<Rightarrow> profile_patch \<Rightarrow> profile_patch" where
  "clear_stale_region stored patch =
     (if f_set (pt_country patch) \<and> \<not> f_set (pt_region patch) \<and>
         \<not> same_value (pf_country stored) (f_value (pt_country patch))
      then patch\<lparr>pt_region := cleared\<rparr> else patch)"

definition apply_location_rules :: "libs \<Rightarrow> profile \<Rightarrow> profile_patch \<Rightarrow> goerr + profile_patch" where
  "apply_location_rules L stored patch =
     (let country = effective_country stored patch;
          patch = clear_stale_region stored patch
      in (case f_value (pt_region patch) of
            Some r \<Rightarrow>
              (case validate_location L country (Some r) of
                 Some e \<Rightarrow> Inl e | None \<Rightarrow> Inr patch)
          | None \<Rightarrow>
              (case f_value (pt_country patch) of
                 Some c \<Rightarrow>
                   (case validate_location L (Some c) None of
                      Some e \<Rightarrow> Inl e | None \<Rightarrow> Inr patch)
               | None \<Rightarrow> Inr patch)))"

section \<open>Operations\<close>

definition pm_ensure_exists :: "profile_repository \<Rightarrow> uuid \<Rightarrow> string \<Rightarrow> unit io" where
  "pm_ensure_exists F uid name w =
     wrap ''profile manager: EnsureExists: '' (pf_ensure_exists F uid name w)"

definition pm_get_by_user_id :: "profile_repository \<Rightarrow> uuid \<Rightarrow> profile io" where
  "pm_get_by_user_id F uid w =
     wrap ''profile manager: GetByUserID: '' (pf_find_by_user_id F uid w)"

definition pm_update :: "libs \<Rightarrow> profile_repository \<Rightarrow> uuid \<Rightarrow> profile_patch \<Rightarrow> profile io" where
  "pm_update L F uid patch w =
     and_then (wrap ''profile manager: Update: '' (pf_find_by_user_id F uid w)) (\<lambda>stored w.
       if is_empty patch then (Inr stored, w)
       else (case apply_location_rules L stored patch of
               Inl e \<Rightarrow> (Inl e, w)
             | Inr patch' \<Rightarrow> wrap ''profile manager: Update: '' (pf_update F uid patch' w)))"

definition pm_list :: "profile_repository \<Rightarrow> list_params \<Rightarrow> (profile_list_item list \<times> int) io" where
  "pm_list F params w = wrap ''profile manager: List: '' (pf_list F params w)"

record profile_manager =
  pfm_ensure_exists :: "uuid \<Rightarrow> string \<Rightarrow> unit io"
  pfm_get_by_user_id :: "uuid \<Rightarrow> profile io"
  pfm_update :: "uuid \<Rightarrow> profile_patch \<Rightarrow> profile io"
  pfm_list :: "list_params \<Rightarrow> (profile_list_item list \<times> int) io"

definition new_profile_manager :: "libs \<Rightarrow> profile_repository \<Rightarrow> profile_manager" where
  "new_profile_manager L F = \<lparr>pfm_ensure_exists = pm_ensure_exists F,
     pfm_get_by_user_id = pm_get_by_user_id F, pfm_update = pm_update L F, pfm_list = pm_list F\<rparr>"

lemma new_profile_manager_simps [simp]:
  "pfm_ensure_exists (new_profile_manager L F) = pm_ensure_exists F"
  "pfm_get_by_user_id (new_profile_manager L F) = pm_get_by_user_id F"
  "pfm_update (new_profile_manager L F) = pm_update L F"
  "pfm_list (new_profile_manager L F) = pm_list F"
  by (simp_all add: new_profile_manager_def)

section \<open>What the rules guarantee\<close>

text \<open>
  A profile whose location is valid as a whole: no country and no region, or a recognised
  country with, at most, one of its own regions.
\<close>

definition location_valid :: "libs \<Rightarrow> profile \<Rightarrow> bool" where
  "location_valid L q \<longleftrightarrow> validate_location L (pf_country q) (pf_region q) = None"

lemma same_value_iff [simp]: "same_value a b \<longleftrightarrow> a = b"
  by (auto simp: same_value_def split: option.splits)

lemma clear_stale_region_fields [simp]:
  "pt_country (clear_stale_region q p) = pt_country p"
  "pt_city (clear_stale_region q p) = pt_city p"
  "pt_display_name (clear_stale_region q p) = pt_display_name p"
  "pt_gender (clear_stale_region q p) = pt_gender p"
  "pt_date_of_birth (clear_stale_region q p) = pt_date_of_birth p"
  "pt_category (clear_stale_region q p) = pt_category p"
  "pt_preferences (clear_stale_region q p) = pt_preferences p"
  by (simp_all add: clear_stale_region_def)

lemma clear_stale_region_empty: "is_empty (clear_stale_region q p) \<longleftrightarrow> is_empty p"
  by (auto simp: is_empty_def clear_stale_region_def)

text \<open>The region and country after the patch, as the specification computes them.\<close>

lemma patched_location:
  "pf_country (patched_profile p q) = patched (pt_country p) (pf_country q)"
  "pf_region (patched_profile p q) = patched (pt_region p) (pf_region q)"
  by (simp_all add: patched_profile_def)

lemma apply_location_rules_result:
  "apply_location_rules L q p = Inr p' \<Longrightarrow> p' = clear_stale_region q p"
  by (auto simp: apply_location_rules_def Let_def split: option.splits)

lemma apply_location_rules_error:
  "apply_location_rules L q p = Inl e \<Longrightarrow> errors_is e ErrInvalidLocation"
  by (auto simp: apply_location_rules_def Let_def split: option.splits
      dest: validate_location_err)

text \<open>
  On a profile with a valid location the rules accept a patch exactly when the profile it
  gives has a valid location again.
\<close>

lemma apply_location_rules_cases:
  "apply_location_rules L q p = Inr (clear_stale_region q p) \<longleftrightarrow>
     (case f_value (pt_region (clear_stale_region q p)) of
        Some r \<Rightarrow> validate_location L (effective_country q p) (Some r) = None
      | None \<Rightarrow> (case f_value (pt_country p) of
          Some c \<Rightarrow> validate_location L (Some c) None = None | None \<Rightarrow> True))"
  by (simp add: apply_location_rules_def Let_def split: option.split)

lemma apply_location_rules_iff:
  assumes "patch_wf p" and "location_valid L q"
  shows "apply_location_rules L q p = Inr (clear_stale_region q p) \<longleftrightarrow>
    location_valid L (patched_profile (clear_stale_region q p) q)"
proof -
  obtain cs cv where c: "pt_country p = \<lparr>f_set = cs, f_value = cv\<rparr>" by (cases "pt_country p")
  obtain rs rv where r: "pt_region p = \<lparr>f_set = rs, f_value = rv\<rparr>" by (cases "pt_region p")
  have wf: "cs \<or> cv = None" "rs \<or> rv = None"
    using assms(1) c r by (simp_all add: patch_wf_def field_wf_def)
  show ?thesis
    using assms(2) wf
    unfolding apply_location_rules_cases
    unfolding location_valid_def patched_location clear_stale_region_def effective_country_def
      validate_location_iff
    by (cases cs; cases rs; cases cv; cases rv; cases "pf_country q"; cases "pf_region q")
      (auto simp: c r patched_def)
qed

lemma apply_location_rules_valid:
  assumes "patch_wf p" and "location_valid L q" and "apply_location_rules L q p = Inr p'"
  shows "location_valid L (patched_profile p' q)"
  using assms apply_location_rules_iff [OF assms(1,2)] apply_location_rules_result [OF assms(3)]
  by simp

text \<open>A location that passes the rules also passes the check of the table.\<close>

lemma is_upper_not_wildcard: "is_upper c \<Longrightarrow> \<not> wildcard c"
  by (auto simp: is_upper_def wildcard_def code_def)

lemma location_valid_columns:
  assumes "iso_regions_prefixed L" and "location_valid L q"
  shows "region_country_check (pf_region q) (pf_country q)"
    and "opt_len 10 (pf_region q)" and "opt_len 2 (pf_country q)"
proof -
  have c: "list_all is_upper c \<and> length c = 2" if "pf_country q = Some c" for c
    using assms that
    by (auto simp: location_valid_def validate_location_iff valid_country_def iso_regions_prefixed_def)
  then show "opt_len 2 (pf_country q)"
    using char_len_le_length by (cases "pf_country q") (auto, metis)
  have r: "\<exists>c. pf_country q = Some c \<and> has_prefix (c @ ''-'') r \<and> length r \<le> 6"
    if rq: "pf_region q = Some r" for r
  proof -
    obtain c where "pf_country q = Some c" "valid_country L c" "valid_region L c r"
      using assms(2) rq
      by (cases "pf_country q") (auto simp: location_valid_def validate_location_iff)
    then show ?thesis
      using assms(1) unfolding valid_country_def valid_region_def iso_regions_prefixed_def by metis
  qed
  then show "opt_len 10 (pf_region q)"
  proof (cases "pf_region q")
    case (Some s)
    from r [OF Some] have "length s \<le> 6" by blast
    with char_len_le_length [of s] Some show ?thesis by simp
  qed simp
  show "region_country_check (pf_region q) (pf_country q)"
  proof (cases "pf_region q")
    case (Some s)
    from r [OF Some] obtain d where d: "pf_country q = Some d" "has_prefix (d @ ''-'') s" by blast
    have "list_all (\<lambda>x. \<not> wildcard x) (d @ ''-'')"
      using c [OF d(1)] is_upper_not_wildcard by (auto simp: list_all_iff wildcard_def)
    from sql_like_prefix [OF this] d Some show ?thesis by (simp add: region_country_check_def)
  qed (simp add: region_country_check_def)
qed

section \<open>What follows from the contract\<close>

locale profile_manager_context =
  profile_repository_contract F profiles Inv
  for F :: profile_repository and profiles :: "world \<Rightarrow> uuid \<Rightarrow> profile option"
    and Inv :: "world \<Rightarrow> bool" +
  fixes L :: libs
begin

lemma pm_keeps:
  assumes "Inv w"
  shows "Inv (snd (pm_ensure_exists F uid name w))" "Inv (snd (pm_get_by_user_id F uid w))"
    "Inv (snd (pm_list F lp w))"
  using assms
  by (simp_all add: pm_ensure_exists_def pm_get_by_user_id_def pm_list_def ensure_exists_inv
      find_by_user_id_inv list_inv)

lemma pm_update_keeps:
  assumes "Inv w"
  shows "Inv (snd (pm_update L F uid p w))"
  unfolding pm_update_def
proof (rule and_then_inv [where I = Inv])
  show "Inv (snd (wrap ''profile manager: Update: '' (pf_find_by_user_id F uid w)))"
    using assms by (simp add: find_by_user_id_inv)
qed (simp add: update_inv split: sum.split)

text \<open>Every outcome of an update, by the first step that decides it.\<close>

lemma pm_update_cases:
  obtains (No_Profile) e w1 where "pf_find_by_user_id F uid w = (Inl e, w1)"
      "pm_update L F uid p w = (Inl (Wrap ''profile manager: Update: '' e), w1)"
  | (Nothing) q w1 where "pf_find_by_user_id F uid w = (Inr q, w1)" "is_empty p"
      "pm_update L F uid p w = (Inr q, w1)"
  | (Rejected) q w1 e where "pf_find_by_user_id F uid w = (Inr q, w1)" "\<not> is_empty p"
      "apply_location_rules L q p = Inl e" "pm_update L F uid p w = (Inl e, w1)"
  | (Written) q w1 where "pf_find_by_user_id F uid w = (Inr q, w1)" "\<not> is_empty p"
      "apply_location_rules L q p = Inr (clear_stale_region q p)"
      "pm_update L F uid p w =
         wrap ''profile manager: Update: '' (pf_update F uid (clear_stale_region q p) w1)"
proof -
  obtain r w1 where f: "pf_find_by_user_id F uid w = (r, w1)" by (cases "pf_find_by_user_id F uid w")
  show thesis
  proof (cases r)
    case (Inl e)
    with f show thesis by (intro No_Profile [of e w1]) (simp_all add: pm_update_def)
  next
    case (Inr q)
    with f have up: "pm_update L F uid p w =
      (if is_empty p then (Inr q, w1)
       else (case apply_location_rules L q p of Inl e \<Rightarrow> (Inl e, w1)
        | Inr p' \<Rightarrow> wrap ''profile manager: Update: '' (pf_update F uid p' w1)))"
      by (simp add: pm_update_def)
    show thesis
      using Nothing [of q w1] Rejected [of q w1] Written [of q w1] up f Inr
        apply_location_rules_result [of L q p]
      by (cases "is_empty p"; cases "apply_location_rules L q p") simp_all
  qed
qed

lemma pm_update_returns_stored:
  assumes "pm_update L F uid p w = (Inr q, w')"
  shows "profiles w' uid = Some q"
  using assms
  by (cases rule: pm_update_cases [of uid w p])
    (auto simp: map_err_ok dest: update_ok find_by_user_id_ok)

text \<open>A rejected location stops before the write.\<close>

lemma pm_update_rejects:
  assumes "pf_find_by_user_id F uid w = (Inr q, w1)" and "apply_location_rules L q p = Inl e"
    and "\<not> is_empty p"
  shows "pm_update L F uid p w = (Inl e, w1)"
  using assms by (simp add: pm_update_def)

end

interpretation pg_pm: profile_manager_context "pg_profile_repository L E" stored_profile world_inv L
  for L E
  by unfold_locales

section \<open>An update on PostgreSQL\<close>

text \<open>
  What the HTTP layer guarantees of the other fields of a patch: enumerated values are members,
  and texts fit their columns.
\<close>

definition patch_values_ok :: "profile_patch \<Rightarrow> bool" where
  "patch_values_ok p \<longleftrightarrow> patch_wf p \<and> opt_len 255 (pt_display_name p) \<and> field_fits 255 (pt_city p) \<and>
     gender_check (f_value (pt_gender p)) \<and> category_check (f_value (pt_category p))"

lemma gender_check_len: "gender_check g \<Longrightarrow> opt_len 10 g"
  by (cases g) (auto simp: gender_check_def char_len_def is_cont_def code_def)

lemma category_check_len: "category_check g \<Longrightarrow> opt_len 10 g"
  by (cases g) (auto simp: category_check_def char_len_def is_cont_def code_def)

lemma located_patch_fits:
  assumes "iso_regions_prefixed L" and "patch_values_ok p"
    and "location_valid L (patched_profile (clear_stale_region q p) q)"
  shows "patch_fits (clear_stale_region q p)"
proof -
  let ?p = "clear_stale_region q p"
  from location_valid_columns(2,3) [OF assms(1,3)]
  have "field_fits 10 (pt_region ?p)" "field_fits 2 (pt_country ?p)"
    by (auto simp: field_fits_def patched_location patched_def split: if_splits)
  then show ?thesis
    using assms(2) gender_check_len category_check_len
    by (auto simp: patch_fits_def patch_values_ok_def field_fits_def)
qed

lemma located_row_ok:
  assumes "iso_regions_prefixed L" and "patch_values_ok p" and "profile_ok r"
    and "location_valid L (patched_profile (clear_stale_region q p) q)" and "q = profile_of r"
  shows "check_profile (patched_row (clear_stale_region q p) t r) = None"
proof -
  let ?p = "clear_stale_region q p"
  have "pw_region (patched_row ?p t r) = pf_region (patched_profile ?p q)"
    "pw_country (patched_row ?p t r) = pf_country (patched_profile ?p q)"
    using assms(5) by (simp_all add: patched_row_def patched_profile_def profile_of_def unmarshal_preferences_def)
  moreover have "gender_check (patched (pt_gender p) (pw_gender r))"
    "category_check (patched (pt_category p) (pw_category r))"
    using assms(2,3) by (auto simp: patched_def patch_values_ok_def profile_ok_def)
  ultimately show ?thesis
    using location_valid_columns(1) [OF assms(1,4)]
    by (simp add: check_profile_def patched_row_def)
qed

lemma pg_find_profile_quiet:
  assumes "quiet E" and "stored_profile w uid = Some q"
  shows "pg_find_profile E uid w = (Inr q, w\<lparr>w_tick := Suc (w_tick w)\<rparr>)"
  using assms
  by (auto simp: pg_find_profile_def quiet_roundtrip sql_profile_by_user_def sql_rows_def
      stored_profile_def Let_def)

lemma stored_profile_row:
  assumes "world_inv w" and "stored_profile w uid = Some q"
  obtains r where "lookup_row pw_user_id uid (db_profiles (w_db w)) = Some r" "profile_ok r"
    "q = profile_of r"
  using assms
  by (auto simp: stored_profile_def world_inv_def db_inv_def profiles_inv_def dest: lookup_row_SomeD)

lemma pm_update_writes:
  assumes "quiet E" and "iso_regions_prefixed L" and "patch_values_ok p" and "\<not> is_empty p"
    and "world_inv w" and "stored_profile w uid = Some q" and "location_valid L q"
    and "apply_location_rules L q p = Inr p'"
  shows "\<exists>t w'. pm_update L (pg_profile_repository L E) uid p w =
      (Inr ((patched_profile p' q)\<lparr>pf_updated_at := t\<rparr>), w') \<and>
    stored_profile w' uid = Some ((patched_profile p' q)\<lparr>pf_updated_at := t\<rparr>)"
proof -
  have p': "p' = clear_stale_region q p" using apply_location_rules_result [OF assms(8)] .
  have wf: "patch_wf p" using assms(3) by (simp add: patch_values_ok_def)
  have valid: "location_valid L (patched_profile p' q)"
    using apply_location_rules_valid [OF wf assms(7,8)] .
  obtain r where r: "lookup_row pw_user_id uid (db_profiles (w_db w)) = Some r" "profile_ok r"
    "q = profile_of r" using stored_profile_row [OF assms(5,6)] .
  let ?w1 = "w\<lparr>w_tick := Suc (w_tick w)\<rparr>" and ?n = "Suc (w_tick w)"
  let ?t = "clock_at E ?n"
  have ne: "\<not> is_empty p'" using assms(4) p' clear_stale_region_empty by simp
  have "patch_statement p' ?t uid now new (w_db w) =
     (Inr (patched_row p' ?t r), (w_db w)\<lparr>db_profiles :=
        update_rows pw_user_id uid (\<lambda>_. patched_row p' ?t r) (db_profiles (w_db w))\<rparr>)" for now new
    using located_patch_fits [OF assms(2,3)] located_row_ok [OF assms(2,3) r(2) _ r(3)] valid p' r(1)
    by (simp add: patch_statement_eq)
  then have up: "pg_update_profile E uid p' ?w1 =
     (Inr (profile_of (patched_row p' ?t r)), \<lparr>w_db = (w_db w)\<lparr>db_profiles :=
        update_rows pw_user_id uid (\<lambda>_. patched_row p' ?t r) (db_profiles (w_db w))\<rparr>,
        w_tick = Suc (Suc ?n)\<rparr>)"
    using ne assms(1) by (simp add: pg_update_profile_eq quiet_roundtrip Let_def)
  have run: "pm_update L (pg_profile_repository L E) uid p w =
      wrap ''profile manager: Update: '' (pg_update_profile E uid p' ?w1)"
    using assms(4,8) pg_find_profile_quiet [OF assms(1,6)] by (simp add: pm_update_def)
  show ?thesis
  proof (intro exI conjI)
    show "pm_update L (pg_profile_repository L E) uid p w =
      (Inr ((patched_profile p' q)\<lparr>pf_updated_at := to_timestamptz ?t\<rparr>),
       snd (pg_update_profile E uid p' ?w1))"
      using run up r(3) by (simp add: scan_patched_row)
    then show "stored_profile (snd (pg_update_profile E uid p' ?w1)) uid =
      Some ((patched_profile p' q)\<lparr>pf_updated_at := to_timestamptz ?t\<rparr>)"
      by (rule pg_pm.pm_update_returns_stored)
  qed
qed

end
