(* ===== verification/OAuthManager.thy ===== *)
theory OAuthManager
  imports World
begin

text \<open>
  The OAuth types and the provider interface (\<open>infrastructure/oauth2/oauth2.go\<close>), and the OAuth
  manager with its registry of providers (\<open>application/auth/oauth_manager.go\<close>).
\<close>

record user_info =
  ui_provider_id :: string
  ui_email :: string
  ui_name :: string

record device_auth_response =
  da_device_code :: string
  da_user_code :: string
  da_verification_uri :: string
  da_expires_in :: int
  da_interval :: int

record oauth_provider =
  op_auth_code_url :: "string \<Rightarrow> string"
  op_exchange :: "string \<Rightarrow> user_info io"
  op_device_auth :: "device_auth_response io"
  op_device_poll :: "string \<Rightarrow> user_info io"

type_synonym registry = "provider \<rightharpoonup> oauth_provider"

definition oauth_provider_for :: "registry \<Rightarrow> provider \<Rightarrow> goerr + oauth_provider" where
  "oauth_provider_for R p =
     (case R p of
        None \<Rightarrow> Inl (WrapQuoted ''oauth manager: '' (Sentinel ErrProviderNotConfigured) p)
      | Some prov \<Rightarrow> Inr prov)"

definition oauth_redirect_url :: "registry \<Rightarrow> provider \<Rightarrow> string \<Rightarrow> goerr + string" where
  "oauth_redirect_url R p state =
     (case oauth_provider_for R p of Inl e \<Rightarrow> Inl e | Inr prov \<Rightarrow> Inr (op_auth_code_url prov state))"

definition oauth_exchange :: "registry \<Rightarrow> provider \<Rightarrow> string \<Rightarrow> user_info io" where
  "oauth_exchange R p code_text w =
     (case oauth_provider_for R p of
        Inl e \<Rightarrow> (Inl e, w)
      | Inr prov \<Rightarrow> wrap ''oauth manager: exchange: '' (op_exchange prov code_text w))"

definition oauth_device_auth :: "registry \<Rightarrow> provider \<Rightarrow> device_auth_response io" where
  "oauth_device_auth R p w =
     (case oauth_provider_for R p of
        Inl e \<Rightarrow> (Inl e, w)
      | Inr prov \<Rightarrow> wrap ''oauth manager: device auth: '' (op_device_auth prov w))"

definition oauth_device_poll :: "registry \<Rightarrow> provider \<Rightarrow> string \<Rightarrow> user_info io" where
  "oauth_device_poll R p device_code w =
     (case oauth_provider_for R p of
        Inl e \<Rightarrow> (Inl e, w)
      | Inr prov \<Rightarrow> wrap ''oauth manager: device poll: '' (op_device_poll prov device_code w))"

record oauth_manager =
  om_redirect_url :: "provider \<Rightarrow> string \<Rightarrow> goerr + string"
  om_exchange :: "provider \<Rightarrow> string \<Rightarrow> user_info io"
  om_device_auth :: "provider \<Rightarrow> device_auth_response io"
  om_device_poll :: "provider \<Rightarrow> string \<Rightarrow> user_info io"

definition new_oauth_manager :: "registry \<Rightarrow> oauth_manager" where
  "new_oauth_manager R = \<lparr>om_redirect_url = oauth_redirect_url R, om_exchange = oauth_exchange R,
     om_device_auth = oauth_device_auth R, om_device_poll = oauth_device_poll R\<rparr>"

lemma new_oauth_manager_simps [simp]:
  "om_redirect_url (new_oauth_manager R) = oauth_redirect_url R"
  "om_exchange (new_oauth_manager R) = oauth_exchange R"
  "om_device_auth (new_oauth_manager R) = oauth_device_auth R"
  "om_device_poll (new_oauth_manager R) = oauth_device_poll R"
  by (simp_all add: new_oauth_manager_def)

section \<open>Properties\<close>

text \<open>An operation on a provider that is not registered fails before any request.\<close>

lemma oauth_not_configured:
  assumes "R p = None"
  shows "\<exists>e. oauth_redirect_url R p s = Inl e \<and> oauth_exchange R p c w = (Inl e, w) \<and>
    oauth_device_auth R p w = (Inl e, w) \<and> oauth_device_poll R p d w = (Inl e, w) \<and>
    errors_is e ErrProviderNotConfigured"
  using assms
  by (simp add: oauth_provider_for_def oauth_redirect_url_def oauth_exchange_def
      oauth_device_auth_def oauth_device_poll_def)

text \<open>Providers that keep an invariant give a manager that keeps it.\<close>

definition registry_keeps :: "(world \<Rightarrow> bool) \<Rightarrow> registry \<Rightarrow> bool" where
  "registry_keeps I R \<longleftrightarrow>
     (\<forall>p prov. R p = Some prov \<longrightarrow>
        (\<forall>w c. I w \<longrightarrow> I (snd (op_exchange prov c w)) \<and> I (snd (op_device_auth prov w)) \<and>
           I (snd (op_device_poll prov c w))))"

lemma oauth_keeps:
  assumes "registry_keeps I R" and "I w"
  shows "I (snd (oauth_exchange R p c w))" "I (snd (oauth_device_auth R p w))"
    "I (snd (oauth_device_poll R p c w))"
  using assms
  by (auto simp: registry_keeps_def oauth_provider_for_def oauth_exchange_def
      oauth_device_auth_def oauth_device_poll_def split: option.split)

end
