(* ===== verification/AuthManager.thy ===== *)
theory AuthManager
  imports UserManager ProfileManager JwtAdapter OAuthManager
begin

text \<open>
  The root manager of authentication (\<open>application/auth/manager.go\<close>): it composes the user, JWT
  and OAuth managers and creates the profile of a user at every sign-in.
\<close>

definition auth_redirect_url :: "oauth_manager \<Rightarrow> provider \<Rightarrow> string \<Rightarrow> goerr + string" where
  "auth_redirect_url G p state = om_redirect_url G p state"

definition auth_oauth_callback ::
  "user_manager \<Rightarrow> jwt_manager \<Rightarrow> oauth_manager \<Rightarrow> (uuid \<Rightarrow> string \<Rightarrow> unit io) \<Rightarrow>
     provider \<Rightarrow> string \<Rightarrow> string io" where
  "auth_oauth_callback M J G ensure p code_text w =
     and_then (wrap ''auth manager: OAuthCallback: '' (om_exchange G p code_text w)) (\<lambda>info w.
     and_then (wrap ''auth manager: OAuthCallback: ''
        (um_resolve_by_oauth M p (ui_provider_id info) (ui_email info) (ui_name info) w)) (\<lambda>u w.
     and_then (wrap ''auth manager: OAuthCallback: '' (ensure (u_id u) (u_name u) w)) (\<lambda>_ w.
     jm_sign J u w)))"

definition auth_device_init :: "oauth_manager \<Rightarrow> provider \<Rightarrow> device_auth_response io" where
  "auth_device_init G p w = om_device_auth G p w"

definition auth_device_poll ::
  "user_manager \<Rightarrow> jwt_manager \<Rightarrow> oauth_manager \<Rightarrow> (uuid \<Rightarrow> string \<Rightarrow> unit io) \<Rightarrow>
     provider \<Rightarrow> string \<Rightarrow> string io" where
  "auth_device_poll M J G ensure p device_code w =
     and_then (wrap ''auth manager: DevicePoll: '' (om_device_poll G p device_code w)) (\<lambda>info w.
     and_then (wrap ''auth manager: DevicePoll: ''
        (um_resolve_by_oauth M p (ui_provider_id info) (ui_email info) (ui_name info) w)) (\<lambda>u w.
     and_then (wrap ''auth manager: DevicePoll: '' (ensure (u_id u) (u_name u) w)) (\<lambda>_ w.
     jm_sign J u w)))"

definition auth_exchange_pat :: "user_manager \<Rightarrow> jwt_manager \<Rightarrow> string \<Rightarrow> string io" where
  "auth_exchange_pat M J raw w =
     and_then (wrap ''auth manager: ExchangePAT: '' (um_resolve_by_pat M raw w)) (\<lambda>u w. jm_sign J u w)"

definition refresh_error :: "goerr \<Rightarrow> goerr" where
  "refresh_error e =
     (if errors_is e ErrUserNotFound
      then WrapTwo ''auth manager: RefreshJWT: '' (Sentinel ErrUnauthorized) e
      else Wrap ''auth manager: RefreshJWT: '' e)"

definition auth_refresh_jwt :: "libs \<Rightarrow> user_manager \<Rightarrow> jwt_manager \<Rightarrow> string \<Rightarrow> string io" where
  "auth_refresh_jwt L M J token w =
     and_then (wrap ''auth manager: RefreshJWT: '' (jm_validate J token w)) (\<lambda>c w.
       case lib_uuid_parse L (cl_subject c) of
         None \<Rightarrow> (Inl (Wrap ''auth manager: RefreshJWT: invalid subject: '' (Sentinel ErrUnauthorized)), w)
       | Some i \<Rightarrow> and_then (map_err refresh_error (um_find_by_id M i w)) (\<lambda>u w. jm_sign J u w))"

definition auth_create_pat :: "user_manager \<Rightarrow> uuid \<Rightarrow> instant option \<Rightarrow> string io" where
  "auth_create_pat M uid expires w = um_create_pat M uid expires w"

definition auth_revoke_pat :: "user_manager \<Rightarrow> uuid \<Rightarrow> unit io" where
  "auth_revoke_pat M i w = um_revoke_pat M i w"

definition auth_list_pats :: "user_manager \<Rightarrow> pat list io" where
  "auth_list_pats M w = um_list_pats M w"

definition auth_update_user_role :: "user_manager \<Rightarrow> uuid \<Rightarrow> role \<Rightarrow> unit io" where
  "auth_update_user_role M uid r w = um_update_user_role M uid r w"

definition auth_bootstrap_admin ::
  "user_manager \<Rightarrow> (uuid \<Rightarrow> string \<Rightarrow> unit io) \<Rightarrow> string \<Rightarrow> string \<Rightarrow> string \<Rightarrow> string io" where
  "auth_bootstrap_admin M ensure email name raw w =
     and_then (wrap ''auth manager: BootstrapAdmin: '' (um_bootstrap_admin M email name raw w)) (\<lambda>r w.
       case fst r of
         None \<Rightarrow> (Inr (snd r), w)
       | Some u \<Rightarrow>
           and_then (wrap ''auth manager: BootstrapAdmin: '' (ensure (u_id u) (u_name u) w))
             (\<lambda>_ w. (Inr (snd r), w)))"

record auth_manager =
  am_redirect_url :: "provider \<Rightarrow> string \<Rightarrow> goerr + string"
  am_oauth_callback :: "provider \<Rightarrow> string \<Rightarrow> string io"
  am_device_init :: "provider \<Rightarrow> device_auth_response io"
  am_device_poll :: "provider \<Rightarrow> string \<Rightarrow> string io"
  am_exchange_pat :: "string \<Rightarrow> string io"
  am_refresh_jwt :: "string \<Rightarrow> string io"
  am_create_pat :: "uuid \<Rightarrow> instant option \<Rightarrow> string io"
  am_revoke_pat :: "uuid \<Rightarrow> unit io"
  am_list_pats :: "pat list io"
  am_update_user_role :: "uuid \<Rightarrow> role \<Rightarrow> unit io"
  am_bootstrap_admin :: "string \<Rightarrow> string \<Rightarrow> string \<Rightarrow> string io"

definition new_auth_manager ::
  "libs \<Rightarrow> user_manager \<Rightarrow> jwt_manager \<Rightarrow> oauth_manager \<Rightarrow> (uuid \<Rightarrow> string \<Rightarrow> unit io) \<Rightarrow> auth_manager"
where
  "new_auth_manager L M J G ensure = \<lparr>am_redirect_url = auth_redirect_url G,
     am_oauth_callback = auth_oauth_callback M J G ensure, am_device_init = auth_device_init G,
     am_device_poll = auth_device_poll M J G ensure, am_exchange_pat = auth_exchange_pat M J,
     am_refresh_jwt = auth_refresh_jwt L M J, am_create_pat = auth_create_pat M,
     am_revoke_pat = auth_revoke_pat M, am_list_pats = auth_list_pats M,
     am_update_user_role = auth_update_user_role M,
     am_bootstrap_admin = auth_bootstrap_admin M ensure\<rparr>"

section \<open>What a sign-in guarantees\<close>

text \<open>
  The two OAuth flows have the same second half: the user is resolved, the profile ensured and
  a token signed for the stored user.
\<close>

definition auth_sign_in ::
  "string \<Rightarrow> user_manager \<Rightarrow> jwt_manager \<Rightarrow> (uuid \<Rightarrow> string \<Rightarrow> unit io) \<Rightarrow> provider \<Rightarrow> user_info \<Rightarrow> string io"
where
  "auth_sign_in prefix M J ensure p info w =
     and_then (wrap prefix
        (um_resolve_by_oauth M p (ui_provider_id info) (ui_email info) (ui_name info) w)) (\<lambda>u w.
     and_then (wrap prefix (ensure (u_id u) (u_name u) w)) (\<lambda>_ w. jm_sign J u w))"

lemma auth_oauth_callback_sign_in:
  "auth_oauth_callback M J G ensure p c w =
     and_then (wrap ''auth manager: OAuthCallback: '' (om_exchange G p c w))
       (auth_sign_in ''auth manager: OAuthCallback: '' M J ensure p)"
  by (simp add: auth_oauth_callback_def auth_sign_in_def [abs_def])

lemma auth_device_poll_sign_in:
  "auth_device_poll M J G ensure p c w =
     and_then (wrap ''auth manager: DevicePoll: '' (om_device_poll G p c w))
       (auth_sign_in ''auth manager: DevicePoll: '' M J ensure p)"
  by (simp add: auth_device_poll_def auth_sign_in_def [abs_def])

text \<open>
  The managers over repositories that meet their contracts. \<open>signed_at\<close> says a token carries the
  claims of a user, signed at a contact with the clock.
\<close>

definition signed_at :: "libs \<Rightarrow> env \<Rightarrow> jwt_lib \<Rightarrow> jwt_adapter \<Rightarrow> nat \<Rightarrow> user \<Rightarrow> string \<Rightarrow> bool" where
  "signed_at L E J a n u t \<longleftrightarrow>
     jl_verifies J (HMAC ''HS256'') (ja_secret a) t (user_claims L J a (clock_at E n) u)"

lemma jm_sign_ok:
  assumes "jwt_lib_ok J" and "jm_sign (new_jwt_manager L E J a) u w = (Inr t, w')"
  shows "signed_at L E J a (w_tick w) u t" and "w' = w\<lparr>w_tick := Suc (w_tick w)\<rparr>"
proof -
  obtain t' where "jwt_sign L E J a u w = (Inr t', w\<lparr>w_tick := Suc (w_tick w)\<rparr>)"
    "jl_verifies J (HMAC ''HS256'') (ja_secret a) t' (user_claims L J a (clock_at E (w_tick w)) u)"
    using jwt_sign_ok [OF assms(1)] .
  with assms(2) show "signed_at L E J a (w_tick w) u t" "w' = w\<lparr>w_tick := Suc (w_tick w)\<rparr>"
    by (auto simp: map_err_ok signed_at_def)
qed

locale auth_context =
  user_manager_context U users P pats Inv L E + profile_repository_contract F profiles Inv
  for U :: user_repository and users :: "world \<Rightarrow> user list"
    and P :: pat_repository and pats :: "world \<Rightarrow> pat list"
    and F :: profile_repository and profiles :: "world \<Rightarrow> uuid \<Rightarrow> profile option"
    and Inv :: "world \<Rightarrow> bool" and L :: libs and E :: env
begin

lemma jm_keeps:
  "Inv w \<Longrightarrow> Inv (snd (jm_sign (new_jwt_manager L E J a) u w))"
  "Inv w \<Longrightarrow> Inv (snd (jm_validate (new_jwt_manager L E J a) t w))"
  by (auto simp: jwt_sign_def jwt_validate_def time_now_def inv_tick split: sum.split option.split)

lemma ensure_keeps: "Inv w \<Longrightarrow> Inv (snd (pm_ensure_exists F i n w))"
  by (simp add: pm_ensure_exists_def ensure_exists_inv)

lemma auth_sign_in_keeps:
  assumes "Inv w"
  shows "Inv (snd (auth_sign_in q (new_user_manager L E U P) (new_jwt_manager L E J a)
    (pm_ensure_exists F) p info w))"
  unfolding auth_sign_in_def
  by (intro and_then_inv [where I = Inv] jm_keeps)
    (simp_all add: assms resolve_by_oauth_keeps ensure_keeps del: new_jwt_manager_simps)

lemma auth_flows_keep:
  assumes "Inv w" and "registry_keeps Inv R"
  shows "Inv (snd (auth_oauth_callback (new_user_manager L E U P) (new_jwt_manager L E J a)
      (new_oauth_manager R) (pm_ensure_exists F) p c w))"
    and "Inv (snd (auth_device_poll (new_user_manager L E U P) (new_jwt_manager L E J a)
      (new_oauth_manager R) (pm_ensure_exists F) p c w))"
  unfolding auth_oauth_callback_sign_in auth_device_poll_sign_in
  using assms
  by (simp_all add: and_then_inv [where I = Inv] auth_sign_in_keeps oauth_keeps)

lemma auth_exchange_pat_keeps:
  "Inv w \<Longrightarrow> Inv (snd (auth_exchange_pat (new_user_manager L E U P) (new_jwt_manager L E J a) raw w))"
  unfolding auth_exchange_pat_def
  by (intro and_then_inv [where I = Inv] jm_keeps) (simp_all add: resolve_by_pat_keeps)

lemma auth_refresh_jwt_keeps:
  assumes "Inv w"
  shows "Inv (snd (auth_refresh_jwt L (new_user_manager L E U P) (new_jwt_manager L E J a) t w))"
proof -
  have "Inv (snd (and_then (map_err refresh_error (find_user U i v))
      (\<lambda>u w. jm_sign (new_jwt_manager L E J a) u w)))" if "Inv v" for i v
    by (intro and_then_inv [where I = Inv] jm_keeps) (simp_all add: that find_user_keeps)
  then show ?thesis
    unfolding auth_refresh_jwt_def
    by (intro and_then_inv [where I = Inv])
      (simp_all add: assms jm_keeps del: new_jwt_manager_simps split: option.split)
qed

lemma auth_bootstrap_keeps:
  assumes "Inv w"
  shows "Inv (snd (auth_bootstrap_admin (new_user_manager L E U P) (pm_ensure_exists F) email name raw w))"
proof -
  have "Inv (snd (and_then (wrap s (pm_ensure_exists F i n v)) (\<lambda>_ w. (Inr x, w))))"
    if "Inv v" for s i n v and x :: string
    by (intro and_then_inv [where I = Inv]) (simp_all add: that ensure_keeps)
  then show ?thesis
    unfolding auth_bootstrap_admin_def
    by (intro and_then_inv [where I = Inv])
      (simp_all add: assms bootstrap_admin_keeps split: option.split)
qed

text \<open>
  A sign-in that returns a token resolved a stored user with that identity, made sure of the
  profile and signed the claims of that user.
\<close>

lemma auth_sign_in_result:
  assumes "auth_sign_in q (new_user_manager L E U P) (new_jwt_manager L E J a)
      (pm_ensure_exists F) p info w = (Inr t, w')" and "jwt_lib_ok J"
  shows "\<exists>u w1 w2. resolve_by_oauth U p (ui_provider_id info) (ui_email info) (ui_name info) w = (Inr u, w1) \<and>
    u \<in> set (users w1) \<and> varchar 50 p = Some (u_provider u) \<and>
    varchar 255 (ui_provider_id info) = Some (u_provider_id u) \<and>
    varchar 255 (ui_email info) = Some (u_email u) \<and>
    profiles w2 (u_id u) \<noteq> None \<and> w' = w2\<lparr>w_tick := Suc (w_tick w2)\<rparr> \<and>
    signed_at L E J a (w_tick w2) u t"
proof -
  from assms(1) obtain u w1 w2 where
    u: "resolve_by_oauth U p (ui_provider_id info) (ui_email info) (ui_name info) w = (Inr u, w1)"
    "pm_ensure_exists F (u_id u) (u_name u) w1 = (Inr (), w2)"
    "jm_sign (new_jwt_manager L E J a) u w2 = (Inr t, w')"
    unfolding auth_sign_in_def by (auto simp: outcome_iffs simp del: new_jwt_manager_simps)
  from u(2) have "profiles w2 (u_id u) \<noteq> None"
    by (auto simp: pm_ensure_exists_def map_err_ok dest: ensure_exists_ok)
  with u(1) resolve_by_oauth_result [OF u(1)] jm_sign_ok [OF assms(2) u(3)] show ?thesis by blast
qed

lemma auth_exchange_pat_result:
  assumes "auth_exchange_pat (new_user_manager L E U P) (new_jwt_manager L E J a) raw w = (Inr t, w')"
    and "jwt_lib_ok J"
  shows "\<exists>u w1. resolve_by_pat L E U P raw w = (Inr u, w1) \<and> signed_at L E J a (w_tick w1) u t"
proof -
  from assms(1) obtain u w1 where "resolve_by_pat L E U P raw w = (Inr u, w1)"
    "jm_sign (new_jwt_manager L E J a) u w1 = (Inr t, w')"
    unfolding auth_exchange_pat_def by (auto simp: outcome_iffs simp del: new_jwt_manager_simps)
  with jm_sign_ok(1) [OF assms(2)] show ?thesis by blast
qed

text \<open>
  A refreshed token is signed for the record the user has at that moment, under the identifier
  of the old token: role and email are the current ones.
\<close>

lemma auth_refresh_result:
  assumes "auth_refresh_jwt L (new_user_manager L E U P) (new_jwt_manager L E J a) t w = (Inr t', w')"
    and "jwt_lib_ok J"
  shows "\<exists>c u w2 alg. jl_verifies J (HMAC alg) (ja_secret a) t c \<and>
    not_expired c (clock_at E (w_tick w)) \<and> u \<in> set (users w2) \<and>
    lib_uuid_parse L (cl_subject c) = Some (u_id u) \<and> w' = w2\<lparr>w_tick := Suc (w_tick w2)\<rparr> \<and>
    signed_at L E J a (w_tick w2) u t'"
proof -
  from assms(1) obtain c w1 where c: "jwt_validate E J a t w = (Inr c, w1)"
    by (auto simp: auth_refresh_jwt_def outcome_iffs)
  with assms(1) obtain i u w2 where u: "lib_uuid_parse L (cl_subject c) = Some i"
    "ur_find_by_id U i w1 = (Inr u, w2)" "jm_sign (new_jwt_manager L E J a) u w2 = (Inr t', w')"
    by (auto simp: auth_refresh_jwt_def outcome_iffs find_user_def split: option.splits)
  from find_by_id_ok [OF u(2)] have "u \<in> set (users w2)" "u_id u = i" by simp_all
  with u jm_sign_ok [OF assms(2) u(3)] c jwt_validate_iff [OF assms(2)] show ?thesis by metis
qed

text \<open>A refresh for a user that no longer exists, or with an invalid token, is unauthorized.\<close>

lemma auth_refresh_deleted:
  assumes "jwt_validate E J a t w = (Inr c, w1)" and "lib_uuid_parse L (cl_subject c) = Some i"
    and "ur_find_by_id U i w1 = (Inl e, w2)" and "errors_is e ErrUserNotFound"
  shows "\<exists>e'. auth_refresh_jwt L (new_user_manager L E U P) (new_jwt_manager L E J a) t w = (Inl e', w2) \<and>
    errors_is e' ErrUnauthorized"
  using assms by (simp add: auth_refresh_jwt_def find_user_def refresh_error_def)

end

interpretation pg_auth: auth_context "pg_user_repository E" stored_users "pg_pat_repository E"
  stored_pats "pg_profile_repository L E" stored_profile world_inv L E for L E
  by unfold_locales

end
