(* ===== verification/GoUrl.thy ===== *)
theory GoUrl
  imports GoJson "HOL-Library.List_Lexorder"
begin

text \<open>
  What the code uses of \<open>net/url\<close>: \<open>QueryEscape\<close>, \<open>ParseQuery\<close> and \<open>Values.Encode\<close>. The values of a
  form are a list of keys with their values, in the order they were added.
\<close>

definition unreserved :: "char \<Rightarrow> bool" where
  "unreserved c \<longleftrightarrow> is_lower c \<or> is_upper c \<or> is_digit c \<or> c \<in> set ''-_.~''"

definition upper_hex :: "nat \<Rightarrow> char" where
  "upper_hex d = ''0123456789ABCDEF'' ! d"

definition escape_char :: "char \<Rightarrow> string" where
  "escape_char c =
     (if c = CHR '' '' then ''+''
      else if unreserved c then [c]
      else [CHR ''%'', upper_hex (code c div 16), upper_hex (code c mod 16)])"

definition query_escape :: "string \<Rightarrow> string" where
  "query_escape s = concat (map escape_char s)"

fun query_unescape :: "string \<Rightarrow> string option" where
  "query_unescape [] = Some []"
| "query_unescape (c # s) =
     (if c = CHR ''%'' then
        (case s of
           a # b # t \<Rightarrow>
             (case (hex_val a, hex_val b) of
                (Some x, Some y) \<Rightarrow> map_option ((#) (char_of (16 * x + y))) (query_unescape t)
              | _ \<Rightarrow> None)
         | _ \<Rightarrow> None)
      else map_option ((#) (if c = CHR ''+'' then CHR '' '' else c)) (query_unescape s))"

text \<open>One part between ampersands: \<open>Inl ()\<close> an error, \<open>Inr None\<close> an empty part.\<close>

definition parse_pair :: "string \<Rightarrow> unit + (string \<times> string) option" where
  "parse_pair part =
     (if CHR '';'' \<in> set part then Inl ()
      else if part = [] then Inr None
      else (case cut_at (CHR ''='') part of (k, v) \<Rightarrow>
        (case (query_unescape k, query_unescape v) of
           (Some k', Some v') \<Rightarrow> Inr (Some (k', v'))
         | _ \<Rightarrow> Inl ())))"

fun parse_parts :: "string list \<Rightarrow> (string \<times> string) list option" where
  "parse_parts [] = Some []"
| "parse_parts (p # ps) =
     (case parse_pair p of
        Inl _ \<Rightarrow> None
      | Inr None \<Rightarrow> parse_parts ps
      | Inr (Some kv) \<Rightarrow> map_option ((#) kv) (parse_parts ps))"

text \<open>\<open>None\<close> when \<open>ParseQuery\<close> returns an error.\<close>

definition parse_query :: "string \<Rightarrow> (string \<times> string) list option" where
  "parse_query s = parse_parts (split_on (CHR ''&'') s)"

text \<open>\<open>Values.Get\<close>: the first value, empty when there is none.\<close>

definition values_get :: "(string \<times> string) list \<Rightarrow> string \<Rightarrow> string" where
  "values_get vs k = (case map_of vs k of None \<Rightarrow> [] | Some v \<Rightarrow> v)"

definition encode_values :: "(string \<times> string) list \<Rightarrow> string" where
  "encode_values vs =
     join_with ''&'' (map (\<lambda>kv. query_escape (fst kv) @ ''='' @ query_escape (snd kv))
       (sort_key (\<lambda>kv. map code (fst kv)) vs))"

section \<open>Round trips\<close>

lemma hex_val_upper_hex: "d < 16 \<Longrightarrow> hex_val (upper_hex d) = Some d"
proof -
  assume "d < 16"
  then have "d = 0 \<or> d = 1 \<or> d = 2 \<or> d = 3 \<or> d = 4 \<or> d = 5 \<or> d = 6 \<or> d = 7 \<or>
    d = 8 \<or> d = 9 \<or> d = 10 \<or> d = 11 \<or> d = 12 \<or> d = 13 \<or> d = 14 \<or> d = 15" by presburger
  then show ?thesis by (elim disjE) (simp_all add: hex_val_def upper_hex_def is_digit_def code_def)
qed

lemma upper_hex_unreserved: "d < 16 \<Longrightarrow> unreserved (upper_hex d)"
proof -
  assume "d < 16"
  then have "upper_hex d \<in> set ''0123456789ABCDEF''"
    unfolding upper_hex_def by (intro nth_mem) simp
  then show ?thesis by (auto simp: unreserved_def is_digit_def is_upper_def code_def)
qed

lemma code_halves: "code c div 16 < 16" "code c mod 16 < 16"
  using code_less_256 [of c] by (simp_all add: div_less_iff_less_mult)

lemma unescape_escape_char:
  "query_unescape (escape_char c @ t) = map_option ((#) c) (query_unescape t)"
proof -
  have "16 * (code c div 16) + code c mod 16 = code c" by simp
  moreover have "char_of (code c) = c" by (simp add: code_def)
  moreover have "unreserved c \<Longrightarrow> c \<noteq> CHR ''%'' \<and> c \<noteq> CHR ''+''"
    by (auto simp: unreserved_def is_digit_def is_upper_def is_lower_def code_def)
  ultimately show ?thesis
    using hex_val_upper_hex code_halves [of c] by (simp add: escape_char_def)
qed

theorem query_unescape_escape: "query_unescape (query_escape s) = Some s"
  by (induction s) (simp_all add: query_escape_def unescape_escape_char)

definition query_safe :: "char \<Rightarrow> bool" where
  "query_safe c \<longleftrightarrow> c \<noteq> CHR ''&'' \<and> c \<noteq> CHR ''='' \<and> c \<noteq> CHR '';''"

lemma unreserved_safe: "unreserved c \<Longrightarrow> query_safe c"
  by (auto simp: unreserved_def query_safe_def is_digit_def is_upper_def is_lower_def code_def)

lemma query_escape_safe: "list_all query_safe (query_escape s)"
proof (induction s)
  case (Cons c s)
  have "list_all query_safe (escape_char c)"
    using code_halves [of c] unreserved_safe upper_hex_unreserved
    by (simp add: escape_char_def) (simp add: query_safe_def)
  with Cons show ?case by (simp add: query_escape_def)
qed (simp add: query_escape_def)

lemma cut_at_append: "c \<notin> set k \<Longrightarrow> cut_at c (k @ c # v) = (k, v)"
  by (induction k) auto

lemma parse_pair_escaped:
  "parse_pair (query_escape k @ ''='' @ query_escape v) = Inr (Some (k, v))"
proof -
  have "CHR ''='' \<notin> set (query_escape k)" "CHR '';'' \<notin> set (query_escape k)"
    "CHR '';'' \<notin> set (query_escape v)"
    using query_escape_safe [of k] query_escape_safe [of v] by (auto simp: list_all_iff query_safe_def)
  then show ?thesis
    using cut_at_append [of "CHR ''=''" "query_escape k" "query_escape v"]
    by (simp add: parse_pair_def query_unescape_escape)
qed

lemma split_on_fresh: "c \<notin> set t \<Longrightarrow> split_on c t = [t]"
  by (induction t) auto

lemma split_on_append: "c \<notin> set t \<Longrightarrow> split_on c (t @ c # s) = t # split_on c s"
  by (induction t) auto

lemma split_join:
  "ts \<noteq> [] \<Longrightarrow> (\<forall>t \<in> set ts. c \<notin> set t) \<Longrightarrow> split_on c (join_with [c] ts) = ts"
  by (induction "[c]" ts rule: join_with.induct) (simp_all add: split_on_fresh split_on_append)

text \<open>A form parses back to its values, sorted by key.\<close>

theorem parse_encode:
  "parse_query (encode_values vs) = Some (sort_key (\<lambda>kv. map code (fst kv)) vs)"
proof -
  define ss where "ss = sort_key (\<lambda>kv. map code (fst kv)) vs"
  let ?part = "\<lambda>kv. query_escape (fst kv) @ ''='' @ query_escape (snd kv)"
  have "parse_parts (map ?part xs) = Some xs" for xs
    by (induction xs) (simp_all add: parse_pair_escaped [simplified])
  moreover have "CHR ''&'' \<notin> set (?part kv)" for kv :: "string \<times> string"
    using query_escape_safe [of "fst kv"] query_escape_safe [of "snd kv"]
    by (auto simp: list_all_iff query_safe_def)
  then have "ss \<noteq> [] \<Longrightarrow> split_on (CHR ''&'') (join_with ''&'' (map ?part ss)) = map ?part ss"
    by (intro split_join) auto
  moreover have "parse_query (join_with ''&'' (map ?part [])) = Some []"
    by (simp add: parse_query_def parse_pair_def)
  ultimately show ?thesis
    unfolding parse_query_def encode_values_def ss_def [symmetric]
    by (cases "ss = []") (simp_all add: parse_query_def)
qed

end
