(* ===== verification/GoCivil.thy ===== *)
theory GoCivil
  imports GoTime
begin

text \<open>
  Instants as calendar dates and times of day (UTC): \<open>time.Parse(time.RFC3339, \<dots>)\<close> and the format
  \<open>2006-01-02T15:04:05Z\<close>. Days are counted from 1970-01-01 in the proleptic Gregorian calendar.
\<close>

definition day_ns :: int where
  "day_ns = 86400 * second"

text \<open>A year that starts in March puts the leap day last.\<close>

definition days_of_civil :: "nat \<Rightarrow> nat \<Rightarrow> nat \<Rightarrow> int" where
  "days_of_civil y m d =
     (let yy = int y - (if m \<le> 2 then 1 else 0);
          era = yy div 400; yoe = yy mod 400;
          mp = (if m \<le> 2 then int m + 9 else int m - 3);
          doy = (153 * mp + 2) div 5 + int d - 1;
          doe = yoe * 365 + yoe div 4 - yoe div 100 + doy
      in era * 146097 + doe - 719468)"

definition civil_of_days :: "int \<Rightarrow> int \<times> int \<times> int" where
  "civil_of_days z0 =
     (let z = z0 + 719468;
          era = z div 146097; doe = z mod 146097;
          yoe = (doe - doe div 1460 + doe div 36524 - doe div 146096) div 365;
          doy = doe - (365 * yoe + yoe div 4 - yoe div 100);
          mp = (5 * doy + 2) div 153;
          d = doy - (153 * mp + 2) div 5 + 1;
          m = (if mp < 10 then mp + 3 else mp - 9)
      in (yoe + era * 400 + (if m \<le> 2 then 1 else 0), m, d))"

text \<open>
  The format of an instant; a year outside 0 to 9999 is written with the digits it has, a
  negative one after a minus sign.
\<close>

definition format_year :: "int \<Rightarrow> string" where
  "format_year y =
     (let s = nat_dec (nat \<bar>y\<bar>); p = replicate (4 - length s) (CHR ''0'') @ s
      in if y < 0 then CHR ''-'' # p else p)"

definition format_utc :: "instant \<Rightarrow> string" where
  "format_utc t =
     (case civil_of_days (t div day_ns) of (y, m, d) \<Rightarrow>
        (let secs = (t mod day_ns) div second
         in format_year y @ ''-'' @ pad2 (nat m) @ ''-'' @ pad2 (nat d) @ ''T'' @
            pad2 (nat (secs div 3600)) @ '':'' @ pad2 (nat (secs mod 3600 div 60)) @ '':'' @
            pad2 (nat (secs mod 60)) @ ''Z''))"

section \<open>Parsing RFC 3339\<close>

text \<open>Two digits; \<open>fixed\<close> or not, as \<open>getnum\<close>.\<close>

definition getnum :: "bool \<Rightarrow> string \<Rightarrow> (nat \<times> string) option" where
  "getnum fixed s =
     (case s of
        [] \<Rightarrow> None
      | a # t \<Rightarrow>
          if \<not> is_digit a then None
          else (case t of
                  b # u \<Rightarrow>
                    if is_digit b then Some (10 * digit_val a + digit_val b, u)
                    else if fixed then None else Some (digit_val a, t)
                | [] \<Rightarrow> if fixed then None else Some (digit_val a, t)))"

definition expect :: "char \<Rightarrow> string \<Rightarrow> string option" where
  "expect c s = (case s of [] \<Rightarrow> None | a # t \<Rightarrow> if a = c then Some t else None)"

definition get_year :: "string \<Rightarrow> (nat \<times> string) option" where
  "get_year s =
     (if length s < 4 \<or> \<not> list_all is_digit (take 4 s) then None
      else Some (dec_val (take 4 s), drop 4 s))"

text \<open>Fractional seconds: nine digits count, the rest are dropped.\<close>

definition get_frac :: "string \<Rightarrow> nat \<times> string" where
  "get_frac s =
     (case s of
        a # b # t \<Rightarrow>
          if (a = CHR ''.'' \<or> a = CHR '','') \<and> is_digit b then
            (let ds = take 9 (takeWhile is_digit (b # t))
             in (dec_val ds * 10 ^ (9 - length ds), dropWhile is_digit (b # t)))
          else (0, s)
      | _ \<Rightarrow> (0, s))"

text \<open>The zone, as seconds east of UTC; nothing may follow it.\<close>

definition get_zone :: "string \<Rightarrow> int option" where
  "get_zone s =
     (if s = ''Z'' then Some 0
      else (case s of
              [sign, a, b, colon, c, d] \<Rightarrow>
                if colon \<noteq> CHR '':'' \<or> \<not> list_all is_digit [a, b, c, d] then None
                else
                  (let hr = dec_val [a, b]; mm = dec_val [c, d]; off = int (hr * 3600 + mm * 60)
                   in if hr > 24 \<or> mm > 60 then None
                      else if sign = CHR ''+'' then Some off
                      else if sign = CHR ''-'' then Some (- off)
                      else None)
            | _ \<Rightarrow> None))"

definition bind2 :: "('a \<times> string) option \<Rightarrow> ('a \<Rightarrow> string \<Rightarrow> 'b option) \<Rightarrow> 'b option" where
  "bind2 r f = (case r of None \<Rightarrow> None | Some (x, s) \<Rightarrow> f x s)"

definition bind1 :: "string option \<Rightarrow> (string \<Rightarrow> 'b option) \<Rightarrow> 'b option" where
  "bind1 r f = (case r of None \<Rightarrow> None | Some s \<Rightarrow> f s)"

definition parse_rfc3339 :: "string \<Rightarrow> instant option" where
  "parse_rfc3339 s =
     bind2 (get_year s) (\<lambda>y s. bind1 (expect (CHR ''-'') s) (\<lambda>s.
     bind2 (getnum True s) (\<lambda>mo s. bind1 (expect (CHR ''-'') s) (\<lambda>s.
     bind2 (getnum True s) (\<lambda>d s. bind1 (expect (CHR ''T'') s) (\<lambda>s.
     bind2 (getnum False s) (\<lambda>h s. bind1 (expect (CHR '':'') s) (\<lambda>s.
     bind2 (getnum True s) (\<lambda>mi s. bind1 (expect (CHR '':'') s) (\<lambda>s.
     bind2 (getnum True s) (\<lambda>se s.
       case get_frac s of (ns, s) \<Rightarrow>
       (case get_zone s of
          None \<Rightarrow> None
        | Some off \<Rightarrow>
            if mo < 1 \<or> 12 < mo \<or> 24 \<le> h \<or> 60 \<le> mi \<or> 60 \<le> se \<or> d < 1 \<or> days_in mo y < d then None
            else Some (days_of_civil y mo d * day_ns +
                   (int (h * 3600 + mi * 60 + se) - off) * second + int ns)))))))))))))"

end
