(* ===== verification/HttpAuth.thy ===== *)
theory HttpAuth
  imports HttpCommon AuthManager GoUrl GoCivil
begin

text \<open>
  The authentication handlers and their mapping of errors (\<open>api/auth\<close>), and the administration of
  tokens and roles (\<open>api/pats\<close>, \<open>api/users\<close>).
\<close>

section \<open>Errors (api/auth/errors.go)\<close>

definition provider_error :: "goerr \<Rightarrow> response" where
  "provider_error e =
     (if errors_is e ErrProviderNotConfigured then HTTPError 501 ''provider not configured''
      else HTTPError 500 ''internal error'')"

definition device_token_status :: "goerr \<Rightarrow> (nat \<times> string) option" where
  "device_token_status e =
     (if errors_is e ErrAuthorizationPending then Some (202, ''authorization_pending'')
      else if errors_is e ErrSlowDown then Some (202, ''slow_down'')
      else if errors_is e ErrAccessDenied then Some (400, ''access_denied'')
      else if errors_is e ErrDeviceCodeExpired then Some (400, ''expired_token'')
      else if errors_is e ErrInvalidDeviceCode then Some (400, ''invalid_grant'')
      else None)"

definition callback_error_code :: "goerr \<Rightarrow> string option" where
  "callback_error_code e =
     (if errors_is e ErrEmailNotVerified then Some ''email_not_verified'' else None)"

definition email_conflict_provider :: "goerr \<Rightarrow> string option" where
  "email_conflict_provider e =
     (case errors_as_email e of
        Some p \<Rightarrow> Some p
      | None \<Rightarrow> if errors_is e ErrEmailAlreadyRegistered then Some [] else None)"

section \<open>The handlers (api/auth/handler.go)\<close>

text \<open>The error of \<open>parseProvider\<close> is itself an HTTP error, whose text becomes the message.\<close>

definition parse_provider :: "string \<Rightarrow> string + provider" where
  "parse_provider s =
     (if s = ''google'' then Inr ProviderGoogle
      else if s = ''github'' then Inr ProviderGitHub
      else Inl (http_error_text 400 (''unknown provider: '' @ s)))"

definition redirect_to_provider :: "auth_manager \<Rightarrow> handler" where
  "redirect_to_provider M c r w =
     (case parse_provider (rq_param r ''provider'') of
        Inl m \<Rightarrow> (HTTPError 400 m, w)
      | Inr p \<Rightarrow>
          (case am_redirect_url M p ''ck-state'' of
             Inl e \<Rightarrow> (provider_error e, w)
           | Inr url \<Rightarrow> (Redirect 302 url, w)))"

definition callback_error :: "goerr \<Rightarrow> response" where
  "callback_error e =
     (case callback_error_code e of
        Some code_text \<Rightarrow> Redirect 302 (''/?error='' @ code_text)
      | None \<Rightarrow>
          (case email_conflict_provider e of
             Some p \<Rightarrow> Redirect 302 (''/?error=email_already_registered'' @
               (if p \<noteq> [] then ''&provider='' @ query_escape p else []))
           | None \<Rightarrow> HTTPError 401 ''authentication failed''))"

definition oauth_callback :: "auth_manager \<Rightarrow> handler" where
  "oauth_callback M c r w =
     (case parse_provider (rq_param r ''provider'') of
        Inl m \<Rightarrow> (HTTPError 400 m, w)
      | Inr p \<Rightarrow>
          if rq_query r ''code'' = [] then (HTTPError 400 ''missing code'', w)
          else (case am_oauth_callback M p (rq_query r ''code'') w of
                  (Inl e, w1) \<Rightarrow> (callback_error e, w1)
                | (Inr token, w1) \<Rightarrow> (Redirect 302 (''/?token='' @ token), w1)))"

definition device_auth_json :: "device_auth_response \<Rightarrow> json" where
  "device_auth_json d = JObj [
     (''device_code'', JStr (da_device_code d)), (''user_code'', JStr (da_user_code d)),
     (''verification_uri'', JStr (da_verification_uri d)),
     (''expires_in'', JNum (int_dec (da_expires_in d))), (''interval'', JNum (int_dec (da_interval d)))]"

definition device_auth :: "web \<Rightarrow> auth_manager \<Rightarrow> handler" where
  "device_auth B M c r w =
     (case wb_bind B r [''provider''] of
        Inl _ \<Rightarrow> (HTTPError 400 ''provider is required'', w)
      | Inr q \<Rightarrow>
          if bound q ''provider'' = [] then (HTTPError 400 ''provider is required'', w)
          else (case parse_provider (bound q ''provider'') of
                  Inl m \<Rightarrow> (HTTPError 400 m, w)
                | Inr p \<Rightarrow>
                    (case am_device_init M p w of
                       (Inl e, w1) \<Rightarrow> (provider_error e, w1)
                     | (Inr d, w1) \<Rightarrow> (JSON 200 (device_auth_json d), w1))))"

definition device_token_error :: "goerr \<Rightarrow> response" where
  "device_token_error e =
     (case device_token_status e of
        Some (n, code_text) \<Rightarrow> JSON n (JObj [(''error'', JStr code_text)])
      | None \<Rightarrow>
          (case callback_error_code e of
             Some code_text \<Rightarrow> JSON 400 (JObj [(''error'', JStr code_text)])
           | None \<Rightarrow>
               (case email_conflict_provider e of
                  Some p \<Rightarrow> JSON 409 (JObj ((''error'', JStr ''email_already_registered'') #
                    (if p \<noteq> [] then [(''provider'', JStr p)] else [])))
                | None \<Rightarrow>
                    if errors_is e ErrProviderNotConfigured then provider_error e
                    else HTTPError 401 ''authentication failed'')))"

definition token_json :: "string \<Rightarrow> json" where
  "token_json t = JObj [(''token'', JStr t)]"

definition device_token :: "web \<Rightarrow> auth_manager \<Rightarrow> handler" where
  "device_token B M c r w =
     (case wb_bind B r [''provider'', ''device_code''] of
        Inl _ \<Rightarrow> (HTTPError 400 ''provider and device_code are required'', w)
      | Inr q \<Rightarrow>
          if bound q ''provider'' = [] \<or> bound q ''device_code'' = []
          then (HTTPError 400 ''provider and device_code are required'', w)
          else (case parse_provider (bound q ''provider'') of
                  Inl m \<Rightarrow> (HTTPError 400 m, w)
                | Inr p \<Rightarrow>
                    (case am_device_poll M p (bound q ''device_code'') w of
                       (Inl e, w1) \<Rightarrow> (device_token_error e, w1)
                     | (Inr token, w1) \<Rightarrow> (JSON 200 (token_json token), w1))))"

definition exchange_pat :: "web \<Rightarrow> auth_manager \<Rightarrow> handler" where
  "exchange_pat B M c r w =
     (case wb_bind B r [''pat''] of
        Inl _ \<Rightarrow> (HTTPError 400 ''pat is required'', w)
      | Inr q \<Rightarrow>
          if bound q ''pat'' = [] then (HTTPError 400 ''pat is required'', w)
          else (case am_exchange_pat M (bound q ''pat'') w of
                  (Inl e, w1) \<Rightarrow> (HTTPError 401 ''invalid token'', w1)
                | (Inr token, w1) \<Rightarrow> (JSON 200 (token_json token), w1)))"

definition refresh_jwt :: "web \<Rightarrow> auth_manager \<Rightarrow> handler" where
  "refresh_jwt B M c r w =
     (case wb_bind B r [''token''] of
        Inl _ \<Rightarrow> (HTTPError 400 ''token is required'', w)
      | Inr q \<Rightarrow>
          if bound q ''token'' = [] then (HTTPError 400 ''token is required'', w)
          else (case am_refresh_jwt M (bound q ''token'') w of
                  (Inl e, w1) \<Rightarrow>
                    if errors_is e ErrUnauthorized then (HTTPError 401 ''invalid or expired token'', w1)
                    else (HTTPError 500 ''failed to refresh token'', w1)
                | (Inr token, w1) \<Rightarrow> (JSON 200 (token_json token), w1)))"

section \<open>Tokens (api/pats/handler.go)\<close>

definition admin_required :: response where
  "admin_required = HTTPError 403 ''admin role required''"

text \<open>\<open>expires_at\<close>: absent, or an RFC 3339 time.\<close>

definition expires_at_param :: "string option \<Rightarrow> instant option option" where
  "expires_at_param v =
     (case v of None \<Rightarrow> Some None | Some s \<Rightarrow> map_option Some (parse_rfc3339 s))"

definition create_pat_handler :: "libs \<Rightarrow> web \<Rightarrow> auth_manager \<Rightarrow> handler" where
  "create_pat_handler L B M c r w =
     (if \<not> is_admin_ctx c then (admin_required, w)
      else (case wb_bind B r [''user_id'', ''expires_at''] of
        Inl _ \<Rightarrow> (HTTPError 400 ''user_id is required'', w)
      | Inr q \<Rightarrow>
          if bound q ''user_id'' = [] then (HTTPError 400 ''user_id is required'', w)
          else (case lib_uuid_parse L (bound q ''user_id'') of
            None \<Rightarrow> (HTTPError 400 ''invalid user_id'', w)
          | Some uid \<Rightarrow>
              (case expires_at_param (q ''expires_at'') of
                 None \<Rightarrow> (HTTPError 400 ''invalid expires_at format, use RFC3339'', w)
               | Some expires \<Rightarrow>
                   (case am_create_pat M uid expires w of
                      (Inl e, w1) \<Rightarrow>
                        if errors_is e ErrUserNotFound then (HTTPError 404 ''user not found'', w1)
                        else (HTTPError 500 ''failed to create PAT'', w1)
                    | (Inr raw, w1) \<Rightarrow> (JSON 201 (token_json raw), w1))))))"

definition pat_json :: "libs \<Rightarrow> web \<Rightarrow> pat \<Rightarrow> json" where
  "pat_json L B p = JObj [
     (''id'', JStr (lib_uuid_string L (p_id p))), (''user_id'', JStr (lib_uuid_string L (p_user_id p))),
     (''created_at'', JStr (wb_time_json B (p_created_at p))),
     (''expires_at'', opt_json (map_option (wb_time_json B) (p_expires_at p)))]"

definition list_pats_handler :: "libs \<Rightarrow> web \<Rightarrow> auth_manager \<Rightarrow> handler" where
  "list_pats_handler L B M c r w =
     (if \<not> is_admin_ctx c then (admin_required, w)
      else (case am_list_pats M w of
              (Inl e, w1) \<Rightarrow> (HTTPError 500 ''failed to list PATs'', w1)
            | (Inr ps, w1) \<Rightarrow> (JSON 200 (JArr (map (pat_json L B) ps)), w1)))"

definition revoke_pat_handler :: "libs \<Rightarrow> auth_manager \<Rightarrow> handler" where
  "revoke_pat_handler L M c r w =
     (if \<not> is_admin_ctx c then (admin_required, w)
      else (case lib_uuid_parse L (rq_param r ''id'') of
              None \<Rightarrow> (HTTPError 400 ''invalid PAT id'', w)
            | Some i \<Rightarrow>
                (case am_revoke_pat M i w of
                   (Inl e, w1) \<Rightarrow>
                     if errors_is e ErrPATNotFound then (HTTPError 404 ''PAT not found'', w1)
                     else (HTTPError 500 ''failed to revoke PAT'', w1)
                 | (Inr _, w1) \<Rightarrow> (NoContent 204, w1))))"

section \<open>Users (api/users/handler.go)\<close>

text \<open>A type assertion on a value that is not set panics.\<close>

definition me_handler :: handler where
  "me_handler c r w =
     (case (cx_sub c, cx_email c, cx_role c) of
        (Some i, Some e, Some ro) \<Rightarrow>
          (JSON 200 (JObj [(''email'', JStr e), (''id'', JStr i), (''role'', JStr ro)]), w)
      | _ \<Rightarrow> (Panic, w))"

definition update_role_handler :: "libs \<Rightarrow> web \<Rightarrow> auth_manager \<Rightarrow> handler" where
  "update_role_handler L B M c r w =
     (if \<not> is_admin_ctx c then (admin_required, w)
      else (case lib_uuid_parse L (rq_param r ''id'') of
        None \<Rightarrow> (HTTPError 400 ''invalid user id'', w)
      | Some uid \<Rightarrow>
          (case wb_bind B r [''role''] of
             Inl _ \<Rightarrow> (HTTPError 400 ''role is required'', w)
           | Inr q \<Rightarrow>
               if bound q ''role'' = [] then (HTTPError 400 ''role is required'', w)
               else if bound q ''role'' \<noteq> RoleAdmin \<and> bound q ''role'' \<noteq> RoleUser
               then (HTTPError 400 (''invalid role, must be '' @ [CHR 0x27] @ ''admin'' @ [CHR 0x27] @
                       '' or '' @ [CHR 0x27] @ ''user'' @ [CHR 0x27]), w)
               else (case am_update_user_role M uid (bound q ''role'') w of
                       (Inl e, w1) \<Rightarrow> (HTTPError 500 ''failed to update role'', w1)
                     | (Inr _, w1) \<Rightarrow>
                         (JSON 200 (JObj [(''id'', JStr (lib_uuid_string L uid)),
                                          (''role'', JStr (bound q ''role''))]), w1)))))"

section \<open>Properties\<close>

text \<open>Without the admin role nothing happens and the answer is 403.\<close>

lemma admin_guard:
  assumes "\<not> is_admin_ctx c"
  shows "create_pat_handler L B M c r w = (admin_required, w)"
    and "list_pats_handler L B M c r w = (admin_required, w)"
    and "revoke_pat_handler L M c r w = (admin_required, w)"
    and "update_role_handler L B M c r w = (admin_required, w)"
  using assms
  by (simp_all add: create_pat_handler_def list_pats_handler_def revoke_pat_handler_def
      update_role_handler_def)

text \<open>Neither the hash nor the salt of a token is shown.\<close>

lemma pat_json_public:
  "pat_json L B (p\<lparr>p_key_hash := h, p_salt := s\<rparr>) = pat_json L B p"
  by (simp add: pat_json_def)

text \<open>The answers to a device poll (RFC 8628): poll again exactly when pending or too fast.\<close>

lemma device_token_error_202:
  "status (device_token_error e) = 202 \<longleftrightarrow>
     errors_is e ErrAuthorizationPending \<or> errors_is e ErrSlowDown"
  by (auto simp: device_token_error_def device_token_status_def provider_error_def
      split: option.splits)

lemma device_token_error_status:
  "status (device_token_error e) \<in> {202, 400, 401, 409, 501}"
  by (auto simp: device_token_error_def device_token_status_def provider_error_def
      split: option.splits if_splits)

lemma email_conflict_iff:
  "email_conflict_provider e \<noteq> None \<longleftrightarrow> errors_is e ErrEmailAlreadyRegistered"
  using errors_as_email_is [of e]
  by (auto simp: email_conflict_provider_def split: option.split)

lemma refresh_jwt_status:
  "status (fst (refresh_jwt B M c r w)) = 401 \<longleftrightarrow>
     (\<exists>q e w1. wb_bind B r [''token''] = Inr q \<and> bound q ''token'' \<noteq> [] \<and>
        am_refresh_jwt M (bound q ''token'') w = (Inl e, w1) \<and> errors_is e ErrUnauthorized)"
  by (auto simp: refresh_jwt_def split: sum.splits prod.splits)

end
