(* ===== verification/ProfilePatchApi.thy ===== *)
theory ProfilePatchApi
  imports HttpCommon ProfileManager
begin

text \<open>
  From the members of a JSON Merge Patch to a profile patch (\<open>api/profile/patch.go\<close>): an omitted
  member is unchanged, \<open>null\<close> clears, a value sets; unknown members, wrong types, blank texts and
  values outside an enumeration are errors.
\<close>

type_synonym members = "(string \<times> json) list"

definition profile_patch_members :: "string list" where
  "profile_patch_members = [''display_name'', ''city'', ''region'', ''country'', ''gender'',
     ''date_of_birth'', ''category'', ''preferences'']"

definition preferences_patch_members :: "string list" where
  "preferences_patch_members = [''court_side'', ''handedness'']"

definition reject_unknown :: "members \<Rightarrow> string list \<Rightarrow> string \<Rightarrow> goerr option" where
  "reject_unknown ms allowed prefix =
     (case sort_key (map code) (filter (\<lambda>n. n \<notin> set allowed) (map fst ms)) of
        [] \<Rightarrow> None
      | n # _ \<Rightarrow> Some (Msg [Txt ''unknown member '', Quoted (prefix @ n)]))"

definition parse_string :: "string \<Rightarrow> json \<Rightarrow> goerr + string" where
  "parse_string name raw =
     (case raw of
        JStr s \<Rightarrow>
          if trim_space s = [] then Inl (Msg [Txt (name @ '' must not be blank; use null to clear it'')])
          else Inr s
      | _ \<Rightarrow> Inl (Msg [Txt (name @ '' must be a string or null'')]))"

definition string_field :: "string \<Rightarrow> (string \<rightharpoonup> json) \<Rightarrow> goerr + string field" where
  "string_field name m =
     (case m name of
        None \<Rightarrow> Inr unchanged
      | Some raw \<Rightarrow>
          if raw = JNull then Inr cleared
          else (case parse_string name raw of Inl e \<Rightarrow> Inl e | Inr s \<Rightarrow> Inr (set_to s)))"

definition enum_field :: "string \<Rightarrow> (string \<rightharpoonup> json) \<Rightarrow> string list \<Rightarrow> goerr + string field" where
  "enum_field name m allowed =
     (case string_field name m of
        Inl e \<Rightarrow> Inl e
      | Inr f \<Rightarrow>
          (case f_value f of
             None \<Rightarrow> Inr \<lparr>f_set = f_set f, f_value = None\<rparr>
           | Some v \<Rightarrow>
               if v \<notin> set allowed
               then Inl (Msg [Txt (''invalid '' @ name @ '' value: ''), Quoted v])
               else Inr (set_to v)))"

definition date_field :: "string \<Rightarrow> (string \<rightharpoonup> json) \<Rightarrow> goerr + date field" where
  "date_field name m =
     (case string_field name m of
        Inl e \<Rightarrow> Inl e
      | Inr f \<Rightarrow>
          (case f_value f of
             None \<Rightarrow> Inr \<lparr>f_set = f_set f, f_value = None\<rparr>
           | Some v \<Rightarrow>
               (case parse_date v of
                  None \<Rightarrow> Inl (Msg [Txt (''invalid '' @ name @ '': must be YYYY-MM-DD'')])
                | Some d \<Rightarrow> Inr (set_to d))))"

definition renamed :: "(string \<rightharpoonup> json) \<Rightarrow> string \<Rightarrow> string \<Rightarrow> string \<rightharpoonup> json" where
  "renamed m from to =
     (case m from of None \<Rightarrow> Map.empty | Some raw \<Rightarrow> [to \<mapsto> raw])"

definition no_preferences :: preferences_patch where
  "no_preferences = \<lparr>pp_clear = False, pp_court_side = unchanged, pp_handedness = unchanged\<rparr>"

definition preferences_field :: "(string \<rightharpoonup> json) \<Rightarrow> goerr + preferences_patch" where
  "preferences_field m =
     (case m ''preferences'' of
        None \<Rightarrow> Inr no_preferences
      | Some JNull \<Rightarrow> Inr (no_preferences\<lparr>pp_clear := True\<rparr>)
      | Some (JObj ms) \<Rightarrow>
          (case reject_unknown ms preferences_patch_members ''preferences.'' of
             Some e \<Rightarrow> Inl e
           | None \<Rightarrow>
               (let prefs = members_map ms in
                case enum_field ''preferences.court_side''
                       (renamed prefs ''court_side'' ''preferences.court_side'') court_sides of
                  Inl e \<Rightarrow> Inl e
                | Inr cs \<Rightarrow>
                    (case enum_field ''preferences.handedness''
                            (renamed prefs ''handedness'' ''preferences.handedness'') handednesses of
                       Inl e \<Rightarrow> Inl e
                     | Inr h \<Rightarrow> Inr \<lparr>pp_clear = False, pp_court_side = cs, pp_handedness = h\<rparr>)))
      | Some _ \<Rightarrow> Inl (Msg [Txt ''preferences must be an object or null'']))"

definition display_name_field :: "(string \<rightharpoonup> json) \<Rightarrow> goerr + string option" where
  "display_name_field m =
     (case m ''display_name'' of
        None \<Rightarrow> Inr None
      | Some raw \<Rightarrow>
          if raw = JNull then Inl (Msg [Txt ''display_name cannot be cleared''])
          else (case parse_string ''display_name'' raw of Inl e \<Rightarrow> Inl e | Inr s \<Rightarrow> Inr (Some s)))"

definition seq_ok :: "goerr + 'a \<Rightarrow> ('a \<Rightarrow> goerr + 'b) \<Rightarrow> goerr + 'b" where
  "seq_ok r f = (case r of Inl e \<Rightarrow> Inl e | Inr x \<Rightarrow> f x)"

lemma seq_ok_iff: "seq_ok r f = Inr y \<longleftrightarrow> (\<exists>x. r = Inr x \<and> f x = Inr y)"
  by (cases r) (auto simp: seq_ok_def)

definition parse_profile_patch :: "members \<Rightarrow> goerr + profile_patch" where
  "parse_profile_patch ms =
     (case reject_unknown ms profile_patch_members [] of
        Some e \<Rightarrow> Inl e
      | None \<Rightarrow>
          (let m = members_map ms in
           seq_ok (display_name_field m) (\<lambda>dn.
           seq_ok (string_field ''city'' m) (\<lambda>ci.
           seq_ok (string_field ''region'' m) (\<lambda>re.
           seq_ok (string_field ''country'' m) (\<lambda>co.
           seq_ok (enum_field ''gender'' m genders) (\<lambda>ge.
           seq_ok (date_field ''date_of_birth'' m) (\<lambda>db.
           seq_ok (enum_field ''category'' m categories) (\<lambda>ca.
           seq_ok (preferences_field m) (\<lambda>pr.
             Inr \<lparr>pt_display_name = dn, pt_city = ci, pt_region = re, pt_country = co,
                  pt_gender = ge, pt_date_of_birth = db, pt_category = ca,
                  pt_preferences = pr\<rparr>))))))))))"

section \<open>What a parsed patch is\<close>

lemma reject_unknown_iff:
  "reject_unknown ms allowed prefix = None \<longleftrightarrow> fst ` set ms \<subseteq> set allowed"
proof -
  have "reject_unknown ms allowed prefix = None \<longleftrightarrow>
      filter (\<lambda>n. n \<notin> set allowed) (map fst ms) = []"
    by (auto simp: reject_unknown_def split: list.split)
      (metis length_0_conv length_sort list.size(3) sort_key_simps(1))+
  then show ?thesis by (auto simp: filter_empty_conv)
qed

lemma members_map_dom: "dom (members_map ms) = fst ` set ms"
  by (simp add: members_map_def dom_map_of_conv_image_fst)

lemma string_field_ok:
  "string_field name m = Inr f \<Longrightarrow> field_wf f \<and> (f_set f \<longleftrightarrow> m name \<noteq> None) \<and>
     (\<forall>v. f_value f = Some v \<longrightarrow> m name = Some (JStr v) \<and> trim_space v \<noteq> []) \<and>
     (f_set f \<and> f_value f = None \<longrightarrow> m name = Some JNull)"
  by (auto simp: string_field_def parse_string_def split: option.splits if_splits sum.splits json.splits)

lemma enum_field_ok:
  assumes "enum_field name m allowed = Inr f"
  shows "field_wf f \<and> (f_set f \<longleftrightarrow> m name \<noteq> None) \<and>
    (\<forall>v. f_value f = Some v \<longrightarrow> m name = Some (JStr v) \<and> v \<in> set allowed) \<and>
    (f_set f \<and> f_value f = None \<longrightarrow> m name = Some JNull)"
proof -
  from assms obtain g where g: "string_field name m = Inr g"
    by (auto simp: enum_field_def split: sum.splits)
  show ?thesis
    using assms g string_field_ok [OF g]
    by (auto simp: enum_field_def field_wf_def set_to_def split: option.splits if_splits)
qed

lemma date_field_ok:
  assumes "date_field name m = Inr f"
  shows "field_wf f \<and> (f_set f \<longleftrightarrow> m name \<noteq> None) \<and>
    (\<forall>d. f_value f = Some d \<longrightarrow> m name = Some (JStr (format_date d)) \<and> valid_date d) \<and>
    (f_set f \<and> f_value f = None \<longrightarrow> m name = Some JNull)"
proof -
  from assms obtain g where g: "string_field name m = Inr g"
    by (auto simp: date_field_def split: sum.splits)
  show ?thesis
    using assms g string_field_ok [OF g]
    by (auto simp: date_field_def field_wf_def set_to_def format_parse_date
        dest: parse_date_valid split: option.splits)
qed

lemma display_name_ok:
  "display_name_field m = Inr f \<Longrightarrow> (f = None \<longleftrightarrow> m ''display_name'' = None) \<and>
     (\<forall>v. f = Some v \<longrightarrow> m ''display_name'' = Some (JStr v) \<and> trim_space v \<noteq> [])"
  by (auto simp: display_name_field_def parse_string_def split: option.splits if_splits json.splits)

lemma preferences_field_wf:
  assumes "preferences_field m = Inr p"
  shows "field_wf (pp_court_side p) \<and> field_wf (pp_handedness p)"
  using assms
  by (auto simp: preferences_field_def no_preferences_def Let_def dest!: enum_field_ok
      split: option.splits json.splits sum.splits)

text \<open>
  What a member says of a field (RFC 7396): absent, \<open>null\<close>, or a value whose text decodes to it.
\<close>

definition member_is :: "('a \<Rightarrow> string) \<Rightarrow> json option \<Rightarrow> 'a field \<Rightarrow> bool" where
  "member_is text v f \<longleftrightarrow>
     (case v of None \<Rightarrow> f = unchanged
      | Some JNull \<Rightarrow> f = cleared
      | Some (JStr s) \<Rightarrow> (\<exists>x. f = set_to x \<and> text x = s)
      | Some _ \<Rightarrow> False)"

lemma member_isI:
  assumes "field_wf f" and "f_set f \<longleftrightarrow> v \<noteq> None"
    and "\<And>x. f_value f = Some x \<Longrightarrow> v = Some (JStr (text x))"
    and "f_set f \<and> f_value f = None \<longrightarrow> v = Some JNull"
  shows "member_is text v f"
proof (cases "f_value f")
  case None
  have "f = \<lparr>f_set = f_set f, f_value = f_value f\<rparr>" by simp
  with None assms(2,4) show ?thesis
    by (cases "f_set f") (auto simp: member_is_def unchanged_def cleared_def)
next
  case (Some x)
  with assms(1) have "f_set f" by (simp add: field_wf_def)
  moreover have "f = \<lparr>f_set = f_set f, f_value = f_value f\<rparr>" by simp
  ultimately have "f = set_to x" using Some by (simp add: set_to_def)
  then show ?thesis using assms(3) [OF Some] by (simp add: member_is_def) blast
qed

definition preferences_match :: "json option \<Rightarrow> preferences_patch \<Rightarrow> bool" where
  "preferences_match v p \<longleftrightarrow>
     (case v of None \<Rightarrow> p = no_preferences
      | Some JNull \<Rightarrow> p = no_preferences\<lparr>pp_clear := True\<rparr>
      | Some (JObj ms) \<Rightarrow>
          fst ` set ms \<subseteq> set preferences_patch_members \<and> \<not> pp_clear p \<and>
          member_is (\<lambda>x. x) (members_map ms ''court_side'') (pp_court_side p) \<and>
          member_is (\<lambda>x. x) (members_map ms ''handedness'') (pp_handedness p)
      | Some _ \<Rightarrow> False)"

definition patch_matches :: "(string \<rightharpoonup> json) \<Rightarrow> profile_patch \<Rightarrow> bool" where
  "patch_matches m p \<longleftrightarrow> dom m \<subseteq> set profile_patch_members \<and>
     (case pt_display_name p of None \<Rightarrow> m ''display_name'' = None
      | Some n \<Rightarrow> m ''display_name'' = Some (JStr n) \<and> trim_space n \<noteq> []) \<and>
     member_is (\<lambda>x. x) (m ''city'') (pt_city p) \<and> member_is (\<lambda>x. x) (m ''region'') (pt_region p) \<and>
     member_is (\<lambda>x. x) (m ''country'') (pt_country p) \<and>
     member_is (\<lambda>x. x) (m ''gender'') (pt_gender p) \<and>
     member_is format_date (m ''date_of_birth'') (pt_date_of_birth p) \<and>
     member_is (\<lambda>x. x) (m ''category'') (pt_category p) \<and>
     preferences_match (m ''preferences'') (pt_preferences p)"

lemma member_is_string: "string_field k m = Inr g \<Longrightarrow> member_is (\<lambda>x. x) (m k) g"
  by (rule member_isI) (use string_field_ok [of k m g] in auto)

lemma member_is_enum: "enum_field k m a = Inr g \<Longrightarrow> member_is (\<lambda>x. x) (m k) g"
  by (rule member_isI) (use enum_field_ok [of k m a g] in auto)

lemma member_is_date: "date_field k m = Inr g \<Longrightarrow> member_is format_date (m k) g"
  by (rule member_isI) (use date_field_ok [of k m g] in auto)

lemma renamed_to: "renamed m k k' k' = m k"
  by (simp add: renamed_def split: option.split)

lemma preferences_field_match:
  assumes "preferences_field m = Inr p"
  shows "preferences_match (m ''preferences'') p"
proof (cases "m ''preferences''")
  case None
  with assms show ?thesis by (simp add: preferences_field_def preferences_match_def)
next
  case (Some v)
  show ?thesis
  proof (cases v)
    case (JObj ms)
    let ?m = "members_map ms"
    have *: "reject_unknown ms preferences_patch_members ''preferences.'' = None"
      using assms Some JObj by (auto simp: preferences_field_def split: option.splits)
    then obtain cs h where
      "enum_field ''preferences.court_side'' (renamed ?m ''court_side'' ''preferences.court_side'') court_sides = Inr cs"
      "enum_field ''preferences.handedness'' (renamed ?m ''handedness'' ''preferences.handedness'') handednesses = Inr h"
      "p = \<lparr>pp_clear = False, pp_court_side = cs, pp_handedness = h\<rparr>"
      using assms Some JObj by (auto simp: preferences_field_def Let_def split: sum.splits)
    from member_is_enum [OF this(1)] member_is_enum [OF this(2)] this(3) * show ?thesis
      using Some JObj by (simp add: preferences_match_def renamed_to reject_unknown_iff)
  qed (use assms Some in \<open>auto simp: preferences_field_def preferences_match_def\<close>)
qed

lemma parse_profile_patch_fields:
  assumes "parse_profile_patch ms = Inr p"
  shows "fst ` set ms \<subseteq> set profile_patch_members"
    and "display_name_field (members_map ms) = Inr (pt_display_name p)"
    and "string_field ''city'' (members_map ms) = Inr (pt_city p)"
    and "string_field ''region'' (members_map ms) = Inr (pt_region p)"
    and "string_field ''country'' (members_map ms) = Inr (pt_country p)"
    and "enum_field ''gender'' (members_map ms) genders = Inr (pt_gender p)"
    and "date_field ''date_of_birth'' (members_map ms) = Inr (pt_date_of_birth p)"
    and "enum_field ''category'' (members_map ms) categories = Inr (pt_category p)"
    and "preferences_field (members_map ms) = Inr (pt_preferences p)"
proof -
  have *: "reject_unknown ms profile_patch_members [] = None"
    using assms by (cases "reject_unknown ms profile_patch_members []") (simp_all add: parse_profile_patch_def)
  then show "fst ` set ms \<subseteq> set profile_patch_members" by (simp only: reject_unknown_iff)
  note all = assms [unfolded parse_profile_patch_def * option.case Let_def seq_ok_iff]
  from all show "display_name_field (members_map ms) = Inr (pt_display_name p)" by auto
  from all show "string_field ''city'' (members_map ms) = Inr (pt_city p)" by auto
  from all show "string_field ''region'' (members_map ms) = Inr (pt_region p)" by auto
  from all show "string_field ''country'' (members_map ms) = Inr (pt_country p)" by auto
  from all show "enum_field ''gender'' (members_map ms) genders = Inr (pt_gender p)" by auto
  from all show "date_field ''date_of_birth'' (members_map ms) = Inr (pt_date_of_birth p)" by auto
  from all show "enum_field ''category'' (members_map ms) categories = Inr (pt_category p)" by auto
  from all show "preferences_field (members_map ms) = Inr (pt_preferences p)" by auto
qed

lemma parse_profile_patch_matches:
  assumes "parse_profile_patch ms = Inr p"
  shows "patch_matches (members_map ms) p"
proof -
  note f = parse_profile_patch_fields [OF assms]
  have "dom (members_map ms) \<subseteq> set profile_patch_members"
    using f(1) by (simp add: members_map_dom)
  moreover have "case pt_display_name p of None \<Rightarrow> members_map ms ''display_name'' = None
      | Some n \<Rightarrow> members_map ms ''display_name'' = Some (JStr n) \<and> trim_space n \<noteq> []"
    using display_name_ok [OF f(2)] by (cases "pt_display_name p") auto
  ultimately show ?thesis
    unfolding patch_matches_def
    using member_is_string [OF f(3)] member_is_string [OF f(4)] member_is_string [OF f(5)]
      member_is_enum [OF f(6)] member_is_date [OF f(7)] member_is_enum [OF f(8)]
      preferences_field_match [OF f(9)] by blast
qed

lemma parse_profile_patch_values:
  assumes "parse_profile_patch ms = Inr p"
  shows "patch_wf p" and "gender_check (f_value (pt_gender p))"
    and "category_check (f_value (pt_category p))"
proof -
  note f = parse_profile_patch_fields [OF assms]
  show "patch_wf p"
    using string_field_ok [OF f(3)] string_field_ok [OF f(4)] string_field_ok [OF f(5)]
      enum_field_ok [OF f(6)] date_field_ok [OF f(7)] enum_field_ok [OF f(8)] preferences_field_wf [OF f(9)]
    unfolding patch_wf_def by blast
  show "gender_check (f_value (pt_gender p))"
    using enum_field_ok [OF f(6)] by (auto simp: gender_check_def genders_def split: option.split)
  show "category_check (f_value (pt_category p))"
    using enum_field_ok [OF f(8)] by (auto simp: category_check_def categories_def split: option.split)
qed

end
