(* ===== verification/HttpProfile.thy ===== *)
theory HttpProfile
  imports ProfilePatchApi GoCivil
begin

text \<open>
  The user-profile handlers (\<open>api/profile/handler.go\<close>): own profile, another user's profile,
  the merge-patch update and the paginated list.
\<close>

section \<open>Responses\<close>

record profile_response =
  re_user_id :: string
  re_display_name :: string
  re_city :: "string option"
  re_region :: "string option"
  re_country :: "string option"
  re_gender :: "string option"
  re_date_of_birth :: "string option"
  re_category :: "string option"
  re_court_side :: "string option"
  re_handedness :: "string option"
  re_updated_at :: string

definition to_profile_response :: "libs \<Rightarrow> profile \<Rightarrow> profile_response" where
  "to_profile_response L p = \<lparr>
     re_user_id = lib_uuid_string L (pf_user_id p), re_display_name = pf_display_name p,
     re_city = pf_city p, re_region = pf_region p, re_country = pf_country p,
     re_gender = pf_gender p, re_date_of_birth = map_option format_date (pf_date_of_birth p),
     re_category = pf_category p, re_court_side = pr_court_side (pf_preferences p),
     re_handedness = pr_handedness (pf_preferences p), re_updated_at = format_utc (pf_updated_at p)\<rparr>"

text \<open>The struct tags: nullable members are present, preferences are left out when unset.\<close>

definition profile_json :: "profile_response \<Rightarrow> json" where
  "profile_json r = JObj [
     (''user_id'', JStr (re_user_id r)), (''display_name'', JStr (re_display_name r)),
     (''city'', opt_json (re_city r)), (''region'', opt_json (re_region r)),
     (''country'', opt_json (re_country r)), (''gender'', opt_json (re_gender r)),
     (''date_of_birth'', opt_json (re_date_of_birth r)), (''category'', opt_json (re_category r)),
     (''preferences'', JObj (omit_empty ''court_side'' (re_court_side r) @
                             omit_empty ''handedness'' (re_handedness r))),
     (''updated_at'', JStr (re_updated_at r))]"

record list_item_response =
  ri_id :: "string option"
  ri_display_name :: "string option"
  ri_city :: "string option"
  ri_region :: "string option"
  ri_country :: "string option"
  ri_gender :: "string option"
  ri_category :: "string option"

definition to_list_item_response :: "libs \<Rightarrow> profile_list_item \<Rightarrow> string list \<Rightarrow> list_item_response" where
  "to_list_item_response L item chosen =
     (let r = \<lparr>ri_id = map_option (lib_uuid_string L) (li_id item),
               ri_display_name = li_display_name item, ri_city = li_city item,
               ri_region = li_region item, ri_country = li_country item,
               ri_gender = li_gender item, ri_category = li_category item\<rparr>;
          want = (\<lambda>f v. if f \<in> set chosen then v else None)
      in if chosen = [] then r
         else \<lparr>ri_id = want ''id'' (ri_id r),
               ri_display_name = want ''display_name'' (ri_display_name r),
               ri_city = want ''city'' (ri_city r), ri_region = want ''region'' (ri_region r),
               ri_country = want ''country'' (ri_country r),
               ri_gender = want ''gender'' (ri_gender r),
               ri_category = want ''category'' (ri_category r)\<rparr>)"

definition list_item_json :: "list_item_response \<Rightarrow> json" where
  "list_item_json r = JObj (
     omit_empty ''id'' (ri_id r) @ omit_empty ''display_name'' (ri_display_name r) @
     omit_empty ''city'' (ri_city r) @ omit_empty ''region'' (ri_region r) @
     omit_empty ''country'' (ri_country r) @ omit_empty ''gender'' (ri_gender r) @
     omit_empty ''category'' (ri_category r))"

definition list_users_json :: "json list \<Rightarrow> int \<Rightarrow> int \<Rightarrow> int \<Rightarrow> json" where
  "list_users_json items count page page_size = JObj [
     (''data'', JArr items), (''total'', JNum (int_dec count)),
     (''page'', JNum (int_dec page)), (''page_size'', JNum (int_dec page_size))]"

section \<open>The handlers\<close>

text \<open>The authenticated user's identifier, from the \<open>sub\<close> claim.\<close>

definition sub_user_id :: "libs \<Rightarrow> ctx \<Rightarrow> response + uuid" where
  "sub_user_id L c =
     (case cx_sub c of
        None \<Rightarrow> Inl (HTTPError 400 ''missing sub claim'')
      | Some sub \<Rightarrow>
          if sub = [] then Inl (HTTPError 400 ''missing sub claim'')
          else (case lib_uuid_parse L sub of
                  None \<Rightarrow> Inl (HTTPError 400 ''invalid sub claim'')
                | Some i \<Rightarrow> Inr i))"

definition profile_result :: "libs \<Rightarrow> (profile, world) go \<Rightarrow> response \<times> world" where
  "profile_result L r =
     (case r of
        (Inl e, w) \<Rightarrow>
          if errors_is e ErrProfileNotFound then (HTTPError 404 ''profile not found'', w)
          else (HTTPError 500 ''failed to get profile'', w)
      | (Inr p, w) \<Rightarrow> (JSON 200 (profile_json (to_profile_response L p)), w))"

definition get_my_profile :: "libs \<Rightarrow> profile_manager \<Rightarrow> handler" where
  "get_my_profile L M c r w =
     (case sub_user_id L c of
        Inl resp \<Rightarrow> (resp, w)
      | Inr i \<Rightarrow> profile_result L (pfm_get_by_user_id M i w))"

definition get_user_profile :: "libs \<Rightarrow> profile_manager \<Rightarrow> handler" where
  "get_user_profile L M c r w =
     (case lib_uuid_parse L (rq_param r ''id'') of
        None \<Rightarrow> (HTTPError 400 ''invalid user id'', w)
      | Some i \<Rightarrow> profile_result L (pfm_get_by_user_id M i w))"

definition update_error :: "libs \<Rightarrow> goerr \<Rightarrow> response" where
  "update_error L e =
     (if errors_is e ErrProfileNotFound then HTTPError 404 ''profile not found''
      else if errors_is e ErrInvalidLocation then HTTPError 400 (error_text L e)
      else if errors_is e ErrProfileConflict
      then HTTPError 409 ''profile changed concurrently, retry the request''
      else HTTPError 500 ''failed to update profile'')"

definition update_my_profile :: "libs \<Rightarrow> profile_manager \<Rightarrow> handler" where
  "update_my_profile L M c r w =
     (case sub_user_id L c of
        Inl resp \<Rightarrow> (resp, w)
      | Inr i \<Rightarrow>
          (case decode_merge_patch L r of
             Inl resp \<Rightarrow> (resp, w)
           | Inr ms \<Rightarrow>
               (case parse_profile_patch ms of
                  Inl e \<Rightarrow> (HTTPError 400 (error_text L e), w)
                | Inr patch \<Rightarrow>
                    (case pfm_update M i patch w of
                       (Inl e, w1) \<Rightarrow> (update_error L e, w1)
                     | (Inr p, w1) \<Rightarrow> (JSON 200 (profile_json (to_profile_response L p)), w1)))))"

definition allowed_list_fields :: "string list" where
  "allowed_list_fields =
     [''id'', ''display_name'', ''city'', ''region'', ''country'', ''gender'', ''category'']"

definition page_param :: "request \<Rightarrow> response + int" where
  "page_param r =
     (if rq_query r ''page'' = [] then Inr 1
      else (case atoi (rq_query r ''page'') of
              None \<Rightarrow> Inl (HTTPError 400 ''page must be a positive integer'')
            | Some n \<Rightarrow> if n < 1 then Inl (HTTPError 400 ''page must be a positive integer'') else Inr n))"

definition page_size_param :: "request \<Rightarrow> response + int" where
  "page_size_param r =
     (if rq_query r ''page_size'' = [] then Inr 20
      else (case atoi (rq_query r ''page_size'') of
              None \<Rightarrow> Inl (HTTPError 400 ''page_size must be a positive integer'')
            | Some n \<Rightarrow>
                if n < 1 then Inl (HTTPError 400 ''page_size must be a positive integer'')
                else if n > 100 then Inl (HTTPError 400 ''page_size must not exceed 100'')
                else Inr n))"

fun check_fields :: "libs \<Rightarrow> string list \<Rightarrow> string list \<Rightarrow> response + string list" where
  "check_fields L chosen [] = Inr chosen"
| "check_fields L chosen (f # fs) =
     (if trim_space f \<notin> set allowed_list_fields
      then Inl (HTTPError 400 (''unknown field: '' @ lib_quote L (trim_space f)))
      else check_fields L (chosen @ [trim_space f]) fs)"

definition fields_param :: "libs \<Rightarrow> request \<Rightarrow> response + string list" where
  "fields_param L r =
     (if rq_query r ''fields'' = [] then Inr []
      else check_fields L [] (split_on (CHR '','') (rq_query r ''fields'')))"

definition list_users :: "libs \<Rightarrow> profile_manager \<Rightarrow> handler" where
  "list_users L M c r w =
     (case page_param r of Inl resp \<Rightarrow> (resp, w) | Inr page \<Rightarrow>
     (case page_size_param r of Inl resp \<Rightarrow> (resp, w) | Inr page_size \<Rightarrow>
     (case fields_param L r of Inl resp \<Rightarrow> (resp, w) | Inr chosen \<Rightarrow>
     (case pfm_list M \<lparr>lp_page = word_of_int page, lp_page_size = word_of_int page_size,
                       lp_fields = chosen\<rparr> w of
        (Inl e, w1) \<Rightarrow> (HTTPError 500 ''failed to list users'', w1)
      | (Inr (items, count), w1) \<Rightarrow>
          (JSON 200 (list_users_json
             (map (\<lambda>i. list_item_json (to_list_item_response L i chosen)) items)
             count page page_size), w1)))))"

section \<open>Properties\<close>

lemma page_param_range: "page_param r = Inr n \<Longrightarrow> 1 \<le> n \<and> n < 2 ^ 63"
  by (auto simp: page_param_def atoi_def Let_def split: option.splits if_splits)

lemma page_size_param_range: "page_size_param r = Inr n \<Longrightarrow> 1 \<le> n \<and> n \<le> 100"
  by (auto simp: page_size_param_def split: option.splits if_splits)

lemma check_fields_ok:
  "check_fields L acc fs = Inr out \<Longrightarrow> out = acc @ map trim_space fs \<and>
     (\<forall>f \<in> set fs. trim_space f \<in> set allowed_list_fields)"
proof (induction fs arbitrary: acc)
  case (Cons f fs)
  from Cons.prems have f: "trim_space f \<in> set allowed_list_fields"
    "check_fields L (acc @ [trim_space f]) fs = Inr out" by (auto split: if_splits)
  from Cons.IH [OF f(2)] f(1) show ?case by simp
qed simp

lemma fields_param_ok: "fields_param L r = Inr fs \<Longrightarrow> set fs \<subseteq> set allowed_list_fields"
  by (auto simp: fields_param_def split: if_splits dest!: check_fields_ok)

text \<open>
  An item shows exactly the requested fields that have a value, under their own name; with no
  request it shows all.
\<close>

definition member_names :: "json \<Rightarrow> string set" where
  "member_names v = (case v of JObj ms \<Rightarrow> fst ` set ms | _ \<Rightarrow> {})"

lemma set_omit_empty: "fst ` set (omit_empty k v) = (if v = None then {} else {k})"
  by (cases v) (simp_all add: omit_empty_def)

lemma optional_member: "(v \<noteq> None \<Longrightarrow> k \<in> S) \<Longrightarrow> (if v = None then {} else {k}) \<subseteq> S"
  by simp

lemma want_None: "(if b then v else None) \<noteq> None \<Longrightarrow> b"
  by (simp split: if_splits)

lemmas item_members = member_names_def list_item_json_def json.case set_append image_Un
  set_omit_empty Un_subset_iff

lemma list_item_members:
  "member_names (list_item_json (to_list_item_response L i chosen)) \<subseteq>
     (if chosen = [] then set allowed_list_fields else set chosen)"
proof (cases "chosen = []")
  case True
  show ?thesis
    unfolding if_P [OF True] item_members by (intro conjI optional_member) (simp_all add: allowed_list_fields_def)
next
  case False
  show ?thesis
    unfolding if_not_P [OF False] item_members to_list_item_response_def Let_def list_item_response.select_convs
    by (intro conjI optional_member) (erule want_None)+
qed

text \<open>The status codes of an update: 200, 400, 404, 409, 415 or 500.\<close>

lemma update_my_profile_status:
  "status (fst (update_my_profile L M c r w)) \<in> {200, 400, 404, 409, 415, 500}"
proof -
  have "status e = 400" if "sub_user_id L c = Inl e" for e
    using that by (auto simp: sub_user_id_def split: option.splits if_splits)
  moreover have "status e = 415 \<or> status e = 400" if "decode_merge_patch L r = Inl e" for e
    using decode_merge_patch_error [OF that] .
  moreover have "status (update_error L e) \<in> {400, 404, 409, 500}" for e
    by (simp add: update_error_def)
  ultimately show ?thesis
    by (auto simp: update_my_profile_def split: sum.split prod.split)
qed

text \<open>A request whose body is rejected touches nothing.\<close>

lemma update_my_profile_rejected:
  assumes "(\<exists>e. sub_user_id L c = Inl e) \<or> (\<exists>e. decode_merge_patch L r = Inl e) \<or>
    (\<exists>ms e. decode_merge_patch L r = Inr ms \<and> parse_profile_patch ms = Inl e)"
  shows "snd (update_my_profile L M c r w) = w"
  using assms by (auto simp: update_my_profile_def split: sum.split)

end
