(* ===== verification/OAuthAdapters.thy ===== *)
theory OAuthAdapters
  imports OAuthManager GoMime GoUrl
begin

text \<open>
  The Google and GitHub adapters and the device-token poll (\<open>infrastructure/oauth2\<close>), over an HTTP
  client and the \<open>golang.org/x/oauth2\<close> library as parameters. Each request is one contact with
  the world. The texts of JSON and network errors are not modelled.
\<close>

section \<open>External code\<close>

record http_request =
  hq_method :: string
  hq_url :: string
  hq_headers :: "(string \<times> string) list"
  hq_body :: string

record http_response =
  hr_status :: int
  hr_content_type :: string
  hr_body :: "goerr + string"

text \<open>
  \<^item> \<open>hc_bad_url\<close>: the error of \<open>http.NewRequest\<close>, if any; \<open>hc_do\<close>: \<open>Client.Do\<close> at a contact.
\<close>

record http_client =
  hc_bad_url :: "string \<Rightarrow> goerr option"
  hc_do :: "http_request \<Rightarrow> nat \<Rightarrow> goerr + http_response"

record oauth_config =
  oc_client_id :: string
  oc_client_secret :: string
  oc_redirect_url :: string
  oc_scopes :: "string list"
  oc_auth_url :: string
  oc_token_url :: string
  oc_device_auth_url :: string
  oc_auth_style :: nat

record lib_device_auth =
  ld_device_code :: string
  ld_user_code :: string
  ld_verification_uri :: string
  ld_expiry :: instant
  ld_interval :: int

text \<open>
  \<open>Config.AuthCodeURL\<close> (online access), \<open>Config.Exchange\<close> (the access token), \<open>Config.DeviceAuth\<close>, and
  the endpoints of the \<open>google\<close> and \<open>github\<close> packages: authorization, token and device URL, style.
\<close>

record oauth_lib =
  ol_auth_code_url :: "oauth_config \<Rightarrow> string \<Rightarrow> string"
  ol_exchange :: "oauth_config \<Rightarrow> string \<Rightarrow> nat \<Rightarrow> goerr + string"
  ol_device_auth :: "oauth_config \<Rightarrow> nat \<Rightarrow> goerr + lib_device_auth"
  ol_google_endpoint :: "string \<times> string \<times> string \<times> nat"
  ol_github_endpoint :: "string \<times> string \<times> string \<times> nat"

definition contact :: "(nat \<Rightarrow> goerr + 'a) \<Rightarrow> 'a io" where
  "contact f w = (f (w_tick w), w\<lparr>w_tick := Suc (w_tick w)\<rparr>)"

definition http_do :: "http_client \<Rightarrow> http_request \<Rightarrow> http_response io" where
  "http_do C q = contact (hc_do C q)"

definition json_error :: goerr where
  "json_error = Msg [Txt ''json'']"

section \<open>The device flow (device.go)\<close>

definition device_code_grant_type :: string where
  "device_code_grant_type = ''urn:ietf:params:oauth:grant-type:device_code''"

record device_token_response =
  dt_access_token :: string
  dt_error :: string

definition parse_device_token_response ::
  "libs \<Rightarrow> string \<Rightarrow> string \<Rightarrow> goerr + device_token_response" where
  "parse_device_token_response L content_type body =
     (let mediatype = fst (parse_media_type L content_type) in
      if mediatype = ''application/x-www-form-urlencoded'' \<or> mediatype = ''text/plain'' then
        (case parse_query body of
           None \<Rightarrow> Inl (Wrap ''parse form response: '' (Msg [Txt ''url'']))
         | Some vals \<Rightarrow> Inr \<lparr>dt_access_token = values_get vals ''access_token'',
                            dt_error = values_get vals ''error''\<rparr>)
      else
        (case Option.bind (json_unmarshal body) struct_members of
           None \<Rightarrow> Inl (Wrap ''parse JSON response: '' json_error)
         | Some ms \<Rightarrow>
             (let vs = field_values [''access_token'', ''error''] ms in
              case (decode_with as_string [] (vs ''access_token''),
                    decode_with as_string [] (vs ''error'')) of
                (Some t, Some e) \<Rightarrow> Inr \<lparr>dt_access_token = t, dt_error = e\<rparr>
              | _ \<Rightarrow> Inl (Wrap ''parse JSON response: '' json_error))))"

text \<open>The form of the request; \<open>Encode\<close> sorts it by key.\<close>

definition device_token_form :: "oauth_config \<Rightarrow> string \<Rightarrow> (string \<times> string) list" where
  "device_token_form cfg device_code =
     [(''grant_type'', device_code_grant_type), (''device_code'', device_code),
      (''client_id'', oc_client_id cfg)] @
     (if oc_client_secret cfg \<noteq> [] then [(''client_secret'', oc_client_secret cfg)] else [])"

definition device_token_request :: "oauth_config \<Rightarrow> string \<Rightarrow> http_request" where
  "device_token_request cfg device_code = \<lparr>hq_method = ''POST'', hq_url = oc_token_url cfg,
     hq_headers = [(''Content-Type'', ''application/x-www-form-urlencoded''),
                   (''Accept'', ''application/json'')],
     hq_body = encode_values (device_token_form cfg device_code)\<rparr>"

text \<open>What the provider's answer means: the error field is authoritative.\<close>

definition device_token_result :: "int \<Rightarrow> device_token_response \<Rightarrow> goerr + string" where
  "device_token_result code_num tok =
     (if dt_error tok = [] then
        (if dt_access_token tok = []
         then Inl (Msg [Txt (''device token: status '' @ int_dec code_num @
                     '': response has neither access_token nor error'')])
         else Inr (dt_access_token tok))
      else if dt_error tok = ''authorization_pending'' then Inl (Sentinel ErrAuthorizationPending)
      else if dt_error tok = ''slow_down'' then Inl (Sentinel ErrSlowDown)
      else if dt_error tok = ''access_denied'' then Inl (Sentinel ErrAccessDenied)
      else if dt_error tok = ''expired_token'' then Inl (Sentinel ErrDeviceCodeExpired)
      else if dt_error tok = ''invalid_grant'' \<or> dt_error tok = ''bad_verification_code'' \<or>
              dt_error tok = ''incorrect_device_code'' then Inl (Sentinel ErrInvalidDeviceCode)
      else Inl (Msg [Txt (''device token: status '' @ int_dec code_num @ '': provider error ''),
                     Quoted (dt_error tok)]))"

definition poll_device_token ::
  "libs \<Rightarrow> http_client \<Rightarrow> oauth_config \<Rightarrow> string \<Rightarrow> string io" where
  "poll_device_token L C cfg device_code w =
     (case hc_bad_url C (oc_token_url cfg) of
        Some e \<Rightarrow> (Inl (Wrap ''device token request: '' e), w)
      | None \<Rightarrow>
          and_then (wrap ''device token: '' (http_do C (device_token_request cfg device_code) w)) (\<lambda>resp w.
            case hr_body resp of
              Inl e \<Rightarrow> (Inl (Wrap ''read device token response: '' e), w)
            | Inr body \<Rightarrow>
                (case parse_device_token_response L (hr_content_type resp) (take (2 ^ 20) body) of
                   Inl e \<Rightarrow> (Inl (Wrap (''device token: status '' @ int_dec (hr_status resp) @ '': '') e), w)
                 | Inr tok \<Rightarrow> (device_token_result (hr_status resp) tok, w))))"

text \<open>\<open>Duration.Round(time.Second)\<close> in seconds: to the nearest, halves away from zero.\<close>

definition round_seconds :: "int \<Rightarrow> int" where
  "round_seconds d = sgn d * ((\<bar>d\<bar> + second div 2) div second)"

definition to_device_auth_response :: "env \<Rightarrow> lib_device_auth \<Rightarrow> world \<Rightarrow> device_auth_response \<times> world" where
  "to_device_auth_response E resp w =
     (let mk = (\<lambda>n. \<lparr>da_device_code = ld_device_code resp, da_user_code = ld_user_code resp,
                     da_verification_uri = ld_verification_uri resp, da_expires_in = n,
                     da_interval = ld_interval resp\<rparr>)
      in if is_zero (ld_expiry resp) then (mk 0, w)
         else (case time_now E w of (now, w1) \<Rightarrow> (mk (round_seconds (ld_expiry resp - now)), w1)))"

section \<open>Google (google.go)\<close>

text \<open>The configuration both providers take: credentials and optional endpoints.\<close>

record provider_config =
  pc_client_id :: string
  pc_client_secret :: string
  pc_redirect_url :: string
  pc_auth_url :: string
  pc_token_url :: string
  pc_device_auth_url :: string
  pc_user_info_url :: string

definition override :: "string \<Rightarrow> string \<Rightarrow> string" where
  "override given usual = (if given \<noteq> [] then given else usual)"

definition google_user_info_url :: string where
  "google_user_info_url = ''https://www.googleapis.com/oauth2/v3/userinfo''"

definition google_config :: "oauth_lib \<Rightarrow> provider_config \<Rightarrow> oauth_config" where
  "google_config O2 cfg =
     (case ol_google_endpoint O2 of (auth, token, device, style) \<Rightarrow>
        \<lparr>oc_client_id = pc_client_id cfg, oc_client_secret = pc_client_secret cfg,
         oc_redirect_url = pc_redirect_url cfg, oc_scopes = [''openid'', ''email'', ''profile''],
         oc_auth_url = override (pc_auth_url cfg) auth, oc_token_url = override (pc_token_url cfg) token,
         oc_device_auth_url = override (pc_device_auth_url cfg) device, oc_auth_style = style\<rparr>)"

definition bearer_get :: "string \<Rightarrow> string \<Rightarrow> (string \<times> string) list \<Rightarrow> http_request" where
  "bearer_get url token headers = \<lparr>hq_method = ''GET'', hq_url = url,
     hq_headers = (''Authorization'', ''Bearer '' @ token) # headers, hq_body = []\<rparr>"

definition unexpected_status :: "string \<Rightarrow> int \<Rightarrow> string \<Rightarrow> goerr" where
  "unexpected_status prefix n body =
     Msg [Txt (prefix @ ''unexpected status '' @ int_dec n @ '': '' @ body)]"

text \<open>The user of a userinfo document; \<open>None\<close> is a document of another shape.\<close>

definition google_user :: "(string \<times> json) list \<Rightarrow> (goerr + user_info) option" where
  "google_user ms =
     (let vs = field_values [''sub'', ''email'', ''email_verified'', ''name''] ms in
      case (decode_with as_string [] (vs ''sub''), decode_with as_string [] (vs ''email''),
            decode_with as_bool False (vs ''email_verified''), decode_with as_string [] (vs ''name'')) of
        (Some sub, Some email, Some verified, Some name) \<Rightarrow>
          Some (if email = [] \<or> \<not> verified then Inl (Wrap ''google: '' (Sentinel ErrEmailNotVerified))
                else Inr \<lparr>ui_provider_id = sub, ui_email = email, ui_name = name\<rparr>)
      | _ \<Rightarrow> None)"

definition google_fetch_user_info :: "http_client \<Rightarrow> string \<Rightarrow> string \<Rightarrow> user_info io" where
  "google_fetch_user_info C url token w =
     (case hc_bad_url C url of
        Some e \<Rightarrow> (Inl (Wrap ''google: userinfo request: '' e), w)
      | None \<Rightarrow>
          and_then (wrap ''google: userinfo: '' (http_do C (bearer_get url token []) w)) (\<lambda>resp w.
            case hr_body resp of
              Inl e \<Rightarrow> (Inl (Wrap ''google: read userinfo: '' e), w)
            | Inr body \<Rightarrow>
                if hr_status resp \<noteq> 200
                then (Inl (unexpected_status ''google: userinfo: '' (hr_status resp) body), w)
                else (case Option.bind (Option.bind (json_unmarshal body) struct_members) google_user of
                        None \<Rightarrow> (Inl (Wrap ''google: parse userinfo: '' json_error), w)
                      | Some r \<Rightarrow> (r, w))))"

definition new_google :: "libs \<Rightarrow> env \<Rightarrow> oauth_lib \<Rightarrow> http_client \<Rightarrow> provider_config \<Rightarrow> oauth_provider" where
  "new_google L E O2 C pc =
     (let cfg = google_config O2 pc;
          info_url = override (pc_user_info_url pc) google_user_info_url
      in \<lparr>op_auth_code_url = ol_auth_code_url O2 cfg,
          op_exchange = (\<lambda>code_text w.
            and_then (wrap ''google: exchange: '' (contact (ol_exchange O2 cfg code_text) w))
              (google_fetch_user_info C info_url)),
          op_device_auth = (\<lambda>w.
            and_then (wrap ''google: device auth: '' (contact (ol_device_auth O2 cfg) w))
              (\<lambda>resp w. case to_device_auth_response E resp w of (d, w1) \<Rightarrow> (Inr d, w1))),
          op_device_poll = (\<lambda>device_code w.
            and_then (wrap ''google: device poll: '' (poll_device_token L C cfg device_code w))
              (google_fetch_user_info C info_url))\<rparr>)"

section \<open>GitHub (github.go)\<close>

definition github_user_url :: string where
  "github_user_url = ''https://api.github.com/user''"

text \<open>\<open>AuthStyleInParams\<close> is 1.\<close>

definition github_config :: "oauth_lib \<Rightarrow> provider_config \<Rightarrow> oauth_config" where
  "github_config O2 cfg =
     (case ol_github_endpoint O2 of (auth, token, device, style) \<Rightarrow>
        \<lparr>oc_client_id = pc_client_id cfg, oc_client_secret = pc_client_secret cfg,
         oc_redirect_url = pc_redirect_url cfg, oc_scopes = [''read:user'', ''user:email''],
         oc_auth_url = override (pc_auth_url cfg) auth, oc_token_url = override (pc_token_url cfg) token,
         oc_device_auth_url = override (pc_device_auth_url cfg) ''https://github.com/login/device/code'',
         oc_auth_style = 1\<rparr>)"

definition github_emails_url :: "string \<Rightarrow> string" where
  "github_emails_url url = trim_right_char (CHR ''/'') url @ ''/emails''"

definition github_get_json :: "http_client \<Rightarrow> string \<Rightarrow> string \<Rightarrow> (json \<Rightarrow> 'a option) \<Rightarrow> 'a io" where
  "github_get_json C url token decode w =
     (case hc_bad_url C url of
        Some e \<Rightarrow> (Inl (Wrap ''request: '' e), w)
      | None \<Rightarrow>
          and_then (http_do C (bearer_get url token [(''Accept'', ''application/vnd.github+json'')]) w)
            (\<lambda>resp w.
              case hr_body resp of
                Inl e \<Rightarrow> (Inl (Wrap ''read body: '' e), w)
              | Inr body \<Rightarrow>
                  if hr_status resp \<noteq> 200 then (Inl (unexpected_status [] (hr_status resp) body), w)
                  else (case Option.bind (json_unmarshal body) decode of
                          None \<Rightarrow> (Inl (Wrap ''parse: '' json_error), w)
                        | Some x \<Rightarrow> (Inr x, w))))"

record github_info =
  gi_id :: int
  gi_login :: string
  gi_name :: string

record github_email =
  ge_email :: string
  ge_primary :: bool
  ge_verified :: bool

definition github_user :: "json \<Rightarrow> github_info option" where
  "github_user v =
     Option.bind (struct_members v) (\<lambda>ms.
       let vs = field_values [''id'', ''login'', ''name''] ms in
       case (decode_with as_int64 0 (vs ''id''), decode_with as_string [] (vs ''login''),
             decode_with as_string [] (vs ''name'')) of
         (Some i, Some l, Some n) \<Rightarrow> Some \<lparr>gi_id = i, gi_login = l, gi_name = n\<rparr>
       | _ \<Rightarrow> None)"

definition github_email_entry :: "json \<Rightarrow> github_email option" where
  "github_email_entry v =
     Option.bind (struct_members v) (\<lambda>ms.
       let vs = field_values [''email'', ''primary'', ''verified''] ms in
       case (decode_with as_string [] (vs ''email''), decode_with as_bool False (vs ''primary''),
             decode_with as_bool False (vs ''verified'')) of
         (Some e, Some p, Some b) \<Rightarrow> Some \<lparr>ge_email = e, ge_primary = p, ge_verified = b\<rparr>
       | _ \<Rightarrow> None)"

fun decode_all :: "(json \<Rightarrow> 'a option) \<Rightarrow> json list \<Rightarrow> 'a list option" where
  "decode_all f [] = Some []"
| "decode_all f (v # vs) =
     (case f v of None \<Rightarrow> None | Some x \<Rightarrow> map_option ((#) x) (decode_all f vs))"

definition github_emails :: "json \<Rightarrow> github_email list option" where
  "github_emails v = Option.bind (array_values v) (decode_all github_email_entry)"

definition primary_email :: "github_email list \<Rightarrow> string" where
  "primary_email es =
     (case List.find (\<lambda>e. ge_primary e \<and> ge_verified e) es of None \<Rightarrow> [] | Some e \<Rightarrow> ge_email e)"

definition github_fetch_user_info :: "http_client \<Rightarrow> string \<Rightarrow> string \<Rightarrow> user_info io" where
  "github_fetch_user_info C url token w =
     and_then (wrap ''github: userinfo: '' (github_get_json C url token github_user w)) (\<lambda>info w.
     and_then (wrap ''github: emails: '' (github_get_json C (github_emails_url url) token github_emails w))
       (\<lambda>emails w.
          let email = primary_email emails in
          if email = [] then (Inl (Wrap ''github: '' (Sentinel ErrEmailNotVerified)), w)
          else (Inr \<lparr>ui_provider_id = int_dec (gi_id info), ui_email = email,
                     ui_name = (if gi_name info = [] then gi_login info else gi_name info)\<rparr>, w)))"

definition new_github :: "libs \<Rightarrow> env \<Rightarrow> oauth_lib \<Rightarrow> http_client \<Rightarrow> provider_config \<Rightarrow> oauth_provider" where
  "new_github L E O2 C pc =
     (let cfg = github_config O2 pc;
          info_url = override (pc_user_info_url pc) github_user_url
      in \<lparr>op_auth_code_url = ol_auth_code_url O2 cfg,
          op_exchange = (\<lambda>code_text w.
            and_then (wrap ''github: exchange: '' (contact (ol_exchange O2 cfg code_text) w))
              (github_fetch_user_info C info_url)),
          op_device_auth = (\<lambda>w.
            and_then (wrap ''github: device auth: '' (contact (ol_device_auth O2 cfg) w))
              (\<lambda>resp w. case to_device_auth_response E resp w of (d, w1) \<Rightarrow> (Inr d, w1))),
          op_device_poll = (\<lambda>device_code w.
            and_then (wrap ''github: device poll: '' (poll_device_token L C cfg device_code w))
              (github_fetch_user_info C info_url))\<rparr>)"

section \<open>Properties\<close>

text \<open>An adapter never touches the database.\<close>

lemma contact_db [simp]:
  "w_db (snd (contact f w)) = w_db w" "w_db (snd (http_do C q w)) = w_db w"
  "w_db (snd (to_device_auth_response E r w)) = w_db w"
  by (auto simp: contact_def http_do_def to_device_auth_response_def Let_def time_now_def)

lemma and_then_db:
  assumes "w_db (snd r) = d" and "\<And>x v. w_db v = d \<Longrightarrow> w_db (snd (f x v)) = d"
  shows "w_db (snd (and_then r f)) = d"
  using and_then_inv [where I = "\<lambda>v. w_db v = d"] assms by blast

lemma google_fetch_db [simp]: "w_db (snd (google_fetch_user_info C url t w)) = w_db w"
  by (auto simp: google_fetch_user_info_def intro!: and_then_db split: option.split sum.split)

lemma github_get_json_db [simp]: "w_db (snd (github_get_json C url t f w)) = w_db w"
  by (auto simp: github_get_json_def intro!: and_then_db split: option.split sum.split)

lemma github_fetch_db [simp]: "w_db (snd (github_fetch_user_info C url t w)) = w_db w"
  by (auto simp: github_fetch_user_info_def Let_def intro!: and_then_db)

lemma poll_device_token_db [simp]: "w_db (snd (poll_device_token L C cfg d w)) = w_db w"
  by (auto simp: poll_device_token_def intro!: and_then_db split: option.split sum.split)

lemma provider_db:
  assumes "prov = new_google L E O2 C pc \<or> prov = new_github L E O2 C pc"
  shows "w_db (snd (op_exchange prov c w)) = w_db w" "w_db (snd (op_device_auth prov w)) = w_db w"
    "w_db (snd (op_device_poll prov c w)) = w_db w"
proof -
  have dev: "w_db (snd (case to_device_auth_response E r v of (d, w1) \<Rightarrow> (Inr d, w1))) = w_db v" for r v
    using contact_db(3) [of E r v] by (cases "to_device_auth_response E r v") simp
  show "w_db (snd (op_exchange prov c w)) = w_db w" "w_db (snd (op_device_auth prov w)) = w_db w"
    "w_db (snd (op_device_poll prov c w)) = w_db w"
    using assms by (auto simp: new_google_def new_github_def Let_def dev intro!: and_then_db)
qed

text \<open>Both adapters only return a user with an email the provider says it verified.\<close>

abbreviation google_fields :: "string list" where
  "google_fields \<equiv> [''sub'', ''email'', ''email_verified'', ''name'']"

definition google_verified :: "string \<Rightarrow> user_info \<Rightarrow> bool" where
  "google_verified body u \<longleftrightarrow>
     (\<exists>ms. json_unmarshal body = Some (JObj ms) \<and>
        decode_with as_string [] (field_values google_fields ms ''sub'') = Some (ui_provider_id u) \<and>
        decode_with as_string [] (field_values google_fields ms ''email'') = Some (ui_email u) \<and>
        decode_with as_bool False (field_values google_fields ms ''email_verified'') = Some True)"

lemma google_user_verified:
  assumes "google_user ms = Some (Inr u)"
  shows "ui_email u \<noteq> []"
    and "decode_with as_string [] (field_values google_fields ms ''sub'') = Some (ui_provider_id u)"
    and "decode_with as_string [] (field_values google_fields ms ''email'') = Some (ui_email u)"
    and "decode_with as_bool False (field_values google_fields ms ''email_verified'') = Some True"
  using assms by (auto simp: google_user_def Let_def split: option.splits if_splits)

lemma google_fetch_verified:
  assumes "google_fetch_user_info C url t w = (Inr u, w')"
  obtains resp body where "hc_do C (bearer_get url t []) (w_tick w) = Inr resp"
    "hr_status resp = 200" "hr_body resp = Inr body" "google_verified body u" "ui_email u \<noteq> []"
proof -
  from assms obtain resp w1 where r: "http_do C (bearer_get url t []) w = (Inr resp, w1)"
    by (auto simp: google_fetch_user_info_def outcome_iffs split: option.splits)
  with assms obtain body v ms where b: "hr_body resp = Inr body" "hr_status resp = 200"
    "json_unmarshal body = Some v" "struct_members v = Some ms" "google_user ms = Some (Inr u)"
    by (auto simp: google_fetch_user_info_def outcome_iffs bind_eq_Some_conv
        split: option.splits sum.splits if_splits)
  have "json_unmarshal body = Some (JObj ms)"
    using b(3,4) google_user_verified(4) [OF b(5)]
    by (auto simp: struct_members_def field_values_def split: json.splits)
  with google_user_verified [OF b(5)] b r show thesis
    by (intro that [of resp body]) (auto simp: google_verified_def http_do_def contact_def)
qed

lemma primary_email_verified:
  assumes "primary_email es = m" and "m \<noteq> []"
  shows "\<exists>e \<in> set es. ge_primary e \<and> ge_verified e \<and> ge_email e = m"
  using assms by (auto simp: primary_email_def find_Some_iff split: option.splits)

lemma github_get_json_ok:
  assumes "github_get_json C url t f w = (Inr x, w')"
  obtains resp body v where "hr_status resp = 200" "hr_body resp = Inr body"
    "json_unmarshal body = Some v" "f v = Some x" "w' = w\<lparr>w_tick := Suc (w_tick w)\<rparr>"
    "hc_do C (bearer_get url t [(''Accept'', ''application/vnd.github+json'')]) (w_tick w) = Inr resp"
proof -
  from assms obtain resp where
    r: "hc_do C (bearer_get url t [(''Accept'', ''application/vnd.github+json'')]) (w_tick w) = Inr resp"
    by (auto simp: github_get_json_def outcome_iffs http_do_def contact_def split: option.splits)
  with assms obtain body where b: "hr_body resp = Inr body"
    by (auto simp: github_get_json_def http_do_def contact_def split: option.splits sum.splits)
  with r assms obtain v where "json_unmarshal body = Some v" "f v = Some x" "hr_status resp = 200"
    "w' = w\<lparr>w_tick := Suc (w_tick w)\<rparr>"
    by (auto simp: github_get_json_def http_do_def contact_def bind_eq_Some_conv
        split: option.splits if_splits)
  with r b show thesis by (intro that [of resp body v])
qed

lemma github_fetch_ok:
  assumes "github_fetch_user_info C url t w = (Inr u, w')"
  obtains info es w1 where "github_get_json C url t github_user w = (Inr info, w1)"
    "github_get_json C (github_emails_url url) t github_emails w1 = (Inr es, w')"
    "ui_provider_id u = int_dec (gi_id info)" "ui_email u = primary_email es" "ui_email u \<noteq> []"
proof -
  from assms obtain info es w1 where "github_get_json C url t github_user w = (Inr info, w1)"
    "github_get_json C (github_emails_url url) t github_emails w1 = (Inr es, w')"
    "primary_email es \<noteq> []" "u = \<lparr>ui_provider_id = int_dec (gi_id info), ui_email = primary_email es,
       ui_name = (if gi_name info = [] then gi_login info else gi_name info)\<rparr>"
    by (auto simp: github_fetch_user_info_def outcome_iffs Let_def split: if_splits)
  then show thesis by (intro that) simp_all
qed

text \<open>The answers to a device poll are exhaustive: a token, or one of the protocol's errors.\<close>

lemma device_token_result_ok:
  "device_token_result n tok = Inr t \<longleftrightarrow> dt_error tok = [] \<and> dt_access_token tok = t \<and> t \<noteq> []"
  by (auto simp: device_token_result_def)

lemma device_token_result_pending:
  "device_token_result n tok = Inl e \<Longrightarrow>
     (errors_is e ErrAuthorizationPending \<longleftrightarrow> dt_error tok = ''authorization_pending'') \<and>
     (errors_is e ErrSlowDown \<longleftrightarrow> dt_error tok = ''slow_down'') \<and>
     (errors_is e ErrAccessDenied \<longleftrightarrow> dt_error tok = ''access_denied'') \<and>
     (errors_is e ErrDeviceCodeExpired \<longleftrightarrow> dt_error tok = ''expired_token'')"
  by (auto simp: device_token_result_def split: if_splits)

text \<open>A poll makes at most one request.\<close>

lemma poll_device_token_once:
  "w_tick (snd (poll_device_token L C cfg d w)) \<in> {w_tick w, Suc (w_tick w)}"
proof -
  have "w_tick (snd (and_then (wrap p (http_do C q w)) f)) = Suc (w_tick w)"
    if "\<And>x v. snd (f x v) = v" for p q and f :: "http_response \<Rightarrow> string io"
    using that by (cases "hc_do C q (w_tick w)") (simp_all add: http_do_def contact_def)
  then show ?thesis
    by (auto simp: poll_device_token_def split: option.split sum.split)
qed

lemma round_seconds_bounds: "2 * \<bar>d - round_seconds d * second\<bar> \<le> second"
proof -
  have pos: "2 * \<bar>n - (n + second div 2) div second * second\<bar> \<le> second" for n
  proof -
    have h: "2 * (second div 2) = second" "second > 0" by (simp_all add: second_def)
    define x q r where "x = second div 2" and "q = (n + x) div second" and "r = (n + x) mod second"
    have "q * second + r = n + x" by (simp add: q_def r_def)
    moreover have r: "0 \<le> r" "r < second" using h by (simp_all add: r_def)
    moreover have x: "2 * x = second" using h(1) by (simp add: x_def)
    ultimately have "\<bar>n - q * second\<bar> \<le> x" by (intro abs_leI) linarith+
    then have "2 * \<bar>n - q * second\<bar> \<le> 2 * x" by simp
    then have "2 * \<bar>n - q * second\<bar> \<le> second" by (simp only: x)
    then show ?thesis by (simp add: q_def x_def)
  qed
  show ?thesis
  proof (cases "d < 0")
    case True
    have "round_seconds d = - ((- d + second div 2) div second)"
      using True by (simp add: round_seconds_def)
    then have "d - round_seconds d * second = - (- d - (- d + second div 2) div second * second)"
      by (simp only: mult_minus_left)
    with pos [of "- d"] show ?thesis by (simp only: abs_minus_cancel)
  next
    case False
    then have "round_seconds d = (d + second div 2) div second"
      by (cases "d = 0") (simp_all add: round_seconds_def second_def)
    with pos [of d] show ?thesis by simp
  qed
qed

end
