(* ===== verification/ServerInv.thy ===== *)
theory ServerInv
  imports Server
begin

text \<open>
  The invariant of the database through the whole server: every operation of the managers, every
  handler and every route keeps it, under any schedule of failures and any interleaving of
  statements of other clients.
\<close>

lemma jm_keeps_inv [simp]:
  "world_inv w \<Longrightarrow> world_inv (snd (jm_sign (new_jwt_manager L E J a) u w))"
  "world_inv w \<Longrightarrow> world_inv (snd (jm_validate (new_jwt_manager L E J a) t w))"
  by (simp_all add: jwt_inv)

lemma profile_manager_keeps [simp]:
  assumes "world_inv w"
  shows "world_inv (snd (pfm_get_by_user_id (new_profile_manager L (pg_profile_repository L E)) i w))"
    and "world_inv (snd (pfm_update (new_profile_manager L (pg_profile_repository L E)) i p w))"
    and "world_inv (snd (pfm_list (new_profile_manager L (pg_profile_repository L E)) lp w))"
    and "world_inv (snd (pfm_ensure_exists (new_profile_manager L (pg_profile_repository L E)) i n w))"
  using assms pg_pm.pm_keeps pg_pm.pm_update_keeps by simp_all

text \<open>The operations of the authentication manager, as the server wires it.\<close>

lemma auth_manager_keeps:
  fixes L E J O2 C cfg a
  assumes "world_inv w"
  defines "M \<equiv> server_auth_manager L E J O2 C cfg a"
  shows "world_inv (snd (am_oauth_callback M p c w))" "world_inv (snd (am_device_init M p w))"
    "world_inv (snd (am_device_poll M p c w))" "world_inv (snd (am_exchange_pat M raw w))"
    "world_inv (snd (am_refresh_jwt M t w))" "world_inv (snd (am_create_pat M i x w))"
    "world_inv (snd (am_revoke_pat M i w))" "world_inv (snd (am_list_pats M w))"
    "world_inv (snd (am_update_user_role M i r w))" "world_inv (snd (am_bootstrap_admin M e n raw w))"
  using assms(1) build_providers_keep [of L E O2 C cfg]
  by (simp_all add: M_def server_auth_manager_def new_auth_manager_def auth_device_init_def
      auth_create_pat_def auth_revoke_pat_def auth_list_pats_def auth_update_user_role_def
      pg_auth.auth_flows_keep pg_auth.auth_exchange_pat_keeps pg_auth.auth_refresh_jwt_keeps
      pg_auth.auth_bootstrap_keeps pg_um.create_pat_keeps pg_um.revoke_pat_keeps
      pg_um.list_pats_keeps pg_um.update_user_role_keeps oauth_keeps
      del: new_jwt_manager_simps)

text \<open>A handler that keeps the invariant.\<close>

definition keeps :: "handler \<Rightarrow> bool" where
  "keeps h \<longleftrightarrow> (\<forall>c r w. world_inv w \<longrightarrow> world_inv (snd (h c r w)))"

lemma keepsI: "(\<And>c r w. world_inv w \<Longrightarrow> world_inv (snd (h c r w))) \<Longrightarrow> keeps h"
  by (simp add: keeps_def)

text \<open>An outcome whose two cases answer in the state they are given.\<close>

lemma outcome_keeps:
  assumes "world_inv (snd x)" and "\<And>e v. snd (f e v) = v" and "\<And>y v. snd (g y v) = v"
  shows "world_inv (snd (case x of (Inl e, v) \<Rightarrow> f e v | (Inr y, v) \<Rightarrow> g y v))"
  using assms by (cases x; cases "fst x") auto

lemmas handler_defs = redirect_to_provider_def oauth_callback_def device_auth_def device_token_def
  exchange_pat_def refresh_jwt_def create_pat_handler_def list_pats_handler_def
  revoke_pat_handler_def me_handler_def update_role_handler_def

lemma auth_handlers_keep:
  fixes L E J O2 C cfg a
  defines "M \<equiv> server_auth_manager L E J O2 C cfg a"
  shows "keeps (redirect_to_provider M)" "keeps (oauth_callback M)" "keeps (device_auth B M)"
    "keeps (device_token B M)" "keeps (exchange_pat B M)" "keeps (refresh_jwt B M)"
    "keeps (create_pat_handler L B M)" "keeps (list_pats_handler L B M)"
    "keeps (revoke_pat_handler L M)" "keeps me_handler" "keeps (update_role_handler L B M)"
  unfolding M_def
  by (rule keepsI; simp add: handler_defs auth_manager_keeps outcome_keeps split: sum.split option.split)+

lemma list_outcome_keeps:
  assumes "world_inv (snd x)" and "\<And>e v. snd (f e v) = v" and "\<And>y z v. snd (g y z v) = v"
  shows "world_inv (snd (case x of (Inl e, v) \<Rightarrow> f e v | (Inr (y, z), v) \<Rightarrow> g y z v))"
  using assms by (cases x; cases "fst x") auto

lemma profile_handlers_keep:
  fixes L E
  defines "M \<equiv> new_profile_manager L (pg_profile_repository L E)"
  shows "keeps (get_my_profile L M)" "keeps (get_user_profile L M)" "keeps (update_my_profile L M)"
    "keeps (list_users L M)"
  unfolding M_def
  by (rule keepsI; simp add: get_my_profile_def get_user_profile_def update_my_profile_def
      list_users_def profile_result_def outcome_keeps list_outcome_keeps split: sum.split option.split
      del: new_profile_manager_simps; fail)+

lemma jwt_middleware_keeps:
  assumes "keeps h"
  shows "keeps (jwt_middleware (new_jwt_manager L E J a) h)"
proof (rule keepsI)
  fix c r w
  assume w: "world_inv w"
  show "world_inv (snd (jwt_middleware (new_jwt_manager L E J a) h c r w))"
  proof (cases rule: jwt_middleware_cases [of "new_jwt_manager L E J a" h c r w])
    case (Refused w1)
    then have "world_inv w1"
      using w jm_keeps_inv(2) [OF w, of L E J a] by (metis snd_conv world_inv_def)
    then show ?thesis using Refused by simp
  next
    case (Passed t cl w1)
    then have "world_inv w1" using jm_keeps_inv(2) [OF w, of L E J a t] by simp
    then show ?thesis using Passed assms by (simp add: keeps_def)
  qed
qed

text \<open>Every route of the server.\<close>

lemma router_keeps:
  assumes "rt \<in> set (router L B (server_auth_manager L E J O2 C cfg a) (new_jwt_manager L E J a)
    (new_profile_manager L (pg_profile_repository L E)))"
  shows "keeps (rt_handler rt)"
proof -
  note hs = auth_handlers_keep profile_handlers_keep
  have "list_all (\<lambda>rt. keeps (rt_handler rt)) (router L B (server_auth_manager L E J O2 C cfg a)
      (new_jwt_manager L E J a) (new_profile_manager L (pg_profile_repository L E)))"
    by (simp add: router_def mount_public_def mount_protected_def auth_routes_def pat_routes_def
        user_routes_def profile_routes_def mk_route_def hs jwt_middleware_keeps
        del: new_jwt_manager_simps new_profile_manager_simps)
  with assms show ?thesis by (simp add: list_all_iff)
qed

lemma run_server_keeps:
  assumes "world_inv w"
  shows "world_inv (snd (run_server L B E J O2 C cfg w))"
proof -
  have "world_inv (snd (run_bootstrap bc (server_auth_manager L E J O2 C cfg a) w))" for bc a
    unfolding run_bootstrap_def
    by (auto simp: assms auth_manager_keeps intro!: and_then_inv [where I = world_inv])
  then show ?thesis
    unfolding run_server_def Let_def
    by (auto simp: assms intro!: and_then_inv [where I = world_inv] split: sum.split)
qed

end
