(* ===== verification/Samples.thy ===== *)
theory Samples
  imports JwtAdapter
begin

text \<open>
  Concrete instances of the parameters that stand for external code, for runs on concrete
  inputs, and proofs that they meet the named hypotheses.
\<close>

section \<open>Named hypotheses on external packages\<close>

text \<open>\<open>uuid.Parse\<close> reads what \<open>UUID.String\<close> writes; \<open>sha256.Sum256\<close> returns 32 bytes.\<close>

definition uuid_lib_ok :: "libs \<Rightarrow> bool" where
  "uuid_lib_ok L \<longleftrightarrow> (\<forall>u. lib_uuid_parse L (lib_uuid_string L u) = Some u)"

definition sha_lib_ok :: "libs \<Rightarrow> bool" where
  "sha_lib_ok L \<longleftrightarrow> (\<forall>s. length (lib_sha256 L s) = 32)"

section \<open>Sample libraries\<close>

definition sample_digest :: "string \<Rightarrow> byte list" where
  "sample_digest s = take 32 (map (\<lambda>c. of_nat (code c)) s @ replicate 32 0)"

definition sample_uuid_parse :: "string \<Rightarrow> uuid option" where
  "sample_uuid_parse s =
     (if s \<noteq> [] \<and> list_all is_digit s then Some (of_nat (dec_val s)) else None)"

definition sample_libs :: libs where
  "sample_libs = \<lparr>lib_to_upper = (\<lambda>s. s), lib_to_lower = (\<lambda>s. s), lib_quote = (\<lambda>s. s),
     lib_pg_text = (\<lambda>c n. c), lib_by_name = (\<lambda>c. if c = ''ES'' then 1 else if c = ''FR'' then 2 else 0),
     lib_country_valid = (\<lambda>n. n = 1 \<or> n = 2),
     lib_alpha2 = (\<lambda>n. if n = 1 then ''ES'' else ''FR''),
     lib_sub_valid = (\<lambda>r. r = ''ES-MD'' \<or> r = ''FR-75''),
     lib_sub_country = (\<lambda>r. if r = ''ES-MD'' then 1 else 2),
     lib_uuid_parse = sample_uuid_parse, lib_uuid_string = (\<lambda>u. nat_dec (unat u)),
     lib_sha256 = sample_digest, lib_collate = map code\<rparr>"

lemma sample_libs_simps [simp]:
  "lib_uuid_parse sample_libs = sample_uuid_parse"
  "lib_uuid_string sample_libs u = nat_dec (unat u)"
  "lib_sha256 sample_libs = sample_digest" "lib_collate sample_libs = map code"
  "lib_by_name sample_libs c = (if c = ''ES'' then 1 else if c = ''FR'' then 2 else 0)"
  "lib_country_valid sample_libs n = (n = 1 \<or> n = 2)"
  "lib_alpha2 sample_libs n = (if n = 1 then ''ES'' else ''FR'')"
  "lib_sub_valid sample_libs r = (r = ''ES-MD'' \<or> r = ''FR-75'')"
  "lib_sub_country sample_libs r = (if r = ''ES-MD'' then 1 else 2)"
  by (simp_all add: sample_libs_def)

lemma sample_uuid_ok: "uuid_lib_ok sample_libs"
  by (simp add: uuid_lib_ok_def sample_uuid_parse_def nat_dec_digits)

lemma sample_sha_ok: "sha_lib_ok sample_libs"
  by (simp add: sha_lib_ok_def sample_digest_def min_def)

lemma sample_regions_ok: "iso_regions_prefixed sample_libs"
  by (auto simp: iso_regions_prefixed_def has_prefix_def is_upper_def is_ascii_def code_def)

section \<open>A sample token library\<close>

text \<open>
  A token spells its key and its claims, each field with a mark before every character and a
  full stop at the end, so that it can be read back.
\<close>

definition spell :: "string \<Rightarrow> string" where
  "spell s = concat (map (\<lambda>c. [CHR ''x'', c]) s) @ ''.''"

fun unspell :: "string \<Rightarrow> (string \<times> string) option" where
  "unspell [] = None"
| "unspell [c] = (if c = CHR ''.'' then Some ([], []) else None)"
| "unspell (c # d # s) =
     (if c = CHR ''.'' then Some ([], d # s)
      else (case unspell s of None \<Rightarrow> None | Some (a, r) \<Rightarrow> Some (d # a, r)))"

lemma unspell_spell: "unspell (spell s @ r) = Some (s, r)"
proof (induction s)
  case Nil
  then show ?case by (cases r) (simp_all add: spell_def)
next
  case (Cons c s)
  then show ?case by (simp add: spell_def)
qed

lemma spell_inject: "spell s @ r = spell s' @ r' \<longleftrightarrow> s = s' \<and> r = r'"
proof
  assume "spell s @ r = spell s' @ r'"
  then have "unspell (spell s @ r) = unspell (spell s' @ r')" by simp
  then show "s = s' \<and> r = r'" by (simp add: unspell_spell)
qed simp

definition spell_time :: "instant option \<Rightarrow> string" where
  "spell_time t = (case t of None \<Rightarrow> [] | Some i \<Rightarrow> (if i < 0 then CHR ''-'' else CHR ''+'') # nat_dec (nat \<bar>i\<bar>))"

definition unspell_time :: "string \<Rightarrow> instant option" where
  "unspell_time s =
     (case s of [] \<Rightarrow> None
      | c # d \<Rightarrow> Some (if c = CHR ''-'' then - int (dec_val d) else int (dec_val d)))"

lemma unspell_spell_time: "unspell_time (spell_time t) = t"
  by (auto simp: unspell_time_def spell_time_def split: option.split)

definition sample_token :: "string \<Rightarrow> claims \<Rightarrow> string" where
  "sample_token k c = spell k @ spell (cl_subject c) @ spell (spell_time (cl_issued_at c)) @
     spell (spell_time (cl_expires_at c)) @ spell (cl_email c) @ spell (cl_role c)"

definition read_token :: "string \<Rightarrow> (string \<times> claims) option" where
  "read_token t =
     Option.bind (unspell t) (\<lambda>(k, t). Option.bind (unspell t) (\<lambda>(s, t).
     Option.bind (unspell t) (\<lambda>(i, t). Option.bind (unspell t) (\<lambda>(x, t).
     Option.bind (unspell t) (\<lambda>(e, t). Option.bind (unspell t) (\<lambda>(r, t).
       Some (k, \<lparr>cl_subject = s, cl_issued_at = unspell_time i, cl_expires_at = unspell_time x,
                cl_email = e, cl_role = r\<rparr>)))))))"

lemma read_sample_token: "read_token (sample_token k c) = Some (k, c)"
proof -
  have [simp]: "unspell (spell s) = Some (s, [])" for s using unspell_spell [of s "[]"] by simp
  show ?thesis by (simp add: read_token_def sample_token_def unspell_spell unspell_spell_time)
qed

definition sample_jwt :: jwt_lib where
  "sample_jwt = \<lparr>jl_numeric_date = (\<lambda>t. t div second * second),
     jl_sign = (\<lambda>k c. Inr (sample_token k c)),
     jl_parse = (\<lambda>f now t.
       case (f (HMAC ''HS256''), read_token t) of
         (Inr k, Some (k', c)) \<Rightarrow>
           if t = sample_token k c \<and> not_expired c now then Inr (Some c, True)
           else Inl (Msg [Txt ''token''])
       | _ \<Rightarrow> Inl (Msg [Txt ''token''])),
     jl_is_expired = (\<lambda>e. False),
     jl_verifies = (\<lambda>m k t c. m = HMAC ''HS256'' \<and> t = sample_token k c)\<rparr>"

lemma sample_token_inject: "sample_token k c = sample_token k' c' \<longleftrightarrow> k = k' \<and> c = c'"
proof
  assume "sample_token k c = sample_token k' c'"
  then have "Some (k, c) = Some (k', c')" by (metis read_sample_token)
  then show "k = k' \<and> c = c'" by simp
qed simp

lemma sample_jwt_parse:
  "jl_parse sample_jwt f now t = Inr (Some c, True) \<longleftrightarrow>
     (\<exists>k. f (HMAC ''HS256'') = Inr k \<and> t = sample_token k c \<and> not_expired c now)"
proof (cases "f (HMAC ''HS256'')")
  case (Inl e)
  then show ?thesis by (simp add: sample_jwt_def)
next
  case (Inr k)
  show ?thesis
  proof (cases "read_token t")
    case None
    then have "t \<noteq> sample_token k c" using read_sample_token by auto
    with None Inr show ?thesis by (simp add: sample_jwt_def)
  next
    case (Some kc)
    have kc: "kc = (k, c)" if "t = sample_token k c"
      using Some read_sample_token [of k c] that by simp
    obtain k' c' where kc': "kc = (k', c')" by (cases kc)
    have "jl_parse sample_jwt f now t =
      (if t = sample_token k c' \<and> not_expired c' now then Inr (Some c', True)
       else Inl (Msg [Txt ''token'']))"
      using Some Inr kc' by (simp add: sample_jwt_def)
    with Inr kc kc' show ?thesis by auto
  qed
qed

lemma sample_jwt_verifies:
  "jl_verifies sample_jwt m k t c \<longleftrightarrow> m = HMAC ''HS256'' \<and> t = sample_token k c"
  by (simp add: sample_jwt_def)

lemma sample_jwt_sign [simp]: "jl_sign sample_jwt k c = Inr (sample_token k c)"
  by (simp add: sample_jwt_def)

lemma sample_jwt_date [simp]: "jl_numeric_date sample_jwt t = t div second * second"
  by (simp add: sample_jwt_def)

lemma sample_jwt_ok: "jwt_lib_ok sample_jwt"
  unfolding jwt_lib_ok_def sample_jwt_parse sample_jwt_verifies sample_jwt_sign sample_jwt_date
proof (intro conjI allI impI)
  fix m m' k k' t and c c' :: claims
  assume "m = HMAC ''HS256'' \<and> t = sample_token k c" "m' = HMAC ''HS256'' \<and> t = sample_token k' c'"
  then show "m = m'" "c = c'" using sample_token_inject [of k c k' c'] by simp_all
qed simp_all

section \<open>A sample world\<close>

definition sample_user :: user where
  "sample_user = \<lparr>u_id = 7, u_email = ''a@b.c'', u_name = ''Ana'', u_role = RoleUser,
     u_provider = ProviderGoogle, u_provider_id = ''g1'', u_created_at = 0, u_updated_at = 0\<rparr>"

definition sample_profile_row :: profile_row where
  "sample_profile_row = \<lparr>pw_user_id = 7, pw_display_name = ''Ana'', pw_city = None,
     pw_region = Some ''ES-MD'', pw_country = Some ''ES'', pw_gender = None,
     pw_date_of_birth = None, pw_category = None, pw_preferences = Map.empty,
     pw_created_at = 0, pw_updated_at = 0\<rparr>"

definition sample_world :: world where
  "sample_world = \<lparr>w_db = \<lparr>db_users = [sample_user], db_pats = [], db_profiles = [sample_profile_row]\<rparr>,
     w_tick = 0\<rparr>"

definition empty_world :: world where
  "empty_world = \<lparr>w_db = empty_database, w_tick = 0\<rparr>"

lemma sample_world_inv: "world_inv sample_world"
  by (simp add: world_inv_def sample_world_def db_inv_def users_inv_def pats_inv_def profiles_inv_def
      user_ok_def profile_ok_def sample_user_def sample_profile_row_def role_check_def
      provider_check_def gender_check_def category_check_def region_country_check_def
      has_prefix_def char_len_def is_cont_def code_def user_consts wildcard_def)

lemma empty_world_inv: "world_inv empty_world"
  by (simp add: empty_world_def world_inv_def db_inv_empty)

end
