(* ===== verification/PgFlows.thy ===== *)
theory PgFlows
  imports Server Samples
begin

text \<open>
  Whole flows on the PostgreSQL repositories in a quiet environment (no failure, no other
  client): a created token signs its user in, a revoked one no longer does, the first start of
  the server creates the administrator and later starts change nothing.
\<close>

abbreviation ticked :: "world \<Rightarrow> world" where
  "ticked w \<equiv> w\<lparr>w_tick := Suc (w_tick w)\<rparr>"

lemma quiet_find_user:
  assumes "quiet E" and "lookup_row u_id i (stored_users w) = Some u"
  shows "pg_find_user E i w = (Inr u, ticked w)"
  using assms by (simp add: pg_find_user_def quiet_roundtrip Let_def sql_user_by_id_def sql_rows_def)

lemma quiet_count_users:
  assumes "quiet E"
  shows "pg_count_users E w = (Inr (int (length (stored_users w))), ticked w)"
  using assms by (simp add: pg_count_users_def quiet_roundtrip Let_def sql_count_users_def)

lemma quiet_all_pats:
  assumes "quiet E"
  shows "pg_find_all_pats E w = (Inr (stored_pats w), ticked w)"
  using assms by (simp add: pg_find_all_pats_def quiet_roundtrip Let_def sql_all_pats_def)

text \<open>The row an \<open>INSERT\<close> of a token adds.\<close>

definition pat_row :: "env \<Rightarrow> pat \<Rightarrow> nat \<Rightarrow> pat" where
  "pat_row E p n = p\<lparr>p_id := uuid_at E n, p_expires_at := map_option to_timestamptz (p_expires_at p),
     p_created_at := to_timestamptz (clock_at E n)\<rparr>"

definition add_pat :: "pat \<Rightarrow> world \<Rightarrow> world" where
  "add_pat q w = w\<lparr>w_db := (w_db w)\<lparr>db_pats := stored_pats w @ [q]\<rparr>\<rparr>"

lemma quiet_save_pat:
  assumes "quiet E" and "p_user_id p \<in> u_id ` set (stored_users w)"
    and "uuid_at E (w_tick w) \<notin> p_id ` set (stored_pats w)"
    and "char_len (p_key_hash p) \<le> 255" and "char_len (p_salt p) \<le> 255"
  shows "pg_save_pat E p w = (Inr (pat_row E p (w_tick w)), ticked (add_pat (pat_row E p (w_tick w)) w))"
  using assms
  by (simp add: pg_save_pat_def quiet_roundtrip Let_def sql_insert_pat_def pat_row_def add_pat_def)

lemma hex_encode_ascii: "list_all is_ascii (hex_encode bs)"
proof -
  have "is_ascii (hex_char d)" if "d < 16" for d
  proof -
    have "hex_char d \<in> set ''0123456789abcdef''"
      unfolding hex_char_def using that by (intro nth_mem) simp
    then show ?thesis by (auto simp: is_ascii_def code_def)
  qed
  moreover have "unat (b :: byte) div 16 < 16" for b
    using unsigned_less [of b] by (simp add: div_less_iff_less_mult)
  ultimately show ?thesis by (auto simp: hex_encode_def list_all_iff)
qed

lemma hex_encode_len: "char_len (hex_encode bs) = 2 * length bs"
  using ascii_char_len [OF hex_encode_ascii] by simp

section \<open>Tokens\<close>

definition random_text :: "env \<Rightarrow> nat \<Rightarrow> nat \<Rightarrow> string" where
  "random_text E n tick = hex_encode (map (rand_at E tick) [0..<n])"

text \<open>The token that \<open>CreatePAT\<close> stores when it starts at a contact.\<close>

definition created_pat :: "libs \<Rightarrow> env \<Rightarrow> uuid \<Rightarrow> instant option \<Rightarrow> nat \<Rightarrow> pat" where
  "created_pat L E uid expires n =
     (let salt = random_text E 16 (n + 2) in
      pat_row E \<lparr>p_id = 0, p_user_id = uid, p_key_hash = hash_key L (random_text E 32 (n + 1)) salt,
        p_salt = salt, p_expires_at = expires, p_created_at = zero_time\<rparr> (n + 3))"

lemma quiet_create_pat:
  assumes "quiet E" and "sha_lib_ok L" and "lookup_row u_id uid (stored_users w) = Some u"
    and "uuid_at E (w_tick w + 3) \<notin> p_id ` set (stored_pats w)"
  shows "create_pat L E (pg_user_repository E) (pg_pat_repository E) uid expires w =
    (Inr (random_text E 32 (w_tick w + 1)),
     (add_pat (created_pat L E uid expires (w_tick w)) w)\<lparr>w_tick := w_tick w + 4\<rparr>)"
proof -
  let ?n = "w_tick w" and ?raw = "random_text E 32 (w_tick w + 1)" and ?salt = "random_text E 16 (w_tick w + 2)"
  let ?p = "\<lparr>p_id = 0, p_user_id = uid, p_key_hash = hash_key L ?raw ?salt,
    p_salt = ?salt, p_expires_at = expires, p_created_at = zero_time\<rparr>"
  let ?w3 = "w\<lparr>w_tick := ?n + 3\<rparr>"
  have uid: "uid \<in> u_id ` set (stored_users w)" using lookup_row_SomeD [OF assms(3)] by auto
  have "pg_save_pat E ?p ?w3 = (Inr (pat_row E ?p (?n + 3)), ticked (add_pat (pat_row E ?p (?n + 3)) ?w3))"
    using quiet_save_pat [OF assms(1), of ?p ?w3] assms(2,4) uid
    by (simp add: hash_key_def hex_encode_len random_text_def sha_lib_ok_def)
  then show ?thesis
    using assms(1,3)
    by (simp add: create_pat_def quiet_find_user generate_raw_key_def generate_salt_def quiet_rand_read
        random_text_def created_pat_def Let_def add_pat_def eval_nat_numeral)
qed

lemma quiet_resolve_pat:
  assumes "quiet E" and "match_pat L raw (stored_pats w) = Some p"
    and "lookup_row u_id (p_user_id p) (stored_users w) = Some u"
    and "\<not> is_expired p (clock_at E (Suc (w_tick w)))"
  shows "\<exists>w'. resolve_by_pat L E (pg_user_repository E) (pg_pat_repository E) raw w = (Inr u, w') \<and>
    w_db w' = w_db w"
proof -
  have "is_expired_now E p (ticked w) = (False, ticked w) \<or>
    is_expired_now E p (ticked w) = (False, ticked (ticked w))"
    using assms(4) by (cases "p_expires_at p") (auto simp: is_expired_now_def is_expired_def time_now_def)
  then show ?thesis
    using assms(1-3)
    by (auto simp: resolve_by_pat_def quiet_all_pats quiet_find_user)
qed

lemma match_pat_fresh:
  assumes "match_pat L raw ps = None" and "hash_key L raw (p_salt q) = p_key_hash q"
  shows "match_pat L raw (ps @ [q]) = Some q"
  using assms by (induction ps) (auto simp: match_pat_def)

lemma match_pat_None:
  "match_pat L raw ps = None \<longleftrightarrow> (\<forall>p \<in> set ps. hash_key L raw (p_salt p) \<noteq> p_key_hash p)"
  by (auto simp: match_pat_def find_None_iff)

text \<open>A revoked token is gone.\<close>

lemma quiet_revoke:
  assumes "quiet E"
  shows "snd (revoke_pat (pg_pat_repository E) i w) =
    ticked (w\<lparr>w_db := (w_db w)\<lparr>db_pats := filter (\<lambda>p. p_id p \<noteq> i) (stored_pats w)\<rparr>\<rparr>)"
  using assms
  by (auto simp: revoke_pat_def pg_delete_pat_def quiet_roundtrip Let_def sql_delete_pat_def
      split: if_splits)

section \<open>Bootstrap\<close>

definition admin_row :: "libs \<Rightarrow> env \<Rightarrow> string \<Rightarrow> string \<Rightarrow> nat \<Rightarrow> user" where
  "admin_row L E email name n = \<lparr>u_id = uuid_at E (n + 3), u_email = email, u_name = name,
     u_role = RoleAdmin, u_provider = ProviderPAT,
     u_provider_id = lib_uuid_string L (uuid_at E (n + 2)),
     u_created_at = to_timestamptz (clock_at E (n + 3)),
     u_updated_at = to_timestamptz (clock_at E (n + 3))\<rparr>"

lemma quiet_upsert_first:
  assumes "quiet E" and "stored_users w = []"
    and "char_len email \<le> 255" and "char_len name \<le> 255" and "char_len i \<le> 255"
  shows "pg_upsert_user E \<lparr>u_id = 0, u_email = email, u_name = name, u_role = RoleAdmin,
      u_provider = ProviderPAT, u_provider_id = i, u_created_at = zero_time, u_updated_at = zero_time\<rparr> w =
    (let t = to_timestamptz (clock_at E (w_tick w));
         u = \<lparr>u_id = uuid_at E (w_tick w), u_email = email, u_name = name, u_role = RoleAdmin,
              u_provider = ProviderPAT, u_provider_id = i, u_created_at = t, u_updated_at = t\<rparr>
     in (Inr u, ticked (w\<lparr>w_db := (w_db w)\<lparr>db_users := [u]\<rparr>\<rparr>)))"
proof -
  have "char_len RoleAdmin \<le> 50" "char_len ProviderPAT \<le> 50" "provider_check ProviderPAT" "role_check RoleAdmin"
    by (simp_all add: user_consts char_len_def is_cont_def code_def provider_check_def role_check_def)
  then show ?thesis
    using assms
    by (simp add: pg_upsert_user_def quiet_roundtrip Let_def sql_upsert_user_def insert_user_def)
qed

lemma bootstrap_first:
  assumes "quiet E" and "sha_lib_ok L" and "stored_users w = []" and "stored_pats w = []"
    and "char_len email \<le> 255" and "char_len name \<le> 255"
    and "char_len (lib_uuid_string L (uuid_at E (w_tick w + 2))) \<le> 255"
  shows "\<exists>w'. bootstrap_admin L E (pg_user_repository E) (pg_pat_repository E) email name raw w =
      (Inr (Some (admin_row L E email name (w_tick w)), raw), w') \<and>
    stored_users w' = [admin_row L E email name (w_tick w)] \<and>
    (\<exists>p. stored_pats w' = [p] \<and> p_user_id p = uuid_at E (w_tick w + 3) \<and> p_expires_at p = None \<and>
       hash_key L raw (p_salt p) = p_key_hash p)"
proof -
  let ?u = "admin_row L E email name (w_tick w)" and ?salt = "random_text E 16 (w_tick w + 1)"
  let ?w3 = "w\<lparr>w_tick := w_tick w + 3\<rparr>"
  let ?w4 = "w\<lparr>w_db := (w_db w)\<lparr>db_users := [?u]\<rparr>, w_tick := w_tick w + 4\<rparr>"
  let ?p = "\<lparr>p_id = 0, p_user_id = u_id ?u, p_key_hash = hash_key L raw ?salt, p_salt = ?salt,
    p_expires_at = None, p_created_at = zero_time\<rparr>"
  have up: "pg_upsert_user E \<lparr>u_id = 0, u_email = email, u_name = name, u_role = RoleAdmin,
      u_provider = ProviderPAT, u_provider_id = lib_uuid_string L (uuid_at E (w_tick w + 2)),
      u_created_at = zero_time, u_updated_at = zero_time\<rparr> ?w3 = (Inr ?u, ?w4)"
    using quiet_upsert_first [OF assms(1), of ?w3 email name "lib_uuid_string L (uuid_at E (w_tick w + 2))"]
      assms(3,5,6,7)
    by (simp add: Let_def admin_row_def eval_nat_numeral)
  have save: "pg_save_pat E ?p ?w4 = (Inr (pat_row E ?p (w_tick w + 4)), ticked (add_pat (pat_row E ?p (w_tick w + 4)) ?w4))"
    using quiet_save_pat [OF assms(1), of ?p ?w4] assms(2,4)
    by (simp add: hash_key_def hex_encode_len random_text_def sha_lib_ok_def)
  have "bootstrap_admin L E (pg_user_repository E) (pg_pat_repository E) email name raw w =
    (Inr (Some ?u, raw), ticked (add_pat (pat_row E ?p (w_tick w + 4)) ?w4))"
    using assms(1,3) up save
    by (simp add: bootstrap_admin_def bootstrap_create_def quiet_count_users generate_salt_def quiet_rand_read
        new_uuid_def random_text_def eval_nat_numeral)
  then show ?thesis
    using assms(4) by (simp add: add_pat_def pat_row_def admin_row_def)
qed

lemma bootstrap_again:
  assumes "quiet E" and "stored_users w \<noteq> []"
  shows "bootstrap_admin L E (pg_user_repository E) (pg_pat_repository E) email name raw w =
    (Inr (None, []), ticked w)"
  using pg_um.bootstrap_skips [of E w _ "ticked w"] assms by (simp add: quiet_count_users)

end
