(* ===== verification/AuthProperties.thy ===== *)
theory AuthProperties
  imports ServerInv PgFlows
begin

text \<open>
  The properties of authentication and of the tokens: what a protected route asks for, what a
  created, revoked, refreshed or expired token does, and what a sign-in may disclose.
\<close>

section \<open>Concrete configurations for the witnesses\<close>

definition sample_web :: web where
  "sample_web = \<lparr>wb_bind = (\<lambda>r ks. Inr (\<lambda>k. if k \<in> set ks then Some (rq_body r) else None)),
     wb_time_json = int_dec\<rparr>"

definition sample_http :: http_client where
  "sample_http = \<lparr>hc_bad_url = (\<lambda>u. None), hc_do = (\<lambda>q n. Inl (Msg [Txt ''offline'']))\<rparr>"

definition sample_oauth_lib :: oauth_lib where
  "sample_oauth_lib = \<lparr>ol_auth_code_url = (\<lambda>c s. oc_auth_url c @ ''?state='' @ s),
     ol_exchange = (\<lambda>c s n. Inl (Msg [Txt ''offline''])),
     ol_device_auth = (\<lambda>c n. Inl (Msg [Txt ''offline''])),
     ol_google_endpoint = (''a'', ''t'', ''d'', 0), ol_github_endpoint = (''a'', ''t'', ''d'', 0)\<rparr>"

definition sample_config :: config where
  "sample_config = load_config (\<lambda>k. if k = ''jwt.secret'' then ''s3cret'' else []) (\<lambda>k. 3600 * second)"

definition sample_adapter :: jwt_adapter where
  "sample_adapter = \<lparr>ja_secret = ''s3cret'', ja_expiry = 3600 * second\<rparr>"

definition anonymous :: request where
  "anonymous = \<lparr>rq_header = (\<lambda>h. []), rq_param = (\<lambda>k. []), rq_query = (\<lambda>k. []), rq_body = []\<rparr>"

abbreviation sample_routes :: "route list" where
  "sample_routes \<equiv> router sample_libs sample_web
     (server_auth_manager sample_libs sample_env sample_jwt sample_oauth_lib sample_http sample_config sample_adapter)
     (new_jwt_manager sample_libs sample_env sample_jwt sample_adapter)
     (new_profile_manager sample_libs (pg_profile_repository sample_libs sample_env))"

lemma sample_config_simps:
  "cf_jwt_secret sample_config = ''s3cret''" "cf_jwt_expiry sample_config = 3600 * second"
  "bc_email (cf_bootstrap sample_config) = []"
  by (simp_all add: sample_config_def load_config_def)

lemma sample_server_starts:
  "run_server sample_libs sample_web sample_env sample_jwt sample_oauth_lib sample_http sample_config w =
     (Inr sample_routes, w)"
  by (simp add: run_server_def jwt_new_with_config_def run_bootstrap_def sample_config_simps
      sample_adapter_def Let_def del: new_jwt_manager_simps new_profile_manager_simps)

lemma started_router:
  assumes "run_server L B E J O2 C cfg w0 = (Inr rs, w1)"
  shows "rs = router L B (server_auth_manager L E J O2 C cfg \<lparr>ja_secret = cf_jwt_secret cfg, ja_expiry = cf_jwt_expiry cfg\<rparr>)
      (new_jwt_manager L E J \<lparr>ja_secret = cf_jwt_secret cfg, ja_expiry = cf_jwt_expiry cfg\<rparr>)
      (new_profile_manager L (pg_profile_repository L E))"
  using assms
  by (auto simp: run_server_def jwt_new_with_config_def and_then_ok Let_def split: if_splits
      simp del: new_jwt_manager_simps new_profile_manager_simps)

section \<open>Protected routes\<close>

text \<open>
  The requests a started server answers, one after the other, each on the state the previous one
  left: every state the server reaches.
\<close>

inductive served :: "route list \<Rightarrow> world \<Rightarrow> world \<Rightarrow> bool" for rs and w0 where
  Idle: "served rs w0 w0"
| Answer: "served rs w0 w \<Longrightarrow> rt \<in> set rs \<Longrightarrow> served rs w0 (snd (rt_handler rt empty_ctx r w))"

text \<open>
  C1: on a started server a request to a route outside \<open>/auth\<close> whose header carries no token
  signed with the configured secret and still valid is answered with 401 \<open>unauthorized\<close>, and the
  database is untouched.
\<close>

theorem protected_routes_need_token:
  assumes "jwt_lib_ok J" and "run_server L B E J O2 C cfg w0 = (Inr rs, w1)"
    and "rt \<in> set rs" and "\<not> has_prefix ''/auth'' (rt_path rt)"
    and "\<And>t c alg. rq_header r ''Authorization'' = ''Bearer '' @ t \<Longrightarrow>
      jl_verifies J (HMAC alg) (cf_jwt_secret cfg) t c \<Longrightarrow> \<not> not_expired c (clock_at E (w_tick w))"
  shows "fst (rt_handler rt cx r w) = HTTPError 401 ''unauthorized'' \<and>
    w_db (snd (rt_handler rt cx r w)) = w_db w"
proof -
  let ?a = "\<lparr>ja_secret = cf_jwt_secret cfg, ja_expiry = cf_jwt_expiry cfg\<rparr>"
  let ?J = "new_jwt_manager L E J ?a"
  obtain h where h: "rt_handler rt = jwt_middleware ?J h"
    using router_protected assms(3,4) unfolding started_router [OF assms(2)] by meson
  have msg: "unauthorized_response = HTTPError 401 ''unauthorized''"
    by (simp add: unauthorized_response_def sentinel_text_def)
  show ?thesis
  proof (cases rule: jwt_middleware_cases [of ?J h cx r w])
    case (Refused w2)
    moreover have "w_db w2 = w_db w" if "jm_validate ?J t w = (Inl e, w2)" for t e
    proof -
      from that have "w2 = snd (jm_validate ?J t w)" by (simp del: new_jwt_manager_simps)
      then show ?thesis by simp
    qed
    ultimately show ?thesis using h msg by auto
  next
    case (Passed t c w2)
    then have "jwt_validate E J ?a t w = (Inr c, w2)" by (simp add: map_err_ok)
    then obtain alg where "jl_verifies J (HMAC alg) (cf_jwt_secret cfg) t c"
      "not_expired c (clock_at E (w_tick w))"
      using jwt_validate_iff [OF assms(1)] by auto
    with assms(5) Passed(1) show ?thesis by blast
  qed
qed

theorem protected_routes_need_token_witness:
  "list_all (\<lambda>rt. has_prefix ''/auth'' (rt_path rt) \<or>
     fst (rt_handler rt empty_ctx anonymous sample_world) = HTTPError 401 ''unauthorized'') sample_routes"
proof -
  have "rq_header anonymous ''Authorization'' \<noteq> ''Bearer '' @ t" for t by (simp add: anonymous_def)
  then show ?thesis
    using protected_routes_need_token [OF sample_jwt_ok sample_server_starts [of sample_world],
        where r = anonymous and cx = empty_ctx and w = sample_world]
    by (auto simp: list_all_iff simp del: new_jwt_manager_simps new_profile_manager_simps)
qed



section \<open>Personal access tokens\<close>

abbreviation sample_manager :: auth_manager where
  "sample_manager \<equiv> server_auth_manager sample_libs sample_env sample_jwt sample_oauth_lib sample_http sample_config sample_adapter"

lemma sample_user_stored: "lookup_row u_id 7 (stored_users sample_world) = Some sample_user"
  by (simp add: sample_world_def sample_user_def)

lemma sample_no_pats: "stored_pats sample_world = []"
  by (simp add: sample_world_def)

lemma server_manager_simps:
  "am_create_pat (server_auth_manager L E J O2 C cfg a) = create_pat L E (pg_user_repository E) (pg_pat_repository E)"
  "am_revoke_pat (server_auth_manager L E J O2 C cfg a) = revoke_pat (pg_pat_repository E)"
  "am_update_user_role (server_auth_manager L E J O2 C cfg a) = update_user_role (pg_user_repository E)"
  "am_exchange_pat (server_auth_manager L E J O2 C cfg a) =
     auth_exchange_pat (new_user_manager L E (pg_user_repository E) (pg_pat_repository E)) (new_jwt_manager L E J a)"
  "am_refresh_jwt (server_auth_manager L E J O2 C cfg a) =
     auth_refresh_jwt L (new_user_manager L E (pg_user_repository E) (pg_pat_repository E)) (new_jwt_manager L E J a)"
  by (simp_all add: server_auth_manager_def new_auth_manager_def fun_eq_iff auth_create_pat_def
      auth_revoke_pat_def auth_update_user_role_def del: new_jwt_manager_simps)

lemma quiet_exchange:
  assumes "quiet E" and "jwt_lib_ok J" and "match_pat L raw (stored_pats w) = Some p"
    and "lookup_row u_id (p_user_id p) (stored_users w) = Some u"
    and "\<not> is_expired p (clock_at E (Suc (w_tick w)))"
  shows "\<exists>t w' n. am_exchange_pat (server_auth_manager L E J O2 C cfg a) raw w = (Inr t, w') \<and>
    w_db w' = w_db w \<and> signed_at L E J a n u t"
proof -
  obtain w1 where w1: "resolve_by_pat L E (pg_user_repository E) (pg_pat_repository E) raw w = (Inr u, w1)"
    "w_db w1 = w_db w" using quiet_resolve_pat [OF assms(1,3,4,5)] by blast
  obtain t where "jwt_sign L E J a u w1 = (Inr t, ticked w1)"
    "jl_verifies J (HMAC ''HS256'') (ja_secret a) t (user_claims L J a (clock_at E (w_tick w1)) u)"
    using jwt_sign_ok [OF assms(2)] by blast
  with w1 show ?thesis
    by (auto simp: server_manager_simps auth_exchange_pat_def signed_at_def intro!: exI [of _ "w_tick w1"])
qed

text \<open>
  C10: in a quiet environment, creating a token for a stored user and then exchanging the returned
  text gives a JWT with that user's claims, unless the token expires first; the only collisions
  excluded are a generated identifier in use and a stored token that the new text also matches.
\<close>

theorem created_token_signs_in:
  assumes "quiet E" and "sha_lib_ok L" and "jwt_lib_ok J"
    and "lookup_row u_id uid (stored_users w) = Some u"
    and "uuid_at E (w_tick w + 3) \<notin> p_id ` set (stored_pats w)"
    and "match_pat L (random_text E 32 (w_tick w + 1)) (stored_pats w) = None"
    and "\<And>x. expires = Some x \<Longrightarrow> clock_at E (w_tick w + 5) \<le> to_timestamptz x"
  shows "\<exists>raw w1 t w2 n.
    am_create_pat (server_auth_manager L E J O2 C cfg a) uid expires w = (Inr raw, w1) \<and>
    am_exchange_pat (server_auth_manager L E J O2 C cfg a) raw w1 = (Inr t, w2) \<and>
    jl_verifies J (HMAC ''HS256'') (ja_secret a) t (user_claims L J a (clock_at E n) u)"
proof -
  let ?p = "created_pat L E uid expires (w_tick w)" and ?raw = "random_text E 32 (w_tick w + 1)"
  let ?w1 = "(add_pat ?p w)\<lparr>w_tick := w_tick w + 4\<rparr>"
  have p: "hash_key L ?raw (p_salt ?p) = p_key_hash ?p" "p_user_id ?p = uid"
    "p_expires_at ?p = map_option to_timestamptz expires"
    by (simp_all add: created_pat_def pat_row_def Let_def)
  have "match_pat L ?raw (stored_pats ?w1) = Some ?p"
    using match_pat_fresh [OF assms(6) p(1)] by (simp add: add_pat_def)
  moreover have "lookup_row u_id (p_user_id ?p) (stored_users ?w1) = Some u"
    using assms(4) p(2) by (simp add: add_pat_def)
  moreover have "\<not> is_expired ?p (clock_at E (Suc (w_tick ?w1)))"
    using assms(7) p(3) by (cases expires) (auto simp: is_expired_def add.commute not_less)
  ultimately have "\<exists>t w' n. am_exchange_pat (server_auth_manager L E J O2 C cfg a) ?raw ?w1 = (Inr t, w') \<and>
      w_db w' = w_db ?w1 \<and> signed_at L E J a n u t"
    by (rule quiet_exchange [OF assms(1,3)])
  then show ?thesis
    using quiet_create_pat [OF assms(1,2,4,5), of expires]
    unfolding server_manager_simps(1) signed_at_def by blast
qed

theorem created_token_signs_in_witness:
  "\<exists>raw w1 t w2. am_create_pat sample_manager 7 None sample_world = (Inr raw, w1) \<and>
    am_exchange_pat sample_manager raw w1 = (Inr t, w2)"
  using created_token_signs_in [OF quiet_sample_env sample_sha_ok sample_jwt_ok sample_user_stored,
      of None sample_oauth_lib sample_http sample_config sample_adapter]
  by (auto simp: sample_no_pats match_pat_None)

text \<open>
  C11: a JWT given for a personal access token belongs to a user whose stored token has the hash of
  the presented text under its own salt, and had not expired when the tokens were read.
\<close>

theorem token_exchange_sound:
  assumes "am_exchange_pat (server_auth_manager L E J O2 C cfg a) raw w = (Inr t, w')" and "jwt_lib_ok J"
  shows "\<exists>u p w1 n. pg_find_all_pats E w = (Inr (stored_pats w1), w1) \<and> p \<in> set (stored_pats w1) \<and>
    hash_key L raw (p_salt p) = p_key_hash p \<and> \<not> is_expired p (clock_at E (w_tick w1)) \<and>
    p_user_id p = u_id u \<and> u \<in> set (stored_users w') \<and>
    jl_verifies J (HMAC ''HS256'') (ja_secret a) t (user_claims L J a (clock_at E n) u)"
proof -
  from assms(1) obtain u v where v: "resolve_by_pat L E (pg_user_repository E) (pg_pat_repository E) raw w = (Inr u, v)"
    "jm_sign (new_jwt_manager L E J a) u v = (Inr t, w')"
    unfolding server_manager_simps auth_exchange_pat_def
    by (auto simp: outcome_iffs simp del: new_jwt_manager_simps)
  from jm_sign_ok [OF assms(2) v(2)] have "signed_at L E J a (w_tick v) u t" "stored_users w' = stored_users v"
    by simp_all
  with pg_um.resolve_by_pat_result [OF v(1)] show ?thesis
    unfolding pg_pat_repository_simps signed_at_def by metis
qed

theorem token_exchange_sound_witness:
  "\<exists>t w' u. am_exchange_pat sample_manager ''k''
      (sample_world\<lparr>w_db := (w_db sample_world)\<lparr>db_pats := [\<lparr>p_id = 1, p_user_id = 7,
        p_key_hash = hash_key sample_libs ''k'' ''s'', p_salt = ''s'', p_expires_at = None, p_created_at = 0\<rparr>]\<rparr>\<rparr>) = (Inr t, w') \<and>
    u \<in> set (stored_users w') \<and> u_id u = 7"
proof -
  let ?p = "\<lparr>p_id = 1, p_user_id = 7, p_key_hash = hash_key sample_libs ''k'' ''s'', p_salt = ''s'',
    p_expires_at = None, p_created_at = 0\<rparr>"
  let ?w = "sample_world\<lparr>w_db := (w_db sample_world)\<lparr>db_pats := [?p]\<rparr>\<rparr>"
  have m: "match_pat sample_libs ''k'' (stored_pats ?w) = Some ?p" by (simp add: match_pat_def)
  have "lookup_row u_id (p_user_id ?p) (stored_users ?w) = Some sample_user" using sample_user_stored by simp
  moreover have "\<not> is_expired ?p (clock_at sample_env (Suc (w_tick ?w)))" by (simp add: is_expired_def)
  ultimately obtain t w' where x: "am_exchange_pat sample_manager ''k'' ?w = (Inr t, w')" "w_db w' = w_db ?w"
    using quiet_exchange [OF quiet_sample_env sample_jwt_ok m] by blast
  from token_exchange_sound [OF x(1) sample_jwt_ok] obtain u where "u \<in> set (stored_users w')" by blast
  moreover have "stored_users w' = [sample_user]" using x(2) by (simp add: sample_world_def)
  ultimately show ?thesis using x(1) by (auto simp: sample_user_def)
qed



section \<open>JWTs\<close>

definition sample_claims :: claims where
  "sample_claims = user_claims sample_libs sample_jwt sample_adapter 0 sample_user"

abbreviation sample_bearer :: string where
  "sample_bearer \<equiv> sample_token ''s3cret'' sample_claims"

lemma sample_sign: "jwt_sign sample_libs sample_env sample_jwt sample_adapter sample_user sample_world =
    (Inr sample_bearer, ticked sample_world)"
  by (simp add: jwt_sign_def time_now_def sample_adapter_def sample_claims_def sample_env_def sample_world_def)

text \<open>
  C13: a token that the server signs validates, with the claims of its user, exactly until its
  lifetime has passed, the expiry being cut to whole seconds; from then on it is refused as
  unauthorized.
\<close>

theorem signed_token_validates_until_expiry:
  assumes "jwt_lib_ok J" and "jwt_sign L E J a u w = (Inr t, w1)"
  shows "if clock_at E (w_tick v) < (clock_at E (w_tick w) + ja_expiry a) div second * second
    then jwt_validate E J a t v = (Inr (user_claims L J a (clock_at E (w_tick w)) u), ticked v)
    else \<exists>e. fst (jwt_validate E J a t v) = Inl e \<and> errors_is e ErrUnauthorized"
  using jwt_sign_validate [OF assms, of v] jwt_sign_expires [OF assms, of v]
  by (auto simp: not_less)

theorem signed_token_validates_until_expiry_witness:
  "fst (jwt_validate sample_env sample_jwt sample_adapter sample_bearer (sample_world\<lparr>w_tick := 3599\<rparr>)) = Inr sample_claims \<and>
   (\<exists>e. fst (jwt_validate sample_env sample_jwt sample_adapter sample_bearer (sample_world\<lparr>w_tick := 3600\<rparr>)) = Inl e)"
  using signed_token_validates_until_expiry [OF sample_jwt_ok sample_sign, of "sample_world\<lparr>w_tick := 3599\<rparr>"]
    signed_token_validates_until_expiry [OF sample_jwt_ok sample_sign, of "sample_world\<lparr>w_tick := 3600\<rparr>"]
  by (auto simp: sample_env_def sample_adapter_def second_def sample_claims_def sample_world_def)

text \<open>
  C14: a refreshed token is signed for the record that the user of the old token has at that moment,
  so that changes of role and email take effect; the old token had to verify under the secret and
  be valid still.
\<close>

theorem refresh_signs_current_record:
  assumes "am_refresh_jwt (server_auth_manager L E J O2 C cfg a) t w = (Inr t', w')" and "jwt_lib_ok J"
  shows "\<exists>old u alg n. jl_verifies J (HMAC alg) (ja_secret a) t old \<and> not_expired old (clock_at E (w_tick w)) \<and>
    lib_uuid_parse L (cl_subject old) = Some (u_id u) \<and> u \<in> set (stored_users w') \<and>
    jl_verifies J (HMAC ''HS256'') (ja_secret a) t' (user_claims L J a (clock_at E n) u)"
  using pg_auth.auth_refresh_result [OF assms(1) [unfolded server_manager_simps] assms(2)]
  unfolding signed_at_def by auto blast

lemma sample_refresh:
  "am_refresh_jwt sample_manager sample_bearer sample_world =
     (Inr (sample_token ''s3cret'' (user_claims sample_libs sample_jwt sample_adapter (2 * second) sample_user)),
      sample_world\<lparr>w_tick := 3\<rparr>)"
proof -
  have v: "jwt_validate sample_env sample_jwt sample_adapter sample_bearer sample_world = (Inr sample_claims, ticked sample_world)"
    using jwt_sign_validate [OF sample_jwt_ok sample_sign, of sample_world]
    by (simp add: sample_env_def sample_adapter_def second_def sample_claims_def sample_world_def)
  have s: "sample_uuid_parse (cl_subject sample_claims) = Some 7"
    by (simp add: sample_claims_def user_claims_def sample_uuid_parse_def sample_user_def nat_dec_digits)
  have f: "pg_find_user sample_env 7 (ticked sample_world) = (Inr sample_user, ticked (ticked sample_world))"
    using sample_user_stored by (intro quiet_find_user [OF quiet_sample_env]) simp
  show ?thesis
    by (simp add: server_manager_simps auth_refresh_jwt_def v s find_user_def f jwt_sign_def time_now_def)
      (simp add: sample_env_def sample_adapter_def sample_world_def)
qed

theorem refresh_signs_current_record_witness:
  "\<exists>u. u \<in> set (stored_users (sample_world\<lparr>w_tick := 3\<rparr>))"
  using refresh_signs_current_record [OF sample_refresh sample_jwt_ok] by blast

text \<open>
  Refreshing a valid token whose user is no longer stored is answered with 401, in a quiet
  environment: a deleted user cannot refresh.
\<close>

theorem deleted_user_cannot_refresh:
  assumes "quiet E" and "jwt_validate E J a (bound q ''token'') w = (Inr c, ticked w)"
    and "lib_uuid_parse L (cl_subject c) = Some i" and "\<forall>u \<in> set (stored_users w). u_id u \<noteq> i"
    and "wb_bind B r [''token''] = Inr q" and "bound q ''token'' \<noteq> []"
  shows "fst (refresh_jwt B (server_auth_manager L E J O2 C cfg a) cx r w) = HTTPError 401 ''invalid or expired token''"
proof -
  have "lookup_row u_id i (stored_users (ticked w)) = None" using assms(4) by (simp add: lookup_row_None_iff)
  then have "pg_find_user E i (ticked w) = (Inl (Wrap ''postgres: FindByID: '' (Sentinel ErrUserNotFound)), ticked (ticked w))"
    using assms(1)
    by (simp add: pg_find_user_def quiet_roundtrip Let_def sql_user_by_id_def sql_rows_def no_rows_to_def)
  then obtain e' w2 where "auth_refresh_jwt L (new_user_manager L E (pg_user_repository E) (pg_pat_repository E))
      (new_jwt_manager L E J a) (bound q ''token'') w = (Inl e', w2)" "errors_is e' ErrUnauthorized"
    using pg_auth.auth_refresh_deleted [OF assms(2,3)] by fastforce
  then show ?thesis
    using assms(5,6) by (simp add: refresh_jwt_def server_manager_simps)
qed

theorem deleted_user_cannot_refresh_witness:
  "fst (refresh_jwt sample_web sample_manager empty_ctx (anonymous\<lparr>rq_body := sample_bearer\<rparr>) empty_world) =
     HTTPError 401 ''invalid or expired token''"
proof (rule deleted_user_cannot_refresh [OF quiet_sample_env, where c = sample_claims and i = 7])
  show "wb_bind sample_web (anonymous\<lparr>rq_body := sample_bearer\<rparr>) [''token''] = Inr [''token'' \<mapsto> sample_bearer]"
    by (auto simp: sample_web_def anonymous_def)
  show "jwt_validate sample_env sample_jwt sample_adapter (bound [''token'' \<mapsto> sample_bearer] ''token'') empty_world =
    (Inr sample_claims, ticked empty_world)"
    using jwt_sign_validate [OF sample_jwt_ok sample_sign, of empty_world]
    by (simp add: sample_env_def sample_adapter_def second_def sample_claims_def empty_world_def sample_world_def bound_def)
  show "lib_uuid_parse sample_libs (cl_subject sample_claims) = Some 7"
    by (simp add: sample_claims_def user_claims_def sample_uuid_parse_def sample_user_def nat_dec_digits)
qed (simp_all add: empty_world_def empty_database_def bound_def sample_token_def spell_def)

section \<open>Sign-in\<close>

text \<open>
  C15: a sign-in refused because another account owns the email is sent back with the
  \<open>email_already_registered\<close> code, and names a provider only when a stored account with that very
  email signs in with it and it is not the administrative \<open>pat\<close> provider.
\<close>

theorem email_conflict_discloses_only_owner:
  assumes "resolve_by_oauth (pg_user_repository E) prov pid email name w = (Inl e, w')"
    and "errors_is e ErrEmailAlreadyRegistered"
  shows "callback_error e = Redirect 302 ''/?error=email_already_registered'' \<or>
    (\<exists>v \<in> set (stored_users w'). u_email v = email \<and> u_provider v \<noteq> ProviderPAT \<and>
       callback_error e = Redirect 302 (''/?error=email_already_registered&provider='' @ query_escape (u_provider v)))"
proof -
  have "\<exists>q. e = Wrap ''user manager: ResolveByOAuth: '' (EmailAlreadyRegisteredError q)"
  proof (cases rule: pg_um.resolve_by_oauth_cases [where prov = prov and pid = pid and email = email and name = name
        and w = w and E = E])
    case (Taken e1 w1 e' w2)
    moreover from Taken(3) have "\<exists>q. e' = EmailAlreadyRegisteredError q"
      by (auto simp: email_owner_error_def split: prod.splits sum.splits)
    ultimately show ?thesis using assms(1) by auto
  next
    case (Failed e1 w1)
    with assms show ?thesis by auto
  qed (use assms(1) in simp)
  then obtain q where e: "e = Wrap ''user manager: ResolveByOAuth: '' (EmailAlreadyRegisteredError q)" ..
  then have err: "callback_error e = Redirect 302 (''/?error=email_already_registered'' @
      (if q \<noteq> [] then ''&provider='' @ query_escape q else []))"
    by (simp add: callback_error_def callback_error_code_def email_conflict_provider_def)
  show ?thesis
  proof (cases "q = []")
    case False
    moreover have "errors_as_email e = Some q" using e by simp
    ultimately show ?thesis
      using pg_um.resolve_by_oauth_discloses [OF assms(1)] err by auto
  qed (use err in simp)
qed

lemma sample_conflict:
  "resolve_by_oauth (pg_user_repository sample_env) ProviderGitHub ''h1'' ''a@b.c'' ''Ana'' sample_world =
     (Inl (Wrap ''user manager: ResolveByOAuth: '' (EmailAlreadyRegisteredError ''google'')),
      ticked (ticked sample_world))"
proof -
  let ?u = "\<lparr>u_id = 0, u_email = ''a@b.c'', u_name = ''Ana'', u_role = RoleUser, u_provider = ProviderGitHub,
    u_provider_id = ''h1'', u_created_at = zero_time, u_updated_at = zero_time\<rparr>"
  have up: "sql_upsert_user ''a@b.c'' ''Ana'' RoleUser ProviderGitHub ''h1'' now new (w_db sample_world) =
      (Inl (PgError ''23505'' ''users_email_key''), w_db sample_world)" if "new \<noteq> 7" for now new
    using that
    by (simp add: sql_upsert_user_def varchar_def char_len_def is_cont_def code_def user_consts provider_check_def
        role_check_def sample_world_def sample_user_def insert_user_def)
  have "pg_upsert_user sample_env ?u sample_world =
      (Inl (Wrap ''postgres: Upsert: '' (Sentinel ErrEmailAlreadyRegistered)), ticked sample_world)"
    using up [of "uuid_at sample_env (w_tick sample_world)" "to_timestamptz (clock_at sample_env (w_tick sample_world))"]
    by (simp add: pg_upsert_user_def quiet_roundtrip [OF quiet_sample_env] Let_def is_email_taken_def
        users_email_constraint_def) (simp add: sample_env_def sample_world_def)
  moreover have "pg_find_user_by_email sample_env ''a@b.c'' (ticked sample_world) = (Inr sample_user, ticked (ticked sample_world))"
    by (simp add: pg_find_user_by_email_def quiet_roundtrip [OF quiet_sample_env] Let_def sql_user_by_email_def
        sql_rows_def sample_world_def sample_user_def)
  ultimately show ?thesis
    by (simp add: resolve_by_oauth_def Let_def email_owner_error_def sample_user_def user_consts)
qed

theorem email_conflict_discloses_only_owner_witness:
  "\<exists>v \<in> {sample_user}. u_provider v \<noteq> ProviderPAT \<and> u_email v = ''a@b.c''"
proof -
  let ?e = "Wrap ''user manager: ResolveByOAuth: '' (EmailAlreadyRegisteredError ''google'')"
  have "callback_error ?e \<noteq> Redirect 302 ''/?error=email_already_registered''"
    by (simp add: callback_error_def callback_error_code_def email_conflict_provider_def)
  with email_conflict_discloses_only_owner [OF sample_conflict] show ?thesis
    by (simp add: sample_world_def)
qed

lemma sql_upsert_user_effect:
  assumes "sql_upsert_user email name role prov pid now new d = (x, d')"
  obtains (Same) "d' = d"
  | (New) u where "db_users d' = db_users d @ [u]" "varchar 50 role = Some (u_role u)"
  | (Old) old e n where "old \<in> set (db_users d)"
      "db_users d' = update_rows u_id (u_id old) (\<lambda>_. old\<lparr>u_email := e, u_name := n, u_updated_at := now\<rparr>) (db_users d)"
proof (cases x)
  case (Inl e)
  then show thesis using sql_upsert_user_error_state assms by (intro Same) blast
next
  case (Inr v)
  with assms obtain e n r p i where v: "varchar 255 email = Some e" "varchar 255 name = Some n"
    "varchar 50 role = Some r" "varchar 50 prov = Some p" "varchar 255 pid = Some i"
    "provider_check p" "role_check r"
    by (auto simp: sql_upsert_user_def split: option.splits if_splits)
  show thesis
  proof (cases "lookup_row user_key (p, i) (db_users d)")
    case None
    with assms v Inr have "db_users d' = db_users d @ [v]" "u_role v = r"
      by (auto simp: sql_upsert_user_def insert_user_def split: if_splits)
    with v(3) show thesis by (intro New) auto
  next
    case (Some old)
    with assms v Inr have "update_user (old\<lparr>u_email := e, u_name := n, u_updated_at := now\<rparr>) d = (Inr v, d')"
      by (simp add: sql_upsert_user_def)
    then have "db_users d' = update_rows u_id (u_id old) (\<lambda>_. old\<lparr>u_email := e, u_name := n, u_updated_at := now\<rparr>) (db_users d)"
      by (auto simp: update_user_def split: if_splits)
    with lookup_row_SomeD [OF Some] show thesis by (intro Old) simp_all
  qed
qed

lemma upsert_roles:
  assumes "sql_upsert_user email name role prov pid now new d = (x, d')" and "users_inv (db_users d)"
  shows "(\<forall>u \<in> set (db_users d). \<exists>v \<in> set (db_users d'). u_id v = u_id u \<and> u_role v = u_role u) \<and>
    (\<forall>v \<in> set (db_users d'). (\<exists>u \<in> set (db_users d). u_id v = u_id u \<and> u_role v = u_role u) \<or>
      varchar 50 role = Some (u_role v))"
  using assms(1)
proof (cases rule: sql_upsert_user_effect)
  case (Old old e n)
  have "u = old" if "u \<in> set (db_users d)" "u_id u = u_id old" for u
    using users_inv_unique(1) [OF assms(2)] that Old(1) by blast
  moreover have mem: "set (db_users d') = {r \<in> set (db_users d). u_id r \<noteq> u_id old} \<union>
      {old\<lparr>u_email := e, u_name := n, u_updated_at := now\<rparr>}"
    using Old(1) unfolding Old(2) set_update_rows by auto
  ultimately have "\<exists>v \<in> set (db_users d'). u_id v = u_id u \<and> u_role v = u_role u" if "u \<in> set (db_users d)" for u
    using that unfolding mem by (cases "u_id u = u_id old") auto
  moreover have "\<exists>u \<in> set (db_users d). u_id v = u_id u \<and> u_role v = u_role u" if "v \<in> set (db_users d')" for v
    using that Old(1) unfolding Old(2) set_update_rows by auto
  ultimately show ?thesis by blast
qed auto

lemma quiet_sign_in_users:
  assumes "quiet E"
  shows "\<exists>x now new. sql_upsert_user email name RoleUser prov pid now new (w_db w) =
    (x, w_db (snd (resolve_by_oauth (pg_user_repository E) prov pid email name w)))"
proof -
  let ?n = "w_tick w"
  obtain x d' where x: "sql_upsert_user email name RoleUser prov pid (to_timestamptz (clock_at E ?n)) (uuid_at E ?n) (w_db w) = (x, d')"
    by fastforce
  have "w_db (snd (pg_find_user_by_email E email v)) = w_db v" for v
    by (simp add: pg_find_user_by_email_def quiet_roundtrip [OF assms] Let_def)
  then have own: "w_db (snd (email_owner_error (pg_user_repository E) email v)) = w_db v" for v
    by (auto simp: email_owner_error_def split: prod.splits sum.splits) (metis snd_conv)+
  have "w_db (snd (resolve_by_oauth (pg_user_repository E) prov pid email name w)) = d'"
    using own [of "\<lparr>w_db = d', w_tick = Suc ?n\<rparr>"] x
    by (cases x)
      (auto simp: resolve_by_oauth_def Let_def pg_upsert_user_def quiet_roundtrip [OF assms] split: prod.splits)
  with x show ?thesis by blast
qed

text \<open>
  C16: in a quiet environment a sign-in through a provider changes no role: every account that was
  stored keeps its identifier and role, and an account that is new has the role \<open>user\<close>.
\<close>

theorem sign_in_keeps_roles:
  assumes "quiet E" and "world_inv w"
    and "resolve_by_oauth (pg_user_repository E) prov pid email name w = (x, w')"
  shows "(\<forall>u \<in> set (stored_users w). \<exists>v \<in> set (stored_users w'). u_id v = u_id u \<and> u_role v = u_role u) \<and>
    (\<forall>v \<in> set (stored_users w'). (\<exists>u \<in> set (stored_users w). u_id v = u_id u \<and> u_role v = u_role u) \<or>
       u_role v = RoleUser)"
proof -
  obtain y now new where y: "sql_upsert_user email name RoleUser prov pid now new (w_db w) = (y, w_db w')"
    using quiet_sign_in_users [OF assms(1), of email name prov pid w] assms(3) by auto
  have "varchar 50 RoleUser = Some RoleUser"
    by (simp add: user_consts char_len_def is_cont_def code_def)
  with upsert_roles [OF y] assms(2) show ?thesis
    by (auto simp: world_inv_def db_inv_def)
qed

theorem sign_in_keeps_roles_witness:
  "\<exists>v \<in> set (stored_users (ticked (ticked sample_world))). u_id v = 7 \<and> u_role v = RoleUser"
  using sign_in_keeps_roles [OF quiet_sample_env sample_world_inv sample_conflict]
  by (auto simp: sample_world_def sample_user_def)

section \<open>Bootstrap\<close>

lemma quiet_ensure_profile:
  assumes "quiet E" and "i \<in> u_id ` set (stored_users w)" and "char_len n \<le> 255"
  shows "\<exists>w'. pg_ensure_exists E i n w = (Inr (), w') \<and> db_users (w_db w') = stored_users w \<and>
    stored_pats w' = stored_pats w \<and> stored_profile w' i \<noteq> None \<and> w_tick w' = Suc (w_tick w)"
proof -
  have "fst (pg_ensure_exists E i n w) = Inr ()" "db_users (w_db (snd (pg_ensure_exists E i n w))) = stored_users w"
    "stored_pats (snd (pg_ensure_exists E i n w)) = stored_pats w"
    "w_tick (snd (pg_ensure_exists E i n w)) = Suc (w_tick w)"
    using assms by (simp_all add: pg_ensure_exists_def quiet_roundtrip sql_ensure_profile_def Let_def)
  then obtain w' where w': "pg_ensure_exists E i n w = (Inr (), w')" "db_users (w_db w') = stored_users w"
    "stored_pats w' = stored_pats w" "w_tick w' = Suc (w_tick w)" by (metis prod.collapse)
  then have "stored_profile w' i \<noteq> None"
    using pg_profiles.ensure_exists_ok [of L E i n w w'] by simp
  with w' show ?thesis by blast
qed

lemma bootstrap_run:
  assumes "quiet E" and "sha_lib_ok L" and "stored_users w = []" and "stored_pats w = []"
    and "char_len email \<le> 255" and "char_len name \<le> 255"
    and "char_len (lib_uuid_string L (uuid_at E (w_tick w + 2))) \<le> 255"
  shows "\<exists>w' p. am_bootstrap_admin (server_auth_manager L E J O2 C cfg a) email name raw w = (Inr raw, w') \<and>
    stored_users w' = [admin_row L E email name (w_tick w)] \<and>
    stored_profile w' (u_id (admin_row L E email name (w_tick w))) \<noteq> None \<and>
    stored_pats w' = [p] \<and> p_user_id p = u_id (admin_row L E email name (w_tick w)) \<and>
    p_expires_at p = None \<and> hash_key L raw (p_salt p) = p_key_hash p"
proof -
  let ?u = "admin_row L E email name (w_tick w)"
  obtain w1 p where w1: "bootstrap_admin L E (pg_user_repository E) (pg_pat_repository E) email name raw w =
      (Inr (Some ?u, raw), w1)" "stored_users w1 = [?u]" "stored_pats w1 = [p]"
      "p_user_id p = uuid_at E (w_tick w + 3)" "p_expires_at p = None" "hash_key L raw (p_salt p) = p_key_hash p"
    using bootstrap_first [OF assms] by blast
  have u: "u_id ?u = uuid_at E (w_tick w + 3)" "u_name ?u = name" by (simp_all add: admin_row_def)
  obtain w2 where w2: "pg_ensure_exists E (u_id ?u) (u_name ?u) w1 = (Inr (), w2)"
    "db_users (w_db w2) = stored_users w1" "stored_pats w2 = stored_pats w1" "stored_profile w2 (u_id ?u) \<noteq> None"
    using quiet_ensure_profile [OF assms(1), of "u_id ?u" w1 "u_name ?u"] w1(2) assms(6) u(2) by auto
  have "am_bootstrap_admin (server_auth_manager L E J O2 C cfg a) email name raw w = (Inr raw, w2)"
    using w1(1) w2(1)
    by (simp add: server_auth_manager_def new_auth_manager_def auth_bootstrap_admin_def pm_ensure_exists_def
        del: new_jwt_manager_simps)
  with w1 w2 u show ?thesis by auto
qed

text \<open>
  C17: the first start of a server with bootstrap settings, on an empty database and in a quiet
  environment, creates one administrator with a profile and one token that never expires; the
  configured token then signs the administrator in, and the next start changes nothing.
\<close>

theorem bootstrap_creates_administrator:
  fixes L E J O2 C cfg a
  defines "M \<equiv> server_auth_manager L E J O2 C cfg a"
  assumes "quiet E" and "sha_lib_ok L" and "jwt_lib_ok J" and "stored_users w = []" and "stored_pats w = []"
    and "bc_email bc \<noteq> []" and "bc_name bc \<noteq> []" and "bc_pat bc \<noteq> []"
    and "char_len (bc_email bc) \<le> 255" and "char_len (bc_name bc) \<le> 255"
    and "char_len (lib_uuid_string L (uuid_at E (w_tick w + 2))) \<le> 255"
  shows "\<exists>w1 u t w2 n. run_bootstrap bc M w = (Inr True, w1) \<and> stored_users w1 = [u] \<and>
    is_admin u \<and> u_provider u = ProviderPAT \<and> u_email u = bc_email bc \<and>
    stored_profile w1 (u_id u) \<noteq> None \<and> length (stored_pats w1) = 1 \<and>
    am_exchange_pat M (bc_pat bc) w1 = (Inr t, w2) \<and>
    jl_verifies J (HMAC ''HS256'') (ja_secret a) t (user_claims L J a (clock_at E n) u) \<and>
    run_bootstrap bc M w1 = (Inr False, ticked w1)"
proof -
  let ?u = "admin_row L E (bc_email bc) (bc_name bc) (w_tick w)"
  obtain w1 p where w1: "am_bootstrap_admin M (bc_email bc) (bc_name bc) (bc_pat bc) w = (Inr (bc_pat bc), w1)"
    "stored_users w1 = [?u]" "stored_profile w1 (u_id ?u) \<noteq> None" "stored_pats w1 = [p]"
    "p_user_id p = u_id ?u" "p_expires_at p = None" "hash_key L (bc_pat bc) (p_salt p) = p_key_hash p"
    using bootstrap_run [OF assms(2,3,5,6,10-12), of J O2 C cfg a "bc_pat bc"] unfolding M_def by blast
  have "match_pat L (bc_pat bc) (stored_pats w1) = Some p"
    "lookup_row u_id (p_user_id p) (stored_users w1) = Some ?u"
    "\<not> is_expired p (clock_at E (Suc (w_tick w1)))"
    using w1 by (simp_all add: match_pat_def is_expired_def)
  from quiet_exchange [OF assms(2,4) this, of O2 C cfg a] obtain t w2 n where
    "am_exchange_pat M (bc_pat bc) w1 = (Inr t, w2)" "signed_at L E J a n ?u t"
    unfolding M_def by blast
  moreover have "run_bootstrap bc M w1 = (Inr False, ticked w1)"
    using bootstrap_again [OF assms(2), of w1] w1(2) assms(7-9)
    by (simp add: run_bootstrap_def M_def server_auth_manager_def new_auth_manager_def auth_bootstrap_admin_def
        del: new_jwt_manager_simps)
  ultimately show ?thesis
    using w1 assms(7-9) by (auto simp: run_bootstrap_def signed_at_def is_admin_def admin_row_def)
qed

definition sample_bootstrap :: bootstrap_config where
  "sample_bootstrap = \<lparr>bc_email = ''root@b.c'', bc_name = ''Root'', bc_pat = ''pat''\<rparr>"

lemma sample_uuid_len: "char_len (lib_uuid_string sample_libs (uuid_at sample_env 2)) \<le> 255"
  by (simp add: sample_env_def nat_dec.simps char_len_def is_cont_def digit_char_def code_def)

theorem bootstrap_creates_administrator_witness:
  "\<exists>w1 t w2. run_bootstrap sample_bootstrap sample_manager empty_world = (Inr True, w1) \<and>
    am_exchange_pat sample_manager ''pat'' w1 = (Inr t, w2) \<and>
    run_bootstrap sample_bootstrap sample_manager w1 = (Inr False, ticked w1)"
proof -
  have c: "stored_users empty_world = []" "stored_pats empty_world = []" "bc_email sample_bootstrap \<noteq> []"
    "bc_name sample_bootstrap \<noteq> []" "bc_pat sample_bootstrap \<noteq> []"
    "char_len (bc_email sample_bootstrap) \<le> 255" "char_len (bc_name sample_bootstrap) \<le> 255"
    "char_len (lib_uuid_string sample_libs (uuid_at sample_env (w_tick empty_world + 2))) \<le> 255"
    using sample_uuid_len
    by (simp_all add: sample_bootstrap_def empty_world_def empty_database_def char_len_def is_cont_def code_def eval_nat_numeral)
  have p: "bc_pat sample_bootstrap = ''pat''" by (simp add: sample_bootstrap_def)
  show ?thesis
    using bootstrap_creates_administrator [OF quiet_sample_env sample_sha_ok sample_jwt_ok c,
        of sample_oauth_lib sample_http sample_config sample_adapter]
    unfolding p by blast
qed




end
