(* ===== verification/ApiProperties.thy ===== *)
theory ApiProperties
  imports AuthProperties
begin

text \<open>
  The properties of the API around authentication: sign-in through a provider, the verified
  emails, the device flow, the administrative handlers and the configuration.
\<close>

section \<open>A provider that answers\<close>

definition online :: http_client where
  "online = \<lparr>hc_bad_url = (\<lambda>u. None), hc_do = (\<lambda>q n. Inr \<lparr>hr_status = 200, hr_content_type = ''application/json'',
     hr_body = Inr (
       if hq_url q = google_user_info_url
       then ''{'' @ [CHR 0x22] @ ''sub'' @ [CHR 0x22] @ '':'' @ [CHR 0x22] @ ''g1'' @ [CHR 0x22] @ '','' @
            [CHR 0x22] @ ''email'' @ [CHR 0x22] @ '':'' @ [CHR 0x22] @ ''a@b.c'' @ [CHR 0x22] @ '','' @
            [CHR 0x22] @ ''email_verified'' @ [CHR 0x22] @ '':true}''
       else if hq_url q = github_user_url
       then ''{'' @ [CHR 0x22] @ ''id'' @ [CHR 0x22] @ '':42}''
       else ''[{'' @ [CHR 0x22] @ ''email'' @ [CHR 0x22] @ '':'' @ [CHR 0x22] @ ''a@b.c'' @ [CHR 0x22] @ '','' @
            [CHR 0x22] @ ''primary'' @ [CHR 0x22] @ '':true,'' @ [CHR 0x22] @ ''verified'' @ [CHR 0x22] @ '':true}]'')\<rparr>)\<rparr>"

definition online_lib :: oauth_lib where
  "online_lib = sample_oauth_lib\<lparr>ol_exchange := (\<lambda>c s n. Inr ''tok'')\<rparr>"

definition google_cfg :: config where
  "google_cfg = load_config (\<lambda>k. if k = ''jwt.secret'' then ''s3cret'' else if k = ''google.client_id'' then ''id'' else [])
     (\<lambda>k. 3600 * second)"

lemma online_google:
  "google_fetch_user_info online google_user_info_url t w =
     (Inr \<lparr>ui_provider_id = ''g1'', ui_email = ''a@b.c'', ui_name = []\<rparr>, ticked w)"
proof -
  have j: "Option.bind (Option.bind (json_unmarshal (''{'' @ [CHR 0x22] @ ''sub'' @ [CHR 0x22] @ '':'' @ [CHR 0x22] @ ''g1'' @ [CHR 0x22] @ '','' @
            [CHR 0x22] @ ''email'' @ [CHR 0x22] @ '':'' @ [CHR 0x22] @ ''a@b.c'' @ [CHR 0x22] @ '','' @
            [CHR 0x22] @ ''email_verified'' @ [CHR 0x22] @ '':true}'')) struct_members) google_user =
     Some (Inr \<lparr>ui_provider_id = ''g1'', ui_email = ''a@b.c'', ui_name = []\<rparr>)"
    by code_simp
  show ?thesis
    unfolding google_fetch_user_info_def
    using j by (simp add: online_def http_do_def contact_def bearer_get_def)
qed

lemma online_github:
  "github_fetch_user_info online github_user_url t w =
     (Inr \<lparr>ui_provider_id = ''42'', ui_email = ''a@b.c'', ui_name = []\<rparr>, ticked (ticked w))"
proof -
  have j: "Option.bind (json_unmarshal (''{'' @ [CHR 0x22] @ ''id'' @ [CHR 0x22] @ '':42}'')) github_user =
     Some \<lparr>gi_id = 42, gi_login = [], gi_name = []\<rparr>"
    by code_simp
  have k: "Option.bind (json_unmarshal (''[{'' @ [CHR 0x22] @ ''email'' @ [CHR 0x22] @ '':'' @ [CHR 0x22] @ ''a@b.c'' @ [CHR 0x22] @ '','' @
            [CHR 0x22] @ ''primary'' @ [CHR 0x22] @ '':true,'' @ [CHR 0x22] @ ''verified'' @ [CHR 0x22] @ '':true}]'')) github_emails =
     Some [\<lparr>ge_email = ''a@b.c'', ge_primary = True, ge_verified = True\<rparr>]"
    by code_simp
  have u: "github_emails_url github_user_url \<noteq> github_user_url" "github_emails_url github_user_url \<noteq> google_user_info_url"
    "github_user_url \<noteq> google_user_info_url"
    by code_simp+
  have d: "int_dec 42 = ''42''" by code_simp
  show ?thesis
    unfolding github_fetch_user_info_def github_get_json_def
    using j k u d by (simp add: online_def http_do_def contact_def bearer_get_def primary_email_def Let_def)
qed

section \<open>Sign-in through a provider\<close>

lemma server_sign_in_result:
  assumes "auth_sign_in q (new_user_manager L E (pg_user_repository E) (pg_pat_repository E)) (new_jwt_manager L E J a)
      (pm_ensure_exists (pg_profile_repository L E)) p info v = (Inr t, w')"
    and "jwt_lib_ok J" and "build_providers L E O2 C cfg p = Some prov"
  shows "\<exists>u w1 n.
    resolve_by_oauth (pg_user_repository E) p (ui_provider_id info) (ui_email info) (ui_name info) v = (Inr u, w1) \<and>
    u \<in> set (stored_users w1) \<and> u_provider u = p \<and>
    varchar 255 (ui_provider_id info) = Some (u_provider_id u) \<and> varchar 255 (ui_email info) = Some (u_email u) \<and>
    stored_profile w' (u_id u) \<noteq> None \<and>
    jl_verifies J (HMAC ''HS256'') (ja_secret a) t (user_claims L J a (clock_at E n) u)"
proof -
  have "p = ProviderGoogle \<or> p = ProviderGitHub" using build_providers_cases [OF assms(3)] by blast
  then have p: "varchar 50 p = Some p" by (auto simp: user_consts char_len_def is_cont_def code_def)
  obtain u w1 w2 where u:
    "resolve_by_oauth (pg_user_repository E) p (ui_provider_id info) (ui_email info) (ui_name info) v = (Inr u, w1)"
    "u \<in> set (stored_users w1)" "varchar 50 p = Some (u_provider u)"
    "varchar 255 (ui_provider_id info) = Some (u_provider_id u)" "varchar 255 (ui_email info) = Some (u_email u)"
    "stored_profile w2 (u_id u) \<noteq> None" "w' = ticked w2" "signed_at L E J a (w_tick w2) u t"
    using pg_auth.auth_sign_in_result [OF assms(1,2)] by blast
  from u(6,7) have "stored_profile w' (u_id u) \<noteq> None" by (simp add: stored_profile_def)
  with u p show ?thesis unfolding signed_at_def by auto
qed

text \<open>
  C19: when the OAuth callback of a provider gives a JWT, the provider is a configured one, the JWT
  carries the claims of the account stored under that provider and the identifier that the provider
  reported, and that account has a profile.
\<close>

theorem callback_signs_in_stored_account:
  assumes "am_oauth_callback (server_auth_manager L E J O2 C cfg a) p c w = (Inr t, w')" and "jwt_lib_ok J"
  shows "\<exists>prov info v u w1 n. build_providers L E O2 C cfg p = Some prov \<and> op_exchange prov c w = (Inr info, v) \<and>
    resolve_by_oauth (pg_user_repository E) p (ui_provider_id info) (ui_email info) (ui_name info) v = (Inr u, w1) \<and>
    u \<in> set (stored_users w1) \<and> u_provider u = p \<and>
    varchar 255 (ui_provider_id info) = Some (u_provider_id u) \<and> varchar 255 (ui_email info) = Some (u_email u) \<and>
    stored_profile w' (u_id u) \<noteq> None \<and>
    jl_verifies J (HMAC ''HS256'') (ja_secret a) t (user_claims L J a (clock_at E n) u)"
proof -
  let ?M = "new_user_manager L E (pg_user_repository E) (pg_pat_repository E)" and ?J = "new_jwt_manager L E J a"
  have "auth_oauth_callback ?M ?J (new_oauth_manager (build_providers L E O2 C cfg))
      (pm_ensure_exists (pg_profile_repository L E)) p c w = (Inr t, w')"
    using assms(1) by (simp add: server_auth_manager_def new_auth_manager_def del: new_jwt_manager_simps)
  then obtain info v where v: "oauth_exchange (build_providers L E O2 C cfg) p c w = (Inr info, v)"
    "auth_sign_in ''auth manager: OAuthCallback: '' ?M ?J (pm_ensure_exists (pg_profile_repository L E)) p info v = (Inr t, w')"
    by (auto simp: auth_oauth_callback_sign_in outcome_iffs)
  then obtain prov where prov: "build_providers L E O2 C cfg p = Some prov" "op_exchange prov c w = (Inr info, v)"
    by (auto simp: oauth_exchange_def oauth_provider_for_def outcome_iffs split: option.splits)
  from server_sign_in_result [OF v(2) assms(2) prov(1)] prov show ?thesis by blast
qed

lemma online_sign_in:
  "\<exists>t w'. auth_sign_in q (new_user_manager sample_libs sample_env (pg_user_repository sample_env) (pg_pat_repository sample_env))
      (new_jwt_manager sample_libs sample_env sample_jwt sample_adapter) (pm_ensure_exists (pg_profile_repository sample_libs sample_env))
      ProviderGoogle \<lparr>ui_provider_id = ''g1'', ui_email = ''a@b.c'', ui_name = []\<rparr> (ticked (ticked sample_world)) = (Inr t, w')"
proof -
  let ?u = "sample_user\<lparr>u_name := [], u_updated_at := to_timestamptz (clock_at sample_env 2)\<rparr>"
  let ?w2 = "\<lparr>w_db = (w_db sample_world)\<lparr>db_users := [?u]\<rparr>, w_tick = 3\<rparr>"
  have up: "sql_upsert_user ''a@b.c'' [] RoleUser ProviderGoogle ''g1'' now new (w_db sample_world) =
      (Inr (sample_user\<lparr>u_name := [], u_updated_at := now\<rparr>),
       (w_db sample_world)\<lparr>db_users := [sample_user\<lparr>u_name := [], u_updated_at := now\<rparr>]\<rparr>)" for now new
    by (simp add: sql_upsert_user_def varchar_def char_len_def is_cont_def code_def user_consts provider_check_def
        role_check_def sample_world_def sample_user_def update_user_def) auto
  have res: "resolve_by_oauth (pg_user_repository sample_env) ProviderGoogle ''g1'' ''a@b.c'' [] (ticked (ticked sample_world)) =
      (Inr ?u, ?w2)"
    using up [of "to_timestamptz (clock_at sample_env 2)" "uuid_at sample_env 2"]
    by (simp add: resolve_by_oauth_def Let_def pg_upsert_user_def quiet_roundtrip [OF quiet_sample_env])
      (simp add: sample_world_def eval_nat_numeral)
  obtain w3 where ens: "pg_ensure_exists sample_env (u_id ?u) [] ?w2 = (Inr (), w3)"
    using quiet_ensure_profile [OF quiet_sample_env, of "u_id ?u" ?w2 "[]"] by (auto simp: char_len_def)
  obtain t where "jwt_sign sample_libs sample_env sample_jwt sample_adapter ?u w3 = (Inr t, ticked w3)"
    using jwt_sign_ok [OF sample_jwt_ok] by blast
  with res ens show ?thesis by (simp add: auth_sign_in_def pm_ensure_exists_def)
qed

lemma online_provider:
  "build_providers sample_libs sample_env online_lib C google_cfg ProviderGoogle =
     Some (new_google sample_libs sample_env online_lib C (cf_google google_cfg))"
  "override (pc_user_info_url (cf_google google_cfg)) google_user_info_url = google_user_info_url"
  by (simp_all add: build_providers_def google_cfg_def load_config_def load_provider_def override_def)

lemma online_callback:
  "\<exists>t w'. am_oauth_callback (server_auth_manager sample_libs sample_env sample_jwt online_lib online google_cfg sample_adapter)
      ProviderGoogle ''c'' sample_world = (Inr t, w')"
proof -
  have "op_exchange (new_google sample_libs sample_env online_lib online (cf_google google_cfg)) ''c'' sample_world =
      (Inr \<lparr>ui_provider_id = ''g1'', ui_email = ''a@b.c'', ui_name = []\<rparr>, ticked (ticked sample_world))"
    using online_google [of "''tok''" "ticked sample_world"]
    by (simp add: new_google_def Let_def contact_def online_lib_def online_provider(2))
  then show ?thesis
    using online_sign_in [of "''auth manager: OAuthCallback: ''"]
    by (simp add: server_auth_manager_def new_auth_manager_def auth_oauth_callback_sign_in oauth_exchange_def
        oauth_provider_for_def online_provider(1) del: new_jwt_manager_simps)
qed

theorem callback_signs_in_stored_account_witness:
  "\<exists>u :: user. u_provider u = ProviderGoogle \<and> varchar 255 ''g1'' = Some (u_provider_id u)"
proof -
  obtain t w' where "am_oauth_callback (server_auth_manager sample_libs sample_env sample_jwt online_lib online google_cfg sample_adapter)
      ProviderGoogle ''c'' sample_world = (Inr t, w')" using online_callback by blast
  from callback_signs_in_stored_account [OF this sample_jwt_ok] obtain prov info v and u :: user where
    u: "build_providers sample_libs sample_env online_lib online google_cfg ProviderGoogle = Some prov"
    "op_exchange prov ''c'' sample_world = (Inr info, v)" "u_provider u = ProviderGoogle"
    "varchar 255 (ui_provider_id info) = Some (u_provider_id u)" by blast
  from u(1) have "prov = new_google sample_libs sample_env online_lib online (cf_google google_cfg)"
    using build_providers_cases by (fastforce simp: user_consts)
  with u(2) have "ui_provider_id info = ''g1''"
    by (auto simp: new_google_def Let_def contact_def online_lib_def override_def google_cfg_def load_config_def
        load_provider_def online_google)
  with u(4) have "varchar 255 ''g1'' = Some (u_provider_id u)" by (simp only:)
  with u(3) show ?thesis by blast
qed

text \<open>
  C20: the Google adapter gives a user only from an answer with status 200 whose document reports a
  non-empty email as verified, and takes the identifier and the email from that document.
\<close>

theorem google_email_verified:
  assumes "google_fetch_user_info C url t w = (Inr u, w')"
  shows "\<exists>resp body. hc_do C (bearer_get url t []) (w_tick w) = Inr resp \<and> hr_status resp = 200 \<and>
    hr_body resp = Inr body \<and> google_verified body u \<and> ui_email u \<noteq> []"
  using google_fetch_verified [OF assms] by blast

theorem google_email_verified_witness:
  "\<exists>body. google_verified body \<lparr>ui_provider_id = ''g1'', ui_email = ''a@b.c'', ui_name = []\<rparr>"
  using google_email_verified [OF online_google [of "[]" sample_world]] by blast

text \<open>
  C21: the GitHub adapter gives a user only when the list of emails has an entry marked primary and
  verified; the email is that entry's and the identifier is the decimal number of the user document.
\<close>

theorem github_email_primary_verified:
  assumes "github_fetch_user_info C url t w = (Inr u, w')"
  shows "\<exists>info es e w1. github_get_json C url t github_user w = (Inr info, w1) \<and>
    github_get_json C (github_emails_url url) t github_emails w1 = (Inr es, w') \<and>
    e \<in> set es \<and> ge_primary e \<and> ge_verified e \<and> ui_email u = ge_email e \<and> ge_email e \<noteq> [] \<and>
    ui_provider_id u = int_dec (gi_id info)"
proof -
  obtain info es w1 where i: "github_get_json C url t github_user w = (Inr info, w1)"
    "github_get_json C (github_emails_url url) t github_emails w1 = (Inr es, w')"
    "ui_provider_id u = int_dec (gi_id info)" "ui_email u = primary_email es" "ui_email u \<noteq> []"
    using github_fetch_ok [OF assms] .
  from primary_email_verified [of es "ui_email u"] i(4,5) obtain e where
    "e \<in> set es" "ge_primary e" "ge_verified e" "ge_email e = ui_email u" by auto
  with i show ?thesis by (metis (no_types))
qed

theorem github_email_primary_verified_witness:
  "\<exists>e :: github_email. ge_primary e \<and> ge_verified e \<and> ge_email e = ''a@b.c''"
  using github_email_primary_verified [OF online_github [of "[]" sample_world]] by force

section \<open>The device flow\<close>

text \<open>
  Every error of a device poll has the status RFC 8628 and the API ask for: 202 exactly when
  the user has to be waited for, 409 exactly for an email conflict, 400 for the terminal answers of
  the provider and for an unverified email, 501 for an unconfigured provider, 401 otherwise.
\<close>

theorem device_poll_statuses:
  "status (device_token_error e) =
     (if errors_is e ErrAuthorizationPending \<or> errors_is e ErrSlowDown then 202
      else if errors_is e ErrAccessDenied \<or> errors_is e ErrDeviceCodeExpired \<or> errors_is e ErrInvalidDeviceCode \<or>
        errors_is e ErrEmailNotVerified then 400
      else if errors_is e ErrEmailAlreadyRegistered then 409
      else if errors_is e ErrProviderNotConfigured then 501 else 401)"
  using email_conflict_iff [of e]
  by (auto simp: device_token_error_def device_token_status_def callback_error_code_def provider_error_def
      split: option.splits)

lemma provider_result:
  assumes "oauth_device_poll R p c w = (Inr info, v)"
  obtains prov where "R p = Some prov" "op_device_poll prov c w = (Inr info, v)"
  using assms by (auto simp: oauth_device_poll_def oauth_provider_for_def outcome_iffs split: option.splits)

lemma poll_device_token_ok:
  assumes "poll_device_token L C oc dc w = (Inr x, w')"
  shows "\<exists>resp body tok. hc_do C (device_token_request oc dc) (w_tick w) = Inr resp \<and> hr_body resp = Inr body \<and>
    parse_device_token_response L (hr_content_type resp) (take (2 ^ 20) body) = Inr tok \<and>
    dt_error tok = [] \<and> dt_access_token tok = x \<and> x \<noteq> [] \<and> w' = ticked w"
proof -
  from assms obtain resp where resp: "hc_do C (device_token_request oc dc) (w_tick w) = Inr resp"
    "(case hr_body resp of Inl e \<Rightarrow> (Inl (Wrap ''read device token response: '' e), ticked w)
      | Inr body \<Rightarrow> (case parse_device_token_response L (hr_content_type resp) (take (2 ^ 20) body) of
          Inl e \<Rightarrow> (Inl (Wrap (''device token: status '' @ int_dec (hr_status resp) @ '': '') e), ticked w)
        | Inr tok \<Rightarrow> (device_token_result (hr_status resp) tok, ticked w))) = (Inr x, w')"
    unfolding poll_device_token_def http_do_def contact_def
    by (cases "hc_bad_url C (oc_token_url oc)"; cases "hc_do C (device_token_request oc dc) (w_tick w)") simp_all
  then obtain body where body: "hr_body resp = Inr body" by (cases "hr_body resp") simp_all
  with resp(2) obtain tok where tok: "parse_device_token_response L (hr_content_type resp) (take (2 ^ 20) body) = Inr tok"
    by (cases "parse_device_token_response L (hr_content_type resp) (take (2 ^ 20) body)") simp_all
  with resp(2) body have "device_token_result (hr_status resp) tok = Inr x" "w' = ticked w" by simp_all
  moreover from this(1) have "dt_error tok = []" "dt_access_token tok = x" "x \<noteq> []"
    by (auto simp: device_token_result_def split: if_splits)
  ultimately show ?thesis using resp(1) body tok by blast
qed

text \<open>
  C22: when a device poll gives a JWT, the provider answered the poll for that very device code with a
  token and no error, the user the provider reported for the token is the account that signs in,
  stored under that provider and identifier, and the JWT carries its claims.
\<close>

theorem device_poll_signs_in_stored_account:
  assumes "am_device_poll (server_auth_manager L E J O2 C cfg a) p dc w = (Inr t, w')" and "jwt_lib_ok J"
  shows "\<exists>oc resp body tok info v u w1 n.
    oc = (if p = ProviderGoogle then google_config O2 (cf_google cfg) else github_config O2 (cf_github cfg)) \<and>
    hc_do C (device_token_request oc dc) (w_tick w) = Inr resp \<and> hr_body resp = Inr body \<and>
    parse_device_token_response L (hr_content_type resp) (take (2 ^ 20) body) = Inr tok \<and>
    dt_error tok = [] \<and> dt_access_token tok \<noteq> [] \<and>
    (if p = ProviderGoogle
     then google_fetch_user_info C (override (pc_user_info_url (cf_google cfg)) google_user_info_url) (dt_access_token tok) (ticked w)
     else github_fetch_user_info C (override (pc_user_info_url (cf_github cfg)) github_user_url) (dt_access_token tok) (ticked w)) =
       (Inr info, v) \<and>
    resolve_by_oauth (pg_user_repository E) p (ui_provider_id info) (ui_email info) (ui_name info) v = (Inr u, w1) \<and>
    u \<in> set (stored_users w1) \<and> u_provider u = p \<and>
    varchar 255 (ui_provider_id info) = Some (u_provider_id u) \<and> varchar 255 (ui_email info) = Some (u_email u) \<and>
    stored_profile w' (u_id u) \<noteq> None \<and>
    jl_verifies J (HMAC ''HS256'') (ja_secret a) t (user_claims L J a (clock_at E n) u)"
proof -
  let ?M = "new_user_manager L E (pg_user_repository E) (pg_pat_repository E)" and ?J = "new_jwt_manager L E J a"
  have "auth_device_poll ?M ?J (new_oauth_manager (build_providers L E O2 C cfg))
      (pm_ensure_exists (pg_profile_repository L E)) p dc w = (Inr t, w')"
    using assms(1) by (simp add: server_auth_manager_def new_auth_manager_def del: new_jwt_manager_simps)
  then obtain info v where v: "oauth_device_poll (build_providers L E O2 C cfg) p dc w = (Inr info, v)"
    "auth_sign_in ''auth manager: DevicePoll: '' ?M ?J (pm_ensure_exists (pg_profile_repository L E)) p info v = (Inr t, w')"
    by (auto simp: auth_device_poll_sign_in outcome_iffs)
  obtain prov where prov: "build_providers L E O2 C cfg p = Some prov" "op_device_poll prov dc w = (Inr info, v)"
    using provider_result [OF v(1)] .
  let ?oc = "if p = ProviderGoogle then google_config O2 (cf_google cfg) else github_config O2 (cf_github cfg)"
  let ?fetch = "\<lambda>x w. if p = ProviderGoogle
     then google_fetch_user_info C (override (pc_user_info_url (cf_google cfg)) google_user_info_url) x w
     else github_fetch_user_info C (override (pc_user_info_url (cf_github cfg)) github_user_url) x w"
  have "ProviderGoogle \<noteq> ProviderGitHub" by (simp add: user_consts)
  with build_providers_cases [OF prov(1)] prov(2)
  obtain x v0 where x: "poll_device_token L C ?oc dc w = (Inr x, v0)" "?fetch x v0 = (Inr info, v)"
    by (auto simp: new_google_def new_github_def Let_def outcome_iffs)
  obtain resp body tok where r: "hc_do C (device_token_request ?oc dc) (w_tick w) = Inr resp" "hr_body resp = Inr body"
    "parse_device_token_response L (hr_content_type resp) (take (2 ^ 20) body) = Inr tok" "dt_error tok = []"
    "dt_access_token tok = x" "x \<noteq> []" "v0 = ticked w"
    using poll_device_token_ok [OF x(1)] by blast
  have f: "?fetch (dt_access_token tok) (ticked w) = (Inr info, v)" using x(2) unfolding r(5,7) .
  have n: "dt_access_token tok \<noteq> []" using r(5,6) by simp
  obtain u w1 n where s:
    "resolve_by_oauth (pg_user_repository E) p (ui_provider_id info) (ui_email info) (ui_name info) v = (Inr u, w1)"
    "u \<in> set (stored_users w1)" "u_provider u = p"
    "varchar 255 (ui_provider_id info) = Some (u_provider_id u)" "varchar 255 (ui_email info) = Some (u_email u)"
    "stored_profile w' (u_id u) \<noteq> None"
    "jl_verifies J (HMAC ''HS256'') (ja_secret a) t (user_claims L J a (clock_at E n) u)"
    using server_sign_in_result [OF v(2) assms(2) prov(1)] by blast
  show ?thesis
    by (rule exI [of _ ?oc], rule exI [of _ resp], rule exI [of _ body], rule exI [of _ tok], rule exI [of _ info],
        rule exI [of _ v], rule exI [of _ u], rule exI [of _ w1], rule exI [of _ n], intro conjI)
      (fact refl r(1-4) n f s)+
qed

definition online_device :: http_client where
  "online_device = online\<lparr>hc_do := (\<lambda>q n. if hq_method q = ''POST''
     then Inr \<lparr>hr_status = 200, hr_content_type = ''application/x-www-form-urlencoded'', hr_body = Inr ''access_token=tok''\<rparr>
     else hc_do online q n)\<rparr>"

lemma online_device_poll:
  "\<exists>t w'. am_device_poll (server_auth_manager sample_libs sample_env sample_jwt online_lib online_device google_cfg sample_adapter)
      ProviderGoogle ''dc'' sample_world = (Inr t, w')"
proof -
  have p: "parse_device_token_response sample_libs ''application/x-www-form-urlencoded'' ''access_token=tok'' =
      Inr \<lparr>dt_access_token = ''tok'', dt_error = []\<rparr>"
    by code_simp
  have "poll_device_token sample_libs online_device oc ''dc'' sample_world = (Inr ''tok'', ticked sample_world)" for oc
    using p by (simp add: poll_device_token_def online_device_def http_do_def contact_def device_token_request_def
        online_def device_token_result_def)
  moreover have same: "http_do online_device (bearer_get u x y) w = http_do online (bearer_get u x y) w"
    "hc_bad_url online_device u = hc_bad_url online u" for u x y w
    by (simp_all add: http_do_def contact_def online_device_def bearer_get_def)
  have "google_fetch_user_info online_device google_user_info_url ''tok'' w = google_fetch_user_info online google_user_info_url ''tok'' w" for w
    unfolding google_fetch_user_info_def by (simp only: same)
  ultimately have "op_device_poll (new_google sample_libs sample_env online_lib online_device (cf_google google_cfg)) ''dc'' sample_world =
      (Inr \<lparr>ui_provider_id = ''g1'', ui_email = ''a@b.c'', ui_name = []\<rparr>, ticked (ticked sample_world))"
    using online_google [of "''tok''" "ticked sample_world"]
    by (simp add: new_google_def Let_def online_provider(2))
  then show ?thesis
    using online_sign_in [of "''auth manager: DevicePoll: ''"]
    by (simp add: server_auth_manager_def new_auth_manager_def auth_device_poll_sign_in oauth_device_poll_def
        oauth_provider_for_def online_provider(1) del: new_jwt_manager_simps)
qed

theorem device_poll_signs_in_stored_account_witness:
  "\<exists>resp. hc_do online_device (device_token_request (google_config online_lib (cf_google google_cfg)) ''dc'') (w_tick sample_world) = Inr resp \<and>
    hr_body resp = Inr ''access_token=tok'' \<and> (\<exists>u :: user. u_provider u = ProviderGoogle)"
proof -
  obtain t w' where "am_device_poll (server_auth_manager sample_libs sample_env sample_jwt online_lib online_device google_cfg sample_adapter)
      ProviderGoogle ''dc'' sample_world = (Inr t, w')" using online_device_poll by blast
  from device_poll_signs_in_stored_account [OF this sample_jwt_ok] obtain resp and u :: user where
    r: "hc_do online_device (device_token_request (google_config online_lib (cf_google google_cfg)) ''dc'') (w_tick sample_world) = Inr resp"
    "u_provider u = ProviderGoogle" by auto
  from r(1) have "hr_body resp = Inr ''access_token=tok''" by (auto simp: online_device_def device_token_request_def)
  with r show ?thesis by blast
qed

section \<open>Administration\<close>

definition admin_paths :: "(string \<times> string) set" where
  "admin_paths = {(''POST'', ''/api/v1/pats''), (''GET'', ''/api/v1/pats''), (''DELETE'', ''/api/v1/pats/:id''),
     (''PUT'', ''/api/v1/users/:id/role'')}"

lemma admin_routes:
  assumes "rt \<in> set (router L B M J F)" and "method_path rt \<in> admin_paths"
  shows "\<exists>h \<in> {create_pat_handler L B M, list_pats_handler L B M, revoke_pat_handler L M, update_role_handler L B M}.
    rt_handler rt = jwt_middleware J h"
  using assms
  by (auto simp: router_def mount_public_def mount_protected_def auth_routes_def pat_routes_def user_routes_def
      profile_routes_def mk_route_def admin_paths_def method_path_def)

lemma validate_keeps_db:
  assumes "jm_validate (new_jwt_manager L E J a) t w = (x, w')"
  shows "w_db w' = w_db w"
proof -
  from assms have "w' = snd (jm_validate (new_jwt_manager L E J a) t w)" by (simp del: new_jwt_manager_simps)
  then show ?thesis by simp
qed

text \<open>
  C23: on a started server the administrative routes (create, list and revoke a token, change a role)
  refuse every request whose token, if it verifies and is unexpired, has a role other than \<open>admin\<close>: with
  401 or 403, and the database is untouched.
\<close>

theorem administration_needs_admin:
  assumes "jwt_lib_ok J" and "run_server L B E J O2 C cfg w0 = (Inr rs, w1)"
    and "rt \<in> set rs" and "method_path rt \<in> admin_paths"
    and "\<And>t c alg. rq_header r ''Authorization'' = ''Bearer '' @ t \<Longrightarrow>
      jl_verifies J (HMAC alg) (cf_jwt_secret cfg) t c \<Longrightarrow> not_expired c (clock_at E (w_tick w)) \<Longrightarrow> cl_role c \<noteq> ''admin''"
  shows "fst (rt_handler rt cx r w) \<in> {HTTPError 401 ''unauthorized'', HTTPError 403 ''admin role required''} \<and>
    w_db (snd (rt_handler rt cx r w)) = w_db w"
proof -
  let ?a = "\<lparr>ja_secret = cf_jwt_secret cfg, ja_expiry = cf_jwt_expiry cfg\<rparr>"
  let ?J = "new_jwt_manager L E J ?a"
  let ?M = "server_auth_manager L E J O2 C cfg ?a"
  obtain h where h: "rt_handler rt = jwt_middleware ?J h"
    "h \<in> {create_pat_handler L B ?M, list_pats_handler L B ?M, revoke_pat_handler L ?M, update_role_handler L B ?M}"
    using admin_routes assms(3,4) unfolding started_router [OF assms(2)] by blast
  show ?thesis
  proof (cases rule: jwt_middleware_cases [of ?J h cx r w])
    case (Refused w2)
    with h(1) validate_keeps_db show ?thesis by (auto simp: unauthorized_response_def sentinel_text_def)
  next
    case (Passed t c w2)
    then have "jwt_validate E J ?a t w = (Inr c, w2)" by (simp add: map_err_ok)
    then obtain alg where "jl_verifies J (HMAC alg) (cf_jwt_secret cfg) t c" "not_expired c (clock_at E (w_tick w))"
      using jwt_validate_iff [OF assms(1)] by auto
    with assms(5) Passed(1) have "\<not> is_admin_ctx (cx\<lparr>cx_sub := Some (cl_subject c), cx_email := Some (cl_email c), cx_role := Some (cl_role c)\<rparr>)"
      by (simp add: is_admin_ctx_def)
    from admin_guard [OF this] h(2) Passed(2,3) h(1) validate_keeps_db show ?thesis
      by (auto simp: admin_required_def)
  qed
qed

theorem administration_needs_admin_witness:
  "list_all (\<lambda>rt. method_path rt \<notin> admin_paths \<or>
     w_db (snd (rt_handler rt empty_ctx (anonymous\<lparr>rq_header := (\<lambda>h. ''Bearer '' @ sample_bearer)\<rparr>) sample_world)) = w_db sample_world)
   sample_routes"
proof -
  have c: "cl_role c \<noteq> ''admin''" if "jl_verifies sample_jwt (HMAC alg) k sample_bearer c" for alg k c
    using that by (auto simp: sample_jwt_verifies sample_token_inject sample_claims_def user_claims_def sample_user_def user_consts)
  show ?thesis
    unfolding list_all_iff
  proof (intro ballI)
    fix rt assume rt: "rt \<in> set sample_routes"
    show "method_path rt \<notin> admin_paths \<or>
       w_db (snd (rt_handler rt empty_ctx (anonymous\<lparr>rq_header := (\<lambda>h. ''Bearer '' @ sample_bearer)\<rparr>) sample_world)) = w_db sample_world"
      using administration_needs_admin [OF sample_jwt_ok sample_server_starts [of sample_world] rt,
          where r = "anonymous\<lparr>rq_header := (\<lambda>h. ''Bearer '' @ sample_bearer)\<rparr>" and cx = empty_ctx and w = sample_world] c
      by (cases "method_path rt \<in> admin_paths") auto
  qed
qed

definition same_but_secrets :: "pat \<Rightarrow> pat \<Rightarrow> bool" where
  "same_but_secrets p q \<longleftrightarrow> p_id p = p_id q \<and> p_user_id p = p_user_id q \<and> p_expires_at p = p_expires_at q \<and>
     p_created_at p = p_created_at q"

text \<open>
  The list of tokens that an administrator reads does not depend on the hashes and salts that
  are stored: two states that differ in them only get the same answer.
\<close>

theorem token_list_hides_secrets:
  assumes "quiet E" and "list_all2 same_but_secrets (stored_pats w) (stored_pats v)"
  shows "fst (list_pats_handler L B (server_auth_manager L E J O2 C cfg a) c r w) =
    fst (list_pats_handler L B (server_auth_manager L E J O2 C cfg a) c r v)"
proof -
  have "map (pat_json L B) (stored_pats w) = map (pat_json L B) (stored_pats v)"
    using assms(2)
    by (induction rule: list_all2_induct) (simp_all add: same_but_secrets_def pat_json_def)
  then show ?thesis
    by (simp add: list_pats_handler_def server_auth_manager_def new_auth_manager_def auth_list_pats_def list_pats_def
        quiet_all_pats [OF assms(1)] del: new_jwt_manager_simps)
qed

theorem token_list_hides_secrets_witness:
  "fst (list_pats_handler sample_libs sample_web sample_manager empty_ctx anonymous sample_world) =
     fst (list_pats_handler sample_libs sample_web sample_manager empty_ctx anonymous empty_world)"
  by (rule token_list_hides_secrets [OF quiet_sample_env])
    (simp add: sample_no_pats empty_world_def empty_database_def)

text \<open>
  An administrator who sets a role for a user that does not exist gets status 500, not 404, in
  a quiet environment; nothing changes.
\<close>

theorem missing_user_role_is_500:
  assumes "quiet E" and "is_admin_ctx c" and "lib_uuid_parse L (rq_param r ''id'') = Some i"
    and "wb_bind B r [''role''] = Inr q" and "bound q ''role'' = RoleAdmin \<or> bound q ''role'' = RoleUser"
    and "\<forall>u \<in> set (stored_users w). u_id u \<noteq> i"
  shows "update_role_handler L B (server_auth_manager L E J O2 C cfg a) c r w =
    (HTTPError 500 ''failed to update role'', ticked w)"
proof -
  have "lookup_row u_id i (stored_users w) = None" using assms(6) by (simp add: lookup_row_None_iff)
  then have "fst (pg_update_role E i ro w) = Inl (Wrap ''postgres: UpdateRole: '' (Sentinel ErrUserNotFound)) \<and>
      snd (pg_update_role E i ro w) = ticked w" for ro
    using assms(1) by (simp add: pg_update_role_def quiet_roundtrip Let_def sql_update_role_def)
  then have up: "pg_update_role E i ro w = (Inl (Wrap ''postgres: UpdateRole: '' (Sentinel ErrUserNotFound)), ticked w)" for ro
    by (simp add: prod_eq_iff)
  have "bound q ''role'' \<noteq> []" using assms(5) by (auto simp: user_consts)
  then show ?thesis
    using assms(2-5) by (auto simp: update_role_handler_def server_manager_simps update_user_role_def up)
qed

theorem missing_user_role_is_500_witness:
  "update_role_handler sample_libs sample_web sample_manager (empty_ctx\<lparr>cx_role := Some ''admin''\<rparr>)
      (anonymous\<lparr>rq_param := (\<lambda>k. ''9''), rq_body := ''user''\<rparr>) sample_world =
     (HTTPError 500 ''failed to update role'', ticked sample_world)"
  by (rule missing_user_role_is_500 [OF quiet_sample_env, where i = 9 and q = "\<lambda>k. if k \<in> set [''role''] then Some ''user'' else None"])
    (simp_all add: is_admin_ctx_def empty_ctx_def sample_uuid_parse_def is_digit_def code_def dec_val_def digit_val_def
      sample_web_def bound_def user_consts sample_world_def sample_user_def anonymous_def cong: if_cong)

section \<open>Configuration\<close>

text \<open>
  Every flag documents the environment variable that is read for the key it is bound to, and
  the configuration depends on no key that is not bound to a flag.
\<close>

theorem configuration_is_documented:
  "(\<forall>f \<in> set flags. fl_documented f = env_name (fl_key f)) \<and>
   (\<forall>get get' dur dur'. (\<forall>k \<in> fl_key ` set flags. get k = get' k \<and> dur k = dur' k) \<longrightarrow>
      load_config get dur = load_config get' dur')"
proof (intro conjI allI impI)
  show "\<forall>f \<in> set flags. fl_documented f = env_name (fl_key f)"
    using flags_documented by (simp only: list_all_iff)
qed (rule load_config_keys, simp only:)

theorem configuration_is_documented_witness:
  "env_name ''jwt.secret'' = ''COURTKNIGHTS_JWT_SECRET'' \<and> cf_port (load_config (\<lambda>k. k) (\<lambda>k. 0)) = ''server.port'' \<and>
   load_config (\<lambda>k. if k = ''other'' then [] else k) (\<lambda>k. 0) = load_config (\<lambda>k. k) (\<lambda>k. 0)"
proof -
  have "list_all (\<lambda>f. fl_key f \<noteq> ''other'') flags" by code_simp
  then have "\<forall>k \<in> fl_key ` set flags. (if k = ''other'' then [] else k) = k \<and> (0::int) = 0"
    by (auto simp: list_all_iff)
  with configuration_is_documented [THEN conjunct2]
  have "load_config (\<lambda>k. if k = ''other'' then [] else k) (\<lambda>k. 0) = load_config (\<lambda>k. k) (\<lambda>k. 0)"
    by (elim allE impE) assumption+
  moreover have "env_name ''jwt.secret'' = ''COURTKNIGHTS_JWT_SECRET''" by code_simp
  moreover have "cf_port (load_config (\<lambda>k. k) (\<lambda>k. 0)) = ''server.port''" by (simp add: load_config_def)
  ultimately show ?thesis by blast
qed

end
