(* ===== verification/GoJsonEnc.thy ===== *)
theory GoJsonEnc
  imports GoJson
begin

text \<open>
  The encoder of \<open>encoding/json\<close> as \<open>json.NewEncoder\<close> runs it (compact, HTML characters escaped, a
  line feed after the value), and that the decoder of \<open>GoJson\<close> reads back what it writes.
\<close>

section \<open>The encoder\<close>

text \<open>
  One ASCII byte of a string: quotes and backslashes are escaped, so are control characters and the
  three characters that could end a script in HTML.
\<close>

definition json_escape :: "char \<Rightarrow> string" where
  "json_escape c =
     (if c = CHR 0x22 \<or> c = CHR 0x5C then [CHR 0x5C, c]
      else if code c = 8 then [CHR 0x5C, CHR ''b'']
      else if code c = 12 then [CHR 0x5C, CHR ''f'']
      else if code c = 10 then [CHR 0x5C, CHR ''n'']
      else if code c = 13 then [CHR 0x5C, CHR ''r'']
      else if code c = 9 then [CHR 0x5C, CHR ''t'']
      else if code c < 32 \<or> c \<in> set ''<>&'' then
        [CHR 0x5C, CHR ''u'', CHR ''0'', CHR ''0'', hex_char (code c div 16), hex_char (code c mod 16)]
      else [c])"

text \<open>The runes U+2028 and U+2029 are escaped, a byte that is not UTF-8 is written as \<open>\ufffd\<close>.\<close>

definition line_separator :: "string \<Rightarrow> bool" where
  "line_separator s \<longleftrightarrow> map code s = [226, 128, 168] \<or> map code s = [226, 128, 169]"

definition json_rune :: "string \<Rightarrow> string" where
  "json_rune s =
     (if line_separator s then CHR 0x5C # ''u202'' @ [hex_char (code (last s) mod 16)] else s)"

function json_chars :: "string \<Rightarrow> string" where
  "json_chars [] = []"
| "json_chars (a # s) =
     (if is_ascii a then json_escape a @ json_chars s
      else (case utf8_width (a # s) of
              0 \<Rightarrow> CHR 0x5C # ''ufffd'' @ json_chars s
            | Suc n \<Rightarrow> json_rune (a # take n s) @ json_chars (drop n s)))"
  by pat_completeness auto
termination by (relation "measure length") auto

definition json_string :: "string \<Rightarrow> string" where
  "json_string s = CHR 0x22 # json_chars s @ [CHR 0x22]"

fun json_encode :: "json \<Rightarrow> string"
  and json_encode_list :: "json list \<Rightarrow> string"
  and json_encode_members :: "(string \<times> json) list \<Rightarrow> string" where
  "json_encode JNull = ''null''"
| "json_encode (JBool b) = (if b then ''true'' else ''false'')"
| "json_encode (JNum n) = n"
| "json_encode (JStr s) = json_string s"
| "json_encode (JArr vs) = ''['' @ json_encode_list vs @ '']''"
| "json_encode (JObj ms) = ''{'' @ json_encode_members ms @ ''}''"
| "json_encode_list [] = []"
| "json_encode_list (v # vs) =
     json_encode v @ (if vs = [] then [] else '','' @ json_encode_list vs)"
| "json_encode_members [] = []"
| "json_encode_members (m # ms) =
     json_string (fst m) @ '':'' @ json_encode (snd m) @
     (if ms = [] then [] else '','' @ json_encode_members ms)"

definition encode_line :: "json \<Rightarrow> string" where
  "encode_line v = json_encode v @ [CHR 0x0A]"

section \<open>What a reader gets\<close>

text \<open>The value with every string made valid UTF-8.\<close>

fun json_fix :: "json \<Rightarrow> json"
  and json_fix_list :: "json list \<Rightarrow> json list"
  and json_fix_members :: "(string \<times> json) list \<Rightarrow> (string \<times> json) list" where
  "json_fix (JStr s) = JStr (utf8_fix s)"
| "json_fix (JArr vs) = JArr (json_fix_list vs)"
| "json_fix (JObj ms) = JObj (json_fix_members ms)"
| "json_fix v = v"
| "json_fix_list [] = []"
| "json_fix_list (v # vs) = json_fix v # json_fix_list vs"
| "json_fix_members [] = []"
| "json_fix_members (m # ms) = (utf8_fix (fst m), json_fix (snd m)) # json_fix_members ms"

text \<open>The numbers of the program are integers in decimal.\<close>

definition int_literal :: "string \<Rightarrow> bool" where
  "int_literal n \<longleftrightarrow>
     (let t = trim_prefix ''-'' n in t \<noteq> [] \<and> list_all is_digit t \<and> (hd t = CHR ''0'' \<longrightarrow> tl t = []))"

fun numbers_ok :: "json \<Rightarrow> bool"
  and numbers_ok_list :: "json list \<Rightarrow> bool"
  and numbers_ok_members :: "(string \<times> json) list \<Rightarrow> bool" where
  "numbers_ok (JNum n) = int_literal n"
| "numbers_ok (JArr vs) = numbers_ok_list vs"
| "numbers_ok (JObj ms) = numbers_ok_members ms"
| "numbers_ok v = True"
| "numbers_ok_list [] = True"
| "numbers_ok_list (v # vs) = (numbers_ok v \<and> numbers_ok_list vs)"
| "numbers_ok_members [] = True"
| "numbers_ok_members (m # ms) = (numbers_ok (snd m) \<and> numbers_ok_members ms)"

section \<open>Strings\<close>

definition plain_item :: "str_item \<Rightarrow> bool" where
  "plain_item i \<longleftrightarrow> (case i of RawByte c \<Rightarrow> True | CodeUnit u \<Rightarrow> \<not> is_high u \<and> \<not> is_low u)"

fun item_bytes :: "str_item \<Rightarrow> string" where
  "item_bytes (RawByte c) = [c]"
| "item_bytes (CodeUnit u) = utf8_encode u"

lemma unquote_plain: "list_all plain_item is \<Longrightarrow> unquote_items is = concat (map item_bytes is)"
  by (induction "is" rule: unquote_items.induct) (simp_all add: plain_item_def)

lemma hex_val_hex_char: "d < 16 \<Longrightarrow> hex_val (hex_char d) = Some d"
proof -
  assume "d < 16"
  then have "d = 0 \<or> d = 1 \<or> d = 2 \<or> d = 3 \<or> d = 4 \<or> d = 5 \<or> d = 6 \<or> d = 7 \<or>
    d = 8 \<or> d = 9 \<or> d = 10 \<or> d = 11 \<or> d = 12 \<or> d = 13 \<or> d = 14 \<or> d = 15" by presburger
  then show ?thesis by (elim disjE) (simp_all add: hex_val_def hex_char_def is_digit_def code_def)
qed

lemma code_backslash: "code (CHR 0x5C) = 92"
  by (simp add: code_def)

text \<open>A written string, from some point on, is read as these items.\<close>

definition reads_as :: "string \<Rightarrow> str_item list \<Rightarrow> bool" where
  "reads_as t is \<longleftrightarrow>
     list_all plain_item is \<and> (\<forall>acc r. scan_string acc (t @ r) = scan_string (rev is @ acc) r)"

lemma reads_as_append:
  "reads_as t is \<Longrightarrow> reads_as u js \<Longrightarrow> reads_as (t @ u) (is @ js)"
  by (auto simp: reads_as_def)

lemma reads_as_Nil: "reads_as [] []"
  by (simp add: reads_as_def)

lemma reads_as_raw: "list_all (\<lambda>c. 128 \<le> code c) t \<Longrightarrow> reads_as t (map RawByte t)"
proof (induction t)
  case (Cons c t)
  then have "code c \<ge> 128" "c \<noteq> CHR 0x22" "c \<noteq> CHR 0x5C" by (auto simp: code_def)
  then have "reads_as [c] [RawByte c]" by (simp add: reads_as_def plain_item_def)
  with Cons show ?case using reads_as_append [of "[c]" "[RawByte c]" t "map RawByte t"] by simp
qed (simp add: reads_as_Nil)

lemma reads_as_escape:
  assumes "is_ascii c"
  shows "\<exists>is. reads_as (json_escape c) is \<and> concat (map item_bytes is) = [c]"
proof -
  have ch: "char_of (code c) = c" by (simp add: code_def)
  have lt: "code c div 16 < 16" "code c mod 16 < 16" using assms by (simp_all add: is_ascii_def)
  have u: "reads_as [CHR 0x5C, CHR ''u'', CHR ''0'', CHR ''0'', hex_char (code c div 16), hex_char (code c mod 16)] [CodeUnit (code c)]"
  proof -
    have "hex4 (CHR ''0'') (CHR ''0'') (hex_char (code c div 16)) (hex_char (code c mod 16)) = Some (code c)"
      using lt by (simp add: hex4_def hex_val_hex_char) (simp add: hex_val_def is_digit_def code_def)
    then show ?thesis using assms by (simp add: code_backslash reads_as_def plain_item_def is_high_def is_low_def is_ascii_def)
  qed
  have b: "utf8_encode (code c) = [c]" using assms ch by (simp add: utf8_encode_def is_ascii_def)
  have e: "reads_as [CHR 0x5C, e] [RawByte c]" if "escape_byte e = Some c" "e \<noteq> CHR ''u''" for e
    using that by (simp add: code_backslash reads_as_def plain_item_def)
  have raw: "reads_as [c] [RawByte c]" if "\<not> code c < 32" "c \<noteq> CHR 0x22" "c \<noteq> CHR 0x5C"
    using that by (simp add: reads_as_def plain_item_def)
  have esc: "reads_as [CHR 0x5C, c] [RawByte c]" if "c = CHR 0x22 \<or> c = CHR 0x5C"
    using that by (intro e) (auto simp: escape_byte_def)
  have esc2: "code c = 8 \<Longrightarrow> escape_byte (CHR ''b'') = Some c" "code c = 12 \<Longrightarrow> escape_byte (CHR ''f'') = Some c"
    "code c = 10 \<Longrightarrow> escape_byte (CHR ''n'') = Some c" "code c = 13 \<Longrightarrow> escape_byte (CHR ''r'') = Some c"
    "code c = 9 \<Longrightarrow> escape_byte (CHR ''t'') = Some c"
    using ch by (auto simp: escape_byte_def)
  have "reads_as (json_escape c) [RawByte c] \<or> reads_as (json_escape c) [CodeUnit (code c)]"
  proof (cases "c = CHR 0x22 \<or> c = CHR 0x5C")
    case False
    moreover from False raw have "\<not> code c < 32 \<Longrightarrow> reads_as [c] [RawByte c]" by blast
    ultimately show ?thesis using u by (simp add: json_escape_def e esc2)
  qed (simp add: json_escape_def esc)
  then show ?thesis by (metis b item_bytes.simps concat_map_singleton list.simps(8,9) concat.simps append_Nil2)
qed

text \<open>The bytes of a rune of more than one byte.\<close>

lemma utf8_width_2: "cont_in 194 223 a \<Longrightarrow> cont_in 128 191 b \<Longrightarrow> utf8_width (a # b # r) = 2"
  by (cases "a # b # r" rule: utf8_width.cases) (auto simp: cont_in_def)

lemma utf8_width_3:
  "cont_in 224 239 a \<Longrightarrow> cont_in (if code a = 224 then 160 else 128) (if code a = 237 then 159 else 191) b \<Longrightarrow>
     cont_in 128 191 c \<Longrightarrow> utf8_width (a # b # c # r) = 3"
  by (cases "a # b # c # r" rule: utf8_width.cases) (auto simp: cont_in_def)

lemma utf8_width_4:
  "cont_in 240 244 a \<Longrightarrow> cont_in (if code a = 240 then 144 else 128) (if code a = 244 then 143 else 191) b \<Longrightarrow>
     cont_in 128 191 c \<Longrightarrow> cont_in 128 191 d \<Longrightarrow> utf8_width (a # b # c # d # r) = 4"
  by (auto simp: cont_in_def)

lemma utf8_width_cases:
  assumes "utf8_width (a # s) = Suc n" and "\<not> is_ascii a"
  obtains (Two) b t where "s = b # t" "n = 1" "cont_in 194 223 a" "cont_in 128 191 b"
  | (Three) b c t where "s = b # c # t" "n = 2" "cont_in 224 239 a"
      "cont_in (if code a = 224 then 160 else 128) (if code a = 237 then 159 else 191) b" "cont_in 128 191 c"
  | (Four) b c d t where "s = b # c # d # t" "n = 3" "cont_in 240 244 a"
      "cont_in (if code a = 240 then 144 else 128) (if code a = 244 then 143 else 191) b"
      "cont_in 128 191 c" "cont_in 128 191 d"
  using assms
  by (cases "a # s" rule: utf8_width.cases) (simp_all add: is_ascii_def split: if_splits)

lemma utf8_width_bytes:
  assumes "utf8_width (a # s) = Suc n" and "\<not> is_ascii a"
  shows "n \<le> length s \<and> list_all (\<lambda>c. 128 \<le> code c) (a # take n s) \<and> utf8_width (a # take n s @ r) = Suc n"
  using assms(2)
  by (cases rule: utf8_width_cases [OF assms])
    (auto simp: utf8_width_2 utf8_width_3 utf8_width_4 numeral_2_eq_2 numeral_3_eq_3,
     auto simp: cont_in_def is_ascii_def split: if_splits)

lemma rune_error_bytes: "map code (utf8_encode rune_error) = [239, 191, 189]"
  by (simp add: utf8_encode_def rune_error_def)

lemma utf8_fix_rune:
  "utf8_width (a # s) = Suc n \<Longrightarrow> \<not> is_ascii a \<Longrightarrow> utf8_fix (a # take n s @ r) = a # take n s @ utf8_fix r"
  using utf8_width_bytes [of a s n r] by simp

lemma utf8_fix_error: "utf8_fix (utf8_encode rune_error @ r) = utf8_encode rune_error @ utf8_fix r"
proof -
  obtain a b c where abc: "utf8_encode rune_error = [a, b, c]" "code a = 239" "code b = 191" "code c = 189"
    using rune_error_bytes by (auto simp: map_eq_Cons_conv)
  have "utf8_width (a # b # c # r) = Suc 2"
    using utf8_width_3 [of a b c r] abc by (simp add: cont_in_def)
  then have "utf8_fix (a # b # c # r) = a # take 2 (b # c # r) @ utf8_fix (drop 2 (b # c # r))"
    by (simp only: utf8_fix.simps nat.case)
  then show ?thesis by (simp only: abc) simp
qed

lemma utf8_fix_idem: "utf8_fix (utf8_fix s) = utf8_fix s"
proof (induction s rule: utf8_fix.induct)
  case (2 a s)
  show ?case
  proof (cases "is_ascii a")
    case True
    then show ?thesis using 2 (2) [of 0] by (simp add: ascii_width is_ascii_def)
  next
    case False
    then show ?thesis using 2 utf8_fix_rune [of a s] by (cases "utf8_width (a # s)") (simp_all add: utf8_fix_error)
  qed
qed simp

lemma reads_as_unit:
  assumes "CHR 0x5C # CHR ''u'' # [a, b, c, d] = t" and "hex4 a b c d = Some u" and "\<not> is_high u \<and> \<not> is_low u"
  shows "reads_as t [CodeUnit u]"
  using assms by (auto simp: reads_as_def plain_item_def code_backslash)

lemma reads_as_rune:
  assumes "utf8_width (a # s) = Suc n" and "\<not> is_ascii a"
  shows "\<exists>is. reads_as (json_rune (a # take n s)) is \<and> concat (map item_bytes is) = a # take n s"
proof (cases "line_separator (a # take n s)")
  case True
  let ?t = "a # take n s"
  obtain u where u: "map code ?t = [226, 128, 160 + u]" "u = 8 \<or> u = 9" using True by (auto simp: line_separator_def)
  have "map char_of (map code ?t) = ?t" by (simp add: code_def map_idI)
  then have t: "?t = map char_of [226, 128, 160 + u :: nat]" by (simp only: u(1))
  have "hex4 (CHR ''2'') (CHR ''0'') (CHR ''2'') (hex_char u) = Some (8224 + u)"
    using u(2) by (auto simp: hex4_def hex_val_def is_digit_def code_def hex_char_def)
  moreover have "code (last ?t) mod 16 = u" using u by (cases "take n s" rule: rev_cases) auto
  ultimately have "reads_as (json_rune ?t) [CodeUnit (8224 + u)]"
    using True u(2) by (intro reads_as_unit [of "CHR ''2''" "CHR ''0''" "CHR ''2''" "hex_char u"])
      (auto simp: json_rune_def is_high_def is_low_def)
  moreover have "utf8_encode (8224 + u) = ?t" unfolding t using u(2) by (auto simp: utf8_encode_def)
  ultimately show ?thesis by (intro exI [of _ "[CodeUnit (8224 + u)]"]) simp
next
  case False
  then have "json_rune (a # take n s) = a # take n s" by (simp add: json_rune_def)
  moreover have "concat (map item_bytes (map RawByte t)) = t" for t by (induction t) auto
  ultimately show ?thesis using reads_as_raw utf8_width_bytes [OF assms] by metis
qed

lemma json_chars_read:
  "\<exists>is. reads_as (json_chars s) is \<and> concat (map item_bytes is) = utf8_fix s"
proof (induction s rule: json_chars.induct)
  case 1
  then show ?case by (intro exI [of _ "[]"]) (simp add: reads_as_Nil)
next
  case (2 a s)
  have step: ?case if "reads_as t is" "reads_as u js" "json_chars (a # s) = t @ u"
    "utf8_fix (a # s) = concat (map item_bytes is) @ concat (map item_bytes js)" for t u "is" js
    using that reads_as_append by (intro exI [of _ "is @ js"]) simp
  show ?case
  proof (cases "is_ascii a")
    case True
    with 2 (1) reads_as_escape [of a] obtain "is" js where
      "reads_as (json_escape a) is" "concat (map item_bytes is) = [a]"
      "reads_as (json_chars s) js" "concat (map item_bytes js) = utf8_fix s" by blast
    with True show ?thesis by (intro step) (auto simp: ascii_width is_ascii_def)
  next
    case False
    show ?thesis
    proof (cases "utf8_width (a # s)")
      case 0
      with 2 (2) False obtain js where "reads_as (json_chars s) js" "concat (map item_bytes js) = utf8_fix s" by blast
      moreover have "reads_as (CHR 0x5C # ''ufffd'') [CodeUnit rune_error]"
        by (rule reads_as_unit [OF refl]) (simp_all add: hex4_def hex_val_def is_digit_def code_def rune_error_def is_high_def is_low_def)
      ultimately show ?thesis using 0 False by (intro step [of "CHR 0x5C # ''ufffd''" "[CodeUnit rune_error]" "json_chars s" js]) simp_all
    next
      case (Suc n)
      with 2 (3) False obtain js where "reads_as (json_chars (drop n s)) js" "concat (map item_bytes js) = utf8_fix (drop n s)" by blast
      moreover obtain "is" where "reads_as (json_rune (a # take n s)) is" "concat (map item_bytes is) = a # take n s"
        using reads_as_rune [OF Suc False] by blast
      ultimately show ?thesis using Suc False by (intro step) auto
    qed
  qed
qed

lemma lex_json_string: "lex (json_string s @ r) = TStr (utf8_fix s) # lex r"
proof -
  obtain "is" where "is": "reads_as (json_chars s) is" "concat (map item_bytes is) = utf8_fix s"
    using json_chars_read by blast
  then have "scan_string [] (json_chars s @ CHR 0x22 # r) = Some (is, r)"
    by (simp add: reads_as_def)
  moreover have "unquote is = utf8_fix s"
    using "is" by (simp add: unquote_def unquote_plain reads_as_def utf8_fix_idem)
  moreover have "\<not> json_space (CHR 0x22)" "\<not> json_punct (CHR 0x22)"
    by (simp_all add: json_space_def json_punct_def code_def)
  ultimately show ?thesis by (simp add: json_string_def)
qed

section \<open>Values\<close>

text \<open>What may follow a number.\<close>

definition number_end :: "string \<Rightarrow> bool" where
  "number_end r \<longleftrightarrow>
     (case r of [] \<Rightarrow> True | c # t \<Rightarrow> \<not> is_digit c \<and> c \<noteq> CHR ''.'' \<and> c \<noteq> CHR ''e'' \<and> c \<noteq> CHR ''E'')"

lemma number_end_simps [simp]: "number_end []" "number_end (CHR '','' # r)" "number_end (CHR '']'' # r)"
  "number_end (CHR ''}'' # r)" "number_end (CHR 0x0A # r)"
  by (simp_all add: number_end_def is_digit_def code_def)

lemma after_digits_append:
  "list_all is_digit t \<Longrightarrow> number_end r \<Longrightarrow> after_digits (t @ r) = r"
  by (induction t) (auto simp: after_digits_def number_end_def split: list.splits)

lemma scan_digits:
  assumes "t \<noteq> []" "list_all is_digit t" "hd t = CHR ''0'' \<longrightarrow> tl t = []" "number_end r"
  shows "scan_int (t @ r) = Some r"
  using assms after_digits_append [of t r] by (cases t) (auto simp: scan_int_def)

lemma scan_number_literal:
  assumes "int_literal n" and "number_end r"
  shows "scan_number (n @ r) = Some r"
proof -
  have rest: "scan_frac r = Some r" "scan_exp r = Some r"
    using assms(2) by (simp_all add: scan_frac_def scan_exp_def number_end_def split: list.splits)
  show ?thesis
  proof (cases "has_prefix ''-'' n")
    case True
    then obtain t where "n = CHR ''-'' # t" by (auto simp: has_prefix_iff)
    with assms scan_digits [of t r] rest show ?thesis
      by (simp add: int_literal_def trim_prefix_def has_prefix_def scan_number_def)
  next
    case False
    with assms have n: "n \<noteq> []" "list_all is_digit n" "hd n = CHR ''0'' \<longrightarrow> tl n = []"
      by (simp_all add: int_literal_def trim_prefix_def Let_def)
    moreover from this have "hd n \<noteq> CHR ''-''" by (cases n) (auto simp: is_digit_def code_def)
    ultimately show ?thesis using scan_digits [OF n assms(2)] rest by (cases n) (simp_all add: scan_number_def)
  qed
qed

lemma lex_number:
  assumes "int_literal n" and "number_end r"
  shows "lex (n @ r) = TNum n # lex r"
proof -
  from assms(1) obtain c t where n: "n = c # t" by (cases n) (simp_all add: int_literal_def trim_prefix_def has_prefix_def)
  with assms(1) have "c = CHR ''-'' \<or> is_digit c"
    by (auto simp: int_literal_def trim_prefix_def has_prefix_def Let_def split: if_splits)
  then have "\<not> json_space c" "\<not> json_punct c" "c \<noteq> CHR 0x22" "c = CHR ''-'' \<or> is_digit c"
    by (auto simp: json_space_def json_punct_def is_digit_def code_def)
  then show ?thesis using scan_number_literal [OF assms] by (simp add: n)
qed

lemma lex_punct: "json_punct c \<Longrightarrow> lex (c # s) = TPunct c # lex s"
  by (auto simp: json_punct_def json_space_def code_def)

lemma lex_words: "lex (''null'' @ r) = TNull # lex r" "lex (''true'' @ r) = TTrue # lex r"
  "lex (''false'' @ r) = TFalse # lex r"
  by (simp_all add: json_space_def json_punct_def is_digit_def code_def has_prefix_def)

lemmas lex_simps = lex_punct lex_json_string lex_words [unfolded append_Cons append_Nil] lex_number

lemma json_fix_nonempty [simp]: "json_fix_list vs = [] \<longleftrightarrow> vs = []" "json_fix_members ms = [] \<longleftrightarrow> ms = []"
  by (cases vs; simp) (cases ms; simp)

lemma punct_chars: "json_punct (CHR '','')" "json_punct (CHR ''['')" "json_punct (CHR '']'')" "json_punct (CHR ''{'')"
  "json_punct (CHR ''}'')" "json_punct (CHR '':'')"
  by (simp_all add: json_punct_def)

text \<open>The tokens of an encoded value are the tokens of the value.\<close>

lemma lex_encode:
  "numbers_ok v \<Longrightarrow> number_end r \<Longrightarrow> lex (json_encode v @ r) = tokens (json_fix v) @ lex r"
  "numbers_ok_list vs \<Longrightarrow> number_end r \<Longrightarrow> lex (json_encode_list vs @ r) = tokens_list (json_fix_list vs) @ lex r"
  "numbers_ok_members ms \<Longrightarrow> number_end r \<Longrightarrow>
     lex (json_encode_members ms @ r) = tokens_members (json_fix_members ms) @ lex r"
proof (induction v and vs and ms arbitrary: r and r and r
    rule: json_encode_json_encode_list_json_encode_members.induct)
qed (simp_all del: lex.simps(2) add: lex_simps punct_chars)

lemma depth_fix: "depth (json_fix v) = depth v" "depth_list (json_fix_list vs) = depth_list vs"
  "depth_members (json_fix_members ms) = depth_members ms"
  by (induction v and vs and ms rule: json_fix_json_fix_list_json_fix_members.induct) simp_all

text \<open>The decoder reads the encoded line back.\<close>

theorem unmarshal_encode:
  assumes "numbers_ok v" and "depth v \<le> max_nesting_depth"
  shows "json_unmarshal (encode_line v) = Some (json_fix v)"
proof -
  have "lex [CHR 0x0A] = []" by (simp add: json_space_def code_def)
  then have "lex (encode_line v) = tokens (json_fix v) @ []"
    using lex_encode(1) [OF assms(1), of "[CHR 0x0A]"] by (simp add: encode_line_def)
  then show ?thesis
    using parse_tokens_roundtrip [of "json_fix v" "[]"] assms(2)
    by (simp add: json_unmarshal_def json_decode_first_def depth_fix)
qed

lemma int_literal_dec: "int_literal (int_dec i)"
proof -
  have head: "hd (nat_dec n) = CHR ''0'' \<Longrightarrow> tl (nat_dec n) = []" for n
  proof (induction n rule: nat_dec.induct)
    case (1 n)
    show ?case
    proof (cases "n < 10")
      case False
      then have "hd (nat_dec n) = hd (nat_dec (n div 10))" by (subst nat_dec.simps) simp
      moreover have "n div 10 \<noteq> 0" using False by simp
      then have "nat_dec (n div 10) \<noteq> ''0''"
        using nat_dec_inject [of "n div 10" 0] by (simp add: nat_dec.simps [of 0] digit_char_def)
      ultimately show ?thesis using 1 False by (metis list.collapse nat_dec_nonempty)
    qed (subst nat_dec.simps, simp)
  qed
  have "\<not> has_prefix ''-'' (nat_dec n)" for n
    using nat_dec_digits [of n] by (cases "nat_dec n") (auto simp: has_prefix_def is_digit_def code_def)
  then show ?thesis
    using head nat_dec_digits by (simp add: int_literal_def int_dec_def trim_prefix_def has_prefix_def)
qed

end
