(* ===== verification/ApiContract.thy ===== *)
theory ApiContract
  imports ServerInv GoJsonEnc
begin

text \<open>
  The contract of the API as its documents state it (\<open>docs/specs/*/02_architecture.md\<close>): for every
  endpoint the statuses it answers with and the type of each JSON body, and the proof that the handlers
  keep to it. A body of a type is read back with that type from the bytes the encoder writes.
\<close>

section \<open>Types of JSON values\<close>

text \<open>The members of an object stand in the order of the struct fields; one that may be left out is not required.\<close>

datatype schema = SText | SOneOf "string list" | SNumber | SNullable schema | SArray schema
  | SObject "(string \<times> bool \<times> schema) list"

fun conforms :: "schema \<Rightarrow> json \<Rightarrow> bool"
  and conform_all :: "schema \<Rightarrow> json list \<Rightarrow> bool"
  and conform_members :: "(string \<times> bool \<times> schema) list \<Rightarrow> (string \<times> json) list \<Rightarrow> bool" where
  "conforms SText v = (case v of JStr s \<Rightarrow> True | _ \<Rightarrow> False)"
| "conforms (SOneOf ss) v = (case v of JStr s \<Rightarrow> s \<in> set ss | _ \<Rightarrow> False)"
| "conforms SNumber v = (case v of JNum n \<Rightarrow> int_literal n | _ \<Rightarrow> False)"
| "conforms (SNullable t) v = (v = JNull \<or> conforms t v)"
| "conforms (SArray t) v = (case v of JArr vs \<Rightarrow> conform_all t vs | _ \<Rightarrow> False)"
| "conforms (SObject fs) v = (case v of JObj ms \<Rightarrow> conform_members fs ms | _ \<Rightarrow> False)"
| "conform_all t [] = True"
| "conform_all t (v # vs) = (conforms t v \<and> conform_all t vs)"
| "conform_members [] ms = (ms = [])"
| "conform_members (f # fs) [] = (\<not> fst (snd f) \<and> conform_members fs [])"
| "conform_members (f # fs) (m # ms) =
     (if fst m = fst f then conforms (snd (snd f)) (snd m) \<and> conform_members fs ms
      else \<not> fst (snd f) \<and> conform_members fs (m # ms))"

fun schema_depth :: "schema \<Rightarrow> nat"
  and members_depth :: "(string \<times> bool \<times> schema) list \<Rightarrow> nat" where
  "schema_depth (SNullable t) = schema_depth t"
| "schema_depth (SArray t) = Suc (schema_depth t)"
| "schema_depth (SObject fs) = Suc (members_depth fs)"
| "schema_depth t = 0"
| "members_depth [] = 0"
| "members_depth (f # fs) = max (schema_depth (snd (snd f))) (members_depth fs)"

text \<open>The names and the constants of a type are ASCII.\<close>

fun ascii_schema :: "schema \<Rightarrow> bool"
  and ascii_members :: "(string \<times> bool \<times> schema) list \<Rightarrow> bool" where
  "ascii_schema (SOneOf ss) = list_all (list_all is_ascii) ss"
| "ascii_schema (SNullable t) = ascii_schema t"
| "ascii_schema (SArray t) = ascii_schema t"
| "ascii_schema (SObject fs) = ascii_members fs"
| "ascii_schema t = True"
| "ascii_members [] = True"
| "ascii_members (f # fs) = (list_all is_ascii (fst f) \<and> ascii_schema (snd (snd f)) \<and> ascii_members fs)"

lemma conforms_numbers:
  "conforms t v \<Longrightarrow> numbers_ok v"
  "conform_all t vs \<Longrightarrow> numbers_ok_list vs"
  "conform_members fs ms \<Longrightarrow> numbers_ok_members ms"
  by (induction t v and t vs and fs ms rule: conforms_conform_all_conform_members.induct)
    (auto split: json.splits if_splits)

lemma conforms_depth:
  "conforms t v \<Longrightarrow> depth v \<le> schema_depth t"
  "conform_all t vs \<Longrightarrow> depth_list vs \<le> schema_depth t"
  "conform_members fs ms \<Longrightarrow> depth_members ms \<le> members_depth fs"
  by (induction t v and t vs and fs ms rule: conforms_conform_all_conform_members.induct)
    (auto split: json.splits if_splits)

lemma conform_names: "conform_members fs ms \<Longrightarrow> fst ` set ms \<subseteq> fst ` set fs"
proof (induction fs arbitrary: ms)
  case (Cons f fs)
  show ?case
  proof (cases ms)
    case (Cons m rest)
    then have "fst m = fst f \<and> conform_members fs rest \<or> conform_members fs ms"
      using Cons.prems by (auto split: if_splits)
    then show ?thesis using Cons.IH [of rest] Cons.IH [of ms] Cons by auto
  qed simp
qed simp

lemma ascii_names: "ascii_members fs \<Longrightarrow> k \<in> fst ` set fs \<Longrightarrow> utf8_fix k = k"
  by (induction fs) (auto simp: utf8_fix_ascii)

lemma conforms_fix:
  "conforms t v \<Longrightarrow> ascii_schema t \<Longrightarrow> conforms t (json_fix v)"
  "conform_all t vs \<Longrightarrow> ascii_schema t \<Longrightarrow> conform_all t (json_fix_list vs)"
  "conform_members fs ms \<Longrightarrow> ascii_members fs \<Longrightarrow> conform_members fs (json_fix_members ms)"
proof (induction t v and t vs and fs ms rule: conforms_conform_all_conform_members.induct)
  case (2 ss v)
  then show ?case by (cases v) (auto simp: list_all_iff utf8_fix_ascii)
next
  case (11 f fs m ms)
  show ?case
  proof (cases "fst m = fst f")
    case True
    with 11 show ?thesis by (simp add: utf8_fix_ascii)
  next
    case False
    then have rest: "conform_members fs (m # ms)" "\<not> fst (snd f)" using 11(4) by simp_all
    then have "utf8_fix (fst m) = fst m"
      using conform_names [of fs "m # ms"] ascii_names [of fs "fst m"] 11(5) by auto
    with False rest 11 show ?thesis by simp
  qed
qed (auto split: json.splits)

text \<open>What is encoded from a value of a type is read back with the type.\<close>

theorem conforming_bytes:
  assumes "conforms t v" and "ascii_schema t" and "schema_depth t \<le> max_nesting_depth"
  shows "json_unmarshal (encode_line v) = Some (json_fix v) \<and> conforms t (json_fix v)"
  using unmarshal_encode [of v] conforms_numbers(1) [OF assms(1)] conforms_depth(1) [OF assms(1)]
    conforms_fix(1) [OF assms(1,2)] assms(3) by simp

section \<open>The documented answers\<close>

datatype shape = Refused nat | Located string | Typed nat schema | Empty nat

fun has_shape :: "response \<Rightarrow> shape \<Rightarrow> bool" where
  "has_shape resp (Refused n) = (case resp of HTTPError m _ \<Rightarrow> m = n | _ \<Rightarrow> False)"
| "has_shape resp (Located p) = (case resp of Redirect m u \<Rightarrow> m = 302 \<and> has_prefix p u | _ \<Rightarrow> False)"
| "has_shape resp (Typed n t) = (case resp of JSON m v \<Rightarrow> m = n \<and> conforms t v | _ \<Rightarrow> False)"
| "has_shape resp (Empty n) = (case resp of NoContent m \<Rightarrow> m = n | _ \<Rightarrow> False)"

definition required :: "string \<Rightarrow> schema \<Rightarrow> string \<times> bool \<times> schema" where
  "required k t = (k, True, t)"

definition omittable :: "string \<Rightarrow> schema \<Rightarrow> string \<times> bool \<times> schema" where
  "omittable k t = (k, False, t)"

definition token_type :: schema where
  "token_type = SObject [required ''token'' SText]"

definition device_type :: schema where
  "device_type = SObject [required ''device_code'' SText, required ''user_code'' SText,
     required ''verification_uri'' SText, required ''expires_in'' SNumber, required ''interval'' SNumber]"

definition error_type :: "string list \<Rightarrow> schema" where
  "error_type codes = SObject [required ''error'' (SOneOf codes)]"

definition conflict_type :: schema where
  "conflict_type = SObject [required ''error'' (SOneOf [''email_already_registered'']), omittable ''provider'' SText]"

definition pats_type :: schema where
  "pats_type = SArray (SObject [required ''id'' SText, required ''user_id'' SText,
     required ''created_at'' SText, required ''expires_at'' (SNullable SText)])"

definition me_type :: schema where
  "me_type = SObject [required ''email'' SText, required ''id'' SText, required ''role'' SText]"

definition role_type :: schema where
  "role_type = SObject [required ''id'' SText, required ''role'' (SOneOf [''admin'', ''user''])]"

definition profile_type :: schema where
  "profile_type = SObject [required ''user_id'' SText, required ''display_name'' SText,
     required ''city'' (SNullable SText), required ''region'' (SNullable SText), required ''country'' (SNullable SText),
     required ''gender'' (SNullable (SOneOf genders)), required ''date_of_birth'' (SNullable SText),
     required ''category'' (SNullable (SOneOf categories)),
     required ''preferences'' (SObject [omittable ''court_side'' SText, omittable ''handedness'' SText]),
     required ''updated_at'' SText]"

definition item_type :: schema where
  "item_type = SObject [omittable ''id'' SText, omittable ''display_name'' SText,
     omittable ''city'' SText, omittable ''region'' SText, omittable ''country'' SText,
     omittable ''gender'' (SOneOf genders), omittable ''category'' (SOneOf categories)]"

definition page_type :: schema where
  "page_type = SObject [required ''data'' (SArray item_type),
     required ''total'' SNumber, required ''page'' SNumber, required ''page_size'' SNumber]"

text \<open>The answers of each endpoint; those behind the middleware may also be refused with 401.\<close>

definition public_answers :: "((string \<times> string) \<times> shape list) list" where
  "public_answers = [
     ((''GET'', ''/auth/:provider''), [Located [], Refused 400, Refused 500, Refused 501]),
     ((''GET'', ''/auth/:provider/callback''), [Located ''/?'', Refused 400, Refused 401]),
     ((''POST'', ''/auth/device''), [Typed 200 device_type, Refused 400, Refused 500, Refused 501]),
     ((''POST'', ''/auth/device/token''), [Typed 200 token_type,
        Typed 202 (error_type [''authorization_pending'', ''slow_down'']),
        Typed 400 (error_type [''access_denied'', ''expired_token'', ''invalid_grant'', ''email_not_verified'']),
        Typed 409 conflict_type, Refused 400, Refused 401, Refused 501]),
     ((''POST'', ''/auth/token/pat''), [Typed 200 token_type, Refused 400, Refused 401]),
     ((''POST'', ''/auth/refresh''), [Typed 200 token_type, Refused 400, Refused 401, Refused 500])]"

definition protected_answers :: "((string \<times> string) \<times> shape list) list" where
  "protected_answers = [
     ((''POST'', ''/api/v1/pats''), [Typed 201 token_type, Refused 400, Refused 403, Refused 404, Refused 500]),
     ((''GET'', ''/api/v1/pats''), [Typed 200 pats_type, Refused 403, Refused 500]),
     ((''DELETE'', ''/api/v1/pats/:id''), [Empty 204, Refused 400, Refused 403, Refused 404, Refused 500]),
     ((''GET'', ''/api/v1/users/me''), [Typed 200 me_type]),
     ((''PUT'', ''/api/v1/users/:id/role''), [Typed 200 role_type, Refused 400, Refused 403, Refused 500]),
     ((''GET'', ''/api/v1/users''), [Typed 200 page_type, Refused 400, Refused 500]),
     ((''GET'', ''/api/v1/users/me/profile''), [Typed 200 profile_type, Refused 400, Refused 404, Refused 500]),
     ((''PATCH'', ''/api/v1/users/me/profile''),
        [Typed 200 profile_type, Refused 400, Refused 404, Refused 409, Refused 415, Refused 500]),
     ((''GET'', ''/api/v1/users/:id/profile''), [Typed 200 profile_type, Refused 400, Refused 404, Refused 500])]"

definition documented_answers :: "(string \<times> string) \<rightharpoonup> shape list" where
  "documented_answers = map_of (public_answers @ map (\<lambda>e. (fst e, Refused 401 # snd e)) protected_answers)"

section \<open>The handlers have their documented answers\<close>

text \<open>What a handler answers with, on a database that meets its constraints.\<close>

definition answers_with :: "handler \<Rightarrow> shape list \<Rightarrow> bool" where
  "answers_with h ss \<longleftrightarrow> (\<forall>c r w. world_inv w \<longrightarrow> list_ex (has_shape (fst (h c r w))) ss)"

lemma answers_withI: "(\<And>c r w. world_inv w \<Longrightarrow> list_ex (has_shape (fst (h c r w))) ss) \<Longrightarrow> answers_with h ss"
  by (simp add: answers_with_def)

lemma fst_outcome:
  "fst (case x of (Inl e, w) \<Rightarrow> (f e, w) | (Inr y, w) \<Rightarrow> (g y, w)) = (case fst x of Inl e \<Rightarrow> f e | Inr y \<Rightarrow> g y)"
  by (cases x; cases "fst x") auto

lemma provider_error_shape: "has_shape (provider_error e) (Refused 500) \<or> has_shape (provider_error e) (Refused 501)"
  by (simp add: provider_error_def)

lemma token_conforms: "conforms token_type (token_json t)"
  by (simp add: token_type_def token_json_def required_def)

lemma redirect_answers: "answers_with (redirect_to_provider M) [Located [], Refused 400, Refused 500, Refused 501]"
  using provider_error_shape
  by (intro answers_withI) (auto simp: redirect_to_provider_def has_prefix_def split: sum.split)

lemma callback_answers: "answers_with (oauth_callback M) [Located ''/?'', Refused 400, Refused 401]"
proof -
  have "list_ex (has_shape (callback_error e)) [Located ''/?'', Refused 400, Refused 401]" for e
    by (simp add: callback_error_def has_prefix_def split: option.split)
  then show ?thesis
    by (intro answers_withI) (simp add: oauth_callback_def has_prefix_def split: sum.split prod.split)
qed

lemma device_auth_answers: "answers_with (device_auth B M) [Typed 200 device_type, Refused 400, Refused 500, Refused 501]"
proof -
  have "conforms device_type (device_auth_json d)" for d
    by (simp add: device_type_def device_auth_json_def required_def int_literal_dec)
  then show ?thesis using provider_error_shape
    by (intro answers_withI) (simp add: device_auth_def split: sum.split prod.split)
qed

lemma device_token_answers:
  "answers_with (device_token B M) [Typed 200 token_type,
     Typed 202 (error_type [''authorization_pending'', ''slow_down'']),
     Typed 400 (error_type [''access_denied'', ''expired_token'', ''invalid_grant'', ''email_not_verified'']),
     Typed 409 conflict_type, Refused 400, Refused 401, Refused 501]"
proof -
  have "list_ex (has_shape (device_token_error e)) [Typed 200 token_type,
     Typed 202 (error_type [''authorization_pending'', ''slow_down'']),
     Typed 400 (error_type [''access_denied'', ''expired_token'', ''invalid_grant'', ''email_not_verified'']),
     Typed 409 conflict_type, Refused 400, Refused 401, Refused 501]" for e
    by (simp add: device_token_error_def device_token_status_def callback_error_code_def provider_error_def error_type_def
        conflict_type_def required_def omittable_def split: option.split)
  then show ?thesis using token_conforms
    by (intro answers_withI) (simp add: device_token_def split: sum.split prod.split)
qed

lemma exchange_answers:
  "answers_with (exchange_pat B M) [Typed 200 token_type, Refused 400, Refused 401]"
  "answers_with (refresh_jwt B M) [Typed 200 token_type, Refused 400, Refused 401, Refused 500]"
  using token_conforms
  by (intro answers_withI; simp add: exchange_pat_def refresh_jwt_def split: sum.split prod.split)+

text \<open>Behind the middleware the claims are set.\<close>

definition answers_signed :: "handler \<Rightarrow> shape list \<Rightarrow> bool" where
  "answers_signed h ss \<longleftrightarrow> (\<forall>c r w. world_inv w \<longrightarrow> cx_sub c \<noteq> None \<longrightarrow> cx_email c \<noteq> None \<longrightarrow> cx_role c \<noteq> None \<longrightarrow>
     list_ex (has_shape (fst (h c r w))) ss)"

lemma answers_signedI: "(\<And>c r w. world_inv w \<Longrightarrow> list_ex (has_shape (fst (h c r w))) ss) \<Longrightarrow> answers_signed h ss"
  by (simp add: answers_signed_def)

lemma middleware_answers:
  assumes "answers_signed h ss"
  shows "answers_with (jwt_middleware (new_jwt_manager L E J a) h) (Refused 401 # ss)"
proof (rule answers_withI)
  fix c r w
  assume w: "world_inv w"
  show "list_ex (has_shape (fst (jwt_middleware (new_jwt_manager L E J a) h c r w))) (Refused 401 # ss)"
  proof (cases rule: jwt_middleware_cases [of "new_jwt_manager L E J a" h c r w])
    case (Refused w1)
    then show ?thesis by (simp add: unauthorized_response_def)
  next
    case (Passed t cl w1)
    then have "world_inv w1" using jm_keeps_inv(2) [OF w, of L E J a t] by simp
    then show ?thesis using Passed assms by (simp add: answers_signed_def)
  qed
qed

lemma pats_answers:
  "answers_signed (create_pat_handler L B M) [Typed 201 token_type, Refused 400, Refused 403, Refused 404, Refused 500]"
  "answers_signed (list_pats_handler L B M) [Typed 200 pats_type, Refused 403, Refused 500]"
  "answers_signed (revoke_pat_handler L M) [Empty 204, Refused 400, Refused 403, Refused 404, Refused 500]"
proof -
  have "conform_all (SObject [required ''id'' SText, required ''user_id'' SText,
     required ''created_at'' SText, required ''expires_at'' (SNullable SText)]) (map (pat_json L B) ps)" for ps
    by (induction ps) (simp_all add: pat_json_def required_def opt_json_def split: option.split)
  then have "conforms pats_type (JArr (map (pat_json L B) ps))" for ps by (simp add: pats_type_def)
  then show "answers_signed (list_pats_handler L B M) [Typed 200 pats_type, Refused 403, Refused 500]"
    by (intro answers_signedI) (simp add: list_pats_handler_def admin_required_def split: sum.split prod.split)
  show "answers_signed (create_pat_handler L B M) [Typed 201 token_type, Refused 400, Refused 403, Refused 404, Refused 500]"
    using token_conforms
    by (intro answers_signedI) (simp add: create_pat_handler_def admin_required_def split: sum.split prod.split option.split)
  show "answers_signed (revoke_pat_handler L M) [Empty 204, Refused 400, Refused 403, Refused 404, Refused 500]"
    by (intro answers_signedI) (simp add: revoke_pat_handler_def admin_required_def split: sum.split prod.split option.split)
qed

lemma users_answers:
  "answers_signed me_handler [Typed 200 me_type]"
  "answers_signed (update_role_handler L B M) [Typed 200 role_type, Refused 400, Refused 403, Refused 500]"
proof -
  show "answers_signed me_handler [Typed 200 me_type]"
    by (auto simp: answers_signed_def me_handler_def me_type_def required_def)
  have "conforms role_type (JObj [(''id'', JStr i), (''role'', JStr r)])" if "r = RoleAdmin \<or> r = RoleUser" for i r
    using that by (auto simp: role_type_def required_def user_consts)
  then show "answers_signed (update_role_handler L B M) [Typed 200 role_type, Refused 400, Refused 403, Refused 500]"
    by (intro answers_signedI) (simp add: update_role_handler_def admin_required_def split: sum.split prod.split option.split)
qed

text \<open>A profile that is stored in a database within its constraints.\<close>

definition profile_enums :: "profile \<Rightarrow> bool" where
  "profile_enums q \<longleftrightarrow> gender_check (pf_gender q) \<and> category_check (pf_category q)"

lemma enums_conform:
  "gender_check g \<Longrightarrow> conforms (SNullable (SOneOf genders)) (opt_json g)"
  "category_check g' \<Longrightarrow> conforms (SNullable (SOneOf categories)) (opt_json g')"
  "conforms (SNullable SText) (opt_json v)"
  by (auto simp: gender_check_def category_check_def genders_def categories_def opt_json_def split: option.splits)

lemma profile_conforms:
  assumes "profile_enums q"
  shows "conforms profile_type (profile_json (to_profile_response L q))"
proof -
  have p: "conforms (SObject [omittable ''court_side'' SText, omittable ''handedness'' SText])
      (JObj (omit_empty ''court_side'' a @ omit_empty ''handedness'' b))" for a b
    by (cases a; cases b) (simp_all add: omit_empty_def omittable_def)
  show ?thesis
    using assms p enums_conform
    unfolding profile_type_def profile_json_def to_profile_response_def profile_enums_def required_def
    by (simp del: conforms.simps(3-6) add: conforms.simps(6) [of "[_, _, _, _, _, _, _, _, _, _]"])
qed

lemma stored_enums:
  assumes "world_inv w" and "stored_profile w i = Some q"
  shows "profile_enums q"
proof -
  obtain r where "profile_ok r" "q = profile_of r" using stored_profile_row [OF assms] by blast
  then show ?thesis by (simp add: profile_enums_def profile_ok_def profile_of_def unmarshal_preferences_def)
qed

lemma found_profile:
  assumes "pm_get_by_user_id (pg_profile_repository L E) i w = (Inr q, w')" and "world_inv w"
  shows "profile_enums q"
proof -
  have "pg_find_profile E i w = (Inr q, w')"
    using assms(1) by (simp add: pm_get_by_user_id_def map_err_ok)
  then have "stored_profile w' i = Some q" by (rule pg_find_profile_ok)
  moreover have "world_inv w'" using pg_pm.pm_keeps(2) [OF assms(2), of L E i] assms(1) by simp
  ultimately show ?thesis using stored_enums by blast
qed

lemma updated_profile:
  assumes "pm_update L (pg_profile_repository L E) i p w = (Inr q, w')" and "world_inv w"
  shows "profile_enums q"
  using stored_enums pg_pm.pm_update_returns_stored [OF assms(1)] pg_pm.pm_update_keeps [OF assms(2), of L E i p] assms(1)
  by simp

lemma profile_result_shape:
  assumes "world_inv w"
  shows "list_ex (has_shape (fst (profile_result L (pm_get_by_user_id (pg_profile_repository L E) i w))))
    [Typed 200 profile_type, Refused 400, Refused 404, Refused 500]"
proof (cases "pm_get_by_user_id (pg_profile_repository L E) i w")
  case (Pair x w')
  show ?thesis
  proof (cases x)
    case (Inl e)
    with Pair show ?thesis by (simp add: profile_result_def)
  next
    case (Inr q)
    with Pair have "conforms profile_type (profile_json (to_profile_response L q))"
      using found_profile [OF _ assms] profile_conforms by blast
    with Pair Inr show ?thesis by (simp add: profile_result_def)
  qed
qed

lemma sub_user_id_error: "sub_user_id L c = Inl e \<Longrightarrow> has_shape e (Refused 400)"
  by (auto simp: sub_user_id_def split: option.splits if_splits)

lemma profile_answers:
  fixes L E
  defines "M \<equiv> new_profile_manager L (pg_profile_repository L E)"
  shows "answers_signed (get_my_profile L M) [Typed 200 profile_type, Refused 400, Refused 404, Refused 500]"
    and "answers_signed (get_user_profile L M) [Typed 200 profile_type, Refused 400, Refused 404, Refused 500]"
  unfolding M_def new_profile_manager_simps
  using profile_result_shape sub_user_id_error
  by (intro answers_signedI; simp add: get_my_profile_def get_user_profile_def split: sum.split option.split)+

lemma update_answers:
  "answers_signed (update_my_profile L (new_profile_manager L (pg_profile_repository L E)))
     [Typed 200 profile_type, Refused 400, Refused 404, Refused 409, Refused 415, Refused 500]"
proof (rule answers_signedI)
  fix c r w
  let ?F = "pg_profile_repository L E" and ?ss = "[Typed 200 profile_type, Refused 400, Refused 404, Refused 409, Refused 415, Refused 500]"
  assume w: "world_inv w"
  have decode: "list_ex (has_shape e) ?ss" if "decode_merge_patch L r = Inl e" for e
    using that by (auto simp: decode_merge_patch_def split: prod.splits option.splits json.splits if_splits)
  have error: "list_ex (has_shape (update_error L e)) ?ss" for e
    by (simp add: update_error_def)
  have ok: "conforms profile_type (profile_json (to_profile_response L q))" if "pm_update L ?F i p w = (Inr q, w')" for i p q w'
    using updated_profile [OF that w] profile_conforms by blast
  show "list_ex (has_shape (fst (update_my_profile L (new_profile_manager L ?F) c r w))) ?ss"
    using decode error ok sub_user_id_error [of L c]
    by (auto simp: update_my_profile_def split: sum.split prod.split)
qed

text \<open>A page of the list.\<close>

definition item_enums :: "profile_list_item \<Rightarrow> bool" where
  "item_enums i \<longleftrightarrow> gender_check (li_gender i) \<and> category_check (li_category i)"

lemma listed_rows:
  assumes "world_inv w" and "db_roundtrip E (sql_list_profiles L n m) w = (Inr rows, w')"
  shows "\<forall>j \<in> set rows. profile_ok (snd j)"
proof -
  obtain d now new where d: "d = exec_stmts (others_at E (w_tick w)) (w_db w)"
    "sql_list_profiles L n m now new d = (Inr rows, w_db w')"
    using assms(2) by (rule db_roundtrip_ok)
  have "db_inv d" using assms(1) exec_stmts_inv d(1) by (simp add: world_inv_def)
  then have ok: "\<forall>p \<in> set (db_profiles d). profile_ok p" by (simp add: db_inv_def profiles_inv_def)
  have "set rows \<subseteq> set (join_profiles d)"
    using d(2) by (auto simp: sql_list_profiles_def sorted_join_def split: if_splits dest!: in_set_takeD in_set_dropD)
  then show ?thesis using ok by (auto simp: join_profiles_def)
qed

lemma listed_items:
  assumes "world_inv w" and "pm_list (pg_profile_repository L E) lp w = (Inr (items, n), w')"
  shows "\<forall>i \<in> set items. item_enums i"
proof -
  obtain w1 rows where "db_roundtrip E sql_count_profiles w = (Inr n, w1)"
    and rows: "db_roundtrip E (sql_list_profiles L (sint (lp_page_size lp)) (sint (list_offset lp))) w1 = (Inr rows, w')"
      "items = map item_of rows"
    using assms(2) by (auto simp: pm_list_def pg_list_profiles_def Let_def outcome_iffs)
  moreover have "world_inv (snd (db_roundtrip E sql_count_profiles w))"
    by (rule db_roundtrip_inv [OF assms(1)]) (simp add: sql_count_profiles_def)
  ultimately have "world_inv w1" by simp
  from listed_rows [OF this rows(1)] show ?thesis
    by (auto simp: rows(2) item_enums_def item_of_def Let_def profile_ok_def)
qed

lemma omitted_conform:
  "conform_members fs rest \<Longrightarrow> (\<And>s. v = Some s \<Longrightarrow> conforms t (JStr s)) \<Longrightarrow> k \<notin> fst ` set rest \<Longrightarrow>
     conform_members (omittable k t # fs) (omit_empty k v @ rest)"
  by (cases v; cases rest) (auto simp: omit_empty_def omittable_def)

lemma item_conforms:
  assumes "item_enums i"
  shows "conforms item_type (list_item_json (to_list_item_response L i chosen))"
proof -
  let ?r = "to_list_item_response L i chosen"
  have g: "ri_gender ?r = Some s \<Longrightarrow> s \<in> set genders" "ri_category ?r = Some s \<Longrightarrow> s \<in> set categories" for s
    using assms
    by (auto simp: to_list_item_response_def Let_def item_enums_def gender_check_def category_check_def genders_def
        categories_def split: if_splits option.splits)
  have last: "conform_members [omittable ''category'' (SOneOf categories)] (omit_empty ''category'' (ri_category ?r))"
    using omitted_conform [of "[]" "[]" "ri_category ?r" "SOneOf categories" "''category''"] g(2) by simp
  show ?thesis
    unfolding item_type_def list_item_json_def conforms.simps json.case
    by (intro omitted_conform last) (simp_all add: set_omit_empty image_Un g)
qed

lemma items_conform: "\<forall>i \<in> set items. item_enums i \<Longrightarrow>
    conform_all item_type (map (\<lambda>i. list_item_json (to_list_item_response L i chosen)) items)"
  by (induction items) (simp_all add: item_conforms del: conforms.simps)

lemma list_answers:
  "answers_signed (list_users L (new_profile_manager L (pg_profile_repository L E))) [Typed 200 page_type, Refused 400, Refused 500]"
proof (rule answers_signedI)
  fix c r w
  let ?F = "pg_profile_repository L E" and ?ss = "[Typed 200 page_type, Refused 400, Refused 500]"
  assume w: "world_inv w"
  have p: "has_shape e (Refused 400)" if "page_param r = Inl e \<or> page_size_param r = Inl e" for e
    using that by (auto simp: page_param_def page_size_param_def split: if_splits option.splits)
  have "has_shape e (Refused 400)" if "check_fields L acc fs = Inl e" for acc fs e
    using that by (induction fs arbitrary: acc) (auto split: if_splits)
  then have f: "has_shape e (Refused 400)" if "fields_param L r = Inl e" for e
    using that by (auto simp: fields_param_def split: if_splits)
  have ok: "conforms page_type (list_users_json (map (\<lambda>i. list_item_json (to_list_item_response L i chosen)) items) n a b)"
    if "pm_list ?F lp w = (Inr (items, n), w')" for lp items n w' chosen a b
    using items_conform [OF listed_items [OF w that]]
    by (simp add: page_type_def list_users_json_def required_def int_literal_dec)
  show "list_ex (has_shape (fst (list_users L (new_profile_manager L ?F) c r w))) ?ss"
    using p f ok by (auto simp: list_users_def split: sum.split prod.split)
qed

section \<open>The server\<close>

lemma route_answers:
  assumes "rt \<in> set (router L B M (new_jwt_manager L E J a) (new_profile_manager L (pg_profile_repository L E)))"
  shows "\<exists>ss. documented_answers (method_path rt) = Some ss \<and> answers_with (rt_handler rt) ss"
proof -
  have "list_all (\<lambda>rt. \<exists>ss. documented_answers (method_path rt) = Some ss \<and> answers_with (rt_handler rt) ss)
      (router L B M (new_jwt_manager L E J a) (new_profile_manager L (pg_profile_repository L E)))"
    unfolding router_def mount_public_def mount_protected_def auth_routes_def pat_routes_def user_routes_def
      profile_routes_def mk_route_def method_path_def documented_answers_def public_answers_def protected_answers_def
    by (simp add: redirect_answers callback_answers device_auth_answers device_token_answers exchange_answers
        pats_answers users_answers profile_answers update_answers list_answers middleware_answers
        del: new_jwt_manager_simps new_profile_manager_simps)
  with assms show ?thesis by (simp add: list_all_iff)
qed

end
