(* ===== verification/FakeStore.thy ===== *)
theory FakeStore
  imports World
begin

text \<open>
  The store of the local OAuth provider (\<open>tools/oauthfake/store.go\<close>, \<open>identity.go\<close>): identities,
  one-time authorization codes, device requests and bearer tokens, as a state machine with one
  transition per operation. The clock and the random bytes are those of an environment \<open>env\<close>,
  read at the number of the contact. An operation yields \<open>Inl\<close> a message when the process panics.
\<close>

section \<open>Identities (identity.go)\<close>

record identity =
  fi_login :: string
  fi_email :: string
  fi_name :: string
  fi_email_verified :: bool

definition empty_identity :: identity where
  "empty_identity = \<lparr>fi_login = [], fi_email = [], fi_name = [], fi_email_verified = False\<rparr>"

definition new_identity :: "string \<Rightarrow> string \<Rightarrow> string \<Rightarrow> identity \<times> bool" where
  "new_identity login0 email0 name0 =
     (let login = trim_space login0 in
      if login = [] then (empty_identity, False)
      else (let email1 = trim_space email0; email = (if email1 = [] then login @ ''@example.com'' else email1);
                name1 = trim_space name0; name = (if name1 = [] then login else name1)
            in (\<lparr>fi_login = login, fi_email = email, fi_name = name, fi_email_verified = True\<rparr>, True)))"

definition with_email_verified :: "identity \<Rightarrow> string \<Rightarrow> identity" where
  "with_email_verified i param = i\<lparr>fi_email_verified := (param \<noteq> ''false'')\<rparr>"

definition google_sub :: "identity \<Rightarrow> string" where
  "google_sub i = ''fake-google-'' @ fi_login i"

text \<open>FNV-1a on 64 bits, masked to 53 bits.\<close>

definition fnv_step :: "64 word \<Rightarrow> char \<Rightarrow> 64 word" where
  "fnv_step h c = (xor h (of_nat (code c))) * 1099511628211"

definition fnv64a :: "string \<Rightarrow> 64 word" where
  "fnv64a s = foldl fnv_step 14695981039346656037 s"

definition github_id :: "identity \<Rightarrow> int" where
  "github_id i = sint (and (fnv64a (fi_login i)) (mask 53))"

section \<open>The state (store.go)\<close>

datatype device_status = DevicePending | DeviceApproved | DeviceDenied

record auth_code =
  ac_provider :: string
  ac_redirect_uri :: string
  ac_identity :: identity
  ac_expires_at :: instant

record device_request =
  dv_provider :: string
  dv_user_code :: string
  dv_status :: device_status
  dv_identity :: identity
  dv_expires_at :: instant
  dv_interval :: int
  dv_last_poll :: instant
  dv_redeemed :: bool

record access_token =
  at_provider :: string
  at_identity :: identity

record store =
  fs_code_ttl :: int
  fs_interval :: int
  fs_codes :: "string \<rightharpoonup> auth_code"
  fs_devices :: "string \<rightharpoonup> device_request"
  fs_user_codes :: "string \<rightharpoonup> string"
  fs_tokens :: "string \<rightharpoonup> access_token"
  fs_tick :: nat

datatype store_error =
    InvalidGrant | Pending | SlowDown | AccessDenied | ExpiredToken
  | UnknownCode | NotPending | InvalidBearer

fun store_error_text :: "store_error \<Rightarrow> string" where
  "store_error_text InvalidGrant = ''invalid_grant''"
| "store_error_text Pending = ''authorization_pending''"
| "store_error_text SlowDown = ''slow_down''"
| "store_error_text AccessDenied = ''access_denied''"
| "store_error_text ExpiredToken = ''expired_token''"
| "store_error_text UnknownCode = ''unknown user code''"
| "store_error_text NotPending = ''device request is not pending''"
| "store_error_text InvalidBearer = ''invalid access token''"

definition new_store :: "int \<Rightarrow> int \<Rightarrow> store" where
  "new_store ttl interval = \<lparr>fs_code_ttl = ttl, fs_interval = interval, fs_codes = Map.empty,
     fs_devices = Map.empty, fs_user_codes = Map.empty, fs_tokens = Map.empty, fs_tick = 0\<rparr>"

section \<open>Contacts with the environment\<close>

definition tick :: "store \<Rightarrow> store" where
  "tick s = s\<lparr>fs_tick := Suc (fs_tick s)\<rparr>"

definition now_at :: "env \<Rightarrow> store \<Rightarrow> instant" where
  "now_at E s = clock_at E (fs_tick s)"

definition draw :: "env \<Rightarrow> nat \<Rightarrow> store \<Rightarrow> string + (byte list \<times> store)" where
  "draw E n s =
     (if rand_fails_at E (fs_tick s) then Inl ''rand''
      else Inr (map (rand_at E (fs_tick s)) [0..<n], tick s))"

definition random_hex :: "env \<Rightarrow> nat \<Rightarrow> store \<Rightarrow> string + (string \<times> store)" where
  "random_hex E n s =
     (case draw E n s of Inl m \<Rightarrow> Inl m | Inr (b, s1) \<Rightarrow> Inr (hex_encode b, s1))"

lemma tick_simps [simp]:
  "fs_codes (tick s) = fs_codes s" "fs_devices (tick s) = fs_devices s"
  "fs_user_codes (tick s) = fs_user_codes s" "fs_tokens (tick s) = fs_tokens s"
  "fs_interval (tick s) = fs_interval s" "fs_code_ttl (tick s) = fs_code_ttl s"
  "fs_tick (tick s) = Suc (fs_tick s)"
  by (simp_all add: tick_def)

lemma draw_ok:
  "draw E n s = Inr (b, s1) \<longleftrightarrow> \<not> rand_fails_at E (fs_tick s) \<and>
     b = map (rand_at E (fs_tick s)) [0..<n] \<and> s1 = tick s"
  by (auto simp: draw_def)

lemma random_hex_ok:
  "random_hex E n s = Inr (x, s1) \<longleftrightarrow> \<not> rand_fails_at E (fs_tick s) \<and>
     x = hex_encode (map (rand_at E (fs_tick s)) [0..<n]) \<and> s1 = tick s"
  by (auto simp: random_hex_def draw_def)

section \<open>User codes\<close>

definition user_code_alphabet :: string where
  "user_code_alphabet = ''BCDFGHJKLMNPQRSTVWXZ''"

definition code_letter :: "byte \<Rightarrow> char" where
  "code_letter v = user_code_alphabet ! (unat v mod length user_code_alphabet)"

definition user_code_of :: "byte list \<Rightarrow> string" where
  "user_code_of b = map code_letter (take 4 b) @ ''-'' @ map code_letter (drop 4 b)"

text \<open>The loop draws until the code is free; it need not end, so its value is an option.\<close>

partial_function (option) new_user_code :: "env \<Rightarrow> store \<Rightarrow> (string + (string \<times> store)) option" where
  "new_user_code E s =
     (case draw E 8 s of
        Inl m \<Rightarrow> Some (Inl m)
      | Inr (b, s1) \<Rightarrow>
          if fs_user_codes s1 (user_code_of b) = None then Some (Inr (user_code_of b, s1))
          else new_user_code E s1)"

definition is_letter :: "char \<Rightarrow> bool" where
  "is_letter c \<longleftrightarrow> is_lower c \<or> is_upper c"

definition normalize_user_code :: "string \<Rightarrow> string" where
  "normalize_user_code code_text =
     (let b = map upper_char (filter is_letter code_text)
      in if length b = 8 then take 4 b @ ''-'' @ drop 4 b else b)"

section \<open>Operations\<close>

definition issue_code :: "env \<Rightarrow> string \<Rightarrow> string \<Rightarrow> identity \<Rightarrow> store \<Rightarrow> string + (string \<times> store)" where
  "issue_code E prov uri i s =
     (case random_hex E 16 s of
        Inl m \<Rightarrow> Inl m
      | Inr (c, s1) \<Rightarrow>
          Inr (c, (tick s1)\<lparr>fs_codes := (fs_codes s1)(c \<mapsto> \<lparr>ac_provider = prov, ac_redirect_uri = uri,
                    ac_identity = i, ac_expires_at = now_at E s1 + fs_code_ttl s1\<rparr>)\<rparr>))"

definition issue_token :: "env \<Rightarrow> string \<Rightarrow> identity \<Rightarrow> store \<Rightarrow> string + (string \<times> store)" where
  "issue_token E prov i s =
     (case random_hex E 24 s of
        Inl m \<Rightarrow> Inl m
      | Inr (t, s1) \<Rightarrow>
          Inr (t, s1\<lparr>fs_tokens := (fs_tokens s1)(t \<mapsto> \<lparr>at_provider = prov, at_identity = i\<rparr>)\<rparr>))"

type_synonym 'a answer = "string + ((store_error + 'a) \<times> store)"

definition answer_token :: "string + (string \<times> store) \<Rightarrow> string answer" where
  "answer_token r = (case r of Inl m \<Rightarrow> Inl m | Inr (t, s) \<Rightarrow> Inr (Inr t, s))"

definition redeem_code :: "env \<Rightarrow> string \<Rightarrow> string \<Rightarrow> string \<Rightarrow> store \<Rightarrow> string answer" where
  "redeem_code E prov code_text uri s =
     (case fs_codes s code_text of
        None \<Rightarrow> Inr (Inl InvalidGrant, s)
      | Some c \<Rightarrow>
          if ac_provider c \<noteq> prov then Inr (Inl InvalidGrant, s)
          else
            (let s1 = s\<lparr>fs_codes := (fs_codes s)(code_text := None)\<rparr>; now = now_at E s1; s2 = tick s1
             in if now > ac_expires_at c \<or> (uri \<noteq> [] \<and> uri \<noteq> ac_redirect_uri c)
                then Inr (Inl InvalidGrant, s2)
                else answer_token (issue_token E prov (ac_identity c) s2)))"

record device_start =
  ds_device_code :: string
  ds_user_code :: string
  ds_expires_in :: int
  ds_interval :: int

definition new_device :: "string \<Rightarrow> string \<Rightarrow> instant \<Rightarrow> int \<Rightarrow> device_request" where
  "new_device prov uc expires interval = \<lparr>dv_provider = prov, dv_user_code = uc,
     dv_status = DevicePending, dv_identity = empty_identity, dv_expires_at = expires,
     dv_interval = interval, dv_last_poll = zero_time, dv_redeemed = False\<rparr>"

definition start_device :: "env \<Rightarrow> string \<Rightarrow> store \<Rightarrow> (string + (device_start \<times> store)) option" where
  "start_device E prov s =
     (case random_hex E 20 s of
        Inl m \<Rightarrow> Some (Inl m)
      | Inr (dc, s1) \<Rightarrow>
          (case new_user_code E s1 of
             None \<Rightarrow> None
           | Some (Inl m) \<Rightarrow> Some (Inl m)
           | Some (Inr (uc, s2)) \<Rightarrow>
               Some (Inr (\<lparr>ds_device_code = dc, ds_user_code = uc, ds_expires_in = fs_code_ttl s2,
                          ds_interval = fs_interval s2\<rparr>,
                 (tick s2)\<lparr>fs_devices := (fs_devices s2)(dc \<mapsto>
                            new_device prov uc (now_at E s2 + fs_code_ttl s2) (fs_interval s2)),
                          fs_user_codes := (fs_user_codes s2)(uc \<mapsto> dc)\<rparr>))))"

definition resolve_device ::
  "env \<Rightarrow> string \<Rightarrow> string \<Rightarrow> bool \<Rightarrow> identity \<Rightarrow> store \<Rightarrow> unit answer" where
  "resolve_device E prov uc approve i s =
     (case fs_user_codes s (normalize_user_code uc) of
        None \<Rightarrow> Inr (Inl UnknownCode, s)
      | Some dc \<Rightarrow>
          (case fs_devices s dc of
             None \<Rightarrow> Inl ''nil pointer dereference''
           | Some d \<Rightarrow>
               if dv_provider d \<noteq> prov then Inr (Inl UnknownCode, s)
               else if dv_status d \<noteq> DevicePending then Inr (Inl NotPending, s)
               else if now_at E s > dv_expires_at d then Inr (Inl NotPending, tick s)
               else
                 (let d' = (if approve then d\<lparr>dv_status := DeviceApproved, dv_identity := i\<rparr>
                            else d\<lparr>dv_status := DeviceDenied\<rparr>)
                  in Inr (Inr (), (tick s)\<lparr>fs_devices := (fs_devices s)(dc \<mapsto> d')\<rparr>))))"

definition put_device :: "string \<Rightarrow> device_request \<Rightarrow> store \<Rightarrow> store" where
  "put_device dc d s = s\<lparr>fs_devices := (fs_devices s)(dc \<mapsto> d)\<rparr>"

definition five_seconds :: int where
  "five_seconds = 5 * second"

definition too_fast :: "device_request \<Rightarrow> instant \<Rightarrow> bool" where
  "too_fast d now \<longleftrightarrow> \<not> is_zero (dv_last_poll d) \<and> now - dv_last_poll d < dv_interval d"

definition poll_device :: "env \<Rightarrow> string \<Rightarrow> string \<Rightarrow> store \<Rightarrow> string answer" where
  "poll_device E prov dc s =
     (case fs_devices s dc of
        None \<Rightarrow> Inr (Inl InvalidGrant, s)
      | Some d \<Rightarrow>
          if dv_provider d \<noteq> prov \<or> dv_redeemed d then Inr (Inl InvalidGrant, s)
          else
            (let now = now_at E s; s1 = tick s in
             if now > dv_expires_at d then Inr (Inl ExpiredToken, s1)
             else
               (let fast = too_fast d now; d1 = d\<lparr>dv_last_poll := now\<rparr> in
                case dv_status d of
                  DeviceDenied \<Rightarrow> Inr (Inl AccessDenied, put_device dc d1 s1)
                | DeviceApproved \<Rightarrow>
                    answer_token (issue_token E prov (dv_identity d)
                      (put_device dc (d1\<lparr>dv_redeemed := True\<rparr>) s1))
                | DevicePending \<Rightarrow>
                    if fast then Inr (Inl SlowDown,
                      put_device dc (d1\<lparr>dv_interval := dv_interval d + five_seconds\<rparr>) s1)
                    else Inr (Inl Pending, put_device dc d1 s1))))"

definition lookup_token :: "string \<Rightarrow> string \<Rightarrow> store \<Rightarrow> store_error + identity" where
  "lookup_token prov t s =
     (case fs_tokens s t of
        None \<Rightarrow> Inl InvalidBearer
      | Some a \<Rightarrow> if at_provider a \<noteq> prov then Inl InvalidBearer else Inr (at_identity a))"

end
