(* ===== verification/GoNetUrl.thy ===== *)
theory GoNetUrl
  imports GoUrl GoMime
begin

text \<open>
  What the fake provider uses of \<open>net/url\<close> and \<open>net/http\<close> beyond \<open>GoUrl\<close>: \<open>url.Parse\<close> and
  \<open>URL.String\<close> for absolute URLs, the lenient \<open>URL.Query\<close>, \<open>Request.ParseForm\<close> and the escaping of
  \<open>http.Redirect\<close>. The check of a bracketed (IPv6) host is \<open>net/netip\<close>'s and stays a parameter.
\<close>

section \<open>Percent encoding by component\<close>

datatype url_part = HostPart | PathPart | UserPart | FragmentPart

definition should_escape :: "url_part \<Rightarrow> char \<Rightarrow> bool" where
  "should_escape m c \<longleftrightarrow>
     \<not> (is_lower c \<or> is_upper c \<or> is_digit c \<or>
        (m = HostPart \<and> (c \<in> set ''!$&()*+,;=:[]<>'' \<or> code c = 39 \<or> code c = 34)) \<or>
        c \<in> set ''-_.~'' \<or>
        (m = PathPart \<and> c \<in> set ''$&+,/:;=@'') \<or>
        (m = UserPart \<and> c \<in> set ''$&+,;='') \<or>
        (m = FragmentPart \<and> c \<in> set ''$&+,/:;=?@!()*''))"

definition url_escape :: "url_part \<Rightarrow> string \<Rightarrow> string" where
  "url_escape m s = concat (map (\<lambda>c.
     if should_escape m c then [CHR ''%'', upper_hex (code c div 16), upper_hex (code c mod 16)] else [c]) s)"

text \<open>
  In a host a percent sign may only introduce a byte above 127 (or \<open>%25\<close>), and an ASCII byte that
  would be escaped is an error.
\<close>

fun url_unescape :: "url_part \<Rightarrow> string \<Rightarrow> string option" where
  "url_unescape m [] = Some []"
| "url_unescape m (c # s) =
     (if c = CHR ''%'' then
        (case s of
           a # b # t \<Rightarrow>
             (case (hex_val a, hex_val b) of
                (Some x, Some y) \<Rightarrow>
                  if m = HostPart \<and> x < 8 \<and> \<not> (a = CHR ''2'' \<and> b = CHR ''5'') then None
                  else map_option ((#) (char_of (16 * x + y))) (url_unescape m t)
              | _ \<Rightarrow> None)
         | _ \<Rightarrow> None)
      else if m = HostPart \<and> is_ascii c \<and> should_escape m c then None
      else map_option ((#) c) (url_unescape m s))"

text \<open>The bytes that may stand unescaped in a given encoding (\<open>validEncoded\<close>).\<close>

definition valid_encoded :: "url_part \<Rightarrow> string \<Rightarrow> bool" where
  "valid_encoded m s \<longleftrightarrow> list_all (\<lambda>c. c \<in> set ''!$&()*+,;=:@[]%'' \<or> code c = 39 \<or> \<not> should_escape m c) s"

section \<open>Parsing and writing absolute URLs\<close>

record go_url =
  gu_scheme :: string
  gu_user :: "(string \<times> string option) option"
  gu_host :: string
  gu_path :: string
  gu_raw_path :: string
  gu_force_query :: bool
  gu_raw_query :: string
  gu_fragment :: string
  gu_raw_fragment :: string

definition get_scheme :: "string \<Rightarrow> (string \<times> string) option" where
  "get_scheme s =
     (let p = takeWhile (\<lambda>c. is_lower c \<or> is_upper c \<or> is_digit c \<or> c \<in> set ''+-.'') s;
          rest = drop (length p) s
      in if p \<noteq> [] \<and> (is_lower (hd p) \<or> is_upper (hd p)) \<and> has_prefix '':'' rest
         then Some (p, tl rest) else None)"

definition after_last :: "char \<Rightarrow> string \<Rightarrow> string" where
  "after_last c s = rev (takeWhile (\<lambda>x. x \<noteq> c) (rev s))"

definition parse_host :: "(string \<Rightarrow> string option) \<Rightarrow> string \<Rightarrow> string option" where
  "parse_host bracket h =
     (if CHR ''['' \<in> set h then bracket h
      else if CHR '':'' \<in> set h \<and> \<not> list_all is_digit (after_last (CHR '':'') h) then None
      else url_unescape HostPart h)"

definition valid_userinfo :: "string \<Rightarrow> bool" where
  "valid_userinfo s \<longleftrightarrow> list_all (\<lambda>c. is_lower c \<or> is_upper c \<or> is_digit c \<or>
     c \<in> set ''-._:~!$&()*+,;=%@'' \<or> code c = 39) s"

definition parse_userinfo :: "string \<Rightarrow> (string \<times> string option) option" where
  "parse_userinfo s =
     (if \<not> valid_userinfo s then None
      else if CHR '':'' \<notin> set s then map_option (\<lambda>u. (u, None)) (url_unescape UserPart s)
      else (case cut_at (CHR '':'') s of (u, p) \<Rightarrow>
        (case (url_unescape UserPart u, url_unescape UserPart p) of
           (Some u', Some p') \<Rightarrow> Some (u', Some p')
         | _ \<Rightarrow> None)))"

definition parse_authority ::
  "(string \<Rightarrow> string option) \<Rightarrow> string \<Rightarrow> ((string \<times> string option) option \<times> string) option" where
  "parse_authority bracket a =
     (let h = after_last (CHR ''@'') a in
      case parse_host bracket h of
        None \<Rightarrow> None
      | Some host \<Rightarrow>
          if CHR ''@'' \<notin> set a then Some (None, host)
          else (case parse_userinfo (take (length a - length h - 1) a) of
                  None \<Rightarrow> None
                | Some u \<Rightarrow> Some (Some u, host)))"

text \<open>The raw spelling is kept when it is not the canonical one.\<close>

definition raw_unless_canonical :: "url_part \<Rightarrow> string \<Rightarrow> string \<Rightarrow> string" where
  "raw_unless_canonical m raw decoded = (if url_escape m decoded = raw then [] else raw)"

text \<open>
  \<open>url.Parse\<close> on a text with a scheme and an authority. \<open>None\<close> stands for an error and for the URLs
  that have no scheme or no authority, all of which \<open>validRedirect\<close> refuses alike.
\<close>

definition split_query :: "string \<Rightarrow> bool \<times> string \<times> string" where
  "split_query s =
     (if s \<noteq> [] \<and> last s = CHR ''?'' \<and> CHR ''?'' \<notin> set (butlast s) then (True, butlast s, [])
      else (False, cut_at (CHR ''?'') s))"

definition parse_url :: "(string \<Rightarrow> string option) \<Rightarrow> string \<Rightarrow> go_url option" where
  "parse_url bracket raw =
     (case cut_at (CHR ''#'') raw of (u, frag) \<Rightarrow>
      if \<not> list_all (\<lambda>c. 32 \<le> code c \<and> code c \<noteq> 127) u then None
      else (case get_scheme u of
        None \<Rightarrow> None
      | Some (scheme, rest0) \<Rightarrow>
          (case split_query rest0 of (force, rest, query) \<Rightarrow>
           if \<not> has_prefix ''//'' rest then None
           else
             (let authority = takeWhile (\<lambda>c. c \<noteq> CHR ''/'') (drop 2 rest);
                  path = drop (length authority) (drop 2 rest)
              in case (parse_authority bracket authority, url_unescape PathPart path, url_unescape FragmentPart frag) of
                   (Some (user, host), Some p, Some f) \<Rightarrow>
                     Some \<lparr>gu_scheme = map lower_char scheme, gu_user = user, gu_host = host, gu_path = p,
                       gu_raw_path = raw_unless_canonical PathPart path p, gu_force_query = force,
                       gu_raw_query = query, gu_fragment = f,
                       gu_raw_fragment = raw_unless_canonical FragmentPart frag f\<rparr>
                 | _ \<Rightarrow> None))))"

definition escaped_part :: "url_part \<Rightarrow> string \<Rightarrow> string \<Rightarrow> string" where
  "escaped_part m raw decoded =
     (if raw \<noteq> [] \<and> valid_encoded m raw \<and> url_unescape m raw = Some decoded then raw else url_escape m decoded)"

definition userinfo_string :: "string \<times> string option \<Rightarrow> string" where
  "userinfo_string u = url_escape UserPart (fst u) @
     (case snd u of None \<Rightarrow> [] | Some p \<Rightarrow> CHR '':'' # url_escape UserPart p)"

text \<open>\<open>URL.String\<close> for a URL with a scheme and a host.\<close>

definition url_string :: "go_url \<Rightarrow> string" where
  "url_string u = gu_scheme u @ ''://'' @
     (case gu_user u of None \<Rightarrow> [] | Some i \<Rightarrow> userinfo_string i @ ''@'') @
     url_escape HostPart (gu_host u) @ escaped_part PathPart (gu_raw_path u) (gu_path u) @
     (if gu_force_query u \<or> gu_raw_query u \<noteq> [] then CHR ''?'' # gu_raw_query u else []) @
     (if gu_fragment u \<noteq> [] then CHR ''#'' # escaped_part FragmentPart (gu_raw_fragment u) (gu_fragment u) else [])"

section \<open>Queries and forms\<close>

text \<open>\<open>URL.Query\<close> and the values \<open>ParseQuery\<close> gives beside an error: the parts that decode.\<close>

fun good_parts :: "string list \<Rightarrow> (string \<times> string) list" where
  "good_parts [] = []"
| "good_parts (p # ps) =
     (case parse_pair p of Inr (Some kv) \<Rightarrow> kv # good_parts ps | _ \<Rightarrow> good_parts ps)"

definition query_values :: "string \<Rightarrow> (string \<times> string) list" where
  "query_values s = good_parts (split_on (CHR ''&'') s)"

definition hex_escape_non_ascii :: "string \<Rightarrow> string" where
  "hex_escape_non_ascii s = concat (map (\<lambda>c.
     if is_ascii c then [c] else [CHR ''%'', hex_char (code c div 16), hex_char (code c mod 16)]) s)"

lemma query_values_of_parsed: "parse_query s = Some vs \<Longrightarrow> query_values s = vs"
proof -
  have "parse_parts ps = Some vs \<Longrightarrow> good_parts ps = vs" for ps
    by (induction ps arbitrary: vs) (auto split: sum.splits option.splits)
  then show "parse_query s = Some vs \<Longrightarrow> query_values s = vs"
    by (simp add: parse_query_def query_values_def)
qed

lemma query_values_encode:
  "query_values (encode_values vs) = sort_key (\<lambda>kv. map code (fst kv)) vs"
  by (rule query_values_of_parsed) (rule parse_encode)

text \<open>Of several values of one key the stable sort keeps the first one first.\<close>

lemma values_get_filter: "values_get vs k = values_get (filter (\<lambda>kv. fst kv = k) vs) k"
proof -
  have "map_of vs k = map_of (filter (\<lambda>kv. fst kv = k) vs) k" by (induction vs) auto
  then show ?thesis by (simp add: values_get_def)
qed

lemma values_get_sorted: "values_get (sort_key (\<lambda>kv. map code (fst kv)) vs) k = values_get vs k"
proof -
  have inj: "map code a = map code b \<longleftrightarrow> a = b" for a b :: string
    by (rule inj_map_eq_map) (auto simp: inj_def code_def)
  have "filter (\<lambda>kv. fst kv = k) (sort_key (\<lambda>kv. map code (fst kv)) vs) = filter (\<lambda>kv. fst kv = k) vs"
    using sort_key_stable [of "\<lambda>kv. map code (fst kv)" "map code k" vs] by (simp add: inj eq_commute)
  then show ?thesis by (metis values_get_filter)
qed

lemma values_get_encoded: "values_get (query_values (encode_values vs)) k = values_get vs k"
  by (simp add: query_values_encode values_get_sorted)

end
