(* ===== verification/FakeServer.thy ===== *)
theory FakeServer
  imports FakeStore GoNetUrl
begin

text \<open>
  The HTTP server of the local OAuth provider (\<open>tools/oauthfake/server.go\<close>): the redirect flow, the
  token endpoint, the device flow and the user documents over the store. A request carries the path
  as \<open>net/http\<close> splits it; a response is what the handler writes (a page is the name of its template
  with the data, the HTML itself is not modelled). The body is \<open>None\<close> when reading it fails.
\<close>

section \<open>Requests and responses\<close>

record fake_request =
  fq_method :: string
  fq_path :: "string list"
  fq_query :: string
  fq_content_type :: string
  fq_authorization :: string
  fq_body :: "string option"

datatype fake_response =
    FakeError nat string
  | FakeRedirect string
  | FakeJSON nat json
  | FakeNoContent
  | FakePage nat string "(string \<times> string) list"

text \<open>
  The outcome of a handler: \<open>Inl\<close> a message when it panics (or the process ends because the random
  source fails); \<open>None\<close> when it does not return.
\<close>

type_synonym fake_outcome = "(string + (fake_response \<times> store)) option"

type_synonym fake_handler = "fake_request \<Rightarrow> string \<Rightarrow> store \<Rightarrow> fake_outcome"

record fake_server =
  sv_libs :: libs
  sv_bracket_host :: "string \<Rightarrow> string option"
  sv_base_url :: string

definition providerGoogle :: string where
  "providerGoogle = ''google''"

definition providerGitHub :: string where
  "providerGitHub = ''github''"

definition grantAuthorizationCode :: string where
  "grantAuthorizationCode = ''authorization_code''"

definition grantDeviceCode :: string where
  "grantDeviceCode = ''urn:ietf:params:oauth:grant-type:device_code''"

definition answers :: "fake_response \<Rightarrow> store \<Rightarrow> fake_outcome" where
  "answers r s = Some (Inr (r, s))"

definition new_fake_server :: "libs \<Rightarrow> (string \<Rightarrow> string option) \<Rightarrow> string \<Rightarrow> fake_server" where
  "new_fake_server L bracket base = \<lparr>sv_libs = L, sv_bracket_host = bracket,
     sv_base_url = trim_right_char (CHR ''/'') base\<rparr>"

section \<open>Forms\<close>

text \<open>
  \<open>Request.ParseForm\<close> on a POST: the values of the body, \<open>None\<close> on an error. The query string is
  parsed too and its errors count, but its values do not reach \<open>PostForm\<close>.
\<close>

definition max_form_size :: nat where
  "max_form_size = 10 * 2 ^ 20"

definition post_form :: "libs \<Rightarrow> fake_request \<Rightarrow> (string \<times> string) list option" where
  "post_form L r =
     (let ct = (if fq_content_type r = [] then ''application/octet-stream'' else fq_content_type r)
      in case parse_media_type L ct of (mediatype, err) \<Rightarrow>
         if err \<noteq> None then None
         else if mediatype \<noteq> ''application/x-www-form-urlencoded'' then Some []
         else (case fq_body r of
                 None \<Rightarrow> None
               | Some b \<Rightarrow> if length b > max_form_size then None else parse_query b))"

definition parse_form :: "libs \<Rightarrow> fake_request \<Rightarrow> (string \<times> string) list option" where
  "parse_form L r = (if parse_query (fq_query r) = None then None else post_form L r)"

section \<open>Helpers\<close>

definition valid_redirect :: "fake_server \<Rightarrow> string \<Rightarrow> go_url option" where
  "valid_redirect sv raw =
     (case parse_url (sv_bracket_host sv) raw of
        None \<Rightarrow> None
      | Some u \<Rightarrow>
          if (gu_scheme u \<noteq> ''http'' \<and> gu_scheme u \<noteq> ''https'') \<or> gu_host u = [] then None else Some u)"

definition merge_query :: "string \<Rightarrow> (string \<times> string) list \<Rightarrow> string" where
  "merge_query raw extra =
     encode_values (filter (\<lambda>kv. fst kv \<notin> fst ` set extra) (query_values raw) @ extra)"

definition write_oauth_error :: "string \<Rightarrow> string \<Rightarrow> fake_response" where
  "write_oauth_error err description =
     FakeJSON 400 (JObj ((''error'', JStr err) #
       (if description \<noteq> [] then [(''error_description'', JStr description)] else [])))"

definition fake_redirect :: "string \<Rightarrow> fake_response" where
  "fake_redirect url = FakeRedirect (hex_escape_non_ascii url)"

section \<open>The redirect flow\<close>

definition with_state :: "string \<Rightarrow> (string \<times> string) list \<Rightarrow> (string \<times> string) list" where
  "with_state st vs = (if st \<noteq> [] then vs @ [(''state'', st)] else vs)"

definition redirect_with_code :: "env \<Rightarrow> string \<Rightarrow> go_url \<Rightarrow> string \<Rightarrow> identity \<Rightarrow> store \<Rightarrow> fake_outcome" where
  "redirect_with_code E prov uri st i s =
     (case issue_code E prov (url_string uri) i s of
        Inl m \<Rightarrow> Some (Inl m)
      | Inr (c, s1) \<Rightarrow>
          answers (fake_redirect (url_string (uri\<lparr>gu_raw_query :=
            merge_query (gu_raw_query uri) (with_state st [(''code'', c)])\<rparr>))) s1)"

definition authorize_form :: "fake_server \<Rightarrow> env \<Rightarrow> fake_handler" where
  "authorize_form sv E r prov s =
     (let q = values_get (query_values (fq_query r)) in
      case valid_redirect sv (q ''redirect_uri'') of
        None \<Rightarrow> answers (FakeError 400 ''invalid authorization request: client_id, redirect_uri and response_type=code are required'') s
      | Some uri \<Rightarrow>
          if q ''response_type'' \<noteq> ''code'' \<or> q ''client_id'' = []
          then answers (FakeError 400 ''invalid authorization request: client_id, redirect_uri and response_type=code are required'') s
          else if q ''fake_user'' \<noteq> []
          then (let i = with_email_verified (fst (new_identity (q ''fake_user'') (q ''fake_email'') (q ''fake_name'')))
                          (q ''fake_email_verified'')
                in redirect_with_code E prov uri (q ''state'') i s)
          else answers (FakePage 200 ''authorize'' [(''Provider'', prov), (''ClientID'', q ''client_id''),
                 (''RedirectURI'', url_string uri), (''State'', q ''state''), (''Scope'', q ''scope'')]) s)"

definition authorize_submit :: "fake_server \<Rightarrow> env \<Rightarrow> fake_handler" where
  "authorize_submit sv E r prov s =
     (case parse_form (sv_libs sv) r of
        None \<Rightarrow> answers (FakeError 400 ''invalid form'') s
      | Some form \<Rightarrow>
          (let f = values_get form in
           case valid_redirect sv (f ''redirect_uri'') of
             None \<Rightarrow> answers (FakeError 400 ''invalid redirect_uri'') s
           | Some uri \<Rightarrow>
               if f ''action'' = ''deny''
               then answers (fake_redirect (url_string (uri\<lparr>gu_raw_query :=
                      merge_query (gu_raw_query uri) (with_state (f ''state'') [(''error'', ''access_denied'')])\<rparr>))) s
               else (case new_identity (f ''login'') (f ''email'') (f ''name'') of (i, ok) \<Rightarrow>
                 if \<not> ok then answers (FakeError 400 ''login is required'') s
                 else redirect_with_code E prov uri (f ''state'')
                        (i\<lparr>fi_email_verified := (f ''email_unverified'' = [])\<rparr>) s)))"

section \<open>The token endpoint\<close>

definition token_answer :: "string answer \<Rightarrow> fake_outcome" where
  "token_answer a =
     (case a of
        Inl m \<Rightarrow> Some (Inl m)
      | Inr (Inl e, s) \<Rightarrow> answers (write_oauth_error (store_error_text e) []) s
      | Inr (Inr t, s) \<Rightarrow> answers (FakeJSON 200 (JObj [(''access_token'', JStr t),
          (''expires_in'', JNum ''3600''), (''token_type'', JStr ''bearer'')])) s)"

definition fake_token :: "fake_server \<Rightarrow> env \<Rightarrow> fake_handler" where
  "fake_token sv E r prov s =
     (case parse_form (sv_libs sv) r of
        None \<Rightarrow> answers (write_oauth_error ''invalid_request'' ''invalid form body'') s
      | Some form \<Rightarrow>
          (let f = values_get form in
           if f ''grant_type'' = grantAuthorizationCode
           then token_answer (redeem_code E prov (f ''code'') (f ''redirect_uri'') s)
           else if f ''grant_type'' = grantDeviceCode
           then token_answer (poll_device E prov (f ''device_code'') s)
           else answers (write_oauth_error ''unsupported_grant_type''
                  ''grant_type must be authorization_code or device_code'') s))"

section \<open>The device flow\<close>

text \<open>\<open>int(d.Seconds())\<close>: whole seconds towards zero (exact for the durations under 2^22 seconds).\<close>

definition whole_seconds :: "int \<Rightarrow> int" where
  "whole_seconds d = sgn d * (\<bar>d\<bar> div second)"

definition fake_device_code :: "fake_server \<Rightarrow> env \<Rightarrow> fake_handler" where
  "fake_device_code sv E r prov s =
     (case start_device E prov s of
        None \<Rightarrow> None
      | Some (Inl m) \<Rightarrow> Some (Inl m)
      | Some (Inr (d, s1)) \<Rightarrow>
          answers (FakeJSON 200 (JObj [(''device_code'', JStr (ds_device_code d)),
            (''expires_in'', JNum (int_dec (whole_seconds (ds_expires_in d)))),
            (''interval'', JNum (int_dec (whole_seconds (ds_interval d)))),
            (''user_code'', JStr (ds_user_code d)),
            (if prov = providerGoogle then ''verification_url'' else ''verification_uri'',
             JStr (sv_base_url sv @ ''/'' @ prov @ ''/device''))])) s1)"

definition device_form :: fake_handler where
  "device_form r prov s =
     answers (FakePage 200 ''device'' [(''Provider'', prov),
       (''UserCode'', values_get (query_values (fq_query r)) ''user_code'')]) s"

text \<open>The status and the message of a decision, from the identity on when it approves.\<close>

definition decided_identity :: "(string \<Rightarrow> string) \<Rightarrow> bool \<Rightarrow> identity option" where
  "decided_identity f approve =
     (if \<not> approve then Some empty_identity
      else (case new_identity (f ''login'') (f ''email'') (f ''name'') of (i, ok) \<Rightarrow>
        if \<not> ok then None
        else (let i1 = with_email_verified i (f ''email_verified'')
              in Some (if f ''email_unverified'' \<noteq> [] then i1\<lparr>fi_email_verified := False\<rparr> else i1))))"

definition decide_device ::
  "env \<Rightarrow> string \<Rightarrow> (string \<Rightarrow> string) \<Rightarrow> bool \<Rightarrow> store \<Rightarrow> string + ((nat \<times> string) \<times> store)" where
  "decide_device E prov f approve s =
     (case decided_identity f approve of
        None \<Rightarrow> Inr ((400, ''login is required to approve''), s)
      | Some i \<Rightarrow>
          (case resolve_device E prov (f ''user_code'') approve i s of
             Inl m \<Rightarrow> Inl m
           | Inr (Inl e, s1) \<Rightarrow>
               Inr (if e = UnknownCode then (404, ''unknown user code'')
                    else if e = NotPending then (409, ''this code was already used or has expired'')
                    else if approve then (200, ''Device approved for '' @ fi_login i @ ''. You can return to your terminal.'')
                    else (200, ''Device request denied.''), s1)
           | Inr (Inr (), s1) \<Rightarrow>
               Inr (if approve then (200, ''Device approved for '' @ fi_login i @ ''. You can return to your terminal.'')
                    else (200, ''Device request denied.''), s1)))"

definition device_submit :: "fake_server \<Rightarrow> env \<Rightarrow> fake_handler" where
  "device_submit sv E r prov s =
     (case parse_form (sv_libs sv) r of
        None \<Rightarrow> answers (FakeError 400 ''invalid form'') s
      | Some form \<Rightarrow>
          (let f = values_get form in
           case decide_device E prov f (f ''action'' \<noteq> ''deny'') s of
             Inl m \<Rightarrow> Some (Inl m)
           | Inr ((st, msg), s1) \<Rightarrow>
               answers (FakePage st ''device-result'' [(''Provider'', prov), (''Message'', msg)]) s1))"

definition device_resolve_api :: "bool \<Rightarrow> fake_server \<Rightarrow> env \<Rightarrow> fake_handler" where
  "device_resolve_api approve sv E r prov s =
     (case parse_form (sv_libs sv) r of
        None \<Rightarrow> answers (FakeError 400 ''invalid form'') s
      | Some form \<Rightarrow>
          (case decide_device E prov (values_get form) approve s of
             Inl m \<Rightarrow> Some (Inl m)
           | Inr ((st, msg), s1) \<Rightarrow>
               if st = 200 then answers FakeNoContent s1 else answers (FakeError st msg) s1))"

section \<open>The user documents\<close>

definition bearer_identity :: "fake_request \<Rightarrow> string \<Rightarrow> store \<Rightarrow> fake_response + identity" where
  "bearer_identity r prov s =
     (if \<not> has_prefix ''Bearer '' (fq_authorization r) then Inl (FakeError 401 ''missing bearer token'')
      else (case lookup_token prov (drop 7 (fq_authorization r)) s of
              Inl e \<Rightarrow> Inl (FakeError 401 (store_error_text e))
            | Inr i \<Rightarrow> Inr i))"

definition google_document :: "identity \<Rightarrow> json" where
  "google_document i = JObj [(''email'', JStr (fi_email i)), (''email_verified'', JBool (fi_email_verified i)),
     (''name'', JStr (fi_name i)), (''sub'', JStr (google_sub i))]"

definition github_document :: "identity \<Rightarrow> json" where
  "github_document i = JObj [(''email'', JNull), (''id'', JNum (int_dec (github_id i))),
     (''login'', JStr (fi_login i)), (''name'', JStr (fi_name i))]"

definition github_emails_document :: "identity \<Rightarrow> json" where
  "github_emails_document i = JArr [JObj [(''email'', JStr (fi_email i)), (''primary'', JBool True),
     (''verified'', JBool (fi_email_verified i)), (''visibility'', JStr ''private'')]]"

definition user_document :: "(identity \<Rightarrow> json) \<Rightarrow> string \<Rightarrow> fake_request \<Rightarrow> store \<Rightarrow> fake_outcome" where
  "user_document doc prov r s =
     (case bearer_identity r prov s of
        Inl resp \<Rightarrow> answers resp s
      | Inr i \<Rightarrow> answers (FakeJSON 200 (doc i)) s)"

section \<open>Routes\<close>

definition with_provider :: "fake_handler \<Rightarrow> fake_request \<Rightarrow> string \<Rightarrow> store \<Rightarrow> fake_outcome" where
  "with_provider h r prov s =
     (if prov \<noteq> providerGoogle \<and> prov \<noteq> providerGitHub then answers (FakeError 404 ''404 page not found'') s
      else h r prov s)"

datatype segment = Lit string | Provider

text \<open>The pattern of a route and its handler; \<open>GET\<close> patterns also match \<open>HEAD\<close>.\<close>

definition fake_routes :: "fake_server \<Rightarrow> env \<Rightarrow> (string \<times> segment list \<times> fake_handler) list" where
  "fake_routes sv E = [
     (''GET'', [Lit ''healthz''], \<lambda>r prov s. answers FakeNoContent s),
     (''GET'', [Provider, Lit ''authorize''], with_provider (authorize_form sv E)),
     (''POST'', [Provider, Lit ''authorize''], with_provider (authorize_submit sv E)),
     (''POST'', [Provider, Lit ''token''], with_provider (fake_token sv E)),
     (''POST'', [Provider, Lit ''device'', Lit ''code''], with_provider (fake_device_code sv E)),
     (''GET'', [Provider, Lit ''device''], with_provider device_form),
     (''POST'', [Provider, Lit ''device''], with_provider (device_submit sv E)),
     (''POST'', [Provider, Lit ''device'', Lit ''approve''], with_provider (device_resolve_api True sv E)),
     (''POST'', [Provider, Lit ''device'', Lit ''deny''], with_provider (device_resolve_api False sv E)),
     (''GET'', [Lit ''google'', Lit ''userinfo''], \<lambda>r prov. user_document google_document providerGoogle r),
     (''GET'', [Lit ''github'', Lit ''user''], \<lambda>r prov. user_document github_document providerGitHub r),
     (''GET'', [Lit ''github'', Lit ''user'', Lit ''emails''], \<lambda>r prov. user_document github_emails_document providerGitHub r)]"

fun match_path :: "segment list \<Rightarrow> string list \<Rightarrow> string option" where
  "match_path [] [] = Some []"
| "match_path (Lit l # ps) (x # xs) = (if l = x then match_path ps xs else None)"
| "match_path (Provider # ps) (x # xs) = (if match_path ps xs = None then None else Some x)"
| "match_path ps xs = None"

definition method_matches :: "string \<Rightarrow> string \<Rightarrow> bool" where
  "method_matches m pat \<longleftrightarrow> m = pat \<or> (m = ''HEAD'' \<and> pat = ''GET'')"

text \<open>
  The dispatch of \<open>http.ServeMux\<close>: no two of the patterns match one request, so the first that
  matches is the only one; a path that only another method serves gives 405.
\<close>

fun dispatch :: "(string \<times> segment list \<times> fake_handler) list \<Rightarrow> bool \<Rightarrow> fake_request \<Rightarrow> store \<Rightarrow> fake_outcome" where
  "dispatch [] other r s =
     answers (if other then FakeError 405 ''Method Not Allowed'' else FakeError 404 ''404 page not found'') s"
| "dispatch ((m, p, h) # rs) other r s =
     (case match_path p (fq_path r) of
        None \<Rightarrow> dispatch rs other r s
      | Some prov \<Rightarrow> if method_matches (fq_method r) m then h r prov s else dispatch rs True r s)"

definition fake_serve :: "fake_server \<Rightarrow> env \<Rightarrow> fake_request \<Rightarrow> store \<Rightarrow> fake_outcome" where
  "fake_serve sv E r s = dispatch (fake_routes sv E) False r s"

section \<open>The start (main.go)\<close>

text \<open>The flags, and the address, the server and the store that the process starts with.\<close>

record fake_flags =
  ff_addr :: string
  ff_base_url :: string
  ff_code_ttl :: int
  ff_interval :: int

definition default_flags :: fake_flags where
  "default_flags = \<lparr>ff_addr = '':8080'', ff_base_url = ''http://localhost:8090'',
     ff_code_ttl = 10 * 60 * second, ff_interval = second\<rparr>"

definition fake_main :: "libs \<Rightarrow> (string \<Rightarrow> string option) \<Rightarrow> fake_flags \<Rightarrow> string \<times> fake_server \<times> store" where
  "fake_main L bracket f =
     (ff_addr f, new_fake_server L bracket (ff_base_url f), new_store (ff_code_ttl f) (ff_interval f))"

end
