(* ===== verification/FakePages.thy ===== *)
theory FakePages
  imports FakeServer GoJsonEnc
begin

text \<open>
  The pages of the local OAuth provider (\<open>tools/oauthfake/templates.go\<close>) and what \<open>html/template\<close> makes
  of them. All fields stand in text, in a \<open>title\<close> or in a double-quoted attribute, where the three
  escapers of the package replace the same characters. On the other side: the tags and attributes that
  a browser finds in a page, and the form it sends.
\<close>

section \<open>Templates\<close>

datatype part = Text string | Field string

definition newline :: part where
  "newline = Text [CHR 0x0A]"

definition page_style :: "part list" where
  \<open>page_style = [Text ''<style>'', newline,
     Text ''body{font-family:system-ui,sans-serif;max-width:28rem;margin:3rem auto;padding:0 1rem;color:#1f2328}'', newline,
     Text ''h1{font-size:1.25rem}label{display:block;margin:.75rem 0 .25rem;font-weight:600}'', newline,
     Text ''input{width:100%;padding:.5rem;box-sizing:border-box;font-size:1rem}'', newline,
     Text ''.actions{display:flex;gap:.5rem;margin-top:1.25rem}button{padding:.5rem 1rem;font-size:1rem}'', newline,
     Text ''.note{color:#59636e;font-size:.875rem}code{background:#f6f8fa;padding:0 .25rem}'', newline,
     Text ''</style>'']\<close>

definition page_start :: "part list" where
  \<open>page_start = [Text ''<!doctype html>'', newline,
     Text ''<html lang="en"><head><meta charset="utf-8"><meta name="viewport" content="width=device-width,initial-scale=1">'', newline]\<close>

definition page_head_tmpl :: "string \<Rightarrow> part list" where
  \<open>page_head_tmpl what = page_start @
     [Text ''<title>Fake '', Field ''Provider'', Text what, Text ''</title>''] @ page_style @ [Text ''</head><body>'', newline,
     Text ''<h1>Fake '', Field ''Provider'', Text what, Text ''</h1>'', newline]\<close>

definition hidden_field :: "string \<Rightarrow> string \<Rightarrow> part list" where
  \<open>hidden_field n k = [Text ''<input type="hidden" name="'', Text n, Text ''" value="'', Field k, Text ''">'', newline]\<close>

definition identity_inputs :: "part list" where
  \<open>identity_inputs = [
     Text ''<label for="email">Email <span class="note">(default: login@example.com)</span></label><input id="email" name="email" type="email">'', newline,
     Text ''<label for="name">Name <span class="note">(default: login)</span></label><input id="name" name="name">'', newline,
     Text ''<label><input type="checkbox" name="email_unverified" value="1" style="width:auto"> Simulate an unverified email</label>'', newline]\<close>

definition authorize_tmpl :: "part list" where
  \<open>authorize_tmpl = page_head_tmpl '' sign-in'' @ [
     Text ''<p class="note">CourtKnights local OAuth fake. Any login is accepted. The same login always maps to the same provider user.</p>'', newline,
     Text ''<form method="post">'', newline] @
     hidden_field ''client_id'' ''ClientID'' @ hidden_field ''redirect_uri'' ''RedirectURI'' @
     hidden_field ''state'' ''State'' @ hidden_field ''scope'' ''Scope'' @ [
     Text ''<label for="login">Login</label><input id="login" name="login" required autofocus placeholder="alice">'', newline] @
     identity_inputs @ [
     Text ''<div class="actions"><button name="action" value="approve">Sign in</button><button name="action" value="deny" formnovalidate>Deny</button></div>'', newline,
     Text ''</form>'', newline,
     Text ''<p class="note">Requested scope: <code>'', Field ''Scope'', Text ''</code></p>'', newline,
     Text ''</body></html>'']\<close>

definition device_tmpl :: "part list" where
  \<open>device_tmpl = page_head_tmpl '' device sign-in'' @ [
     Text ''<p class="note">Enter the code shown by the CLI.</p>'', newline,
     Text ''<form method="post">'', newline,
     Text ''<label for="user_code">Code</label><input id="user_code" name="user_code" required value="'', Field ''UserCode'', Text ''" placeholder="BCDF-GHJK">'', newline,
     Text ''<label for="login">Login</label><input id="login" name="login" placeholder="alice">'', newline] @
     identity_inputs @ [
     Text ''<div class="actions"><button name="action" value="approve">Approve</button><button name="action" value="deny">Deny</button></div>'', newline,
     Text ''</form>'', newline,
     Text ''</body></html>'']\<close>

definition device_result_tmpl :: "part list" where
  \<open>device_result_tmpl = page_head_tmpl '' device sign-in'' @ [
     Text ''<p>'', Field ''Message'', Text ''</p>'', newline,
     Text ''</body></html>'']\<close>

definition template_named :: "string \<Rightarrow> part list" where
  "template_named n =
     (if n = ''authorize'' then authorize_tmpl else if n = ''device'' then device_tmpl else device_result_tmpl)"

section \<open>Execution\<close>

definition html_escape_char :: "char \<Rightarrow> string" where
  "html_escape_char c =
     (if code c = 0 then utf8_encode rune_error
      else if c = CHR 0x22 then ''&#34;''
      else if c = CHR ''&'' then ''&amp;''
      else if code c = 39 then ''&#39;''
      else if c = CHR ''+'' then ''&#43;''
      else if c = CHR ''<'' then ''&lt;''
      else if c = CHR ''>'' then ''&gt;''
      else [c])"

definition html_escape :: "string \<Rightarrow> string" where
  "html_escape s = concat (map html_escape_char s)"

fun execute_part :: "(string \<times> string) list \<Rightarrow> part \<Rightarrow> string" where
  "execute_part data (Text s) = s"
| "execute_part data (Field k) = html_escape (values_get data k)"

definition execute_template :: "part list \<Rightarrow> (string \<times> string) list \<Rightarrow> string" where
  "execute_template tmpl data = concat (map (execute_part data) tmpl)"

section \<open>What a browser finds in a page\<close>

text \<open>
  The tokenizer of the HTML standard as far as tags and attributes go: \<open>title\<close> and \<open>style\<close> swallow
  everything up to their end tag, a value in quotes ends at the quote.
\<close>

datatype html_tag = StartTag string "(string \<times> string) list" | EndTag string

datatype html_mode =
    Chars | TagOpen | Markup | TagName string | EndName string
  | BeforeAttr string "(string \<times> string) list"
  | AttrName string "(string \<times> string) list" string
  | BeforeValue string "(string \<times> string) list" string
  | QuotedValue char string "(string \<times> string) list" string string
  | BareValue string "(string \<times> string) list" string string
  | RawText string "string option"

text \<open>Character references: the named ones of \<open>& < >\<close> and decimal ones of ASCII characters.\<close>

definition char_ref :: "string \<Rightarrow> (char \<times> nat) option" where
  "char_ref s =
     (if has_prefix ''amp;'' s then Some (CHR ''&'', 4)
      else if has_prefix ''lt;'' s then Some (CHR ''<'', 3)
      else if has_prefix ''gt;'' s then Some (CHR ''>'', 3)
      else if has_prefix ''#'' s then
        (let d = takeWhile is_digit (tl s) in
         if d \<noteq> [] \<and> has_prefix '';'' (drop (Suc (length d)) s) \<and> 0 < dec_val d \<and> dec_val d < 128
         then Some (char_of (dec_val d), length d + 2) else None)
      else None)"

function html_unescape :: "string \<Rightarrow> string" where
  "html_unescape [] = []"
| "html_unescape (c # s) =
     (if c \<noteq> CHR ''&'' then c # html_unescape s
      else (case char_ref s of
              None \<Rightarrow> c # html_unescape s
            | Some (d, n) \<Rightarrow> d # html_unescape (drop n s)))"
  by pat_completeness auto
termination by (relation "measure length") auto

definition start_tag :: "string \<Rightarrow> (string \<times> string) list \<Rightarrow> html_mode \<times> html_tag list" where
  "start_tag t as = (if t = ''title'' \<or> t = ''style'' then RawText t None else Chars, [StartTag t as])"

fun html_step :: "html_mode \<Rightarrow> char \<Rightarrow> html_mode \<times> html_tag list" where
  "html_step Chars c = (if c = CHR ''<'' then TagOpen else Chars, [])"
| "html_step TagOpen c =
     (if c = CHR ''!'' then (Markup, [])
      else if c = CHR ''/'' then (EndName [], [])
      else if is_lower c \<or> is_upper c then (TagName [lower_char c], [])
      else (Chars, []))"
| "html_step Markup c = (if c = CHR ''>'' then Chars else Markup, [])"
| "html_step (TagName t) c =
     (if c = CHR ''>'' then start_tag t []
      else if is_space1 c \<or> c = CHR ''/'' then (BeforeAttr t [], [])
      else (TagName (t @ [lower_char c]), []))"
| "html_step (EndName t) c =
     (if c = CHR ''>'' then (Chars, [EndTag t]) else (EndName (t @ [lower_char c]), []))"
| "html_step (BeforeAttr t as) c =
     (if c = CHR ''>'' then start_tag t as
      else if is_space1 c \<or> c = CHR ''/'' then (BeforeAttr t as, [])
      else (AttrName t as [lower_char c], []))"
| "html_step (AttrName t as n) c =
     (if c = CHR ''='' then (BeforeValue t as n, [])
      else if c = CHR ''>'' then start_tag t (as @ [(n, [])])
      else if is_space1 c \<or> c = CHR ''/'' then (BeforeAttr t (as @ [(n, [])]), [])
      else (AttrName t as (n @ [lower_char c]), []))"
| "html_step (BeforeValue t as n) c =
     (if c = CHR 0x22 \<or> code c = 39 then (QuotedValue c t as n [], [])
      else if is_space1 c then (BeforeValue t as n, [])
      else if c = CHR ''>'' then start_tag t (as @ [(n, [])])
      else (BareValue t as n [c], []))"
| "html_step (QuotedValue q t as n v) c =
     (if c = q then (BeforeAttr t (as @ [(n, html_unescape v)]), [])
      else (QuotedValue q t as n (v @ [c]), []))"
| "html_step (BareValue t as n v) c =
     (if is_space1 c then (BeforeAttr t (as @ [(n, html_unescape v)]), [])
      else if c = CHR ''>'' then start_tag t (as @ [(n, html_unescape v)])
      else (BareValue t as n (v @ [c]), []))"
| "html_step (RawText t v) c =
     (if c = CHR ''<'' then (RawText t (Some []), [])
      else case v of
             None \<Rightarrow> (RawText t None, [])
           | Some w \<Rightarrow>
               if c \<noteq> CHR ''>'' then (RawText t (Some (w @ [c])), [])
               else if w = CHR ''/'' # t then (Chars, [EndTag t]) else (RawText t None, []))"

fun html_run :: "html_mode \<Rightarrow> string \<Rightarrow> html_mode \<times> html_tag list" where
  "html_run m [] = (m, [])"
| "html_run m (c # s) =
     (case html_step m c of (m1, ts) \<Rightarrow> (case html_run m1 s of (m2, us) \<Rightarrow> (m2, ts @ us)))"

definition html_tags :: "string \<Rightarrow> html_tag list" where
  "html_tags page = snd (html_run Chars page)"

text \<open>The inputs of a page: type, name and value; an input without a name is never sent.\<close>

definition attr :: "(string \<times> string) list \<Rightarrow> string \<Rightarrow> string" where
  "attr as n = values_get as n"

fun input_of :: "html_tag \<Rightarrow> (string \<times> string \<times> string) list" where
  "input_of (StartTag t as) =
     (if t = ''input'' \<and> attr as ''name'' \<noteq> [] then [(attr as ''type'', attr as ''name'', attr as ''value'')] else [])"
| "input_of (EndTag t) = []"

definition page_inputs :: "string \<Rightarrow> (string \<times> string \<times> string) list" where
  "page_inputs page = concat (map input_of (html_tags page))"

text \<open>
  The form data: hidden fields as they are, boxes that are ticked, the other fields as typed (or as
  they were), and the button that was pressed.
\<close>

definition entry :: "(string \<rightharpoonup> string) \<Rightarrow> string list \<Rightarrow> string \<times> string \<times> string \<Rightarrow> (string \<times> string) list" where
  "entry typed boxes i =
     (case i of (ty, n, v) \<Rightarrow>
        if ty = ''hidden'' then [(n, v)]
        else if ty = ''checkbox'' then (if n \<in> set boxes then [(n, v)] else [])
        else [(n, case typed n of None \<Rightarrow> v | Some x \<Rightarrow> x)])"

definition form_data :: "string \<Rightarrow> (string \<rightharpoonup> string) \<Rightarrow> string list \<Rightarrow> string \<Rightarrow> (string \<times> string) list" where
  "form_data page typed boxes pressed =
     concat (map (entry typed boxes) (page_inputs page)) @ [(''action'', pressed)]"

text \<open>The URL encoding of form data by the URL standard.\<close>

definition form_escape_char :: "char \<Rightarrow> string" where
  "form_escape_char c =
     (if c = CHR '' '' then ''+''
      else if is_lower c \<or> is_upper c \<or> is_digit c \<or> c \<in> set ''*-._'' then [c]
      else [CHR ''%'', upper_hex (code c div 16), upper_hex (code c mod 16)])"

definition form_escape :: "string \<Rightarrow> string" where
  "form_escape s = concat (map form_escape_char s)"

definition form_urlencode :: "(string \<times> string) list \<Rightarrow> string" where
  "form_urlencode fs = join_with ''&'' (map (\<lambda>kv. form_escape (fst kv) @ ''='' @ form_escape (snd kv)) fs)"

section \<open>A page is its template with the fields filled in\<close>

text \<open>
  A run over a template that takes the text of a field as given: it may stand in text, in a title or in
  a double-quoted value, where it cannot end anything.
\<close>

fun fill :: "html_mode \<Rightarrow> string \<Rightarrow> html_mode option" where
  "fill Chars x = Some Chars"
| "fill (QuotedValue q t as n v) x = (if q = CHR 0x22 then Some (QuotedValue q t as n (v @ x)) else None)"
| "fill (RawText t None) x = Some (RawText t None)"
| "fill m x = None"

fun template_run :: "(string \<Rightarrow> string) \<Rightarrow> html_mode \<Rightarrow> part list \<Rightarrow> (html_mode \<times> html_tag list) option" where
  "template_run f m [] = Some (m, [])"
| "template_run f m (Text s # ps) =
     (case html_run m s of (m1, ts) \<Rightarrow> map_option (\<lambda>r. (fst r, ts @ snd r)) (template_run f m1 ps))"
| "template_run f m (Field k # ps) = (case fill m (f k) of None \<Rightarrow> None | Some m1 \<Rightarrow> template_run f m1 ps)"

definition inert :: "string \<Rightarrow> bool" where
  "inert x \<longleftrightarrow> list_all (\<lambda>c. c \<noteq> CHR ''<'' \<and> c \<noteq> CHR ''>'' \<and> c \<noteq> CHR 0x22) x"

lemma html_run_append:
  "html_run m (s @ r) = (case html_run m s of (m1, ts) \<Rightarrow> case html_run m1 r of (m2, us) \<Rightarrow> (m2, ts @ us))"
  by (induction s arbitrary: m) (auto split: prod.splits)

lemma html_run_fill:
  assumes "inert x" and "fill m x = Some m1"
  shows "html_run m x = (m1, [])"
proof -
  have chars: "inert x \<Longrightarrow> html_run Chars x = (Chars, [])"
    by (induction x) (auto simp: inert_def)
  have quoted: "inert x \<Longrightarrow> html_run (QuotedValue (CHR 0x22) t as n v) x = (QuotedValue (CHR 0x22) t as n (v @ x), [])" for t as n v
    by (induction x arbitrary: v) (auto simp: inert_def)
  have raw: "inert x \<Longrightarrow> html_run (RawText t None) x = (RawText t None, [])" for t
    by (induction x) (auto simp: inert_def)
  show ?thesis
    using assms chars quoted raw by (cases "(m, x)" rule: fill.cases) (auto split: if_splits)
qed

lemma html_escape_char_inert: "inert (html_escape_char c)"
proof -
  obtain x y z where "utf8_encode rune_error = [x, y, z]" "code x = 239" "code y = 191" "code z = 189"
    using rune_error_bytes by (auto simp: map_eq_Cons_conv)
  then have r: "inert (utf8_encode rune_error)" by (auto simp: inert_def code_def)
  have e: "inert ''&#34;''" "inert ''&amp;''" "inert ''&#39;''" "inert ''&#43;''"
    "inert ''&lt;''" "inert ''&gt;''" by code_simp+
  have "c \<noteq> CHR ''<'' \<Longrightarrow> c \<noteq> CHR ''>'' \<Longrightarrow> c \<noteq> CHR 0x22 \<Longrightarrow> inert [c]" by (simp add: inert_def)
  then show ?thesis
    unfolding html_escape_char_def if_distrib [of inert] by (simp only: r e simp_thms if_True if_False split: if_split) iprover
qed

lemma html_escape_inert: "inert (html_escape s)"
  using html_escape_char_inert by (induction s) (auto simp: html_escape_def inert_def)

lemma html_run_template:
  assumes "template_run f m ps = Some r" and "\<And>k. f k = html_escape (values_get d k)"
  shows "html_run m (execute_template ps d) = r"
  using assms(1)
proof (induction ps arbitrary: m r)
  case Nil
  then show ?case by (simp add: execute_template_def)
next
  case (Cons p ps)
  show ?case
  proof (cases p)
    case (Text s)
    with Cons show ?thesis
      by (cases "html_run m s") (auto simp: execute_template_def html_run_append)
  next
    case (Field k)
    with Cons.prems obtain m1 where m1: "fill m (f k) = Some m1" "template_run f m1 ps = Some r"
      by (auto split: option.splits)
    with Cons.IH have "html_run m1 (execute_template ps d) = r" by blast
    with html_run_fill [OF _ m1(1)] html_escape_inert show ?thesis
      by (simp add: Field execute_template_def html_run_append assms(2))
  qed
qed

section \<open>The escaped text of a value is the value\<close>

lemma html_unescape_char:
  assumes "code c \<noteq> 0"
  shows "html_unescape (html_escape_char c @ r) = c # html_unescape r"
proof -
  have chars: "char_of (34 :: nat) = CHR 0x22" "char_of (43 :: nat) = CHR ''+''" by code_simp+
  have refs: "char_ref (''amp;'' @ r) = Some (CHR ''&'', 4)" "char_ref (''lt;'' @ r) = Some (CHR ''<'', 3)"
    "char_ref (''gt;'' @ r) = Some (CHR ''>'', 3)" "char_ref (''#34;'' @ r) = Some (CHR 0x22, 4)"
    "char_ref (''#39;'' @ r) = Some (char_of (39 :: nat), 4)" "char_ref (''#43;'' @ r) = Some (CHR ''+'', 4)"
    using chars by (simp_all add: char_ref_def has_prefix_def is_digit_def code_def dec_val_def digit_val_def)
  have "c = char_of (39 :: nat)" if "code c = 39" using that by (metis code_def of_char_of char_of_char)
  with assms refs show ?thesis by (auto simp: html_escape_char_def)
qed

lemma html_unescape_escape: "\<forall>c \<in> set s. code c \<noteq> 0 \<Longrightarrow> html_unescape (html_escape s) = s"
  by (induction s) (auto simp: html_escape_def html_unescape_char)

section \<open>Form data\<close>

lemma form_unescape_char: "query_unescape (form_escape_char c @ t) = map_option ((#) c) (query_unescape t)"
proof -
  have "16 * (code c div 16) + code c mod 16 = code c" by simp
  moreover have "char_of (code c) = c" by (simp add: code_def)
  moreover have "is_lower c \<or> is_upper c \<or> is_digit c \<or> c \<in> set ''*-._'' \<Longrightarrow> c \<noteq> CHR ''%'' \<and> c \<noteq> CHR ''+''"
    by (auto simp: is_digit_def is_upper_def is_lower_def code_def)
  ultimately show ?thesis
    using hex_val_upper_hex code_halves [of c] by (simp add: form_escape_char_def)
qed

lemma form_unescape_escape: "query_unescape (form_escape s) = Some s"
  by (induction s) (simp_all add: form_escape_def form_unescape_char)

lemma form_escape_safe: "list_all query_safe (form_escape s)"
proof (induction s)
  case (Cons c s)
  have "is_lower c \<or> is_upper c \<or> is_digit c \<or> c \<in> set ''*-._'' \<Longrightarrow> query_safe c"
    by (auto simp: query_safe_def is_digit_def is_upper_def is_lower_def code_def)
  then have "list_all query_safe (form_escape_char c)"
    using code_halves [of c] unreserved_safe upper_hex_unreserved
    by (simp add: form_escape_char_def) (simp add: query_safe_def)
  with Cons show ?case by (simp add: form_escape_def)
qed (simp add: form_escape_def)

lemma parse_form_pair: "parse_pair (form_escape k @ ''='' @ form_escape v) = Inr (Some (k, v))"
proof -
  have "CHR ''='' \<notin> set (form_escape k)" "CHR '';'' \<notin> set (form_escape k)" "CHR '';'' \<notin> set (form_escape v)"
    using form_escape_safe [of k] form_escape_safe [of v] by (auto simp: list_all_iff query_safe_def)
  then show ?thesis
    using cut_at_append [of "CHR ''=''" "form_escape k" "form_escape v"]
    by (simp add: parse_pair_def form_unescape_escape)
qed

text \<open>The server reads the form as the browser sent it.\<close>

lemma parse_form_urlencode: "fs \<noteq> [] \<Longrightarrow> parse_query (form_urlencode fs) = Some fs"
proof -
  assume ne: "fs \<noteq> []"
  let ?part = "\<lambda>kv. form_escape (fst kv) @ ''='' @ form_escape (snd kv)"
  have "parse_parts (map ?part xs) = Some xs" for xs
    by (induction xs) (simp_all add: parse_form_pair [simplified])
  moreover have "CHR ''&'' \<notin> set (?part kv)" for kv :: "string \<times> string"
    using form_escape_safe [of "fst kv"] form_escape_safe [of "snd kv"]
    by (auto simp: list_all_iff query_safe_def)
  then have "split_on (CHR ''&'') (join_with ''&'' (map ?part fs)) = map ?part fs"
    using ne by (intro split_join) auto
  ultimately show ?thesis by (simp add: parse_query_def form_urlencode_def)
qed


section \<open>The tags of the three pages\<close>

definition page_head :: "html_tag list" where
  "page_head = [StartTag ''html'' [(''lang'', ''en'')], StartTag ''head'' [], StartTag ''meta'' [(''charset'', ''utf-8'')],
     StartTag ''meta'' [(''name'', ''viewport''), (''content'', ''width=device-width,initial-scale=1'')],
     StartTag ''title'' [], EndTag ''title'', StartTag ''style'' [], EndTag ''style'', EndTag ''head'', StartTag ''body'' [],
     StartTag ''h1'' [], EndTag ''h1'']"

definition identity_tags :: "html_tag list" where
  "identity_tags = [StartTag ''label'' [(''for'', ''email'')], StartTag ''span'' [(''class'', ''note'')], EndTag ''span'', EndTag ''label'',
     StartTag ''input'' [(''id'', ''email''), (''name'', ''email''), (''type'', ''email'')],
     StartTag ''label'' [(''for'', ''name'')], StartTag ''span'' [(''class'', ''note'')], EndTag ''span'', EndTag ''label'',
     StartTag ''input'' [(''id'', ''name''), (''name'', ''name'')], StartTag ''label'' [],
     StartTag ''input'' [(''type'', ''checkbox''), (''name'', ''email_unverified''), (''value'', ''1''), (''style'', ''width:auto'')],
     EndTag ''label'']"

definition hidden_input :: "string \<Rightarrow> string \<Rightarrow> html_tag" where
  "hidden_input n v = StartTag ''input'' [(''type'', ''hidden''), (''name'', n), (''value'', html_unescape v)]"

definition authorize_tags :: "(string \<Rightarrow> string) \<Rightarrow> html_tag list" where
  "authorize_tags f = page_head @ [StartTag ''p'' [(''class'', ''note'')], EndTag ''p'', StartTag ''form'' [(''method'', ''post'')],
     hidden_input ''client_id'' (f ''ClientID''), hidden_input ''redirect_uri'' (f ''RedirectURI''),
     hidden_input ''state'' (f ''State''), hidden_input ''scope'' (f ''Scope''),
     StartTag ''label'' [(''for'', ''login'')], EndTag ''label'',
     StartTag ''input'' [(''id'', ''login''), (''name'', ''login''), (''required'', []), (''autofocus'', []), (''placeholder'', ''alice'')]] @
     identity_tags @ [
     StartTag ''div'' [(''class'', ''actions'')],
     StartTag ''button'' [(''name'', ''action''), (''value'', ''approve'')], EndTag ''button'',
     StartTag ''button'' [(''name'', ''action''), (''value'', ''deny''), (''formnovalidate'', [])],
     EndTag ''button'', EndTag ''div'', EndTag ''form'', StartTag ''p'' [(''class'', ''note'')], StartTag ''code'' [],
     EndTag ''code'', EndTag ''p'', EndTag ''body'', EndTag ''html'']"

definition device_tags :: "(string \<Rightarrow> string) \<Rightarrow> html_tag list" where
  "device_tags f = page_head @ [StartTag ''p'' [(''class'', ''note'')], EndTag ''p'', StartTag ''form'' [(''method'', ''post'')],
     StartTag ''label'' [(''for'', ''user_code'')], EndTag ''label'',
     StartTag ''input'' [(''id'', ''user_code''), (''name'', ''user_code''), (''required'', []),
       (''value'', html_unescape (f ''UserCode'')), (''placeholder'', ''BCDF-GHJK'')],
     StartTag ''label'' [(''for'', ''login'')], EndTag ''label'',
     StartTag ''input'' [(''id'', ''login''), (''name'', ''login''), (''placeholder'', ''alice'')]] @
     identity_tags @ [StartTag ''div'' [(''class'', ''actions'')],
     StartTag ''button'' [(''name'', ''action''), (''value'', ''approve'')], EndTag ''button'',
     StartTag ''button'' [(''name'', ''action''), (''value'', ''deny'')],
     EndTag ''button'', EndTag ''div'', EndTag ''form'', EndTag ''body'', EndTag ''html'']"

definition result_tags :: "html_tag list" where
  "result_tags = page_head @ [StartTag ''p'' [], EndTag ''p'', EndTag ''body'', EndTag ''html'']"

lemma template_run_append:
  "template_run f m (ps @ qs) =
     (case template_run f m ps of None \<Rightarrow> None
      | Some r \<Rightarrow> map_option (\<lambda>r2. (fst r2, snd r @ snd r2)) (template_run f (fst r) qs))"
  by (induction f m ps rule: template_run.induct)
    (auto split: option.splits prod.splits simp: option.map_comp comp_def option.map_ident)

lemma run_page_style: "template_run f Chars page_style = Some (Chars, [StartTag ''style'' [], EndTag ''style''])"
  by code_simp

lemma run_page_head:
  "template_run f Chars (page_head_tmpl '' sign-in'') = Some (Chars, page_head)"
  "template_run f Chars (page_head_tmpl '' device sign-in'') = Some (Chars, page_head)"
  unfolding page_head_tmpl_def template_run_append run_page_style option.case fst_conv snd_conv
  by code_simp+

lemma run_hidden_field:
  "template_run f Chars (hidden_field ''client_id'' k) = Some (Chars, [hidden_input ''client_id'' (f k)])"
  "template_run f Chars (hidden_field ''redirect_uri'' k) = Some (Chars, [hidden_input ''redirect_uri'' (f k)])"
  "template_run f Chars (hidden_field ''state'' k) = Some (Chars, [hidden_input ''state'' (f k)])"
  "template_run f Chars (hidden_field ''scope'' k) = Some (Chars, [hidden_input ''scope'' (f k)])"
  by code_simp+

lemma run_identity_inputs: "template_run f Chars identity_inputs = Some (Chars, identity_tags)"
  by code_simp

lemma template_runs:
  "template_run f Chars authorize_tmpl = Some (Chars, authorize_tags f)"
  "template_run f Chars device_tmpl = Some (Chars, device_tags f)"
  "template_run f Chars device_result_tmpl = Some (Chars, result_tags)"
  unfolding authorize_tmpl_def device_tmpl_def device_result_tmpl_def template_run_append
    run_page_head run_hidden_field run_identity_inputs option.case fst_conv snd_conv
  by code_simp+

definition filled :: "(string \<times> string) list \<Rightarrow> string \<Rightarrow> string" where
  "filled d k = html_escape (values_get d k)"

lemma page_tags:
  "html_run Chars (execute_template authorize_tmpl d) = (Chars, authorize_tags (filled d))"
  "html_run Chars (execute_template device_tmpl d) = (Chars, device_tags (filled d))"
  "html_run Chars (execute_template device_result_tmpl d) = (Chars, result_tags)"
  by (rule html_run_template [OF template_runs(1) filled_def] html_run_template [OF template_runs(2) filled_def]
      html_run_template [OF template_runs(3) filled_def])+

end
