(* ===== verification/FakeWire.thy ===== *)
theory FakeWire
  imports FakePages OAuthAdapters
begin

text \<open>
  The responses of the local OAuth provider as they go over the wire (\<open>writeJSON\<close>, \<open>render\<close> and
  \<open>http.Error\<close> in \<open>tools/oauthfake/server.go\<close>), and an HTTP client that reaches the provider: a request
  of the API becomes a request to the server, and the bytes of its answer come back.
\<close>

section \<open>Responses in bytes\<close>

record wire_response =
  wr_status :: nat
  wr_headers :: "(string \<times> string) list"
  wr_body :: string

definition write_json :: "nat \<Rightarrow> json \<Rightarrow> wire_response" where
  "write_json n v = \<lparr>wr_status = n,
     wr_headers = [(''Content-Type'', ''application/json''), (''Cache-Control'', ''no-store'')],
     wr_body = encode_line v\<rparr>"

definition http_error :: "nat \<Rightarrow> string \<Rightarrow> wire_response" where
  "http_error n msg = \<lparr>wr_status = n,
     wr_headers = [(''Content-Type'', ''text/plain; charset=utf-8''), (''X-Content-Type-Options'', ''nosniff'')],
     wr_body = msg @ [CHR 0x0A]\<rparr>"

text \<open>
  A page is written with status 200, or after the status of a decision: then the header is set too
  late, and \<open>net/http\<close> finds the same type in the first bytes of the page.
\<close>

definition render :: "nat \<Rightarrow> string \<Rightarrow> (string \<times> string) list \<Rightarrow> wire_response" where
  "render n name data = \<lparr>wr_status = n,
     wr_headers = [(''Content-Type'', ''text/html; charset=utf-8'')],
     wr_body = execute_template (template_named name) data\<rparr>"

text \<open>The short body of a redirect and the \<open>Allow\<close> header of a 405 are left out.\<close>

fun wire :: "fake_response \<Rightarrow> wire_response" where
  "wire (FakeError n msg) = http_error n msg"
| "wire (FakeRedirect u) = \<lparr>wr_status = 302, wr_headers = [(''Location'', u)], wr_body = []\<rparr>"
| "wire (FakeJSON n v) = write_json n v"
| "wire FakeNoContent = \<lparr>wr_status = 204, wr_headers = [], wr_body = []\<rparr>"
| "wire (FakePage n name data) = render n name data"

section \<open>A client whose requests reach the provider\<close>

definition header_of :: "(string \<times> string) list \<Rightarrow> string \<Rightarrow> string" where
  "header_of hs k = values_get hs k"

definition delivered :: "string \<Rightarrow> http_request \<Rightarrow> fake_request" where
  "delivered base q =
     (case cut_at (CHR ''?'') (trim_prefix base (hq_url q)) of (path, query) \<Rightarrow>
        \<lparr>fq_method = hq_method q, fq_path = tl (split_on (CHR ''/'') path), fq_query = query,
         fq_content_type = header_of (hq_headers q) ''Content-Type'',
         fq_authorization = header_of (hq_headers q) ''Authorization'', fq_body = Some (hq_body q)\<rparr>)"

definition received :: "wire_response \<Rightarrow> http_response" where
  "received r = \<lparr>hr_status = int (wr_status r), hr_content_type = header_of (wr_headers r) ''Content-Type'',
     hr_body = Inr (wr_body r)\<rparr>"

text \<open>The store the provider is in at each contact is an argument.\<close>

definition fake_client :: "fake_server \<Rightarrow> env \<Rightarrow> string \<Rightarrow> (nat \<Rightarrow> store) \<Rightarrow> http_client" where
  "fake_client sv E base st = \<lparr>hc_bad_url = (\<lambda>_. None),
     hc_do = (\<lambda>q n. case fake_serve sv E (delivered base q) (st n) of
               Some (Inr (resp, s1)) \<Rightarrow> Inr (received (wire resp))
             | _ \<Rightarrow> Inl (Msg [Txt ''EOF'']))\<rparr>"

section \<open>The documents over the wire\<close>

lemma utf8_fix_empty [simp]: "utf8_fix s = [] \<longleftrightarrow> s = []"
proof (cases s)
  case (Cons a t)
  have "utf8_encode rune_error \<noteq> []" by (simp add: utf8_encode_def)
  then show ?thesis by (simp add: Cons split: nat.split)
qed simp

end
