(* ===== verification/ProfileProperties.thy ===== *)
theory ProfileProperties
  imports ApiProperties "HOL-Library.Multiset"
begin

text \<open>
  The properties of profiles: which merge patches are accepted and what they mean, what an update
  stores, how it meets concurrent writes, and what a page of the list of users holds.
\<close>

section \<open>The merge patch\<close>

text \<open>The values the fields of a patch may take: no blank text, members of the enumerations, real days.\<close>

definition value_in :: "('a \<Rightarrow> bool) \<Rightarrow> 'a field \<Rightarrow> bool" where
  "value_in P f \<longleftrightarrow> (case f_value f of None \<Rightarrow> True | Some v \<Rightarrow> P v)"

definition not_blank :: "string \<Rightarrow> bool" where
  "not_blank s \<longleftrightarrow> trim_space s \<noteq> []"

definition allowed_patch :: "profile_patch \<Rightarrow> bool" where
  "allowed_patch p \<longleftrightarrow> value_in not_blank (pt_city p) \<and> value_in not_blank (pt_region p) \<and>
     value_in not_blank (pt_country p) \<and> value_in (\<lambda>v. v \<in> set genders) (pt_gender p) \<and>
     value_in valid_date (pt_date_of_birth p) \<and> value_in (\<lambda>v. v \<in> set categories) (pt_category p) \<and>
     value_in (\<lambda>v. v \<in> set court_sides) (pp_court_side (pt_preferences p)) \<and>
     value_in (\<lambda>v. v \<in> set handednesses) (pp_handedness (pt_preferences p))"

lemma string_field_iff:
  "string_field k m = Inr f \<longleftrightarrow> member_is (\<lambda>x. x) (m k) f \<and> value_in not_blank f"
proof
  assume "string_field k m = Inr f"
  then show "member_is (\<lambda>x. x) (m k) f \<and> value_in not_blank f"
    using member_is_string string_field_ok by (fastforce simp: value_in_def not_blank_def split: option.split)
next
  assume "member_is (\<lambda>x. x) (m k) f \<and> value_in not_blank f"
  then show "string_field k m = Inr f"
    by (auto simp: member_is_def value_in_def not_blank_def string_field_def parse_string_def set_to_def
        split: option.splits json.splits)
qed

lemma enum_field_iff:
  assumes "\<forall>a \<in> set A. not_blank a"
  shows "enum_field k m A = Inr f \<longleftrightarrow> member_is (\<lambda>x. x) (m k) f \<and> value_in (\<lambda>v. v \<in> set A) f"
proof
  assume "enum_field k m A = Inr f"
  then show "member_is (\<lambda>x. x) (m k) f \<and> value_in (\<lambda>v. v \<in> set A) f"
    using member_is_enum enum_field_ok by (fastforce simp: value_in_def split: option.split)
next
  assume f: "member_is (\<lambda>x. x) (m k) f \<and> value_in (\<lambda>v. v \<in> set A) f"
  with assms have "string_field k m = Inr f"
    by (auto simp: string_field_iff value_in_def split: option.splits)
  moreover have "f_value f = Some v \<Longrightarrow> f = set_to v" for v
    using f by (auto simp: member_is_def unchanged_def cleared_def set_to_def split: option.splits json.splits)
  ultimately show "enum_field k m A = Inr f"
    using f by (auto simp: enum_field_def value_in_def split: option.split)
qed

lemma format_date_not_blank: "not_blank (format_date d)"
proof -
  have digit: "\<not> is_space1 c \<and> \<not> is_space2 c b \<and> \<not> is_space2 b c \<and> \<not> is_space3 c b a \<and> \<not> is_space3 a b c"
    if "is_digit c" for a b c
    using that by (auto simp: is_digit_def is_space1_def is_space2_def is_space3_def)
  let ?c = "digit_char (d_year d div 100 div 10 mod 10)" and ?e = "digit_char (d_day d mod 10)"
  have "is_digit ?c" "is_digit ?e" by simp_all
  with digit [of ?c] digit [of ?e] have "trim_space (format_date d) = format_date d"
    by (simp add: trim_space_def trim_left_def trim_right_def format_date_def pad4_def pad2_def)
  then show ?thesis by (simp add: not_blank_def format_date_def)
qed

lemma date_field_iff:
  "date_field k m = Inr f \<longleftrightarrow> member_is format_date (m k) f \<and> value_in valid_date f"
proof
  assume "date_field k m = Inr f"
  then show "member_is format_date (m k) f \<and> value_in valid_date f"
    using member_is_date date_field_ok by (fastforce simp: value_in_def split: option.split)
next
  assume f: "member_is format_date (m k) f \<and> value_in valid_date f"
  show "date_field k m = Inr f"
  proof (cases "f_value f")
    case None
    with f have "string_field k m = Inr (\<lparr>f_set = f_set f, f_value = None\<rparr>)"
      unfolding string_field_iff
      by (auto simp: member_is_def value_in_def unchanged_def cleared_def set_to_def split: option.splits json.splits)
    with None show ?thesis by (auto simp: date_field_def)
  next
    case (Some d)
    with f have d: "f = set_to d" "m k = Some (JStr (format_date d))" "valid_date d"
      by (auto simp: member_is_def value_in_def unchanged_def cleared_def set_to_def split: option.splits json.splits)
    then have "string_field k m = Inr (set_to (format_date d))"
      using format_date_not_blank [of d] unfolding string_field_iff
      by (auto simp: member_is_def value_in_def set_to_def)
    with d show ?thesis by (simp add: date_field_def set_to_def parse_format_date)
  qed
qed

lemma enum_values_not_blank:
  "\<forall>a \<in> set genders. not_blank a" "\<forall>a \<in> set categories. not_blank a"
  "\<forall>a \<in> set court_sides. not_blank a" "\<forall>a \<in> set handednesses. not_blank a"
proof -
  have "list_all not_blank genders \<and> list_all not_blank categories \<and> list_all not_blank court_sides \<and>
    list_all not_blank handednesses" by code_simp
  then show "\<forall>a \<in> set genders. not_blank a" "\<forall>a \<in> set categories. not_blank a"
    "\<forall>a \<in> set court_sides. not_blank a" "\<forall>a \<in> set handednesses. not_blank a"
    unfolding list_all_iff by blast+
qed

lemma display_name_iff:
  "display_name_field m = Inr n \<longleftrightarrow>
     (case n of None \<Rightarrow> m ''display_name'' = None
      | Some s \<Rightarrow> m ''display_name'' = Some (JStr s) \<and> trim_space s \<noteq> [])"
  by (auto simp: display_name_field_def parse_string_def split: option.splits json.splits)

lemma preferences_field_iff:
  "preferences_field m = Inr p \<longleftrightarrow> preferences_match (m ''preferences'') p \<and>
     value_in (\<lambda>v. v \<in> set court_sides) (pp_court_side p) \<and>
     value_in (\<lambda>v. v \<in> set handednesses) (pp_handedness p)"
proof (cases "m ''preferences''")
  case None
  then show ?thesis
    by (auto simp: preferences_field_def preferences_match_def no_preferences_def value_in_def unchanged_def)
next
  case (Some v)
  show ?thesis
  proof (cases v)
    case JNull
    with Some show ?thesis
      by (auto simp: preferences_field_def preferences_match_def no_preferences_def value_in_def unchanged_def)
  next
    case (JObj ms)
    let ?m = "members_map ms"
    let ?cs = "enum_field ''preferences.court_side'' (renamed ?m ''court_side'' ''preferences.court_side'') court_sides"
      and ?h = "enum_field ''preferences.handedness'' (renamed ?m ''handedness'' ''preferences.handedness'') handednesses"
    have e: "?cs = Inr x \<longleftrightarrow> member_is (\<lambda>x. x) (?m ''court_side'') x \<and> value_in (\<lambda>v. v \<in> set court_sides) x"
      "?h = Inr x \<longleftrightarrow> member_is (\<lambda>x. x) (?m ''handedness'') x \<and> value_in (\<lambda>v. v \<in> set handednesses) x" for x
      by (simp_all only: enum_field_iff [OF enum_values_not_blank(3)] enum_field_iff [OF enum_values_not_blank(4)] renamed_to)
    obtain c a b where p: "p = \<lparr>pp_clear = c, pp_court_side = a, pp_handedness = b\<rparr>" by (cases p)
    have "preferences_field m = Inr p \<longleftrightarrow>
      reject_unknown ms preferences_patch_members ''preferences.'' = None \<and> ?cs = Inr a \<and> ?h = Inr b \<and> \<not> c"
      using Some JObj p by (auto simp: preferences_field_def Let_def split: option.splits sum.splits)
    with Some JObj p show ?thesis
      by (auto simp: e preferences_match_def reject_unknown_iff)
  qed (use Some in \<open>auto simp: preferences_field_def preferences_match_def\<close>)
qed

text \<open>
  C24: the handler accepts a merge patch exactly when its members say, by RFC 7396, what some patch
  with allowed values does (an absent member leaves a field, \<open>null\<close> clears it, a text sets it), and
  the patch it goes on with is that one; \<open>display_name\<close> cannot be cleared.
\<close>

theorem merge_patch_accepted_iff:
  "parse_profile_patch ms = Inr p \<longleftrightarrow> patch_matches (members_map ms) p \<and> allowed_patch p"
proof
  assume a: "parse_profile_patch ms = Inr p"
  note f = parse_profile_patch_fields [OF a]
  show "patch_matches (members_map ms) p \<and> allowed_patch p"
    using parse_profile_patch_matches [OF a] f(3-9)
    unfolding string_field_iff enum_field_iff [OF enum_values_not_blank(1)] enum_field_iff [OF enum_values_not_blank(2)]
      date_field_iff preferences_field_iff allowed_patch_def by blast
next
  assume a: "patch_matches (members_map ms) p \<and> allowed_patch p"
  then have "reject_unknown ms profile_patch_members [] = None"
    unfolding reject_unknown_iff members_map_dom [symmetric] patch_matches_def by blast
  moreover have "display_name_field (members_map ms) = Inr (pt_display_name p)"
    using a unfolding display_name_iff patch_matches_def by blast
  moreover have "string_field ''city'' (members_map ms) = Inr (pt_city p)"
    "string_field ''region'' (members_map ms) = Inr (pt_region p)"
    "string_field ''country'' (members_map ms) = Inr (pt_country p)"
    "enum_field ''gender'' (members_map ms) genders = Inr (pt_gender p)"
    "date_field ''date_of_birth'' (members_map ms) = Inr (pt_date_of_birth p)"
    "enum_field ''category'' (members_map ms) categories = Inr (pt_category p)"
    "preferences_field (members_map ms) = Inr (pt_preferences p)"
    using a
    unfolding string_field_iff enum_field_iff [OF enum_values_not_blank(1)] enum_field_iff [OF enum_values_not_blank(2)]
      date_field_iff preferences_field_iff allowed_patch_def patch_matches_def by blast+
  ultimately show "parse_profile_patch ms = Inr p"
    unfolding parse_profile_patch_def by (simp add: seq_ok_def)
qed

section \<open>The profile update\<close>

abbreviation pg_profiles_manager :: "libs \<Rightarrow> env \<Rightarrow> profile_manager" where
  "pg_profiles_manager L E \<equiv> new_profile_manager L (pg_profile_repository L E)"








definition move_to_france :: profile_patch where
  "move_to_france = \<lparr>pt_display_name = None, pt_city = unchanged, pt_region = unchanged, pt_country = set_to ''FR'',
     pt_gender = unchanged, pt_date_of_birth = unchanged, pt_category = unchanged, pt_preferences = no_preferences\<rparr>"







text \<open>
  C26: whatever other clients write in between, a successful update merges the patch into the row as
  it stands when the statement runs, so that fields the patch does not set keep what others wrote;
  the answer is the stored profile, and every other profile stays as it was.
\<close>

theorem update_merges_into_current_row:
  assumes "pg_update_profile E uid p w = (Inr q, w')" and "\<not> is_empty p" and "patch_fits p"
  shows "\<exists>d r t. d = exec_stmts (others_at E (Suc (w_tick w))) (w_db w) \<and>
    lookup_row pw_user_id uid (db_profiles d) = Some r \<and>
    q = (patched_profile p (profile_of r))\<lparr>pf_updated_at := t\<rparr> \<and> stored_profile w' uid = Some q \<and>
    (\<forall>i. i \<noteq> uid \<longrightarrow> stored_profile w' i = map_option profile_of (lookup_row pw_user_id i (db_profiles d))) \<and>
    db_users (w_db w') = db_users d \<and> stored_pats w' = db_pats d"
proof -
  let ?t = "clock_at E (w_tick w)" and ?v = "w\<lparr>w_tick := Suc (w_tick w)\<rparr>"
  obtain r' where r': "db_roundtrip E (patch_statement p ?t uid) ?v = (Inr r', w')" "q = profile_of r'"
    using assms(1,2) by (auto simp: pg_update_profile_eq outcome_iffs map_err_ok)
  obtain d now new where d: "d = exec_stmts (others_at E (w_tick ?v)) (w_db ?v)"
    "patch_statement p ?t uid now new d = (Inr r', w_db w')"
    using db_roundtrip_ok [OF r'(1)] by blast
  then obtain r where r: "lookup_row pw_user_id uid (db_profiles d) = Some r" "r' = patched_row p ?t r"
    "w_db w' = d\<lparr>db_profiles := update_rows pw_user_id uid (\<lambda>_. r') (db_profiles d)\<rparr>"
    unfolding patch_statement_eq [OF assms(3)] by (auto split: option.splits)
  have "stored_profile w' uid = Some q"
    using pg_profiles.update_ok [of undefined E uid p w q w'] assms(1) by simp
  moreover have "stored_profile w' i = map_option profile_of (lookup_row pw_user_id i (db_profiles d))" if "i \<noteq> uid" for i
  proof -
    have "pw_user_id r' = uid" using r(2) lookup_row_SomeD [OF r(1)] by (simp add: patched_row_def)
    with that r(3) show ?thesis by (simp add: stored_profile_def lookup_row_update_rows)
  qed
  moreover have "db_users (w_db w') = db_users d" "stored_pats w' = db_pats d" using r(3) by simp_all
  moreover have "q = (patched_profile p (profile_of r))\<lparr>pf_updated_at := to_timestamptz ?t\<rparr>"
    using r'(2) r(2) by (simp add: scan_patched_row)
  ultimately show ?thesis using d(1) r(1) by auto
qed

definition busy_env :: env where
  "busy_env = sample_env\<lparr>others_at := (\<lambda>n. [(0, 0, UpdateProfile [SetColumn ''city'' 1] [AText ''Ronda'', AUuid 7] 2)])\<rparr>"

abbreviation leave_spain :: profile_patch where
  "leave_spain \<equiv> move_to_france\<lparr>pt_region := cleared\<rparr>"

lemma leave_spain_fits: "patch_fits leave_spain" "\<not> is_empty leave_spain"
  by (simp_all add: patch_fits_def field_fits_def move_to_france_def unchanged_def cleared_def set_to_def is_empty_def
      char_len_def is_cont_def code_def)

lemma busy_update:
  "\<exists>q w'. pg_update_profile busy_env 7 leave_spain sample_world = (Inr q, w')"
proof -
  let ?r = "sample_profile_row\<lparr>pw_city := Some ''Ronda''\<rparr>"
  have o: "exec_stmts (others_at busy_env n) (w_db sample_world) = (w_db sample_world)\<lparr>db_profiles := [?r]\<rparr>" for n
    by (simp add: busy_env_def sample_world_def sql_update_profile_def sql_param_def set_column_def text_value_def
        sample_profile_row_def check_profile_def category_check_def gender_check_def region_country_check_def
        varchar_def char_len_def is_cont_def code_def has_prefix_def wildcard_def)
  have c: "check_profile (patched_row leave_spain t ?r) = None" for t
    by (simp add: check_profile_def patched_row_def move_to_france_def sample_profile_row_def category_check_def
        gender_check_def region_country_check_def unchanged_def cleared_def set_to_def patched_def)
  have f: "fault_at busy_env n = NoFault" for n by (simp add: busy_env_def sample_env_def)
  show ?thesis
    using leave_spain_fits(2) c
    by (simp add: pg_update_profile_eq patch_statement_eq [OF leave_spain_fits(1)] db_roundtrip_def Let_def f o)
      (simp add: sample_profile_row_def)
qed

theorem update_merges_into_current_row_witness:
  "\<exists>q w'. pg_update_profile busy_env 7 leave_spain sample_world = (Inr q, w') \<and>
    pf_city q = Some ''Ronda'' \<and> pf_country q = Some ''FR'' \<and> pf_region q = None"
proof -
  obtain q w' where u: "pg_update_profile busy_env 7 leave_spain sample_world = (Inr q, w')"
    using busy_update by blast
  have "lookup_row pw_user_id 7 (db_profiles (exec_stmts (others_at busy_env n) (w_db sample_world))) =
      Some (sample_profile_row\<lparr>pw_city := Some ''Ronda''\<rparr>)" for n
    by (simp add: busy_env_def sample_world_def sql_update_profile_def sql_param_def set_column_def text_value_def
        sample_profile_row_def check_profile_def category_check_def gender_check_def region_country_check_def
        varchar_def char_len_def is_cont_def code_def has_prefix_def wildcard_def)
  with update_merges_into_current_row [OF u leave_spain_fits(2,1)] obtain t where
    "q = (patched_profile leave_spain (profile_of (sample_profile_row\<lparr>pw_city := Some ''Ronda''\<rparr>)))\<lparr>pf_updated_at := t\<rparr>"
    by auto
  with u show ?thesis
    by (simp add: patched_profile_def profile_of_def unmarshal_preferences_def move_to_france_def patched_def unchanged_def cleared_def set_to_def)
qed

text \<open>
  C27: the UPDATE that is built clause by clause, with its numbered arguments, is the patch: it gives
  the row with exactly the fields of the patch replaced, or the check that the new row violates, and
  changes no other row.
\<close>

theorem update_statement_is_patch:
  assumes "patch_fits p"
  shows "sql_update_profile (ub_clauses (patch_builder p t)) (ub_args (patch_builder p t) @ [AUuid uid])
      (Suc (length (ub_args (patch_builder p t)))) now new d =
    (case lookup_row pw_user_id uid (db_profiles d) of
       None \<Rightarrow> (Inl (Sentinel ErrNoRows), d)
     | Some old \<Rightarrow>
         (case check_profile (patched_row p t old) of
            Some e \<Rightarrow> (Inl e, d)
          | None \<Rightarrow> (Inr (patched_row p t old),
              d\<lparr>db_profiles := update_rows pw_user_id uid (\<lambda>_. patched_row p t old) (db_profiles d)\<rparr>)))"
  using patch_statement_eq [OF assms, of t uid now new d] by (simp add: patch_statement_def Let_def)

theorem update_statement_is_patch_witness:
  "fst (sql_update_profile (ub_clauses (patch_builder leave_spain 5)) (ub_args (patch_builder leave_spain 5) @ [AUuid 9])
      (Suc (length (ub_args (patch_builder leave_spain 5)))) 0 0 (w_db sample_world)) = Inl (Sentinel ErrNoRows)"
  unfolding update_statement_is_patch [OF leave_spain_fits(1)]
  by (simp add: sample_world_def sample_profile_row_def)

section \<open>The list of users\<close>

lemma sint_in_range:
  fixes i :: int
  assumes "- (2 ^ 63) \<le> i" and "i < 2 ^ 63"
  shows "sint (word_of_int i :: 64 word) = i"
  using assms by (simp add: int_word_sint)

lemma list_offset_word:
  "list_offset \<lparr>lp_page = word_of_int p, lp_page_size = word_of_int s, lp_fields = fs\<rparr> = word_of_int ((p - 1) * s)"
  by (simp add: list_offset_def)

definition page_json :: "libs \<Rightarrow> string list \<Rightarrow> joined list \<Rightarrow> json list" where
  "page_json L fs js = map (\<lambda>j. list_item_json (to_list_item_response L (item_of j) fs)) js"

lemma list_users_quiet:
  assumes "quiet E" and "page_param r = Inr p" and "page_size_param r = Inr s" and "fields_param L r = Inr fs"
  shows "list_users L (pg_profiles_manager L E) c r w =
    (let offset = sint (word_of_int ((p - 1) * s) :: 64 word)
     in if offset < 0 then (HTTPError 500 ''failed to list users'', ticked (ticked w))
        else (JSON 200 (list_users_json
            (page_json L fs (take (nat s) (drop (nat offset) (sorted_join L (w_db w)))))
            (int (length (join_profiles (w_db w)))) p s), ticked (ticked w)))"
proof -
  have s: "sint (word_of_int s :: 64 word) = s" "\<not> s < 0"
    using page_size_param_range [OF assms(3)] by (simp_all add: sint_in_range)
  show ?thesis
    using assms(2-4) s
    by (simp add: list_users_def pm_list_def pg_list_profiles_def Let_def list_offset_word quiet_roundtrip [OF assms(1)]
        sql_count_profiles_def sql_list_profiles_def page_json_def comp_def del: of_int_mult of_int_diff)
qed

text \<open>
  C28: in a quiet environment a page is the slice it names of the users ordered by display name and
  identifier, with the number of all profiles as the total, as long as the number of rows before it
  fits a 64-bit integer.
\<close>

theorem list_page_is_slice:
  assumes "quiet E" and "page_param r = Inr p" and "page_size_param r = Inr s" and "fields_param L r = Inr fs"
    and "(p - 1) * s < 2 ^ 63"
  shows "list_users L (pg_profiles_manager L E) c r w =
    (JSON 200 (list_users_json
       (page_json L fs (take (nat s) (drop (nat ((p - 1) * s)) (sorted_join L (w_db w)))))
       (int (length (join_profiles (w_db w)))) p s), ticked (ticked w))"
proof -
  have "0 \<le> (p - 1) * s"
    using page_param_range [OF assms(2)] page_size_param_range [OF assms(3)] by simp
  with assms(5) have "sint (word_of_int ((p - 1) * s) :: 64 word) = (p - 1) * s" "\<not> (p - 1) * s < 0"
    by (simp_all only: sint_in_range not_less) (rule sint_in_range; linarith)?
  then show ?thesis by (simp only: list_users_quiet [OF assms(1-4)] Let_def if_False)
qed

definition page_request :: "string \<Rightarrow> string \<Rightarrow> request" where
  "page_request p s = anonymous\<lparr>rq_query := (\<lambda>k. if k = ''page'' then p else if k = ''page_size'' then s else [])\<rparr>"

lemma page_request_params:
  "page_param (page_request ''1'' ''4'') = Inr 1" "page_param (page_request ''2'' ''4'') = Inr 2"
  "page_param (page_request ''4611686018427387905'' ''4'') = Inr 4611686018427387905"
  "page_param (page_request ''9223372036854775807'' ''100'') = Inr 9223372036854775807"
  "page_size_param (page_request p ''4'') = Inr 4" "page_size_param (page_request p ''100'') = Inr 100"
  "fields_param L (page_request p s) = Inr []"
proof -
  have n: "atoi ''1'' = Some 1" "atoi ''2'' = Some 2" "atoi ''4'' = Some 4" "atoi ''100'' = Some 100"
    "atoi ''4611686018427387905'' = Some 4611686018427387905" "atoi ''9223372036854775807'' = Some 9223372036854775807"
    by (simp_all add: atoi_def is_digit_def code_def dec_val_def digit_val_def Let_def has_prefix_def)
  show "page_param (page_request ''1'' ''4'') = Inr 1" "page_param (page_request ''2'' ''4'') = Inr 2"
    "page_param (page_request ''4611686018427387905'' ''4'') = Inr 4611686018427387905"
    "page_param (page_request ''9223372036854775807'' ''100'') = Inr 9223372036854775807"
    "page_size_param (page_request p ''4'') = Inr 4" "page_size_param (page_request p ''100'') = Inr 100"
    "fields_param L (page_request p s) = Inr []"
    by (simp_all add: page_param_def page_size_param_def fields_param_def page_request_def anonymous_def n)
qed

theorem list_page_is_slice_witness:
  "fst (list_users sample_libs (pg_profiles_manager sample_libs sample_env) empty_ctx (page_request ''2'' ''4'') sample_world) =
     JSON 200 (list_users_json [] 1 2 4)"
proof -
  have "length (sorted_join sample_libs (w_db sample_world)) = 1" "length (join_profiles (w_db sample_world)) = 1"
    by (simp_all add: sorted_join_def join_profiles_def sample_world_def sample_user_def sample_profile_row_def)
  then show ?thesis
    using list_page_is_slice [OF quiet_sample_env page_request_params(2) page_request_params(5,7)]
    by (simp add: page_json_def)
qed

lemma sample_join: "join_profiles (w_db sample_world) = [(sample_user, sample_profile_row)]"
  "sorted_join sample_libs (w_db sample_world) = [(sample_user, sample_profile_row)]"
  by (simp_all add: sorted_join_def join_profiles_def sample_world_def sample_user_def sample_profile_row_def)

lemma sample_wrapped_page:
  "fst (list_users sample_libs (pg_profiles_manager sample_libs sample_env) empty_ctx
      (page_request ''4611686018427387905'' ''4'') sample_world) =
     JSON 200 (list_users_json (page_json sample_libs [] [(sample_user, sample_profile_row)]) 1 4611686018427387905 4)"
  using sample_join
  by (simp add: list_users_quiet [OF quiet_sample_env page_request_params(3) page_request_params(5,7)] Let_def)


subsection \<open>The order\<close>

lemma mset_join:
  "mset (join_profiles d) =
     (\<Sum>u \<in># mset (db_users d). image_mset (Pair u) (filter_mset (\<lambda>p. pw_user_id p = u_id u) (mset (db_profiles d))))"
proof -
  let ?f = "\<lambda>u. map (Pair u) (filter (\<lambda>p. pw_user_id p = u_id u) (db_profiles d))"
  have "mset (join_profiles d) = (\<Sum>u \<leftarrow> db_users d. mset (?f u))"
    by (simp add: join_profiles_def mset_concat comp_def)
  also have "\<dots> = (\<Sum>u \<in># mset (db_users d). mset (?f u))"
    by (simp add: sum_mset_sum_list [symmetric])
  finally show ?thesis by simp
qed

lemma joined_key_inj:
  assumes "db_inv d"
  shows "inj_on (joined_key L) (set (join_profiles d))"
proof (rule inj_onI)
  fix a b
  assume ab: "a \<in> set (join_profiles d)" "b \<in> set (join_profiles d)" "joined_key L a = joined_key L b"
  then have m: "fst a \<in> set (db_users d)" "fst b \<in> set (db_users d)" "snd a \<in> set (db_profiles d)"
    "snd b \<in> set (db_profiles d)" "pw_user_id (snd a) = u_id (fst a)" "pw_user_id (snd b) = u_id (fst b)"
    "u_id (fst a) = u_id (fst b)"
    by (auto simp: join_profiles_def joined_key_def)
  have "fst a = fst b" using users_inv_unique(1) [OF db_invD(1) [OF assms]] m by blast
  moreover have "distinct (map pw_user_id (db_profiles d))"
    using db_invD(3) [OF assms] by (simp add: profiles_inv_def)
  then have "snd a = snd b" using m by (auto simp: distinct_map inj_on_def)
  ultimately show "a = b" by (simp add: prod_eq_iff)
qed

lemma sorted_join_canonical:
  assumes "db_inv d" and "mset (db_users d) = mset (db_users d')" and "mset (db_profiles d) = mset (db_profiles d')"
  shows "sorted_join L d = sorted_join L d'"
proof -
  have "mset (join_profiles d) = mset (sort_key (joined_key L) (join_profiles d'))"
    using assms(2,3) by (simp add: mset_join)
  then show ?thesis
    unfolding sorted_join_def by (rule sort_key_inj_key_eq) (simp_all add: joined_key_inj [OF assms(1)])
qed

text \<open>
  What a page shows depends on the rows only, not on the order in which the tables hold them:
  two databases with the same rows give the same answer, so that pages neither overlap nor miss a
  user between two requests.
\<close>

theorem list_order_canonical:
  assumes "quiet E" and "world_inv w" and "mset (stored_users w) = mset (stored_users v)"
    and "mset (db_profiles (w_db w)) = mset (db_profiles (w_db v))"
  shows "fst (list_users L (pg_profiles_manager L E) c r w) = fst (list_users L (pg_profiles_manager L E) c r v)"
proof -
  have s: "sorted_join L (w_db w) = sorted_join L (w_db v)"
    using assms(2-4) by (intro sorted_join_canonical) (simp_all add: world_inv_def)
  then have "length (sorted_join L (w_db w)) = length (sorted_join L (w_db v))" by (rule arg_cong)
  then have "length (join_profiles (w_db w)) = length (join_profiles (w_db v))" by (simp add: sorted_join_def)
  with s show ?thesis
    by (cases "page_param r"; cases "page_size_param r"; cases "fields_param L r")
      (simp_all add: list_users_quiet [OF assms(1)] Let_def, simp_all add: list_users_def)
qed

definition second_user :: user where
  "second_user = sample_user\<lparr>u_id := 8, u_email := ''c@d.e'', u_provider_id := ''g2''\<rparr>"

definition two_users :: "bool \<Rightarrow> world" where
  "two_users b = \<lparr>w_db = \<lparr>db_users = (if b then [sample_user, second_user] else [second_user, sample_user]),
     db_pats = [], db_profiles = [sample_profile_row]\<rparr>, w_tick = 0\<rparr>"

theorem list_order_canonical_witness:
  "fst (list_users sample_libs (pg_profiles_manager sample_libs sample_env) empty_ctx anonymous (two_users True)) =
     fst (list_users sample_libs (pg_profiles_manager sample_libs sample_env) empty_ctx anonymous (two_users False))"
proof (rule list_order_canonical [OF quiet_sample_env])
  show "world_inv (two_users True)"
    using sample_world_inv
    by (auto simp: two_users_def world_inv_def db_inv_def users_inv_def pats_inv_def profiles_inv_def second_user_def
        sample_world_def sample_user_def user_ok_def char_len_def is_cont_def code_def)
qed (simp_all add: two_users_def)

lemma check_fields_error: "check_fields L acc fs = Inl e \<Longrightarrow> \<exists>m. e = HTTPError 400 m"
  by (induction L acc fs rule: check_fields.induct) (auto split: if_splits)

lemma list_params_errors:
  "page_param r = Inl e \<Longrightarrow> \<exists>m. e = HTTPError 400 m"
  "page_size_param r = Inl e \<Longrightarrow> \<exists>m. e = HTTPError 400 m"
  "fields_param L r = Inl e \<Longrightarrow> \<exists>m. e = HTTPError 400 m"
  by (auto simp: page_param_def page_size_param_def fields_param_def check_fields_error
      split: option.splits if_splits)

text \<open>
  An entry of the list has no member but the requested ones, and never one outside the seven
  public fields: dates of birth, emails and preferences are not shown.
\<close>

theorem list_shows_only_public_fields:
  assumes "list_users L M c r w = (JSON st v, w')"
  shows "\<exists>fs ms items. fields_param L r = Inr fs \<and> set fs \<subseteq> set allowed_list_fields \<and> st = 200 \<and>
    v = JObj ms \<and> map_of ms ''data'' = Some (JArr items) \<and>
    (\<forall>i \<in> set items. member_names i \<subseteq> (if fs = [] then set allowed_list_fields else set fs))"
proof -
  have "\<exists>p s fs items n. page_param r = Inr p \<and> page_size_param r = Inr s \<and> fields_param L r = Inr fs \<and>
    st = 200 \<and> v = list_users_json (map (\<lambda>i. list_item_json (to_list_item_response L i fs)) items) n p s"
    using assms list_params_errors(1,2) [of r] list_params_errors(3) [of L r]
    by (auto simp: list_users_def split: sum.splits prod.splits)
  then obtain fs items n p s where "fields_param L r = Inr fs" "st = 200"
    "v = list_users_json (map (\<lambda>i. list_item_json (to_list_item_response L i fs)) items) n p s" by blast
  then show ?thesis
    using fields_param_ok list_item_members [of L _ fs]
    by (auto simp: list_users_json_def)
qed

theorem list_shows_only_public_fields_witness:
  "\<exists>ms items. list_users_json (page_json sample_libs [] [(sample_user, sample_profile_row)]) 1 4611686018427387905 4 = JObj ms \<and>
    map_of ms ''data'' = Some (JArr items) \<and> (\<forall>i \<in> set items. member_names i \<subseteq> set allowed_list_fields)"
proof -
  obtain w' where "list_users sample_libs (pg_profiles_manager sample_libs sample_env) empty_ctx
      (page_request ''4611686018427387905'' ''4'') sample_world =
     (JSON 200 (list_users_json (page_json sample_libs [] [(sample_user, sample_profile_row)]) 1 4611686018427387905 4), w')"
    using sample_wrapped_page by (metis prod.collapse)
  from list_shows_only_public_fields [OF this] show ?thesis
    by (auto split: if_splits simp: page_request_params(7))
qed

end
