(* ===== verification/FakeStoreInv.thy ===== *)
theory FakeStoreInv
  imports FakeStore
begin

text \<open>
  The store as a state machine: a labelled step relation with one rule per operation, runs, the
  invariant, and the one-time use of codes and device requests along every run.
\<close>

section \<open>Steps and runs\<close>

datatype fake_event =
    Issued string
  | Redeemed string "store_error + string"
  | Started string string
  | Resolved string bool "store_error + unit"
  | Polled string "store_error + string"

inductive fake_step :: "env \<Rightarrow> store \<Rightarrow> fake_event \<Rightarrow> store \<Rightarrow> bool" for E where
  Issue: "issue_code E p u i s = Inr (c, s') \<Longrightarrow> fake_step E s (Issued c) s'"
| Redeem: "redeem_code E p c u s = Inr (r, s') \<Longrightarrow> fake_step E s (Redeemed c r) s'"
| Start: "start_device E p s = Some (Inr (d, s')) \<Longrightarrow>
    fake_step E s (Started (ds_device_code d) (ds_user_code d)) s'"
| Resolve: "resolve_device E p uc a i s = Inr (r, s') \<Longrightarrow> fake_step E s (Resolved uc a r) s'"
| Poll: "poll_device E p dc s = Inr (r, s') \<Longrightarrow> fake_step E s (Polled dc r) s'"

inductive_cases fake_stepE: "fake_step E s ev s'"

inductive fake_run :: "env \<Rightarrow> store \<Rightarrow> fake_event list \<Rightarrow> store \<Rightarrow> bool" for E where
  Stop: "fake_run E s [] s"
| Step: "fake_step E s ev s1 \<Longrightarrow> fake_run E s1 evs s2 \<Longrightarrow> fake_run E s (ev # evs) s2"

section \<open>What each operation does to the maps\<close>

lemma issue_token_maps:
  assumes "issue_token E p i s = Inr (t, s')"
  shows "fs_codes s' = fs_codes s" "fs_devices s' = fs_devices s" "fs_user_codes s' = fs_user_codes s"
    "fs_tokens s' = (fs_tokens s)(t \<mapsto> \<lparr>at_provider = p, at_identity = i\<rparr>)"
    "fs_interval s' = fs_interval s" "fs_code_ttl s' = fs_code_ttl s"
  using assms by (auto simp: issue_token_def random_hex_ok split: sum.splits)

lemma answer_token_ok:
  "answer_token r = Inr (a, s) \<longleftrightarrow> (\<exists>t. r = Inr (t, s) \<and> a = Inr t)"
  by (auto simp: answer_token_def split: sum.splits)

lemma issue_code_maps:
  assumes "issue_code E p u i s = Inr (c, s')"
  shows "fs_devices s' = fs_devices s" "fs_user_codes s' = fs_user_codes s"
    "fs_interval s' = fs_interval s" "\<exists>a. fs_codes s' = (fs_codes s)(c \<mapsto> a)"
  using assms by (auto simp: issue_code_def random_hex_ok split: sum.splits)

lemma redeem_code_maps:
  assumes "redeem_code E p c u s = Inr (r, s')"
  shows "fs_devices s' = fs_devices s" "fs_user_codes s' = fs_user_codes s"
    "fs_interval s' = fs_interval s"
    "fs_codes s' = fs_codes s \<and> r = Inl InvalidGrant \<or> fs_codes s' = (fs_codes s)(c := None)"
  using assms
  by (auto simp: redeem_code_def Let_def answer_token_ok dest: issue_token_maps
      split: option.splits if_splits)

text \<open>A returned user code is free, and only the count of contacts moved; the one failure is the random source's.\<close>

definition good_draw :: "store \<Rightarrow> string + (string \<times> store) \<Rightarrow> bool" where
  "good_draw s y \<longleftrightarrow>
     (case y of Inl m \<Rightarrow> m = ''rand''
      | Inr (uc, s') \<Rightarrow> (\<exists>n b. length b = 8 \<and> uc = user_code_of b \<and> fs_user_codes s uc = None \<and>
          s' = s\<lparr>fs_tick := n\<rparr>))"

lemma good_draw_tick: "good_draw (tick s) y \<Longrightarrow> good_draw s y"
  by (auto simp: good_draw_def tick_def split: sum.splits)

lemma new_user_code_good:
  assumes "new_user_code E s = Some y"
  shows "good_draw s y"
proof (rule new_user_code.raw_induct [where P = "\<lambda>E s y. good_draw s y", OF _ assms])
  fix rec and E s y
  assume IH: "\<And>E s y. rec E s = Some y \<Longrightarrow> good_draw s y"
    and step: "(case draw E 8 s of Inl m \<Rightarrow> Some (Inl m)
      | Inr (b, s1) \<Rightarrow> if fs_user_codes s1 (user_code_of b) = None
          then Some (Inr (user_code_of b, s1)) else rec E s1) = Some y"
  show "good_draw s y"
  proof (cases "draw E 8 s")
    case (Inl m)
    with step have "y = Inl m" by simp
    with Inl show ?thesis by (auto simp: good_draw_def draw_def split: if_splits)
  next
    case (Inr bs)
    then obtain b where b: "bs = (b, tick s)" "length b = 8" by (cases bs) (auto simp: draw_ok)
    show ?thesis
    proof (cases "fs_user_codes s (user_code_of b) = None")
      case True
      with step Inr b have "y = Inr (user_code_of b, tick s)" by simp
      with True b(2) show ?thesis by (auto simp: good_draw_def tick_def)
    next
      case False
      with step Inr b have "rec E (tick s) = Some y" by simp
      from good_draw_tick [OF IH [OF this]] show ?thesis .
    qed
  qed
qed

lemma new_user_code_maps:
  assumes "new_user_code E s = Some (Inr (uc, s'))"
  obtains n b where "length b = 8" "uc = user_code_of b" "fs_user_codes s uc = None"
    "s' = s\<lparr>fs_tick := n\<rparr>"
  using new_user_code_good [OF assms] by (auto simp: good_draw_def)

text \<open>
  The loop returns as soon as a draw is free: with \<open>k\<close> taken draws before it, it makes \<open>k + 1\<close>
  draws.
\<close>

lemma new_user_code_returns:
  assumes "\<And>j. j \<le> k \<Longrightarrow> \<not> rand_fails_at E (fs_tick s + j)"
    and "fs_user_codes s (user_code_of (map (rand_at E (fs_tick s + k)) [0..<8])) = None"
    and "\<And>j. j < k \<Longrightarrow> fs_user_codes s (user_code_of (map (rand_at E (fs_tick s + j)) [0..<8])) \<noteq> None"
  shows "new_user_code E s = Some (Inr (user_code_of (map (rand_at E (fs_tick s + k)) [0..<8]),
    s\<lparr>fs_tick := fs_tick s + Suc k\<rparr>))"
  using assms
proof (induction k arbitrary: s)
  case 0
  then have "draw E 8 s = Inr (map (rand_at E (fs_tick s)) [0..<8], tick s)"
    using draw_ok [of E 8 s] 0(1) [of 0] by simp
  with 0(2) show ?case by (subst new_user_code.simps) (simp add: tick_def)
next
  case (Suc k)
  have d: "draw E 8 s = Inr (map (rand_at E (fs_tick s)) [0..<8], tick s)"
    using draw_ok [of E 8 s] Suc.prems(1) [of 0] by simp
  have "fs_user_codes s (user_code_of (map (rand_at E (fs_tick s)) [0..<8])) \<noteq> None"
    using Suc.prems(3) [of 0] by simp
  with d have "new_user_code E s = new_user_code E (tick s)"
    by (subst new_user_code.simps) auto
  also have "\<dots> = Some (Inr (user_code_of (map (rand_at E (fs_tick (tick s) + k)) [0..<8]),
      (tick s)\<lparr>fs_tick := fs_tick (tick s) + Suc k\<rparr>))"
    using Suc.prems(1) [of "Suc _"] Suc.prems(2) Suc.prems(3) [of "Suc _"] by (intro Suc.IH) simp_all
  finally show ?case by (simp add: tick_def)
qed

lemma start_device_maps:
  assumes "start_device E p s = Some (Inr (d, s'))"
  shows "fs_codes s' = fs_codes s" "fs_interval s' = fs_interval s"
    "fs_user_codes s (ds_user_code d) = None"
    "fs_user_codes s' = (fs_user_codes s)(ds_user_code d \<mapsto> ds_device_code d)"
    "\<exists>x. fs_devices s' = (fs_devices s)(ds_device_code d \<mapsto> new_device p (ds_user_code d) x (fs_interval s))"
    "\<exists>b. length b = 8 \<and> ds_user_code d = user_code_of b"
proof -
  obtain dc s1 where s1: "random_hex E 20 s = Inr (dc, s1)" "s1 = tick s"
    using assms by (auto simp: start_device_def random_hex_ok split: sum.splits)
  with assms obtain uc s2 where s2: "new_user_code E s1 = Some (Inr (uc, s2))"
    by (auto simp: start_device_def split: option.splits sum.splits)
  from new_user_code_maps [OF s2] obtain n b where n: "length b = 8" "uc = user_code_of b"
    "fs_user_codes s1 uc = None" "s2 = s1\<lparr>fs_tick := n\<rparr>" .
  have "d = \<lparr>ds_device_code = dc, ds_user_code = uc, ds_expires_in = fs_code_ttl s2, ds_interval = fs_interval s2\<rparr>"
    "s' = (tick s2)\<lparr>fs_devices := (fs_devices s2)(dc \<mapsto>
        new_device p uc (now_at E s2 + fs_code_ttl s2) (fs_interval s2)),
      fs_user_codes := (fs_user_codes s2)(uc \<mapsto> dc)\<rparr>"
    using assms s1 s2 by (simp_all add: start_device_def)
  with n s1(2) show "fs_codes s' = fs_codes s" "fs_interval s' = fs_interval s"
    "fs_user_codes s (ds_user_code d) = None"
    "fs_user_codes s' = (fs_user_codes s)(ds_user_code d \<mapsto> ds_device_code d)"
    "\<exists>x. fs_devices s' = (fs_devices s)(ds_device_code d \<mapsto> new_device p (ds_user_code d) x (fs_interval s))"
    "\<exists>b. length b = 8 \<and> ds_user_code d = user_code_of b"
    by auto
qed

lemma resolve_device_maps:
  assumes "resolve_device E p uc a i s = Inr (r, s')"
  shows "fs_codes s' = fs_codes s" "fs_user_codes s' = fs_user_codes s" "fs_interval s' = fs_interval s"
    "fs_devices s' = fs_devices s \<and> r \<noteq> Inr () \<or>
     (\<exists>dc d. fs_user_codes s (normalize_user_code uc) = Some dc \<and> fs_devices s dc = Some d \<and>
        dv_provider d = p \<and> dv_status d = DevicePending \<and> r = Inr () \<and>
        fs_devices s' = (fs_devices s)(dc \<mapsto> (if a then d\<lparr>dv_status := DeviceApproved, dv_identity := i\<rparr>
          else d\<lparr>dv_status := DeviceDenied\<rparr>)))"
  using assms by (auto simp: resolve_device_def Let_def split: option.splits if_splits)

lemma put_device_simps [simp]:
  "fs_codes (put_device dc d s) = fs_codes s" "fs_user_codes (put_device dc d s) = fs_user_codes s"
  "fs_interval (put_device dc d s) = fs_interval s"
  "fs_devices (put_device dc d s) = (fs_devices s)(dc \<mapsto> d)" "fs_tokens (put_device dc d s) = fs_tokens s"
  by (simp_all add: put_device_def)

text \<open>The outcomes of a poll, in the order of the code.\<close>

lemma poll_device_cases:
  assumes "poll_device E p dc s = Inr (r, s')"
  obtains (Invalid) "r = Inl InvalidGrant" "s' = s"
      "case fs_devices s dc of None \<Rightarrow> True | Some d \<Rightarrow> dv_provider d \<noteq> p \<or> dv_redeemed d"
  | (Expired) d where "fs_devices s dc = Some d" "dv_provider d = p" "\<not> dv_redeemed d"
      "now_at E s > dv_expires_at d" "r = Inl ExpiredToken" "s' = tick s"
  | (Denied) d where "fs_devices s dc = Some d" "dv_provider d = p" "\<not> dv_redeemed d"
      "now_at E s \<le> dv_expires_at d" "dv_status d = DeviceDenied" "r = Inl AccessDenied"
      "s' = put_device dc (d\<lparr>dv_last_poll := now_at E s\<rparr>) (tick s)"
  | (Approved) d t where "fs_devices s dc = Some d" "dv_provider d = p" "\<not> dv_redeemed d"
      "now_at E s \<le> dv_expires_at d" "dv_status d = DeviceApproved" "r = Inr t"
      "issue_token E p (dv_identity d)
         (put_device dc (d\<lparr>dv_last_poll := now_at E s, dv_redeemed := True\<rparr>) (tick s)) = Inr (t, s')"
  | (Too_Fast) d where "fs_devices s dc = Some d" "dv_provider d = p" "\<not> dv_redeemed d"
      "now_at E s \<le> dv_expires_at d" "dv_status d = DevicePending" "too_fast d (now_at E s)"
      "r = Inl SlowDown"
      "s' = put_device dc (d\<lparr>dv_last_poll := now_at E s, dv_interval := dv_interval d + five_seconds\<rparr>) (tick s)"
  | (Wait) d where "fs_devices s dc = Some d" "dv_provider d = p" "\<not> dv_redeemed d"
      "now_at E s \<le> dv_expires_at d" "dv_status d = DevicePending" "\<not> too_fast d (now_at E s)"
      "r = Inl Pending" "s' = put_device dc (d\<lparr>dv_last_poll := now_at E s\<rparr>) (tick s)"
proof (cases "fs_devices s dc")
  case None
  with assms show thesis by (intro Invalid) (simp_all add: poll_device_def)
next
  case (Some d)
  consider "dv_provider d \<noteq> p \<or> dv_redeemed d"
    | "dv_provider d = p" "\<not> dv_redeemed d" "now_at E s > dv_expires_at d"
    | "dv_provider d = p" "\<not> dv_redeemed d" "now_at E s \<le> dv_expires_at d" by fastforce
  then show thesis
  proof cases
    case 1
    with assms Some show thesis by (intro Invalid) (auto simp: poll_device_def)
  next
    case 2
    with assms Some show thesis by (intro Expired [of d]) (simp_all add: poll_device_def Let_def)
  next
    case 3
    show thesis
    proof (cases "dv_status d")
      case DevicePending
      with 3 assms Some show thesis
        by (cases "too_fast d (now_at E s)")
          ((intro Too_Fast [of d]; simp add: poll_device_def Let_def not_less), 
           (intro Wait [of d]; simp add: poll_device_def Let_def not_less))
    next
      case DeviceApproved
      with 3 assms Some show thesis
        by (auto simp: poll_device_def Let_def answer_token_ok not_less intro: Approved [of d])
    next
      case DeviceDenied
      with 3 assms Some show thesis
        by (intro Denied [of d]) (simp_all add: poll_device_def Let_def not_less)
    qed
  qed
qed

section \<open>The invariant\<close>

text \<open>
  Every user code leads to a device request, so no operation follows a missing one; a request
  that was exchanged for a token was approved; a polling interval is the announced one plus a
  number of five-second penalties; user codes are in normal form.
\<close>

definition device_ok :: "int \<Rightarrow> device_request \<Rightarrow> bool" where
  "device_ok interval d \<longleftrightarrow> (dv_redeemed d \<longrightarrow> dv_status d = DeviceApproved) \<and>
     (\<exists>n. dv_interval d = interval + int n * five_seconds)"

definition store_inv :: "store \<Rightarrow> bool" where
  "store_inv s \<longleftrightarrow>
     (\<forall>uc dc. fs_user_codes s uc = Some dc \<longrightarrow>
        fs_devices s dc \<noteq> None \<and> normalize_user_code uc = uc) \<and>
     (\<forall>dc d. fs_devices s dc = Some d \<longrightarrow> device_ok (fs_interval s) d)"

lemma store_inv_new: "store_inv (new_store ttl interval)"
  by (simp add: store_inv_def new_store_def)

lemma code_letter_upper: "is_upper (code_letter v)"
proof -
  have "code_letter v \<in> set user_code_alphabet"
    unfolding code_letter_def by (intro nth_mem) (simp add: user_code_alphabet_def)
  then show ?thesis by (auto simp: user_code_alphabet_def is_upper_def code_def)
qed

lemma upper_char_upper: "is_upper c \<Longrightarrow> upper_char c = c"
  by (auto simp: upper_char_id is_upper_def is_lower_def)

lemma normalize_letters:
  assumes "list_all is_upper b" and "length b = 8"
  shows "normalize_user_code (take 4 b @ ''-'' @ drop 4 b) = take 4 b @ ''-'' @ drop 4 b"
proof -
  have "list_all is_upper (take 4 b)" "list_all is_upper (drop 4 b)"
    using assms(1) by (auto simp: list_all_iff dest: in_set_takeD in_set_dropD)
  then have "filter is_letter (take 4 b) = take 4 b" "filter is_letter (drop 4 b) = drop 4 b"
    by (auto simp: filter_id_conv list_all_iff is_letter_def)
  moreover have "map upper_char b = b"
    using assms(1) by (auto simp: list_all_iff upper_char_upper intro: map_idI)
  moreover have "\<not> is_letter (CHR ''-'')" by (simp add: is_letter_def is_lower_def is_upper_def code_def)
  ultimately show ?thesis
    using assms(2) by (simp add: normalize_user_code_def flip: map_append)
qed

lemma user_code_normal:
  assumes "length b = 8"
  shows "normalize_user_code (user_code_of b) = user_code_of b"
  using normalize_letters [of "map code_letter b"] assms
  by (simp add: user_code_of_def take_map drop_map list_all_iff code_letter_upper)

lemma device_ok_poll:
  "device_ok i d \<Longrightarrow> device_ok i (d\<lparr>dv_last_poll := t\<rparr>)"
  "device_ok i d \<Longrightarrow> dv_status d = DeviceApproved \<Longrightarrow> device_ok i (d\<lparr>dv_last_poll := t, dv_redeemed := True\<rparr>)"
  by (simp_all add: device_ok_def)

lemma device_ok_slow:
  assumes "device_ok i d"
  shows "device_ok i (d\<lparr>dv_last_poll := t, dv_interval := dv_interval d + five_seconds\<rparr>)"
proof -
  obtain n where "dv_interval d = i + int n * five_seconds" using assms by (auto simp: device_ok_def)
  then have "dv_interval d + five_seconds = i + int (Suc n) * five_seconds" by (simp add: algebra_simps)
  then have "\<exists>m. dv_interval d + five_seconds = i + int m * five_seconds" by blast
  with assms show ?thesis by (simp add: device_ok_def)
qed

lemma store_inv_put:
  assumes "store_inv s" and "device_ok (fs_interval s) d"
    and "fs_user_codes s' = fs_user_codes s" and "fs_interval s' = fs_interval s"
    and "fs_devices s' = (fs_devices s)(dc \<mapsto> d)"
  shows "store_inv s'"
  using assms by (auto simp: store_inv_def split: if_splits)

lemma store_inv_same:
  "store_inv s \<Longrightarrow> fs_user_codes s' = fs_user_codes s \<Longrightarrow> fs_interval s' = fs_interval s \<Longrightarrow>
     fs_devices s' = fs_devices s \<Longrightarrow> store_inv s'"
  by (simp add: store_inv_def)

lemma resolve_device_inv:
  assumes "store_inv s" and "resolve_device E p uc a i s = Inr (r, s')"
  shows "store_inv s'"
proof -
  note maps = resolve_device_maps [OF assms(2)]
  from maps(4) show ?thesis
  proof
    assume "fs_devices s' = fs_devices s \<and> r \<noteq> Inr ()"
    with maps assms(1) show ?thesis by (auto intro: store_inv_same)
  next
    assume "\<exists>dc d. fs_user_codes s (normalize_user_code uc) = Some dc \<and> fs_devices s dc = Some d \<and>
        dv_provider d = p \<and> dv_status d = DevicePending \<and> r = Inr () \<and>
        fs_devices s' = (fs_devices s)(dc \<mapsto> (if a then d\<lparr>dv_status := DeviceApproved, dv_identity := i\<rparr>
          else d\<lparr>dv_status := DeviceDenied\<rparr>))"
    then obtain dc d where d: "fs_devices s dc = Some d" "dv_status d = DevicePending"
      "fs_devices s' = (fs_devices s)(dc \<mapsto> (if a then d\<lparr>dv_status := DeviceApproved, dv_identity := i\<rparr>
          else d\<lparr>dv_status := DeviceDenied\<rparr>))" by blast
    then have "device_ok (fs_interval s) d" using assms(1) by (simp add: store_inv_def)
    then have "device_ok (fs_interval s) (if a then d\<lparr>dv_status := DeviceApproved, dv_identity := i\<rparr>
          else d\<lparr>dv_status := DeviceDenied\<rparr>)" using d(2) by (auto simp: device_ok_def)
    from store_inv_put [OF assms(1) this maps(2,3) d(3)] show ?thesis .
  qed
qed

lemma poll_device_inv:
  assumes "store_inv s" and "poll_device E p dc s = Inr (r, s')"
  shows "store_inv s'"
  using assms(2)
proof (cases rule: poll_device_cases)
  case (Approved d t)
  then have "device_ok (fs_interval s) (d\<lparr>dv_last_poll := now_at E s, dv_redeemed := True\<rparr>)"
    using assms(1) by (simp add: store_inv_def device_ok_poll)
  from store_inv_put [OF assms(1) this] issue_token_maps [OF Approved(7)] show ?thesis by simp
next
  case (Too_Fast d)
  then show ?thesis
    using assms(1) by (intro store_inv_put [OF assms(1) device_ok_slow]) (auto simp: store_inv_def)
next
  case (Denied d)
  then show ?thesis
    using assms(1) by (intro store_inv_put [OF assms(1) device_ok_poll(1)]) (auto simp: store_inv_def)
next
  case (Wait d)
  then show ?thesis
    using assms(1) by (intro store_inv_put [OF assms(1) device_ok_poll(1)]) (auto simp: store_inv_def)
qed (use assms(1) in \<open>auto intro: store_inv_same\<close>)

lemma start_device_inv:
  assumes "store_inv s" and "start_device E p s = Some (Inr (d, s'))"
  shows "store_inv s'"
proof -
  note maps = start_device_maps [OF assms(2)]
  obtain x where x: "fs_devices s' =
    (fs_devices s)(ds_device_code d \<mapsto> new_device p (ds_user_code d) x (fs_interval s))" using maps(5) by blast
  have "device_ok (fs_interval s) (new_device p (ds_user_code d) x (fs_interval s))"
    by (auto simp: device_ok_def new_device_def intro: exI [of _ 0])
  then have dev: "device_ok (fs_interval s') e" if "fs_devices s' dc = Some e" for dc e
    using assms(1) that maps(2) unfolding x store_inv_def by (simp split: if_splits)
  have "normalize_user_code (ds_user_code d) = ds_user_code d"
    using maps(6) user_code_normal by metis
  then have "fs_devices s' dc \<noteq> None \<and> normalize_user_code uc = uc" if "fs_user_codes s' uc = Some dc" for uc dc
    using assms(1) that unfolding x maps(4) store_inv_def by (simp split: if_splits)
  with dev show ?thesis unfolding store_inv_def by blast
qed

lemma fake_step_inv: "fake_step E s ev s' \<Longrightarrow> store_inv s \<Longrightarrow> store_inv s'"
proof (induction rule: fake_step.induct)
  case (Issue p u i s c s')
  with issue_code_maps [OF Issue(1)] show ?case by (auto intro: store_inv_same)
next
  case (Redeem p c u s r s')
  with redeem_code_maps [OF Redeem(1)] show ?case by (auto intro: store_inv_same)
qed (auto intro: start_device_inv resolve_device_inv poll_device_inv)

lemma fake_run_inv: "fake_run E s evs s' \<Longrightarrow> store_inv s \<Longrightarrow> store_inv s'"
  by (induction rule: fake_run.induct) (auto dest: fake_step_inv)

text \<open>A request to resolve never follows a missing device.\<close>

lemma resolve_device_no_panic:
  assumes "store_inv s"
  shows "\<exists>r s'. resolve_device E p uc a i s = Inr (r, s')"
proof (cases "fs_user_codes s (normalize_user_code uc)")
  case (Some dc)
  then obtain d where "fs_devices s dc = Some d" using assms unfolding store_inv_def by blast
  with Some show ?thesis by (simp add: resolve_device_def Let_def)
qed (simp add: resolve_device_def)

section \<open>One-time use\<close>

text \<open>
  A code that is not in the store stays out of it, and is refused, as long as it is not issued
  again; a device request exchanged for a token stays exchanged, and its polls are refused, as
  long as no new request draws the same device code.
\<close>

lemma step_unknown_code:
  assumes "fake_step E s ev s'" and "fs_codes s c = None" and "ev \<noteq> Issued c"
  shows "fs_codes s' c = None \<and> (\<forall>r. ev = Redeemed c r \<longrightarrow> r = Inl InvalidGrant)"
  using assms
proof (cases rule: fake_step.cases)
  case (Issue p u i x)
  with assms(2,3) show ?thesis by (auto simp: issue_code_def random_hex_ok split: sum.splits)
next
  case (Redeem p x u r)
  with assms(2) redeem_code_maps(4) [OF Redeem(2)] show ?thesis
    by (auto simp: redeem_code_def split: if_splits)
next
  case (Poll p dc r)
  from Poll(2) have "fs_codes s' = fs_codes s"
    by (cases rule: poll_device_cases) (auto dest: issue_token_maps)
  with assms(2) Poll(1) show ?thesis by simp
qed (auto dest: start_device_maps resolve_device_maps)

lemma run_unknown_code:
  assumes "fake_run E s evs s'" and "fs_codes s c = None" and "Issued c \<notin> set evs"
  shows "\<forall>r. Redeemed c r \<in> set evs \<longrightarrow> r = Inl InvalidGrant"
  using assms
proof (induction rule: fake_run.induct)
  case (Step s ev s1 evs s2)
  with step_unknown_code [OF Step(1), of c] show ?case by auto
qed simp

definition is_redeemed :: "store \<Rightarrow> string \<Rightarrow> bool" where
  "is_redeemed s dc \<longleftrightarrow> (\<exists>d. fs_devices s dc = Some d \<and> dv_redeemed d)"

lemma poll_redeemed:
  assumes "is_redeemed s dc" and "poll_device E p dc s = Inr (r, s')"
  shows "r = Inl InvalidGrant \<and> s' = s"
  using assms by (auto simp: is_redeemed_def poll_device_def)

lemma step_redeemed:
  assumes "fake_step E s ev s'" and "is_redeemed s dc" and "store_inv s"
    and "\<And>uc. ev \<noteq> Started dc uc"
  shows "is_redeemed s' dc \<and> (\<forall>r. ev = Polled dc r \<longrightarrow> r = Inl InvalidGrant)"
  using assms(1)
proof (cases rule: fake_step.cases)
  case (Issue p u i x)
  with issue_code_maps [OF Issue(2)] assms(2) show ?thesis by (simp add: is_redeemed_def)
next
  case (Redeem p x u r)
  with redeem_code_maps [OF Redeem(2)] assms(2) show ?thesis by (simp add: is_redeemed_def)
next
  case (Start p d)
  then have "ds_device_code d \<noteq> dc" using assms(4) by blast
  with start_device_maps(5) [OF Start(2)] assms(2) Start(1) show ?thesis
    by (auto simp: is_redeemed_def)
next
  case (Resolve p uc a i r)
  from assms(2,3) obtain d where d: "fs_devices s dc = Some d" "dv_redeemed d" "dv_status d \<noteq> DevicePending"
    unfolding is_redeemed_def store_inv_def device_ok_def by (metis device_status.distinct(1))
  with resolve_device_maps(4) [OF Resolve(2)] Resolve(1) show ?thesis
    by (auto simp: is_redeemed_def)
next
  case (Poll p x r)
  show ?thesis
  proof (cases "x = dc")
    case True
    with Poll(2) have "poll_device E p dc s = Inr (r, s')" by simp
    from poll_redeemed [OF assms(2) this] Poll(1) True assms(2) show ?thesis by simp
  next
    case False
    from Poll(2) have "fs_devices s' dc = fs_devices s dc"
      using False by (cases rule: poll_device_cases) (auto dest: issue_token_maps)
    with assms(2) Poll(1) False show ?thesis by (simp add: is_redeemed_def)
  qed
qed

lemma run_redeemed:
  assumes "fake_run E s evs s'" and "is_redeemed s dc" and "store_inv s"
    and "\<And>uc. Started dc uc \<notin> set evs"
  shows "is_redeemed s' dc \<and> (\<forall>r. Polled dc r \<in> set evs \<longrightarrow> r = Inl InvalidGrant)"
  using assms
proof (induction rule: fake_run.induct)
  case (Step s ev s1 evs s2)
  then have "is_redeemed s1 dc \<and> (\<forall>r. ev = Polled dc r \<longrightarrow> r = Inl InvalidGrant)"
    by (intro step_redeemed) auto
  with Step fake_step_inv [OF Step(1)] show ?case by auto
qed simp

lemma poll_token_redeems:
  assumes "poll_device E p dc s = Inr (Inr t, s')"
  shows "is_redeemed s' dc"
  using assms
  by (cases rule: poll_device_cases) (auto simp: is_redeemed_def dest: issue_token_maps)

text \<open>A token answers with the identity the user approved the request with.\<close>

lemma poll_token_identity:
  assumes "poll_device E p dc s = Inr (Inr t, s')"
  shows "\<exists>d. fs_devices s dc = Some d \<and> dv_status d = DeviceApproved \<and>
    lookup_token p t s' = Inr (dv_identity d)"
  using assms
  by (cases rule: poll_device_cases) (auto simp: lookup_token_def dest: issue_token_maps)

lemma redeem_token_identity:
  assumes "redeem_code E p c u s = Inr (Inr t, s')"
  shows "\<exists>a. fs_codes s c = Some a \<and> ac_provider a = p \<and> now_at E s \<le> ac_expires_at a \<and>
    (u = [] \<or> u = ac_redirect_uri a) \<and> fs_codes s' c = None \<and>
    lookup_token p t s' = Inr (ac_identity a)"
proof -
  from assms obtain a where a: "fs_codes s c = Some a" "ac_provider a = p" "now_at E s \<le> ac_expires_at a"
      "u = [] \<or> u = ac_redirect_uri a"
    and t: "issue_token E p (ac_identity a) (tick (s\<lparr>fs_codes := (fs_codes s)(c := None)\<rparr>)) = Inr (t, s')"
    by (auto simp: redeem_code_def Let_def answer_token_ok now_at_def split: option.splits if_splits)
  from issue_token_maps [OF t] have "lookup_token p t s' = Inr (ac_identity a)" "fs_codes s' c = None"
    by (simp_all add: lookup_token_def tick_def)
  with a show ?thesis by blast
qed

section \<open>User codes and identifiers\<close>

text \<open>A user may type a code in lower case and without the dash.\<close>

lemma typed_code:
  assumes "length b = 8"
  shows "normalize_user_code (map lower_char (map code_letter b)) = user_code_of b"
proof -
  have up: "upper_char (lower_char c) = c" "is_letter (lower_char c)" if "is_upper c" for c
    using that
    by (auto simp: is_upper_def is_lower_def upper_char_def lower_char_def is_letter_def code_def)
  have "filter is_letter (map lower_char (map code_letter b)) = map lower_char (map code_letter b)"
    by (auto simp: filter_id_conv up code_letter_upper)
  moreover have "map upper_char (map lower_char (map code_letter b)) = map code_letter b"
    by (simp add: up code_letter_upper)
  ultimately show ?thesis
    using assms unfolding normalize_user_code_def Let_def user_code_of_def
    by (simp only:) (simp add: take_map drop_map)
qed

lemma normalize_idem:
  "normalize_user_code (normalize_user_code s) = normalize_user_code s"
proof -
  let ?b = "map upper_char (filter is_letter s)"
  have up: "list_all is_upper ?b"
    by (auto simp: list_all_iff is_letter_def is_upper_upper_char upper_char_upper)
  have "filter is_letter ?b = ?b"
    using up by (simp only: list_all_iff filter_id_conv is_letter_def) blast
  moreover have "map upper_char ?b = ?b"
    using up by (intro map_idI) (simp only: list_all_iff upper_char_upper)
  ultimately have b: "normalize_user_code ?b = (if length ?b = 8 then take 4 ?b @ ''-'' @ drop 4 ?b else ?b)"
    by (simp only: normalize_user_code_def Let_def)
  have s: "normalize_user_code s = (if length ?b = 8 then take 4 ?b @ ''-'' @ drop 4 ?b else ?b)"
    by (simp only: normalize_user_code_def Let_def)
  show ?thesis
  proof (cases "length ?b = 8")
    case True
    with s normalize_letters [OF up True] show ?thesis by (simp only: if_True refl)
  next
    case False
    with s b show ?thesis by (simp only: if_False refl)
  qed
qed

text \<open>The GitHub identifier is a non-negative number of at most 53 bits.\<close>

lemma github_id_range: "0 \<le> github_id i \<and> github_id i < 2 ^ 53"
proof -
  let ?w = "and (fnv64a (fi_login i)) (mask 53) :: 64 word"
  have "?w = take_bit 53 (fnv64a (fi_login i))" by (simp add: take_bit_eq_mask)
  then have "uint ?w = take_bit 53 (uint (fnv64a (fi_login i)))" by (simp only: unsigned_take_bit_eq)
  then have w: "uint ?w < 2 ^ 53" using take_bit_int_less_exp by metis
  then have "uint ?w < 2 ^ 63" by simp
  then have "sint ?w = uint ?w"
    by (simp add: sint_uint signed_take_bit_eq_take_bit_minus take_bit_int_eq_self bit_iff_odd)
  with w show ?thesis by (simp add: github_id_def)
qed

end
