(* ===== verification/FakeServerInv.thy ===== *)
theory FakeServerInv
  imports FakeStoreInv FakeServer
begin

text \<open>
  The server of the local OAuth provider keeps the invariant of its store: every handler leaves a
  store that meets it, and nothing but the random source can stop a handler.
\<close>

section \<open>The random source is the only thing that can stop a handler\<close>

lemma draw_error: "draw E n s = Inl m \<Longrightarrow> m = ''rand''"
  by (simp add: draw_def split: if_splits)

lemma random_hex_error: "random_hex E n s = Inl m \<Longrightarrow> m = ''rand''"
  by (auto simp: random_hex_def split: sum.splits dest: draw_error)

lemma issue_code_error: "issue_code E p u i s = Inl m \<Longrightarrow> m = ''rand''"
  by (auto simp: issue_code_def split: sum.splits dest: random_hex_error)

lemma issue_token_error: "issue_token E p i s = Inl m \<Longrightarrow> m = ''rand''"
  by (auto simp: issue_token_def split: sum.splits dest: random_hex_error)

lemma answer_token_error: "answer_token (issue_token E p i s) = Inl m \<Longrightarrow> m = ''rand''"
  by (auto simp: answer_token_def split: sum.splits dest: issue_token_error)

lemma redeem_code_error: "redeem_code E p c u s = Inl m \<Longrightarrow> m = ''rand''"
  by (auto simp: redeem_code_def Let_def split: option.splits if_splits dest: answer_token_error)

lemma poll_device_error: "poll_device E p dc s = Inl m \<Longrightarrow> m = ''rand''"
  by (auto simp: poll_device_def Let_def split: option.splits if_splits device_status.splits dest: answer_token_error)

lemma start_device_error:
  assumes "start_device E p s = Some (Inl m)"
  shows "m = ''rand''"
proof -
  have "new_user_code E s1 = Some (Inl m') \<Longrightarrow> m' = ''rand''" for s1 m'
    using new_user_code_good [of E s1 "Inl m'"] by (simp add: good_draw_def)
  with assms show ?thesis
    by (auto simp: start_device_def split: sum.splits option.splits dest: random_hex_error)
qed

section \<open>Every handler keeps the invariant\<close>

text \<open>An outcome that is safe: the store it leaves meets the invariant, and only the random source fails.\<close>

definition safe_outcome :: "fake_outcome \<Rightarrow> bool" where
  "safe_outcome x \<longleftrightarrow>
     (case x of None \<Rightarrow> True | Some (Inl m) \<Rightarrow> m = ''rand'' | Some (Inr (r, s)) \<Rightarrow> store_inv s)"

lemma safe_simps [simp]:
  "safe_outcome (answers r s) \<longleftrightarrow> store_inv s" "safe_outcome (Some (Inl m)) \<longleftrightarrow> m = ''rand''"
  "safe_outcome None"
  by (simp_all add: safe_outcome_def answers_def)

lemma issue_code_inv: "store_inv s \<Longrightarrow> issue_code E p u i s = Inr (c, s') \<Longrightarrow> store_inv s'"
  by (erule store_inv_same) (simp_all add: issue_code_maps)

lemma redeem_code_inv: "store_inv s \<Longrightarrow> redeem_code E p c u s = Inr (r, s') \<Longrightarrow> store_inv s'"
  by (erule store_inv_same) (simp_all add: redeem_code_maps)

lemma redirect_with_code_safe: "store_inv s \<Longrightarrow> safe_outcome (redirect_with_code E p u st i s)"
  by (auto simp: redirect_with_code_def issue_code_inv split: sum.split dest: issue_code_error)

lemma authorize_form_safe: "store_inv s \<Longrightarrow> safe_outcome (authorize_form sv E r p s)"
  by (simp add: authorize_form_def Let_def redirect_with_code_safe split: option.split)

lemma authorize_submit_safe: "store_inv s \<Longrightarrow> safe_outcome (authorize_submit sv E r p s)"
  by (simp add: authorize_submit_def Let_def redirect_with_code_safe split: option.split prod.split)

lemma token_answer_safe:
  assumes "\<And>m. a = Inl m \<Longrightarrow> m = ''rand''" and "\<And>x s. a = Inr (x, s) \<Longrightarrow> store_inv s"
  shows "safe_outcome (token_answer a)"
  using assms by (auto simp: token_answer_def split: sum.split)

lemma fake_token_safe: "store_inv s \<Longrightarrow> safe_outcome (fake_token sv E r p s)"
  by (auto simp: fake_token_def Let_def split: option.split
      intro!: token_answer_safe dest: redeem_code_error poll_device_error redeem_code_inv poll_device_inv)

lemma fake_device_code_safe:
  assumes "store_inv s"
  shows "safe_outcome (fake_device_code sv E r p s)"
proof (cases "start_device E p s")
  case (Some x)
  show ?thesis
  proof (cases x)
    case (Inl m)
    with Some start_device_error show ?thesis by (simp add: fake_device_code_def)
  next
    case (Inr y)
    obtain d s1 where "y = (d, s1)" by (cases y)
    with Some Inr start_device_inv [OF assms] show ?thesis by (simp add: fake_device_code_def)
  qed
qed (simp add: fake_device_code_def)

lemma decide_device_result:
  assumes "store_inv s"
  shows "\<exists>x s'. decide_device E p f a s = Inr (x, s') \<and> store_inv s'"
proof (cases "decided_identity f a")
  case None
  with assms show ?thesis by (simp add: decide_device_def)
next
  case (Some i)
  obtain x s' where "resolve_device E p (f ''user_code'') a i s = Inr (x, s')"
    using resolve_device_no_panic [OF assms] by blast
  moreover from resolve_device_inv [OF assms this] have "store_inv s'" .
  ultimately show ?thesis
    unfolding decide_device_def Some by (cases x) (simp_all only: option.case sum.case prod.case case_unit_Unity, blast+)
qed

lemma device_submit_safe:
  assumes "store_inv s"
  shows "safe_outcome (device_submit sv E r p s)"
proof (cases "parse_form (sv_libs sv) r")
  case (Some form)
  obtain st msg s' where "decide_device E p (values_get form) (values_get form ''action'' \<noteq> ''deny'') s = Inr ((st, msg), s')"
    "store_inv s'" using decide_device_result [OF assms] by fastforce
  with Some show ?thesis by (simp add: device_submit_def Let_def)
qed (use assms in \<open>simp add: device_submit_def\<close>)

lemma device_resolve_api_safe:
  assumes "store_inv s"
  shows "safe_outcome (device_resolve_api a sv E r p s)"
proof (cases "parse_form (sv_libs sv) r")
  case (Some form)
  obtain st msg s' where "decide_device E p (values_get form) a s = Inr ((st, msg), s')"
    "store_inv s'" using decide_device_result [OF assms] by fastforce
  with Some show ?thesis by (simp add: device_resolve_api_def)
qed (use assms in \<open>simp add: device_resolve_api_def\<close>)

lemma user_document_safe: "store_inv s \<Longrightarrow> safe_outcome (user_document doc p r s)"
  by (simp add: user_document_def split: sum.split)

lemma with_provider_safe:
  "store_inv s \<Longrightarrow> (\<And>p. safe_outcome (h r p s)) \<Longrightarrow> safe_outcome (with_provider h r p s)"
  by (simp add: with_provider_def)

lemma dispatch_safe:
  assumes "store_inv s" and "\<And>m p h prov. (m, p, h) \<in> set rs \<Longrightarrow> safe_outcome (h r prov s)"
  shows "safe_outcome (dispatch rs other r s)"
  using assms
proof (induction rs arbitrary: other)
  case (Cons x rs)
  obtain m p h where x: "x = (m, p, h)" by (cases x)
  have h: "safe_outcome (h r prov s)" for prov using Cons.prems(2) [of m p h] x by simp
  have "safe_outcome (dispatch rs o' r s)" for o'
    using Cons.prems(2) by (intro Cons.IH [OF Cons.prems(1)]) (meson list.set_intros(2))
  with h x show ?case by (simp split: option.split)
qed simp

lemma fake_serve_safe:
  assumes "store_inv s"
  shows "safe_outcome (fake_serve sv E r s)"
  unfolding fake_serve_def
proof (rule dispatch_safe [OF assms])
  fix m p h prov
  assume "(m, p, h) \<in> set (fake_routes sv E)"
  then show "safe_outcome (h r prov s)"
    using assms
    unfolding fake_routes_def
    by (auto simp: device_form_def intro!: with_provider_safe authorize_form_safe authorize_submit_safe fake_token_safe
        fake_device_code_safe device_submit_safe device_resolve_api_safe user_document_safe)
qed

end
