(* ===== verification/FakeProperties.thy ===== *)
theory FakeProperties
  imports ProfileProperties FakeServerInv
begin

text \<open>
  The properties of the local OAuth provider: what holds of its store over every run, the one-time use
  of codes and device requests, the two flows from end to end, and that the adapters of the API read
  its documents and its answers as they are meant.
\<close>

section \<open>The store over a whole run\<close>

inductive fake_served :: "fake_server \<Rightarrow> env \<Rightarrow> store \<Rightarrow> store \<Rightarrow> bool" for sv E s0 where
  Begin: "fake_served sv E s0 s0"
| Served: "fake_served sv E s0 s \<Longrightarrow> fake_serve sv E r s = Some (Inr (resp, s')) \<Longrightarrow> fake_served sv E s0 s'"

definition sample_fake :: fake_server where
  "sample_fake = new_fake_server sample_libs (\<lambda>h. None) ''http://localhost:8090/''"

definition sample_store :: store where
  "sample_store = new_store (600 * second) second"

text \<open>
  C30: every store the fake provider reaches from a new one meets the invariant (each user code
  leads to a device request, a redeemed request was approved, an interval is the announced one plus
  penalties of five seconds), so no request makes a handler panic: only a failure of the random
  source stops one.
\<close>

theorem fake_states_safe:
  assumes "fake_served sv E (new_store ttl interval) s"
  shows "store_inv s \<and> (\<forall>r m. fake_serve sv E r s = Some (Inl m) \<longrightarrow> m = ''rand'')"
proof -
  have inv: "store_inv s"
    using assms
  proof (induction rule: fake_served.induct)
    case (Served s r resp s')
    then show ?case using fake_serve_safe [of s sv E r] by (simp add: safe_outcome_def)
  qed (rule store_inv_new)
  moreover have "m = ''rand''" if "fake_serve sv E r s = Some (Inl m)" for r m
    using fake_serve_safe [OF inv, of sv E r] that by simp
  ultimately show ?thesis by blast
qed

theorem fake_states_safe_witness: "store_inv sample_store"
  using fake_states_safe [OF fake_served.Begin [of sample_fake sample_env "new_store (600 * second) second"]]
  by (simp add: sample_store_def)

text \<open>
  C31: an authorization code works once: after the first attempt of its provider to redeem it,
  successful or not, every later attempt in any run is refused, unless the random source draws the
  same code again.
\<close>

theorem code_single_use:
  assumes "redeem_code E p c u s = Inr (r0, s1)" and "fs_codes s c = Some a" and "ac_provider a = p"
    and "fake_run E s1 evs s2" and "Issued c \<notin> set evs" and "Redeemed c r \<in> set evs"
  shows "r = Inl InvalidGrant"
proof -
  have "fs_codes s1 c = None"
    using assms(1-3)
    by (auto simp: redeem_code_def Let_def answer_token_ok tick_def dest!: issue_token_maps(1) split: if_splits)
  from run_unknown_code [OF assms(4) this assms(5)] assms(6) show ?thesis by blast
qed

definition sample_identity :: identity where
  "sample_identity = fst (new_identity ''ana'' [] [])"

lemma sample_no_rand_failure: "\<not> rand_fails_at sample_env n"
  by (simp add: sample_env_def)

lemma quiet_issue_code:
  assumes "quiet E"
  shows "issue_code E p u i s = Inr (hex_encode (map (rand_at E (fs_tick s)) [0..<16]),
    s\<lparr>fs_codes := (fs_codes s)(hex_encode (map (rand_at E (fs_tick s)) [0..<16]) \<mapsto>
        \<lparr>ac_provider = p, ac_redirect_uri = u, ac_identity = i,
         ac_expires_at = clock_at E (Suc (fs_tick s)) + fs_code_ttl s\<rparr>),
      fs_tick := fs_tick s + 2\<rparr>)"
  using assms by (simp add: issue_code_def random_hex_def draw_def quiet_def tick_def now_at_def)

lemma quiet_issue_token:
  assumes "quiet E"
  shows "issue_token E p i s = Inr (hex_encode (map (rand_at E (fs_tick s)) [0..<24]),
    s\<lparr>fs_tokens := (fs_tokens s)(hex_encode (map (rand_at E (fs_tick s)) [0..<24]) \<mapsto>
        \<lparr>at_provider = p, at_identity = i\<rparr>), fs_tick := Suc (fs_tick s)\<rparr>)"
  using assms by (simp add: issue_token_def random_hex_def draw_def quiet_def tick_def)

lemma quiet_redeem:
  assumes "quiet E" and "fs_codes s c = Some a" and "ac_provider a = p"
    and "clock_at E (fs_tick s) \<le> ac_expires_at a" and "u = [] \<or> u = ac_redirect_uri a"
  shows "\<exists>t s'. redeem_code E p c u s = Inr (Inr t, s') \<and> t \<noteq> [] \<and> lookup_token p t s' = Inr (ac_identity a)"
proof -
  have "length (hex_encode (map f [0..<24])) = 48" for f by simp
  then have "hex_encode (map f [0..<24]) \<noteq> []" for f by (metis list.size(3) zero_neq_numeral)
  with assms show ?thesis
    by (auto simp: redeem_code_def Let_def now_at_def tick_def answer_token_def quiet_issue_token lookup_token_def)
qed

theorem code_single_use_witness:
  "\<exists>c s1 t s2 r s3. issue_code sample_env providerGoogle ''http://a'' sample_identity sample_store = Inr (c, s1) \<and>
    redeem_code sample_env providerGoogle c [] s1 = Inr (Inr t, s2) \<and>
    redeem_code sample_env providerGoogle c [] s2 = Inr (r, s3) \<and> r = Inl InvalidGrant"
proof -
  obtain c s1 where i: "issue_code sample_env providerGoogle ''http://a'' sample_identity sample_store = Inr (c, s1)"
    using quiet_issue_code [OF quiet_sample_env] by blast
  have "clock_at sample_env n = int n * second" for n by (simp add: sample_env_def)
  with i obtain a where a: "fs_codes s1 c = Some a" "ac_provider a = providerGoogle"
    "clock_at sample_env (fs_tick s1) \<le> ac_expires_at a"
    unfolding quiet_issue_code [OF quiet_sample_env] by (auto simp: sample_store_def new_store_def second_def)
  from quiet_redeem [OF quiet_sample_env a] obtain t s2 where t: "redeem_code sample_env providerGoogle c [] s1 = Inr (Inr t, s2)"
    by blast
  obtain r s3 where r: "redeem_code sample_env providerGoogle c [] s2 = Inr (r, s3)"
    using redeem_token_identity [OF t] by (auto simp: redeem_code_def)
  have "fake_run sample_env s2 [Redeemed c r] s3" by (rule fake_run.Step [OF fake_step.Redeem [OF r] fake_run.Stop])
  from code_single_use [OF t a(1,2) this] have "r = Inl InvalidGrant" by simp
  with i t r show ?thesis by blast
qed

text \<open>
  C32: a device request gives one token: after the poll that got it, every later poll for the same
  device code is refused, unless a new request draws the same device code.
\<close>

theorem device_single_use:
  assumes "store_inv s" and "poll_device E p dc s = Inr (Inr t, s1)" and "fake_run E s1 evs s2"
    and "\<forall>uc. Started dc uc \<notin> set evs" and "Polled dc r \<in> set evs"
  shows "r = Inl InvalidGrant"
  using run_redeemed [OF assms(3) poll_token_redeems [OF assms(2)] poll_device_inv [OF assms(1,2)]] assms(4,5)
  by blast

subsection \<open>No token without approval\<close>

definition approvals_in :: "fake_event set \<Rightarrow> store \<Rightarrow> bool" where
  "approvals_in past s \<longleftrightarrow>
     (\<forall>uc dc. fs_user_codes s uc = Some dc \<longrightarrow> Started dc uc \<in> past) \<and>
     (\<forall>dc d. fs_devices s dc = Some d \<longrightarrow> dv_status d = DeviceApproved \<longrightarrow>
        (\<exists>typed. Resolved typed True (Inr ()) \<in> past \<and> fs_user_codes s (normalize_user_code typed) = Some dc))"

lemma approvals_same:
  assumes "approvals_in past s" and "fs_user_codes s' = fs_user_codes s"
    and "\<And>dc d. fs_devices s' dc = Some d \<Longrightarrow> dv_status d = DeviceApproved \<Longrightarrow>
      \<exists>d0. fs_devices s dc = Some d0 \<and> dv_status d0 = DeviceApproved"
  shows "approvals_in (insert ev past) s'"
  using assms unfolding approvals_in_def by (metis insertCI)

lemma poll_keeps_status:
  assumes "poll_device E p x s = Inr (r, s')" and "fs_devices s' dc = Some d"
  shows "\<exists>d0. fs_devices s dc = Some d0 \<and> dv_status d0 = dv_status d"
  using assms(1)
proof (cases rule: poll_device_cases)
  case (Approved e t)
  from issue_token_maps(2) [OF Approved(7)] assms(2) Approved(1,5) show ?thesis by (auto split: if_splits)
qed (use assms(2) in \<open>auto split: if_splits\<close>)

lemma poll_keeps_user_codes: "poll_device E p x s = Inr (r, s') \<Longrightarrow> fs_user_codes s' = fs_user_codes s"
  by (cases rule: poll_device_cases [of E p x s r s']) (auto dest: issue_token_maps)

lemma step_approvals:
  assumes "fake_step E s ev s'" and "approvals_in past s"
  shows "approvals_in (insert ev past) s'"
  using assms(1)
proof (cases rule: fake_step.cases)
  case (Start p d)
  note m = start_device_maps [OF Start(2)]
  obtain x where x: "fs_devices s' = (fs_devices s)(ds_device_code d \<mapsto> new_device p (ds_user_code d) x (fs_interval s))"
    using m(5) ..
  show ?thesis
    unfolding approvals_in_def
  proof (intro conjI allI impI)
    fix uc dc assume "fs_user_codes s' uc = Some dc"
    then show "Started dc uc \<in> insert ev past"
      using assms(2) m(4) Start(1) by (auto simp: approvals_in_def split: if_splits)
  next
    fix dc e assume e: "fs_devices s' dc = Some e" "dv_status e = DeviceApproved"
    then have "fs_devices s dc = Some e" using x by (auto simp: new_device_def split: if_splits)
    with e(2) assms(2) obtain typed where t: "Resolved typed True (Inr ()) \<in> past"
      "fs_user_codes s (normalize_user_code typed) = Some dc" unfolding approvals_in_def by blast
    with m(3) have "normalize_user_code typed \<noteq> ds_user_code d" by auto
    with t m(4) show "\<exists>typed. Resolved typed True (Inr ()) \<in> insert ev past \<and>
        fs_user_codes s' (normalize_user_code typed) = Some dc" by auto
  qed
next
  case (Resolve p uc a i r)
  note m = resolve_device_maps [OF Resolve(2)]
  from m(4) show ?thesis
  proof (elim disjE exE conjE)
    assume "fs_devices s' = fs_devices s"
    then show ?thesis by (intro approvals_same [OF assms(2) m(2)]) auto
  next
    fix dc d
    assume d: "fs_user_codes s (normalize_user_code uc) = Some dc" "r = Inr ()"
      "fs_devices s' = (fs_devices s)(dc \<mapsto> if a then d\<lparr>dv_status := DeviceApproved, dv_identity := i\<rparr> else d\<lparr>dv_status := DeviceDenied\<rparr>)"
    show ?thesis
      unfolding approvals_in_def
    proof (intro conjI allI impI)
      fix u x assume "fs_user_codes s' u = Some x"
      then show "Started x u \<in> insert ev past" using assms(2) m(2) by (simp add: approvals_in_def)
    next
      fix x e assume e: "fs_devices s' x = Some e" "dv_status e = DeviceApproved"
      show "\<exists>typed. Resolved typed True (Inr ()) \<in> insert ev past \<and> fs_user_codes s' (normalize_user_code typed) = Some x"
      proof (cases "x = dc")
        case True
        with e d(3) have "a" by (auto split: if_splits)
        with True d Resolve(1) m(2) show ?thesis by auto
      next
        case False
        with e d(3) have "fs_devices s x = Some e" by simp
        with e(2) assms(2) m(2) show ?thesis unfolding approvals_in_def by (metis insertCI)
      qed
    qed
  qed
next
  case (Issue p u i c)
  with issue_code_maps [OF Issue(2)] show ?thesis by (intro approvals_same [OF assms(2)]) auto
next
  case (Redeem p c u r)
  with redeem_code_maps [OF Redeem(2)] show ?thesis by (intro approvals_same [OF assms(2)]) auto
next
  case (Poll p x r)
  then show ?thesis
    using poll_keeps_user_codes [OF Poll(2)] poll_keeps_status [OF Poll(2)]
    by (intro approvals_same [OF assms(2)]) (simp_all, metis)
qed

lemma run_approvals:
  assumes "fake_run E s evs s'" and "approvals_in past s" and "Polled dc (Inr t) \<in> set evs"
  shows "\<exists>typed. Resolved typed True (Inr ()) \<in> past \<union> set evs \<and> Started dc (normalize_user_code typed) \<in> past \<union> set evs"
  using assms
proof (induction arbitrary: past rule: fake_run.induct)
  case (Step s ev s1 evs s2)
  show ?case
  proof (cases "ev = Polled dc (Inr t)")
    case True
    with Step(1) obtain p where "poll_device E p dc s = Inr (Inr t, s1)" by (auto elim: fake_stepE)
    with poll_token_identity obtain d where "fs_devices s dc = Some d" "dv_status d = DeviceApproved" by blast
    with Step.prems(1) show ?thesis unfolding approvals_in_def by blast
  next
    case False
    with Step.prems(2) have "Polled dc (Inr t) \<in> set evs" by auto
    from Step.IH [OF step_approvals [OF Step(1) Step.prems(1)] this] show ?thesis by auto
  qed
qed simp

text \<open>
  C33: in every run from a new store a poll that gets a token follows an approval by a user who
  typed the user code that was started for that very device code.
\<close>

theorem device_token_needs_approval:
  assumes "fake_run E (new_store ttl interval) evs s" and "Polled dc (Inr t) \<in> set evs"
  shows "\<exists>typed. Resolved typed True (Inr ()) \<in> set evs \<and> Started dc (normalize_user_code typed) \<in> set evs"
  using run_approvals [OF assms(1) _ assms(2), of "{}"] by (simp add: approvals_in_def new_store_def)

section \<open>The device flow\<close>

text \<open>
  C34: the loop that draws user codes returns: if the draw number \<open>k\<close> after the first is the first
  that is free, it makes \<open>k + 1\<close> draws and returns that code.
\<close>

theorem user_code_loop_returns:
  assumes "\<And>j. j \<le> k \<Longrightarrow> \<not> rand_fails_at E (fs_tick s + j)"
    and "fs_user_codes s (user_code_of (map (rand_at E (fs_tick s + k)) [0..<8])) = None"
    and "\<And>j. j < k \<Longrightarrow> fs_user_codes s (user_code_of (map (rand_at E (fs_tick s + j)) [0..<8])) \<noteq> None"
  shows "new_user_code E s = Some (Inr (user_code_of (map (rand_at E (fs_tick s + k)) [0..<8]),
    s\<lparr>fs_tick := fs_tick s + Suc k\<rparr>))"
  using assms by (rule new_user_code_returns)

definition taken_code :: string where
  "taken_code = user_code_of (map (rand_at sample_env 0) [0..<8])"

theorem user_code_loop_returns_witness:
  "new_user_code sample_env (sample_store\<lparr>fs_user_codes := [taken_code \<mapsto> ''d'']\<rparr>) =
     Some (Inr (''CCCC-CCCC'', sample_store\<lparr>fs_user_codes := [taken_code \<mapsto> ''d''], fs_tick := 2\<rparr>))"
proof -
  let ?s = "sample_store\<lparr>fs_user_codes := [taken_code \<mapsto> ''d'']\<rparr>"
  have c: "user_code_of (map (rand_at sample_env n) [0..<8]) =
      replicate 4 (code_letter (of_nat n)) @ ''-'' @ replicate 4 (code_letter (of_nat n))" for n
    by (simp add: user_code_of_def sample_env_def map_replicate_const eval_nat_numeral)
  have l: "code_letter 0 = CHR ''B''" "code_letter 1 = CHR ''C''"
    by (simp_all add: code_letter_def user_code_alphabet_def)
  have t: "fs_tick ?s = 0" by (simp add: sample_store_def new_store_def)
  have "\<not> rand_fails_at sample_env n" for n by (simp add: sample_env_def)
  then have "new_user_code sample_env ?s = Some (Inr (user_code_of (map (rand_at sample_env (fs_tick ?s + 1)) [0..<8]),
      ?s\<lparr>fs_tick := fs_tick ?s + Suc 1\<rparr>))"
    by (intro user_code_loop_returns) (simp_all only: t c, auto simp: taken_code_def c l)
  then show ?thesis unfolding t c l by (simp add: l eval_nat_numeral)
qed

text \<open>
  C35: a poll of a pending, unexpired request is answered \<open>slow_down\<close> exactly when an earlier poll
  is less than the interval ago; then the interval grows by five seconds, otherwise it stays, and in
  both cases the poll becomes the last one.
\<close>

theorem pending_poll_slow_down:
  assumes "fs_devices s dc = Some d" and "dv_provider d = p" and "\<not> dv_redeemed d"
    and "dv_status d = DevicePending" and "now_at E s \<le> dv_expires_at d"
  shows "\<exists>s'. poll_device E p dc s = Inr (Inl (if \<not> is_zero (dv_last_poll d) \<and> now_at E s < dv_last_poll d + dv_interval d
      then SlowDown else Pending), s') \<and>
    fs_devices s' = (fs_devices s)(dc \<mapsto> d\<lparr>dv_last_poll := now_at E s, dv_interval := dv_interval d +
      (if \<not> is_zero (dv_last_poll d) \<and> now_at E s < dv_last_poll d + dv_interval d then 5 * second else 0)\<rparr>) \<and>
    fs_codes s' = fs_codes s \<and> fs_tokens s' = fs_tokens s \<and> fs_user_codes s' = fs_user_codes s"
proof -
  have "too_fast d (now_at E s) \<longleftrightarrow> \<not> is_zero (dv_last_poll d) \<and> now_at E s < dv_last_poll d + dv_interval d"
    by (auto simp: too_fast_def)
  then show ?thesis
    using assms by (simp add: poll_device_def Let_def put_device_def five_seconds_def)
qed

definition waiting_store :: store where
  "waiting_store = sample_store\<lparr>fs_devices := [''d'' \<mapsto> new_device providerGitHub ''BCDF-GHJK'' (600 * second) second],
     fs_user_codes := [''BCDF-GHJK'' \<mapsto> ''d'']\<rparr>"

theorem pending_poll_slow_down_witness:
  "\<exists>s'. poll_device sample_env providerGitHub ''d'' waiting_store = Inr (Inl Pending, s')"
proof -
  have z: "is_zero zero_time" by (simp add: is_zero_def)
  show ?thesis
    using pending_poll_slow_down [of waiting_store "''d''" "new_device providerGitHub ''BCDF-GHJK'' (600 * second) second"
        providerGitHub sample_env] z
    by (auto simp: waiting_store_def new_device_def sample_store_def new_store_def now_at_def sample_env_def second_def)
qed

lemma start_typed_code:
  assumes "start_device E p s = Some (Inr (d, s1))"
  shows "normalize_user_code (ds_user_code d) = ds_user_code d"
    "normalize_user_code (map lower_char (filter is_letter (ds_user_code d))) = ds_user_code d"
proof -
  obtain b where b: "length b = 8" "ds_user_code d = user_code_of b" using start_device_maps(6) [OF assms] by blast
  then show "normalize_user_code (ds_user_code d) = ds_user_code d" by (simp add: user_code_normal)
  have l: "is_letter (code_letter v)" "\<not> is_letter (CHR ''-'')" for v
    using code_letter_upper by (auto simp: is_letter_def is_lower_def is_upper_def code_def)
  have "filter is_letter (user_code_of b) = map code_letter b"
    by (simp add: user_code_of_def filter_id_conv l flip: map_append)
  with b typed_code [OF b(1)] show "normalize_user_code (map lower_char (filter is_letter (ds_user_code d))) = ds_user_code d"
    by simp
qed

lemma start_device_request:
  assumes "start_device E p s = Some (Inr (d, s1))"
  shows "fs_devices s1 (ds_device_code d) =
    Some (new_device p (ds_user_code d) (clock_at E (fs_tick s1 - 1) + fs_code_ttl s) (fs_interval s))"
proof -
  from assms obtain dc v uc s2 where r: "random_hex E 20 s = Inr (dc, v)" "new_user_code E v = Some (Inr (uc, s2))"
    and d: "ds_device_code d = dc" "ds_user_code d = uc"
      "s1 = (tick s2)\<lparr>fs_devices := (fs_devices s2)(dc \<mapsto> new_device p uc (now_at E s2 + fs_code_ttl s2) (fs_interval s2)),
        fs_user_codes := (fs_user_codes s2)(uc \<mapsto> dc)\<rparr>"
    by (auto simp: start_device_def split: sum.splits option.splits)
  from r(1) have v: "v = tick s" by (simp add: random_hex_ok)
  obtain n where "s2 = v\<lparr>fs_tick := n\<rparr>" using new_user_code_maps [OF r(2)] by metis
  with v d show ?thesis by (simp add: tick_def now_at_def)
qed

lemma resolve_pending:
  assumes "fs_user_codes s (normalize_user_code uc) = Some dc" and "fs_devices s dc = Some d"
    and "dv_provider d = p" and "dv_status d = DevicePending" and "now_at E s \<le> dv_expires_at d"
  shows "resolve_device E p uc True i s = Inr (Inr (),
      (tick s)\<lparr>fs_devices := (fs_devices s)(dc \<mapsto> d\<lparr>dv_status := DeviceApproved, dv_identity := i\<rparr>)\<rparr>)"
  using assms by (simp add: resolve_device_def)

lemma decide_approved:
  assumes "decided_identity f True = Some i" and "resolve_device E p (f ''user_code'') True i s = Inr (Inr (), s')"
  shows "decide_device E p f True s =
    Inr ((200, ''Device approved for '' @ fi_login i @ ''. You can return to your terminal.''), s')"
  unfolding decide_device_def by (simp only: assms option.case sum.case prod.case case_unit_Unity if_True)

lemma poll_approved:
  assumes "quiet E" and "fs_devices s dc = Some d" and "dv_provider d = p" and "\<not> dv_redeemed d"
    and "dv_status d = DeviceApproved" and "now_at E s \<le> dv_expires_at d"
  shows "\<exists>t s'. poll_device E p dc s = Inr (Inr t, s') \<and> lookup_token p t s' = Inr (dv_identity d)"
  using assms by (simp add: poll_device_def Let_def answer_token_def quiet_issue_token lookup_token_def)

lemma decided_identity_approved:
  assumes "new_identity (f ''login'') (f ''email'') (f ''name'') = (i0, True)"
  shows "\<exists>i. decided_identity f True = Some i \<and> fi_login i = trim_space (f ''login'')"
proof -
  have "fi_login i0 = trim_space (f ''login'')"
    using assms by (auto simp: new_identity_def Let_def split: if_splits)
  with assms show ?thesis
    by (simp add: decided_identity_def with_email_verified_def Let_def)
qed

lemma device_flow_steps:
  assumes "quiet E" and "start_device E prov s = Some (Inr (d, s1))" and "normalize_user_code uc = ds_user_code d"
    and "clock_at E (fs_tick s1) \<le> clock_at E (fs_tick s1 - 1) + fs_code_ttl s"
    and "clock_at E (Suc (fs_tick s1)) \<le> clock_at E (fs_tick s1 - 1) + fs_code_ttl s"
  shows "\<exists>s2 t s3. resolve_device E prov uc True i s1 = Inr (Inr (), s2) \<and>
    poll_device E prov (ds_device_code d) s2 = Inr (Inr t, s3) \<and> lookup_token prov t s3 = Inr i"
proof -
  let ?d = "new_device prov (ds_user_code d) (clock_at E (fs_tick s1 - 1) + fs_code_ttl s) (fs_interval s)"
  let ?s2 = "(tick s1)\<lparr>fs_devices := (fs_devices s1)(ds_device_code d \<mapsto> ?d\<lparr>dv_status := DeviceApproved, dv_identity := i\<rparr>)\<rparr>"
  have u: "fs_user_codes s1 (normalize_user_code uc) = Some (ds_device_code d)"
    using start_device_maps(4) [OF assms(2)] assms(3) by simp
  note res = resolve_pending [OF u start_device_request [OF assms(2)]]
  have "resolve_device E prov uc True i s1 = Inr (Inr (), ?s2)"
    by (rule res) (use assms(4) in \<open>simp_all add: new_device_def now_at_def\<close>)
  moreover have "\<exists>t s'. poll_device E prov (ds_device_code d) ?s2 = Inr (Inr t, s') \<and> lookup_token prov t s' = Inr i"
    using poll_approved [OF assms(1), of ?s2 "ds_device_code d" "?d\<lparr>dv_status := DeviceApproved, dv_identity := i\<rparr>" prov]
      assms(5) by (simp add: new_device_def now_at_def tick_def)
  ultimately show ?thesis by blast
qed

text \<open>
  C36: in a quiet environment, within the lifetime of the codes: a user who types the code of a
  device request, as it is shown or in lower case without the dash, and names a login, approves it;
  the next poll for its device code gives a token, and the token answers with that user's identity.
\<close>

theorem device_flow_signs_in:
  assumes "quiet E" and "start_device E prov s = Some (Inr (d, s1))"
    and "f ''user_code'' = ds_user_code d \<or> f ''user_code'' = map lower_char (filter is_letter (ds_user_code d))"
    and "new_identity (f ''login'') (f ''email'') (f ''name'') = (i0, True)"
    and "clock_at E (fs_tick s1) \<le> clock_at E (fs_tick s1 - 1) + fs_code_ttl s"
    and "clock_at E (Suc (fs_tick s1)) \<le> clock_at E (fs_tick s1 - 1) + fs_code_ttl s"
  shows "\<exists>i s2 t s3. decided_identity f True = Some i \<and> fi_login i = trim_space (f ''login'') \<and>
    decide_device E prov f True s1 = Inr ((200, ''Device approved for '' @ fi_login i @ ''. You can return to your terminal.''), s2) \<and>
    poll_device E prov (ds_device_code d) s2 = Inr (Inr t, s3) \<and> lookup_token prov t s3 = Inr i"
proof -
  obtain i where i: "decided_identity f True = Some i" "fi_login i = trim_space (f ''login'')"
    using decided_identity_approved [OF assms(4)] by blast
  have n: "normalize_user_code (f ''user_code'') = ds_user_code d"
    using assms(3) start_typed_code [OF assms(2)] by metis
  obtain s2 t s3 where "resolve_device E prov (f ''user_code'') True i s1 = Inr (Inr (), s2)"
    "poll_device E prov (ds_device_code d) s2 = Inr (Inr t, s3)" "lookup_token prov t s3 = Inr i"
    using device_flow_steps [OF assms(1,2) n assms(5,6)] by blast
  with i decide_approved [OF i(1)] show ?thesis by blast
qed

definition sample_typed :: "string \<Rightarrow> string" where
  "sample_typed k = (if k = ''user_code'' then ''cccccccc'' else if k = ''login'' then ''ana'' else [])"

lemma sample_start:
  "start_device sample_env providerGitHub sample_store =
     Some (Inr (\<lparr>ds_device_code = hex_encode (replicate 20 0), ds_user_code = ''CCCC-CCCC'',
        ds_expires_in = 600 * second, ds_interval = second\<rparr>,
      sample_store\<lparr>fs_devices := [hex_encode (replicate 20 0) \<mapsto> new_device providerGitHub ''CCCC-CCCC'' (602 * second) second],
        fs_user_codes := [''CCCC-CCCC'' \<mapsto> hex_encode (replicate 20 0)], fs_tick := 3\<rparr>))"
proof -
  have c: "user_code_of (map (rand_at sample_env n) [0..<8]) =
      replicate 4 (code_letter (of_nat n)) @ ''-'' @ replicate 4 (code_letter (of_nat n))" for n
    by (simp add: user_code_of_def sample_env_def map_replicate_const eval_nat_numeral)
  have l: "code_letter 1 = CHR ''C''" by (simp add: code_letter_def user_code_alphabet_def)
  have r: "\<not> rand_fails_at sample_env n" "rand_at sample_env n = (\<lambda>i. of_nat n)" for n
    by (simp_all add: sample_env_def)
  have t: "fs_tick sample_store = 0" "fs_user_codes sample_store = Map.empty" "fs_devices sample_store = Map.empty"
    "fs_code_ttl sample_store = 600 * second" "fs_interval sample_store = second"
    by (simp_all add: sample_store_def new_store_def)
  have cc: "user_code_of (map (rand_at sample_env 1) [0..<8]) = ''CCCC-CCCC''"
    unfolding c by (simp add: l eval_nat_numeral)
  have tt: "fs_tick (tick sample_store) + 0 = 1" using t(1) by simp
  have "new_user_code sample_env (tick sample_store) = Some (Inr (''CCCC-CCCC'',
      (tick sample_store)\<lparr>fs_tick := fs_tick (tick sample_store) + Suc 0\<rparr>))"
    using new_user_code_returns [of 0 sample_env "tick sample_store"] r(1) t(2)
    unfolding tt cc by simp
  then have n: "new_user_code sample_env (tick sample_store) = Some (Inr (''CCCC-CCCC'', sample_store\<lparr>fs_tick := 2\<rparr>))"
    using t(1) by (simp add: tick_def)
  have h: "random_hex sample_env 20 sample_store = Inr (hex_encode (replicate 20 0), tick sample_store)"
    by (simp add: random_hex_ok r t map_replicate_const)
  show ?thesis
    using t by (simp add: start_device_def h n) (simp add: tick_def now_at_def sample_env_def second_def)
qed

abbreviation sample_started :: store where
  "sample_started \<equiv> sample_store\<lparr>fs_devices := [hex_encode (replicate 20 0) \<mapsto> new_device providerGitHub ''CCCC-CCCC'' (602 * second) second],
     fs_user_codes := [''CCCC-CCCC'' \<mapsto> hex_encode (replicate 20 0)], fs_tick := 3\<rparr>"

lemma sample_times:
  "clock_at sample_env (fs_tick sample_started) \<le> clock_at sample_env (fs_tick sample_started - 1) + fs_code_ttl sample_store"
  "clock_at sample_env (Suc (fs_tick sample_started)) \<le> clock_at sample_env (fs_tick sample_started - 1) + fs_code_ttl sample_store"
  by (simp_all add: sample_env_def second_def sample_store_def new_store_def)

lemma sample_device_run:
  "\<exists>s2 t s3. resolve_device sample_env providerGitHub ''CCCC-CCCC'' True sample_identity sample_started = Inr (Inr (), s2) \<and>
    poll_device sample_env providerGitHub (hex_encode (replicate 20 0)) s2 = Inr (Inr t, s3) \<and>
    fake_run sample_env sample_store [Started (hex_encode (replicate 20 0)) ''CCCC-CCCC'',
      Resolved ''CCCC-CCCC'' True (Inr ()), Polled (hex_encode (replicate 20 0)) (Inr t)] s3"
proof -
  have n: "normalize_user_code ''CCCC-CCCC'' = ds_user_code \<lparr>ds_device_code = hex_encode (replicate 20 0),
      ds_user_code = ''CCCC-CCCC'', ds_expires_in = 600 * second, ds_interval = second\<rparr>"
    by code_simp
  obtain s2 t s3 where r: "resolve_device sample_env providerGitHub ''CCCC-CCCC'' True sample_identity sample_started = Inr (Inr (), s2)"
    "poll_device sample_env providerGitHub (hex_encode (replicate 20 0)) s2 = Inr (Inr t, s3)"
    using device_flow_steps [OF quiet_sample_env sample_start n sample_times, of sample_identity] by auto
  have "fake_step sample_env sample_store (Started (hex_encode (replicate 20 0)) ''CCCC-CCCC'') sample_started"
    using fake_step.Start [OF sample_start] by simp
  then have "fake_run sample_env sample_store [Started (hex_encode (replicate 20 0)) ''CCCC-CCCC'',
      Resolved ''CCCC-CCCC'' True (Inr ()), Polled (hex_encode (replicate 20 0)) (Inr t)] s3"
    by (rule fake_run.Step [OF _ fake_run.Step [OF fake_step.Resolve [OF r(1)]
        fake_run.Step [OF fake_step.Poll [OF r(2)] fake_run.Stop]]])
  with r show ?thesis by blast
qed

theorem device_single_use_witness:
  "\<exists>dc s t s1 r. poll_device sample_env providerGitHub dc s = Inr (Inr t, s1) \<and>
    poll_device sample_env providerGitHub dc s1 = Inr (r, s1) \<and> r = Inl InvalidGrant"
proof -
  let ?dc = "hex_encode (replicate 20 0)"
  obtain s2 t s3 where p: "resolve_device sample_env providerGitHub ''CCCC-CCCC'' True sample_identity sample_started = Inr (Inr (), s2)"
    "poll_device sample_env providerGitHub ?dc s2 = Inr (Inr t, s3)" using sample_device_run by blast
  have "store_inv sample_store" unfolding sample_store_def by (rule store_inv_new)
  then have inv: "store_inv s2"
    using resolve_device_inv [OF start_device_inv [OF _ sample_start] p(1)] by blast
  obtain r where r: "poll_device sample_env providerGitHub ?dc s3 = Inr (r, s3)"
    using poll_token_redeems [OF p(2)] by (auto simp: is_redeemed_def poll_device_def)
  have "r = Inl InvalidGrant"
    by (rule device_single_use [OF inv p(2) fake_run.Step [OF fake_step.Poll [OF r] fake_run.Stop]]) simp_all
  with p r show ?thesis by blast
qed

theorem device_token_needs_approval_witness:
  "\<exists>t typed. Resolved typed True (Inr ()) \<in> {Started (hex_encode (replicate 20 0)) ''CCCC-CCCC'',
      Resolved ''CCCC-CCCC'' True (Inr ()), Polled (hex_encode (replicate 20 0)) (Inr t)}"
proof -
  obtain t s3 where "fake_run sample_env (new_store (600 * second) second) [Started (hex_encode (replicate 20 0)) ''CCCC-CCCC'',
      Resolved ''CCCC-CCCC'' True (Inr ()), Polled (hex_encode (replicate 20 0)) (Inr t)] s3"
    using sample_device_run unfolding sample_store_def by blast
  from device_token_needs_approval [OF this, of "hex_encode (replicate 20 0)" t] show ?thesis by auto
qed

theorem device_flow_signs_in_witness:
  "\<exists>d s1 i s2 t s3. start_device sample_env providerGitHub sample_store = Some (Inr (d, s1)) \<and> fi_login i = ''ana'' \<and>
    decide_device sample_env providerGitHub sample_typed True s1 =
      Inr ((200, ''Device approved for '' @ fi_login i @ ''. You can return to your terminal.''), s2) \<and>
    poll_device sample_env providerGitHub (ds_device_code d) s2 = Inr (Inr t, s3) \<and> lookup_token providerGitHub t s3 = Inr i"
proof -
  have i: "new_identity (sample_typed ''login'') (sample_typed ''email'') (sample_typed ''name'') =
      (\<lparr>fi_login = ''ana'', fi_email = ''ana@example.com'', fi_name = ''ana'', fi_email_verified = True\<rparr>, True)"
    by code_simp
  have c: "map lower_char (filter is_letter ''CCCC-CCCC'') = ''cccccccc''" "trim_space (sample_typed ''login'') = ''ana''"
    "sample_typed ''user_code'' = ''cccccccc''"
    by code_simp+
  have u: "sample_typed ''user_code'' = map lower_char (filter is_letter (ds_user_code
      \<lparr>ds_device_code = hex_encode (replicate 20 0), ds_user_code = ''CCCC-CCCC'', ds_expires_in = 600 * second, ds_interval = second\<rparr>))"
    by (simp only: c device_start.simps)
  from device_flow_signs_in [OF quiet_sample_env sample_start disjI2 [OF u] i sample_times] sample_start
  show ?thesis unfolding c(2) by blast
qed

section \<open>The redirect flow\<close>

lemma merge_query_get:
  "values_get (query_values (merge_query raw extra)) k =
     (if k \<in> fst ` set extra then values_get extra k else values_get (query_values raw) k)"
proof -
  let ?old = "filter (\<lambda>kv. fst kv \<notin> fst ` set extra) (query_values raw)"
  have "map_of (filter (\<lambda>kv. fst kv \<notin> A) vs) k = (if k \<in> A then None else map_of vs k)" for A and vs :: "(string \<times> string) list"
    by (induction vs) auto
  then have "map_of ?old k = (if k \<in> fst ` set extra then None else map_of (query_values raw) k)" .
  moreover have "map_of extra k = None" if "k \<notin> fst ` set extra" using that by (simp add: map_of_eq_None_iff)
  moreover have "map_of (?old @ extra) k = (case map_of ?old k of None \<Rightarrow> map_of extra k | Some v \<Rightarrow> Some v)"
    by (simp only: map_of_append map_add_def)
  ultimately have "values_get (?old @ extra) k =
      (if k \<in> fst ` set extra then values_get extra k else values_get (query_values raw) k)"
    unfolding values_get_def by (cases "k \<in> fst ` set extra"; cases "map_of (query_values raw) k")
      (simp_all del: map_of_append)
  then show ?thesis by (simp add: merge_query_def values_get_encoded)
qed

definition scripted_identity :: "(string \<Rightarrow> string) \<Rightarrow> identity" where
  "scripted_identity q = with_email_verified (fst (new_identity (q ''fake_user'') (q ''fake_email'') (q ''fake_name''))) (q ''fake_email_verified'')"

lemma scripted_login_code:
  fixes r
  defines "q \<equiv> values_get (query_values (fq_query r))"
  assumes "quiet F" and "valid_redirect sv (q ''redirect_uri'') = Some u"
    and "q ''response_type'' = ''code''" "q ''client_id'' \<noteq> []" "q ''fake_user'' \<noteq> []"
  shows "\<exists>Q s1 c. authorize_form sv F r p s = answers (fake_redirect (url_string (u\<lparr>gu_raw_query := Q\<rparr>))) s1 \<and>
    (q ''state'' \<noteq> [] \<longrightarrow> values_get (query_values Q) ''state'' = q ''state'') \<and>
    (\<forall>k. k \<noteq> ''code'' \<longrightarrow> k \<noteq> ''state'' \<longrightarrow> values_get (query_values Q) k = values_get (query_values (gu_raw_query u)) k) \<and>
    values_get (query_values Q) ''code'' = c \<and> length c = 32 \<and> fs_tick s1 = fs_tick s + 2 \<and>
    fs_codes s1 = (fs_codes s)(c \<mapsto> \<lparr>ac_provider = p, ac_redirect_uri = url_string u, ac_identity = scripted_identity q,
       ac_expires_at = clock_at F (Suc (fs_tick s)) + fs_code_ttl s\<rparr>)"
proof -
  let ?c = "hex_encode (map (rand_at F (fs_tick s)) [0..<16])"
  let ?Q = "merge_query (gu_raw_query u) (with_state (q ''state'') [(''code'', ?c)])"
  obtain s1 where s1: "issue_code F p (url_string u) (scripted_identity q) s = Inr (?c, s1)" "fs_tick s1 = fs_tick s + 2"
    "fs_codes s1 = (fs_codes s)(?c \<mapsto> \<lparr>ac_provider = p, ac_redirect_uri = url_string u, ac_identity = scripted_identity q,
       ac_expires_at = clock_at F (Suc (fs_tick s)) + fs_code_ttl s\<rparr>)"
    using quiet_issue_code [OF assms(2)] by simp
  have form: "authorize_form sv F r p s = answers (fake_redirect (url_string (u\<lparr>gu_raw_query := ?Q\<rparr>))) s1"
    using assms(3-6) s1(1)
    unfolding authorize_form_def redirect_with_code_def Let_def q_def [symmetric] scripted_identity_def [symmetric]
    by simp
  have "values_get (query_values ?Q) ''code'' = ?c" "q ''state'' \<noteq> [] \<longrightarrow> values_get (query_values ?Q) ''state'' = q ''state''"
    "\<forall>k. k \<noteq> ''code'' \<longrightarrow> k \<noteq> ''state'' \<longrightarrow> values_get (query_values ?Q) k = values_get (query_values (gu_raw_query u)) k"
    unfolding merge_query_get with_state_def by (simp_all add: values_get_def)
  with form s1 show ?thesis by (intro exI [of _ ?Q] exI [of _ s1] exI [of _ ?c]) simp
qed

text \<open>
  In a quiet environment, within the lifetime of the code: a scripted login is sent back to the
  redirect URI with a code and the state of the client, the other parameters of the URI kept; the
  code, redeemed with that URI or none, gives a token, and the user document for the token is the
  one of the login.
\<close>

theorem scripted_login_signs_in:
  fixes r E sv q i
  defines "q \<equiv> values_get (query_values (fq_query r))"
  defines "i \<equiv> scripted_identity q"
  assumes "quiet E" and "valid_redirect sv (q ''redirect_uri'') = Some u"
    and "q ''response_type'' = ''code''" and "q ''client_id'' \<noteq> []" and "q ''fake_user'' \<noteq> []" and "q ''state'' \<noteq> []"
    and "clock_at E (fs_tick s + 2) \<le> clock_at E (fs_tick s + 1) + fs_code_ttl s"
    and "parse_form (sv_libs sv) r2 = Some form" and "values_get form ''grant_type'' = grantAuthorizationCode"
    and "values_get form ''redirect_uri'' = [] \<or> values_get form ''redirect_uri'' = url_string u"
  shows "\<exists>Q s1. authorize_form sv E r prov s = answers (fake_redirect (url_string (u\<lparr>gu_raw_query := Q\<rparr>))) s1 \<and>
    values_get (query_values Q) ''state'' = q ''state'' \<and>
    (\<forall>k. k \<noteq> ''code'' \<longrightarrow> k \<noteq> ''state'' \<longrightarrow>
       values_get (query_values Q) k = values_get (query_values (gu_raw_query u)) k) \<and>
    (values_get form ''code'' = values_get (query_values Q) ''code'' \<longrightarrow>
       (\<exists>t s2. fake_token sv E r2 prov s1 = answers (FakeJSON 200 (JObj [(''access_token'', JStr t),
            (''expires_in'', JNum ''3600''), (''token_type'', JStr ''bearer'')])) s2 \<and>
          (\<forall>doc r3. fq_authorization r3 = ''Bearer '' @ t \<longrightarrow>
             user_document doc prov r3 s2 = answers (FakeJSON 200 (doc i)) s2)))"
proof -
  obtain Q s1 c where login: "authorize_form sv E r prov s = answers (fake_redirect (url_string (u\<lparr>gu_raw_query := Q\<rparr>))) s1"
    "q ''state'' \<noteq> [] \<longrightarrow> values_get (query_values Q) ''state'' = q ''state''"
    "\<forall>k. k \<noteq> ''code'' \<longrightarrow> k \<noteq> ''state'' \<longrightarrow> values_get (query_values Q) k = values_get (query_values (gu_raw_query u)) k"
    "values_get (query_values Q) ''code'' = c" "length c = 32" "fs_tick s1 = fs_tick s + 2"
    "fs_codes s1 = (fs_codes s)(c \<mapsto> \<lparr>ac_provider = prov, ac_redirect_uri = url_string u, ac_identity = i,
       ac_expires_at = clock_at E (Suc (fs_tick s)) + fs_code_ttl s\<rparr>)"
    using scripted_login_code [OF assms(3-7) [unfolded q_def], of prov s, folded q_def, folded i_def]
    by (elim exE conjE) (rule that)
  have stored: "fs_codes s1 c = Some \<lparr>ac_provider = prov, ac_redirect_uri = url_string u, ac_identity = i,
       ac_expires_at = clock_at E (Suc (fs_tick s)) + fs_code_ttl s\<rparr>" using login(7) by simp
  obtain t s2 where t: "redeem_code E prov c (values_get form ''redirect_uri'') s1 = Inr (Inr t, s2)" "lookup_token prov t s2 = Inr i"
    using quiet_redeem [OF assms(3) stored, of prov "values_get form ''redirect_uri''"] login(6) assms(9,12)
    by auto
  have token: "fake_token sv E r2 prov s1 = answers (FakeJSON 200 (JObj [(''access_token'', JStr t),
      (''expires_in'', JNum ''3600''), (''token_type'', JStr ''bearer'')])) s2"
    if "values_get form ''code'' = c"
    unfolding fake_token_def Let_def
    by (simp only: assms(10) option.case assms(11) if_True that t(1) token_answer_def sum.case prod.case refl)
  have doc: "user_document doc prov r3 s2 = answers (FakeJSON 200 (doc i)) s2" if "fq_authorization r3 = ''Bearer '' @ t" for doc r3
    using t(2) that by (simp add: user_document_def bearer_identity_def has_prefix_def)
  have last: "values_get form ''code'' = values_get (query_values Q) ''code'' \<longrightarrow>
       (\<exists>t s2. fake_token sv E r2 prov s1 = answers (FakeJSON 200 (JObj [(''access_token'', JStr t),
            (''expires_in'', JNum ''3600''), (''token_type'', JStr ''bearer'')])) s2 \<and>
          (\<forall>doc r3. fq_authorization r3 = ''Bearer '' @ t \<longrightarrow> user_document doc prov r3 s2 = answers (FakeJSON 200 (doc i)) s2))"
    unfolding login(4) using token doc by blast
  show ?thesis
    by (rule exI [of _ Q], rule exI [of _ s1], intro conjI login(1) mp [OF login(2) assms(8)] login(3) last)
qed

lemma form_media_type: "parse_media_type L ''application/x-www-form-urlencoded'' = (''application/x-www-form-urlencoded'', None)"
proof -
  let ?v = "''application/x-www-form-urlencoded''"
  have s: "takeWhile (\<lambda>c. c \<noteq> CHR '';'') ?v = ?v" "list_all is_ascii ?v" "map lower_char ?v = ?v" "trim_space ?v = ?v"
    "check_media_type ?v" "drop (length ?v) ?v = []" "media_params [] [] = None"
    by code_simp+
  have "to_lower L ?v = ?v" unfolding to_lower_def by (simp only: s if_True)
  with s show ?thesis unfolding parse_media_type_def Let_def by (simp only: s option.case if_False not_True_eq_False)
qed

definition sample_login :: fake_request where
  "sample_login = \<lparr>fq_method = ''GET'', fq_path = [''google'', ''authorize''],
     fq_query = ''client_id=c&response_type=code&redirect_uri=http%3A%2F%2Flocalhost%2Fcb%3Fa=b&state=xyz&fake_user=ana'',
     fq_content_type = [], fq_authorization = [], fq_body = Some []\<rparr>"

definition sample_redeem :: fake_request where
  "sample_redeem = \<lparr>fq_method = ''POST'', fq_path = [''google'', ''token''], fq_query = [],
     fq_content_type = ''application/x-www-form-urlencoded'', fq_authorization = [],
     fq_body = Some ''grant_type=authorization_code''\<rparr>"

theorem scripted_login_signs_in_witness:
  "\<exists>u Q s1. authorize_form sample_fake sample_env sample_login providerGoogle sample_store =
      answers (fake_redirect (url_string (u\<lparr>gu_raw_query := Q\<rparr>))) s1 \<and>
    gu_host u = ''localhost'' \<and> values_get (query_values Q) ''state'' = ''xyz'' \<and> values_get (query_values Q) ''a'' = ''b''"
proof -
  let ?q = "values_get (query_values (fq_query sample_login))"
  let ?u = "\<lparr>gu_scheme = ''http'', gu_user = None, gu_host = ''localhost'', gu_path = ''/cb'', gu_raw_path = [],
    gu_force_query = False, gu_raw_query = ''a=b'', gu_fragment = [], gu_raw_fragment = []\<rparr>"
  have q: "?q ''response_type'' = ''code''" "?q ''client_id'' \<noteq> []" "?q ''fake_user'' \<noteq> []" "?q ''state'' \<noteq> []"
    and q2: "?q ''state'' = ''xyz''" "values_get (query_values (gu_raw_query ?u)) ''a'' = ''b''"
    by code_simp+
  have u: "valid_redirect sample_fake (?q ''redirect_uri'') = Some ?u" by code_simp
  have form: "parse_form (sv_libs sample_fake) sample_redeem = Some [(''grant_type'', ''authorization_code'')]"
  proof -
    have "parse_query ''grant_type=authorization_code'' = Some [(''grant_type'', ''authorization_code'')]"
      "parse_query [] = Some []" by code_simp+
    then show ?thesis by (simp add: parse_form_def sample_redeem_def post_form_def form_media_type max_form_size_def)
  qed
  have g: "values_get [(''grant_type'', ''authorization_code'')] ''grant_type'' = grantAuthorizationCode"
    "values_get [(''grant_type'', ''authorization_code'')] ''redirect_uri'' = [] \<or>
     values_get [(''grant_type'', ''authorization_code'')] ''redirect_uri'' = url_string ?u"
    by (simp_all add: values_get_def grantAuthorizationCode_def)
  have t: "clock_at sample_env (fs_tick sample_store + 2) \<le> clock_at sample_env (fs_tick sample_store + 1) + fs_code_ttl sample_store"
    by (simp add: sample_env_def second_def sample_store_def new_store_def)
  from scripted_login_signs_in [OF quiet_sample_env u q t form g, of providerGoogle] show ?thesis
  proof (elim exE conjE)
    fix Q s1
    assume a: "authorize_form sample_fake sample_env sample_login providerGoogle sample_store =
        answers (fake_redirect (url_string (?u\<lparr>gu_raw_query := Q\<rparr>))) s1"
      and "values_get (query_values Q) ''state'' = ?q ''state''"
      and "\<forall>k. k \<noteq> ''code'' \<longrightarrow> k \<noteq> ''state'' \<longrightarrow> values_get (query_values Q) k = values_get (query_values (gu_raw_query ?u)) k"
    then have "values_get (query_values Q) ''state'' = ''xyz''" "values_get (query_values Q) ''a'' = ''b''"
      using q2 by simp_all
    with a show ?thesis by (intro exI [of _ ?u] exI [of _ Q] exI [of _ s1] conjI) simp_all
  qed
qed

section \<open>What the API reads\<close>

lemma google_fields:
  "field_values [''sub'', ''email'', ''email_verified'', ''name''] [(''email'', a), (''email_verified'', b), (''name'', c), (''sub'', d)] ''sub'' = [d]"
  "field_values [''sub'', ''email'', ''email_verified'', ''name''] [(''email'', a), (''email_verified'', b), (''name'', c), (''sub'', d)] ''email'' = [a]"
  "field_values [''sub'', ''email'', ''email_verified'', ''name''] [(''email'', a), (''email_verified'', b), (''name'', c), (''sub'', d)] ''email_verified'' = [b]"
  "field_values [''sub'', ''email'', ''email_verified'', ''name''] [(''email'', a), (''email_verified'', b), (''name'', c), (''sub'', d)] ''name'' = [c]"
  by code_simp+

lemma github_fields:
  "field_values [''id'', ''login'', ''name''] [(''email'', a), (''id'', b), (''login'', c), (''name'', d)] ''id'' = [b]"
  "field_values [''id'', ''login'', ''name''] [(''email'', a), (''id'', b), (''login'', c), (''name'', d)] ''login'' = [c]"
  "field_values [''id'', ''login'', ''name''] [(''email'', a), (''id'', b), (''login'', c), (''name'', d)] ''name'' = [d]"
  "field_values [''email'', ''primary'', ''verified''] [(''email'', a), (''primary'', b), (''verified'', c), (''visibility'', d)] ''email'' = [a]"
  "field_values [''email'', ''primary'', ''verified''] [(''email'', a), (''primary'', b), (''verified'', c), (''visibility'', d)] ''primary'' = [b]"
  "field_values [''email'', ''primary'', ''verified''] [(''email'', a), (''primary'', b), (''verified'', c), (''visibility'', d)] ''verified'' = [c]"
  by code_simp+

lemma token_fields:
  "field_values [''access_token'', ''error''] [(''access_token'', a), (''expires_in'', b), (''token_type'', c)] ''access_token'' = [a]"
  "field_values [''access_token'', ''error''] [(''access_token'', a), (''expires_in'', b), (''token_type'', c)] ''error'' = []"
  "field_values [''access_token'', ''error''] [(''error'', a)] ''access_token'' = []"
  "field_values [''access_token'', ''error''] [(''error'', a)] ''error'' = [a]"
  by code_simp+

text \<open>
  The Google adapter of the API accepts the document of the fake exactly when its email is
  verified, with the identifier, the email and the name of the identity.
\<close>

theorem fake_google_document_read:
  "\<exists>ms. google_document i = JObj ms \<and> google_user ms = Some
     (if fi_email i \<noteq> [] \<and> fi_email_verified i
      then Inr \<lparr>ui_provider_id = google_sub i, ui_email = fi_email i, ui_name = fi_name i\<rparr>
      else Inl (Wrap ''google: '' (Sentinel ErrEmailNotVerified)))"
  unfolding google_document_def google_user_def Let_def
  by (intro exI conjI, rule refl) (simp add: google_fields as_string_def as_bool_def)

lemma atoi_int_dec:
  assumes "0 \<le> n" and "n < 2 ^ 63"
  shows "atoi (int_dec n) = Some n"
proof -
  obtain m where m: "n = int m" using assms(1) nonneg_int_cases by blast
  have "nat_dec m \<noteq> [] \<and> list_all is_digit (nat_dec m) \<and> dec_val (nat_dec m) = m" by (simp add: nat_dec_digits)
  moreover have "\<not> has_prefix ''-'' (nat_dec m)" "\<not> has_prefix ''+'' (nat_dec m)"
    using calculation by (cases "nat_dec m"; auto simp: has_prefix_def is_digit_def code_def)+
  ultimately show ?thesis using assms(2) m by (simp add: atoi_def int_dec_def Let_def)
qed

text \<open>
  The GitHub adapter of the API reads the fake's documents: the numeric identifier, a
  non-negative number of 53 bits that depends on the login only, and the email exactly when it is
  verified.
\<close>

theorem fake_github_documents_read:
  "\<exists>info es. github_user (github_document i) = Some info \<and> gi_id info = github_id i \<and> gi_login info = fi_login i \<and>
     0 \<le> gi_id info \<and> gi_id info < 2 ^ 53 \<and>
     github_emails (github_emails_document i) = Some es \<and>
     primary_email es = (if fi_email_verified i then fi_email i else [])"
proof -
  have r: "0 \<le> github_id i" "github_id i < 2 ^ 53" using github_id_range by auto
  then have a: "atoi (int_dec (github_id i)) = Some (github_id i)" by (intro atoi_int_dec) simp_all
  show ?thesis
    unfolding github_document_def github_user_def github_emails_document_def github_emails_def github_email_entry_def
      struct_members_def array_values_def Let_def
    using r by (simp add: github_fields a as_string_def as_bool_def as_int64_def primary_email_def)
qed

text \<open>The token request of the API's device poll as the fake receives it, and how the API reads the answer.\<close>

definition poll_request :: "oauth_config \<Rightarrow> string \<Rightarrow> string \<Rightarrow> fake_request" where
  "poll_request cfg prov dc = \<lparr>fq_method = ''POST'', fq_path = [prov, ''token''], fq_query = [],
     fq_content_type = ''application/x-www-form-urlencoded'', fq_authorization = [],
     fq_body = Some (hq_body (device_token_request cfg dc))\<rparr>"

definition read_answer :: "int \<Rightarrow> (string \<times> json) list \<Rightarrow> (goerr + string) option" where
  "read_answer st ms =
     (let vs = field_values [''access_token'', ''error''] ms in
      case (decode_with as_string [] (vs ''access_token''), decode_with as_string [] (vs ''error'')) of
        (Some t, Some e) \<Rightarrow> Some (device_token_result st \<lparr>dt_access_token = t, dt_error = e\<rparr>)
      | _ \<Rightarrow> None)"

fun api_error :: "store_error \<Rightarrow> sentinel" where
  "api_error InvalidGrant = ErrInvalidDeviceCode"
| "api_error Pending = ErrAuthorizationPending"
| "api_error SlowDown = ErrSlowDown"
| "api_error AccessDenied = ErrAccessDenied"
| "api_error ExpiredToken = ErrDeviceCodeExpired"
| "api_error _ = ErrNoRows"

lemma poll_request_form:
  assumes "length (hq_body (device_token_request cfg dc)) \<le> max_form_size"
  shows "parse_form L (poll_request cfg prov dc) =
    Some (sort_key (\<lambda>kv. map code (fst kv)) (device_token_form cfg dc))"
proof -
  have q: "parse_query [] = Some []" by (simp add: parse_query_def parse_pair_def)
  have "parse_query (hq_body (device_token_request cfg dc)) = Some (sort_key (\<lambda>kv. map code (fst kv)) (device_token_form cfg dc))"
    unfolding device_token_request_def http_request.simps by (rule parse_encode)
  with assms q form_media_type [of L] show ?thesis
    by (simp add: parse_form_def poll_request_def post_form_def not_less)
qed

lemma poll_device_answers:
  assumes "poll_device E p dc s = Inr (a, s')"
  shows "case a of Inl e \<Rightarrow> e \<in> {InvalidGrant, Pending, SlowDown, AccessDenied, ExpiredToken} | Inr t \<Rightarrow> t \<noteq> []"
  using assms
proof (cases rule: poll_device_cases)
  case (Approved d t)
  then have "length t = 48" by (auto simp: issue_token_def random_hex_ok split: sum.splits)
  with Approved(6) show ?thesis by auto
qed simp_all

lemma read_fake_answer:
  "t \<noteq> [] \<Longrightarrow> read_answer 200 [(''access_token'', JStr t), (''expires_in'', JNum ''3600''), (''token_type'', JStr ''bearer'')] = Some (Inr t)"
  "e \<in> {InvalidGrant, Pending, SlowDown, AccessDenied, ExpiredToken} \<Longrightarrow>
     read_answer 400 [(''error'', JStr (store_error_text e))] = Some (Inl (Sentinel (api_error e)))"
  unfolding read_answer_def Let_def token_fields by (auto simp: as_string_def device_token_result_def)

text \<open>
  The device poll of the API meets the fake: the form the API sends is read as a poll of the
  same device code, and the API understands each answer, the token as that token and each error of
  the protocol as its own error value.
\<close>

theorem api_poll_meets_fake:
  assumes "length (hq_body (device_token_request cfg dc)) \<le> max_form_size"
    and "poll_device E prov dc s = Inr (a, s')"
  shows "\<exists>st ms. fake_token sv E (poll_request cfg prov dc) prov s = answers (FakeJSON st (JObj ms)) s' \<and>
    read_answer (int st) ms = Some (case a of Inl e \<Rightarrow> Inl (Sentinel (api_error e)) | Inr t \<Rightarrow> Inr t)"
proof -
  let ?f = "values_get (sort_key (\<lambda>kv. map code (fst kv)) (device_token_form cfg dc))"
  have g: "?f ''grant_type'' = grantDeviceCode" "?f ''device_code'' = dc" "grantDeviceCode \<noteq> grantAuthorizationCode"
    unfolding values_get_sorted
    by (simp_all add: device_token_form_def values_get_def grantDeviceCode_def device_code_grant_type_def grantAuthorizationCode_def)
  have run: "fake_token sv E (poll_request cfg prov dc) prov s = token_answer (poll_device E prov dc s)"
    unfolding fake_token_def poll_request_form [OF assms(1)] Let_def
    by (simp only: option.case g if_False refl if_True)
  show ?thesis
  proof (cases a)
    case (Inl e)
    with poll_device_answers [OF assms(2)] have "e \<in> {InvalidGrant, Pending, SlowDown, AccessDenied, ExpiredToken}" by simp
    from read_fake_answer(2) [OF this] show ?thesis
      unfolding run assms(2) token_answer_def Inl write_oauth_error_def
      by (intro exI [of _ 400] exI [of _ "[(''error'', JStr (store_error_text e))]"]) simp
  next
    case (Inr t)
    with poll_device_answers [OF assms(2)] have "t \<noteq> []" by simp
    from read_fake_answer(1) [OF this] show ?thesis
      unfolding run assms(2) token_answer_def Inr
      by (intro exI [of _ 200] exI [of _ "[(''access_token'', JStr t), (''expires_in'', JNum ''3600''), (''token_type'', JStr ''bearer'')]"]) simp
  qed
qed


definition sample_client :: oauth_config where
  "sample_client = \<lparr>oc_client_id = ''id'', oc_client_secret = [], oc_redirect_url = [], oc_scopes = [],
     oc_auth_url = [], oc_token_url = [], oc_device_auth_url = [], oc_auth_style = 0\<rparr>"

theorem api_poll_meets_fake_witness:
  "\<exists>st ms. fake_token sample_fake sample_env (poll_request sample_client providerGitHub ''d'') providerGitHub sample_store =
      answers (FakeJSON st (JObj ms)) sample_store \<and>
    read_answer (int st) ms = Some (Inl (Sentinel ErrInvalidDeviceCode))"
proof -
  have "length (hq_body (device_token_request sample_client ''d'')) = 92"
    by code_simp
  then have l: "length (hq_body (device_token_request sample_client ''d'')) \<le> max_form_size" by (simp add: max_form_size_def)
  have p: "poll_device sample_env providerGitHub ''d'' sample_store = Inr (Inl InvalidGrant, sample_store)"
    by (simp add: poll_device_def sample_store_def new_store_def)
  from api_poll_meets_fake [OF l p, of sample_fake] show ?thesis by simp
qed

end
