(* ===== verification/GoNetUrlInv.thy ===== *)
theory GoNetUrlInv
  imports GoNetUrl
begin

text \<open>
  \<open>URL.String\<close> and \<open>url.Parse\<close> on absolute URLs: the text that \<open>String\<close> writes for a parsed URL parses
  again, to a URL that is written the same way. So a redirect URI that is shown in a form and sent
  back means the same.
\<close>

section \<open>Escaping a component and reading it back\<close>

definition escape_unit :: "url_part \<Rightarrow> char \<Rightarrow> string" where
  "escape_unit m c =
     (if should_escape m c then [CHR ''%'', upper_hex (code c div 16), upper_hex (code c mod 16)] else [c])"

lemma url_escape_simps [simp]:
  "url_escape m [] = []" "url_escape m (c # s) = escape_unit m c @ url_escape m s"
  "url_escape m (s @ t) = url_escape m s @ url_escape m t"
  by (simp_all add: url_escape_def escape_unit_def)

lemma unreserved_not_escaped:
  "is_lower c \<or> is_upper c \<or> is_digit c \<or> c \<in> set ''-_.~'' \<Longrightarrow> \<not> should_escape m c"
  by (auto simp: should_escape_def)

text \<open>What may stand in an escaped component.\<close>

lemma escape_unit_chars:
  "d \<in> set (escape_unit m c) \<Longrightarrow> d = CHR ''%'' \<or> \<not> should_escape m d"
proof -
  have "\<not> should_escape m (upper_hex n)" if "n < 16" for n
    using upper_hex_unreserved [OF that] unreserved_not_escaped by (simp add: unreserved_def)
  then show "d \<in> set (escape_unit m c) \<Longrightarrow> d = CHR ''%'' \<or> \<not> should_escape m d"
    using code_halves [of c] by (auto simp: escape_unit_def split: if_splits)
qed

lemma url_escape_chars: "d \<in> set (url_escape m s) \<Longrightarrow> d = CHR ''%'' \<or> \<not> should_escape m d"
  by (induction s) (auto dest: escape_unit_chars)

text \<open>The delimiters that no escaped component contains.\<close>

lemma escaped_delimiters:
  "should_escape m (CHR ''#'')" "should_escape m (CHR '' '')" "should_escape m (CHR ''%'')"
  "m \<noteq> FragmentPart \<Longrightarrow> should_escape m (CHR ''?'')"
  "m = HostPart \<or> m = UserPart \<Longrightarrow> should_escape m (CHR ''/'')"
  "m = HostPart \<or> m = UserPart \<Longrightarrow> should_escape m (CHR ''@'')"
  "should_escape UserPart (CHR '':'')"
proof -
  have "should_escape m (CHR ''#'') \<and> should_escape m (CHR '' '') \<and> should_escape m (CHR ''%'')"
    by (cases m; simp only: url_part.distinct not_True_eq_False; code_simp?)
  then show "should_escape m (CHR ''#'')" "should_escape m (CHR '' '')" "should_escape m (CHR ''%'')" by simp_all
  show "m \<noteq> FragmentPart \<Longrightarrow> should_escape m (CHR ''?'')" by (cases m; simp only: url_part.distinct not_True_eq_False; code_simp?)
  show "m = HostPart \<or> m = UserPart \<Longrightarrow> should_escape m (CHR ''/'')" by (elim disjE; simp only:; code_simp)
  show "m = HostPart \<or> m = UserPart \<Longrightarrow> should_escape m (CHR ''@'')" by (elim disjE; simp only:; code_simp)
  show "should_escape UserPart (CHR '':'')" by code_simp
qed

lemma unescaped_printable:
  assumes "\<not> should_escape m c"
  shows "33 \<le> code c \<and> code c < 127"
proof -
  have "list_all (\<lambda>c. 33 \<le> code c \<and> code c < 127) ''!$&()*+,;=:[]<>-_.~@?/''" by code_simp
  then have p: "c \<in> set ''!$&()*+,;=:[]<>-_.~@?/'' \<Longrightarrow> 33 \<le> code c \<and> code c < 127" unfolding list_all_iff by (rule bspec)
  have sub: "set ''!$&()*+,;=:[]<>'' \<union> set ''-_.~'' \<union> set ''$&+,/:;=@'' \<union> set ''$&+,;='' \<union> set ''$&+,/:;=?@!()*'' \<subseteq> set ''!$&()*+,;=:[]<>-_.~@?/''"
    by code_simp
  from assms consider "is_lower c \<or> is_upper c \<or> is_digit c" | "code c = 39 \<or> code c = 34"
    | "c \<in> set ''!$&()*+,;=:[]<>'' \<union> set ''-_.~'' \<union> set ''$&+,/:;=@'' \<union> set ''$&+,;='' \<union> set ''$&+,/:;=?@!()*''"
    unfolding should_escape_def by blast
  then show ?thesis
  proof cases
    case 3
    with sub p show ?thesis by blast
  qed (auto simp: is_lower_def is_upper_def is_digit_def)
qed

lemma escape_free: "should_escape m d \<Longrightarrow> d \<noteq> CHR ''%'' \<Longrightarrow> d \<notin> set (url_escape m s)"
  using url_escape_chars by blast

lemma unescape_unit:
  assumes "m \<noteq> HostPart \<or> \<not> should_escape m c \<or> \<not> is_ascii c \<or> c = CHR ''%''"
  shows "url_unescape m (escape_unit m c @ t) = map_option ((#) c) (url_unescape m t)"
proof (cases "should_escape m c")
  case True
  have n: "16 * (code c div 16) + code c mod 16 = code c" "char_of (code c) = c" by (simp_all add: code_def)
  have "\<not> (m = HostPart \<and> code c div 16 < 8 \<and>
      \<not> (upper_hex (code c div 16) = CHR ''2'' \<and> upper_hex (code c mod 16) = CHR ''5''))"
    using assms True by (auto simp: is_ascii_def upper_hex_def) (auto simp: code_def)
  with True n show ?thesis
    using hex_val_upper_hex code_halves [of c] by (auto simp: escape_unit_def)
next
  case False
  then have "c \<noteq> CHR ''%''" using escaped_delimiters(3) by blast
  with False show ?thesis by (simp add: escape_unit_def)
qed

definition host_text :: "string \<Rightarrow> bool" where
  "host_text s \<longleftrightarrow> list_all (\<lambda>c. \<not> should_escape HostPart c \<or> \<not> is_ascii c \<or> c = CHR ''%'') s"

lemma unescape_escape:
  assumes "m \<noteq> HostPart \<or> host_text s"
  shows "url_unescape m (url_escape m s) = Some s"
  using assms
proof (induction s)
  case (Cons c s)
  then have "m \<noteq> HostPart \<or> \<not> should_escape m c \<or> \<not> is_ascii c \<or> c = CHR ''%''" "m \<noteq> HostPart \<or> host_text s"
    by (auto simp: host_text_def)
  with Cons.IH show ?case by (simp add: unescape_unit)
qed simp

lemma hex_val_range: "hex_val d = Some x \<Longrightarrow> x < 16"
  by (auto simp: hex_val_def is_digit_def split: if_splits)

lemma url_unescape_Cons_Some:
  assumes "url_unescape m (c # s) = Some r"
  obtains (Hex) a b t x y z where "c = CHR ''%''" "s = a # b # t" "hex_val a = Some x" "hex_val b = Some y"
      "\<not> (m = HostPart \<and> x < 8 \<and> \<not> (a = CHR ''2'' \<and> b = CHR ''5''))" "url_unescape m t = Some z" "r = char_of (16 * x + y) # z"
  | (Plain) z where "c \<noteq> CHR ''%''" "\<not> (m = HostPart \<and> is_ascii c \<and> should_escape m c)" "url_unescape m s = Some z" "r = c # z"
  using assms by (auto split: if_splits list.splits option.splits)

lemma host_byte:
  assumes "hex_val a = Some x" and "hex_val b = Some y"
    and "\<not> (HostPart = HostPart \<and> x < 8 \<and> \<not> (a = CHR ''2'' \<and> b = CHR ''5''))"
  shows "\<not> is_ascii (char_of (16 * x + y)) \<or> char_of (16 * x + y) = CHR ''%''"
proof (cases "x < 8")
  case True
  with assms have "x = 2" "y = 5" by (auto simp: hex_val_def is_digit_def code_def)
  moreover have "char_of (37 :: nat) = CHR ''%''" by code_simp
  ultimately show ?thesis by simp
qed (use hex_val_range [OF assms(1)] hex_val_range [OF assms(2)] in \<open>simp add: is_ascii_def\<close>)

lemma unescaped_host: "url_unescape HostPart h = Some host \<Longrightarrow> host_text host"
proof (induction "length h" arbitrary: h host rule: less_induct)
  case less
  show ?case
  proof (cases h)
    case (Cons c s)
    with less.prems have "url_unescape HostPart (c # s) = Some host" by simp
    then show ?thesis
    proof (cases rule: url_unescape_Cons_Some)
      case (Hex a b t x y z)
      have "\<not> is_ascii (char_of (16 * x + y)) \<or> char_of (16 * x + y) = CHR ''%''"
        using host_byte Hex by blast
      moreover have "host_text z" using less.hyps [of t z] Hex Cons by simp
      ultimately show ?thesis using Hex by (auto simp: host_text_def)
    next
      case (Plain z)
      then have "host_text z" using less.hyps [of s z] Cons by simp
      with Plain show ?thesis by (auto simp: host_text_def)
    qed
  qed (use less.prems in \<open>simp add: host_text_def\<close>)
qed

section \<open>The host\<close>

lemma unescape_at_colon:
  assumes "url_unescape m (a @ CHR '':'' # b) = Some r" and "m = HostPart"
  shows "\<exists>x y. url_unescape m a = Some x \<and> url_unescape m b = Some y \<and> r = x @ CHR '':'' # y"
  using assms(1)
proof (induction "length a" arbitrary: a r rule: less_induct)
  case less
  have colon: "hex_val (CHR '':'') = None" by code_simp
  show ?case
  proof (cases a)
    case Nil
    with less.prems show ?thesis by (auto split: if_splits)
  next
    case (Cons c s)
    with less.prems have "url_unescape m (c # s @ CHR '':'' # b) = Some r" by simp
    then show ?thesis
    proof (cases rule: url_unescape_Cons_Some)
      case (Hex d e t x y z)
      then have "d \<noteq> CHR '':''" "e \<noteq> CHR '':''" using colon by auto
      with Hex(2) obtain s' where s: "s = d # e # s'" "t = s' @ CHR '':'' # b"
        by (cases s; cases "tl s") auto
      with less.hyps [of s' z] Hex Cons obtain u v where
        "url_unescape m s' = Some u" "url_unescape m b = Some v" "z = u @ CHR '':'' # v" by auto
      with Hex s Cons show ?thesis by auto
    next
      case (Plain z)
      with less.hyps [of s z] Cons obtain u v where
        "url_unescape m s = Some u" "url_unescape m b = Some v" "z = u @ CHR '':'' # v" by auto
      with Plain Cons show ?thesis by auto
    qed
  qed
qed

lemma unescape_digits: "list_all is_digit d \<Longrightarrow> url_unescape m d = Some d"
proof (induction d)
  case (Cons c d)
  then have "c \<noteq> CHR ''%''" "\<not> should_escape m c" by (auto simp: is_digit_def code_def should_escape_def)
  with Cons show ?case by simp
qed simp

lemma escape_digits: "list_all is_digit d \<Longrightarrow> url_escape m d = d"
  by (induction d) (auto simp: escape_unit_def should_escape_def)

lemma after_last_split: "c \<notin> set b \<Longrightarrow> after_last c (a @ c # b) = b"
  unfolding after_last_def rev_append rev.simps append_assoc
  by (subst takeWhile_append2) auto

lemma after_last_none: "c \<notin> set b \<Longrightarrow> after_last c b = b"
proof -
  assume "c \<notin> set b"
  then have "takeWhile (\<lambda>x. x \<noteq> c) (rev b) = rev b" by (auto simp: takeWhile_eq_all_conv)
  then show ?thesis by (simp only: after_last_def rev_rev_ident)
qed

lemma unescape_keeps_out:
  assumes "url_unescape HostPart h = Some r" and "d \<notin> set h" and "is_ascii d" and "d \<noteq> CHR ''%''"
  shows "d \<notin> set r"
  using assms(1,2)
proof (induction "length h" arbitrary: h r rule: less_induct)
  case less
  show ?case
  proof (cases h)
    case (Cons c s)
    with less.prems have "url_unescape HostPart (c # s) = Some r" by simp
    then show ?thesis
    proof (cases rule: url_unescape_Cons_Some)
      case (Hex a b t x y z)
      have "\<not> is_ascii (char_of (16 * x + y)) \<or> char_of (16 * x + y) = CHR ''%''"
        using host_byte Hex by blast
      with assms(3,4) have "d \<noteq> char_of (16 * x + y)" by auto
      then show ?thesis using less.hyps [of t z] Hex Cons less.prems by auto
    next
      case (Plain z)
      then show ?thesis using less.hyps [of s z] Cons less.prems by auto
    qed
  qed (use less.prems in simp)
qed

lemma escape_adds:
  "d \<in> set (url_escape m s) \<Longrightarrow> d \<in> set s \<or> d = CHR ''%'' \<or> unreserved d"
proof (induction s)
  case (Cons c s)
  then show ?case
    using upper_hex_unreserved code_halves [of c] by (auto simp: escape_unit_def split: if_splits)
qed simp

lemma parse_host_escape:
  assumes "parse_host br h = Some host" and "CHR ''['' \<notin> set h"
  shows "parse_host br (url_escape HostPart host) = Some host"
proof -
  have h: "url_unescape HostPart h = Some host" using assms by (simp add: parse_host_def split: if_splits)
  have "CHR ''['' \<notin> set host" by (rule unescape_keeps_out [OF h assms(2)]) (simp_all add: is_ascii_def code_def)
  then have b: "CHR ''['' \<notin> set (url_escape HostPart host)"
    using escape_adds [of "CHR ''[''" HostPart host] by (auto simp: unreserved_def is_lower_def is_upper_def is_digit_def code_def)
  have port: "list_all is_digit (after_last (CHR '':'') (url_escape HostPart host))" if "CHR '':'' \<in> set (url_escape HostPart host)"
  proof -
    have "CHR '':'' \<in> set host"
      using escape_adds [OF that] by (auto simp: unreserved_def is_lower_def is_upper_def is_digit_def code_def)
    then have "CHR '':'' \<in> set h"
      using unescape_keeps_out [OF h, of "CHR '':''"] by (auto simp: is_ascii_def code_def)
    then obtain a d where d: "h = a @ CHR '':'' # d" "CHR '':'' \<notin> set d" by (meson split_list_last)
    with assms have "list_all is_digit d"
      by (auto simp: parse_host_def after_last_split split: if_splits)
    moreover obtain x where "host = x @ CHR '':'' # d"
      using unescape_at_colon [OF h [unfolded d(1)]] unescape_digits [OF calculation] by auto
    moreover have "escape_unit HostPart (CHR '':'') = '':''" by code_simp
    ultimately show ?thesis using after_last_split [OF d(2)] by (simp add: escape_digits)
  qed
  show ?thesis
    using b port unescape_escape [of HostPart host] unescaped_host [OF h] by (simp add: parse_host_def)
qed

section \<open>User information\<close>

lemma userinfo_char_valid: "d = CHR ''%'' \<or> \<not> should_escape UserPart d \<Longrightarrow> valid_userinfo [d]"
proof -
  have "set ''-_.~'' \<union> set ''$&+,;='' \<subseteq> set ''-._:~!$&()*+,;=%@''" by code_simp
  then show "d = CHR ''%'' \<or> \<not> should_escape UserPart d \<Longrightarrow> valid_userinfo [d]"
    by (auto simp: valid_userinfo_def should_escape_def)
qed

lemma valid_userinfo_escape: "valid_userinfo (url_escape UserPart u)"
  using url_escape_chars [of _ UserPart u] userinfo_char_valid by (auto simp: valid_userinfo_def list_all_iff)

lemma parse_userinfo_string: "parse_userinfo (userinfo_string i) = Some i"
proof (cases i)
  case (Pair u p)
  have free: "CHR '':'' \<notin> set (url_escape UserPart x)" for x
    by (rule escape_free) (simp_all add: escaped_delimiters)
  have "valid_userinfo (x @ y) \<longleftrightarrow> valid_userinfo x \<and> valid_userinfo y" for x y by (simp add: valid_userinfo_def)
  moreover have "valid_userinfo (CHR '':'' # y) \<longleftrightarrow> valid_userinfo y" for y by (simp add: valid_userinfo_def)
  ultimately show ?thesis
    using free valid_userinfo_escape cut_at_append [OF free]
    by (cases p) (simp_all add: Pair parse_userinfo_def userinfo_string_def unescape_escape)
qed

section \<open>Path and fragment\<close>

lemma escaped_part_unescape: "m \<noteq> HostPart \<Longrightarrow> url_unescape m (escaped_part m raw d) = Some d"
  by (simp add: escaped_part_def unescape_escape)

lemma escaped_part_again:
  "escaped_part m (raw_unless_canonical m (escaped_part m raw d) d) d = escaped_part m raw d"
  by (simp add: escaped_part_def raw_unless_canonical_def)

lemma escaped_part_chars:
  assumes "c \<in> set (escaped_part m raw d)"
  shows "\<not> should_escape m c \<or> c \<in> set ''!$&()*+,;=:@[]%'' \<or> code c = 39"
proof -
  have pct: "CHR ''%'' \<in> set ''!$&()*+,;=:@[]%''" by code_simp
  show ?thesis
  proof (cases "raw \<noteq> [] \<and> valid_encoded m raw \<and> url_unescape m raw = Some d")
    case True
    with assms have "c \<in> set raw" "valid_encoded m raw" by (simp_all add: escaped_part_def)
    then show ?thesis unfolding valid_encoded_def list_all_iff by blast
  next
    case False
    with assms have "c \<in> set (url_escape m d)" by (simp only: escaped_part_def if_False)
    with url_escape_chars [of c m d] pct show ?thesis by blast
  qed
qed

lemma escaped_part_free:
  assumes "should_escape m d" and "d \<notin> set ''!$&()*+,;=:@[]%''" and "code d \<noteq> 39"
  shows "d \<notin> set (escaped_part m raw x)"
  using assms escaped_part_chars by blast

lemma escaped_part_printable: "c \<in> set (escaped_part m raw d) \<Longrightarrow> 33 \<le> code c \<and> code c < 127"
proof -
  have "list_all (\<lambda>c. 33 \<le> code c \<and> code c < 127) ''!$&()*+,;=:@[]%''" by code_simp
  then have "c \<in> set ''!$&()*+,;=:@[]%'' \<Longrightarrow> 33 \<le> code c \<and> code c < 127" unfolding list_all_iff by (rule bspec)
  moreover have "code c = 39 \<Longrightarrow> 33 \<le> code c \<and> code c < 127" by simp
  ultimately show "c \<in> set (escaped_part m raw d) \<Longrightarrow> 33 \<le> code c \<and> code c < 127"
    using escaped_part_chars unescaped_printable by blast
qed

text \<open>A path is empty or starts with a slash, in every spelling.\<close>

definition slashed :: "string \<Rightarrow> bool" where
  "slashed s \<longleftrightarrow> s = [] \<or> hd s = CHR ''/''"

lemma slashed_path:
  assumes "slashed pt" and "url_unescape PathPart pt = Some p"
  shows "slashed (escaped_part PathPart (raw_unless_canonical PathPart pt p) p)"
proof (cases pt)
  case Nil
  with assms show ?thesis by (simp add: raw_unless_canonical_def escaped_part_def slashed_def)
next
  case (Cons c t)
  with assms(1) have "c = CHR ''/''" by (simp add: slashed_def)
  moreover have "\<not> should_escape PathPart (CHR ''/'')" by code_simp
  ultimately show ?thesis
    using assms(2) Cons by (auto simp: raw_unless_canonical_def escaped_part_def slashed_def escape_unit_def)
qed

lemma takeWhile_stop: "c \<notin> set a \<Longrightarrow> takeWhile (\<lambda>x. x \<noteq> c) (a @ c # e) = a"
  by (induction a) auto

lemma slashed_authority: "slashed e \<Longrightarrow> CHR ''/'' \<notin> set a \<Longrightarrow> takeWhile (\<lambda>c. c \<noteq> CHR ''/'') (a @ e) = a"
  using takeWhile_stop [of "CHR ''/''" a "tl e"] by (cases e) (auto simp: slashed_def takeWhile_eq_all_conv)

section \<open>Whole URLs\<close>

definition scheme_char :: "char \<Rightarrow> bool" where
  "scheme_char c \<longleftrightarrow> is_lower c \<or> is_upper c \<or> is_digit c \<or> c \<in> set ''+-.''"

definition good_scheme :: "string \<Rightarrow> bool" where
  "good_scheme p \<longleftrightarrow> p \<noteq> [] \<and> list_all scheme_char p \<and> (is_lower (hd p) \<or> is_upper (hd p))"

lemma get_scheme_good: "good_scheme p \<Longrightarrow> get_scheme (p @ CHR '':'' # r) = Some (p, r)"
proof -
  assume g: "good_scheme p"
  have "\<not> scheme_char (CHR '':'')" unfolding scheme_char_def by code_simp
  with g have "takeWhile scheme_char (p @ CHR '':'' # r) = p"
    by (subst takeWhile_append2) (auto simp: good_scheme_def list_all_iff)
  then have "takeWhile (\<lambda>c. is_lower c \<or> is_upper c \<or> is_digit c \<or> c \<in> set ''+-.'') (p @ CHR '':'' # r) = p"
    by (simp only: scheme_char_def [abs_def])
  with g show ?thesis by (simp add: get_scheme_def Let_def good_scheme_def has_prefix_def)
qed

lemma get_scheme_Some: "get_scheme s = Some (p, r) \<Longrightarrow> good_scheme p"
  by (auto simp: get_scheme_def good_scheme_def Let_def list_all_iff scheme_char_def dest: set_takeWhileD split: if_splits)

lemma lower_scheme:
  assumes "good_scheme p"
  shows "good_scheme (map lower_char p)" and "map lower_char (map lower_char p) = map lower_char p"
proof -
  have "scheme_char c \<Longrightarrow> scheme_char (lower_char c)" for c
    by (auto simp: scheme_char_def lower_char_def is_upper_def is_lower_def)
  moreover have "is_lower c \<or> is_upper c \<Longrightarrow> is_lower (lower_char c)" for c
    by (auto simp: lower_char_def is_upper_def is_lower_def)
  ultimately show "good_scheme (map lower_char p)"
    using assms by (cases p) (auto simp: good_scheme_def list_all_iff)
  show "map lower_char (map lower_char p) = map lower_char p"
    by (auto simp: lower_char_def is_upper_def)
qed

text \<open>The parts of a parsed URL.\<close>

record url_texts =
  ut_host :: string
  ut_path :: string
  ut_fragment :: string

definition parsed_from :: "(string \<Rightarrow> string option) \<Rightarrow> url_texts \<Rightarrow> go_url \<Rightarrow> bool" where
  "parsed_from br t u \<longleftrightarrow> good_scheme (gu_scheme u) \<and> map lower_char (gu_scheme u) = gu_scheme u \<and>
     parse_host br (ut_host t) = Some (gu_host u) \<and> CHR ''['' \<notin> set (ut_host t) \<and>
     slashed (ut_path t) \<and> url_unescape PathPart (ut_path t) = Some (gu_path u) \<and>
     gu_raw_path u = raw_unless_canonical PathPart (ut_path t) (gu_path u) \<and>
     list_all (\<lambda>c. 32 \<le> code c \<and> code c \<noteq> 127 \<and> c \<noteq> CHR ''#'') (gu_raw_query u) \<and>
     (gu_force_query u \<longrightarrow> gu_raw_query u = []) \<and>
     url_unescape FragmentPart (ut_fragment t) = Some (gu_fragment u) \<and>
     gu_raw_fragment u = raw_unless_canonical FragmentPart (ut_fragment t) (gu_fragment u)"

lemma cut_at_set: "cut_at c s = (a, b) \<Longrightarrow> c \<notin> set a \<and> set a \<subseteq> set s \<and> set b \<subseteq> set s"
  by (induction s arbitrary: a b) (auto split: if_splits prod.splits)

lemma get_scheme_rest: "get_scheme s = Some (p, r) \<Longrightarrow> set r \<subseteq> set s"
proof -
  have "set (tl (drop n s)) \<subseteq> set s" for n by (metis drop_Suc tl_drop set_drop_subset)
  then show "get_scheme s = Some (p, r) \<Longrightarrow> set r \<subseteq> set s"
    unfolding get_scheme_def Let_def by (auto split: if_splits)
qed

lemma split_query_set:
  assumes "split_query s = (force, rest, q)"
  shows "set rest \<subseteq> set s" and "set q \<subseteq> set s" and "force \<Longrightarrow> q = []"
  using assms cut_at_set [of "CHR ''?''" s rest q] by (auto simp: split_query_def in_set_butlastD split: if_splits)

lemma slashed_rest: "slashed (drop (length (takeWhile (\<lambda>c. c \<noteq> CHR ''/'') s)) s)"
  using hd_dropWhile [of "\<lambda>c. c \<noteq> CHR ''/''" s] by (auto simp: slashed_def dropWhile_eq_drop [symmetric])

lemma parse_url_parts:
  assumes "parse_url br raw = Some u" and "CHR ''['' \<notin> set raw"
  shows "\<exists>t. parsed_from br t u"
proof -
  obtain v frag where cut: "cut_at (CHR ''#'') raw = (v, frag)" by fastforce
  from assms(1) cut obtain scheme rest0 where
    v: "list_all (\<lambda>c. 32 \<le> code c \<and> code c \<noteq> 127) v" "get_scheme v = Some (scheme, rest0)"
    by (auto simp: parse_url_def split: if_splits option.splits)
  obtain force rest q where q: "split_query rest0 = (force, rest, q)" by (metis prod_cases3)
  define a where "a = takeWhile (\<lambda>c. c \<noteq> CHR ''/'') (drop 2 rest)"
  define p where "p = drop (length a) (drop 2 rest)"
  from assms(1) cut v q obtain user host path f where
    auth: "parse_authority br a = Some (user, host)" "url_unescape PathPart p = Some path" "url_unescape FragmentPart frag = Some f"
    and u: "u = \<lparr>gu_scheme = map lower_char scheme, gu_user = user, gu_host = host, gu_path = path,
      gu_raw_path = raw_unless_canonical PathPart p path, gu_force_query = force, gu_raw_query = q,
      gu_fragment = f, gu_raw_fragment = raw_unless_canonical FragmentPart frag f\<rparr>"
    by (auto simp: parse_url_def Let_def a_def p_def split: if_splits option.splits)
  have sub: "set rest \<subseteq> set v" "set q \<subseteq> set v" "set v \<subseteq> set raw" "CHR ''#'' \<notin> set v"
    using split_query_set(1,2) [OF q] get_scheme_rest [OF v(2)] cut_at_set [OF cut] by auto
  have "set (after_last (CHR ''@'') a) \<subseteq> set rest"
    unfolding after_last_def a_def by (auto dest!: set_takeWhileD in_set_dropD)
  with sub assms(2) have b: "CHR ''['' \<notin> set (after_last (CHR ''@'') a)" by blast
  have h: "parse_host br (after_last (CHR ''@'') a) = Some host"
    using auth(1) by (auto simp: parse_authority_def Let_def split: option.splits if_splits)
  have "list_all (\<lambda>c. 32 \<le> code c \<and> code c \<noteq> 127 \<and> c \<noteq> CHR ''#'') q"
    using sub(2,4) v(1) unfolding list_all_iff by blast
  moreover have "slashed p" unfolding p_def a_def by (rule slashed_rest)
  ultimately show ?thesis
    using h b auth(2,3) lower_scheme [OF get_scheme_Some [OF v(2)]] split_query_set(3) [OF q]
    by (intro exI [of _ "\<lparr>ut_host = after_last (CHR ''@'') a, ut_path = p, ut_fragment = frag\<rparr>"])
      (simp add: parsed_from_def u)
qed

lemma cut_at_free: "c \<notin> set s \<Longrightarrow> cut_at c s = (s, [])"
  by (induction s) auto

lemma userinfo_chars:
  "c \<in> set (userinfo_string i) \<Longrightarrow> c = CHR '':'' \<or> c = CHR ''%'' \<or> \<not> should_escape UserPart c"
  using url_escape_chars [of c UserPart] by (auto simp: userinfo_string_def split: option.splits)

lemma userinfo_free: "should_escape UserPart d \<Longrightarrow> d \<noteq> CHR '':'' \<Longrightarrow> d \<noteq> CHR ''%'' \<Longrightarrow> d \<notin> set (userinfo_string i)"
  using userinfo_chars by blast

definition authority_text :: "go_url \<Rightarrow> string" where
  "authority_text u = (case gu_user u of None \<Rightarrow> [] | Some i \<Rightarrow> userinfo_string i @ ''@'') @ url_escape HostPart (gu_host u)"

lemma authority_free:
  "should_escape UserPart d \<Longrightarrow> should_escape HostPart d \<Longrightarrow> d \<noteq> CHR '':'' \<Longrightarrow> d \<noteq> CHR ''%'' \<Longrightarrow> d \<noteq> CHR ''@'' \<Longrightarrow>
     d \<notin> set (authority_text u)"
  using userinfo_free [of d] escape_free [of HostPart d] by (auto simp: authority_text_def split: option.splits)

lemma authority_printable: "c \<in> set (authority_text u) \<Longrightarrow> 33 \<le> code c \<and> code c < 127"
proof -
  have "33 \<le> code (CHR '':'') \<and> code (CHR '':'') < 127" "33 \<le> code (CHR ''%'') \<and> code (CHR ''%'') < 127"
    "33 \<le> code (CHR ''@'') \<and> code (CHR ''@'') < 127" by (simp_all add: code_def)
  then show "c \<in> set (authority_text u) \<Longrightarrow> 33 \<le> code c \<and> code c < 127"
    using userinfo_chars [of c] url_escape_chars [of c HostPart] unescaped_printable [of _ c]
    by (auto simp: authority_text_def split: option.splits)
qed

lemma parse_authority_text:
  assumes "parse_host br h = Some (gu_host u)" and "CHR ''['' \<notin> set h"
  shows "parse_authority br (authority_text u) = Some (gu_user u, gu_host u)"
proof -
  have at: "CHR ''@'' \<notin> set (url_escape HostPart (gu_host u))"
    by (rule escape_free) (simp_all add: escaped_delimiters)
  show ?thesis
  proof (cases "gu_user u")
    case None
    with at parse_host_escape [OF assms] show ?thesis
      by (simp add: authority_text_def parse_authority_def after_last_none)
  next
    case (Some i)
    have "after_last (CHR ''@'') (authority_text u) = url_escape HostPart (gu_host u)"
      using after_last_split [OF at, of "userinfo_string i"] by (simp add: authority_text_def Some)
    then show ?thesis
      using parse_host_escape [OF assms] parse_userinfo_string [of i]
      by (simp add: authority_text_def parse_authority_def Some)
  qed
qed

definition query_text :: "go_url \<Rightarrow> string" where
  "query_text u = (if gu_force_query u \<or> gu_raw_query u \<noteq> [] then CHR ''?'' # gu_raw_query u else [])"

definition fragment_text :: "go_url \<Rightarrow> string" where
  "fragment_text u = (if gu_fragment u \<noteq> [] then escaped_part FragmentPart (gu_raw_fragment u) (gu_fragment u) else [])"

definition path_text :: "go_url \<Rightarrow> string" where
  "path_text u = escaped_part PathPart (gu_raw_path u) (gu_path u)"

lemma url_string_texts:
  "url_string u = (gu_scheme u @ ''://'' @ authority_text u @ path_text u @ query_text u) @
     (if gu_fragment u \<noteq> [] then CHR ''#'' # fragment_text u else [])"
  by (simp add: url_string_def authority_text_def path_text_def query_text_def fragment_text_def)

lemma split_query_text:
  assumes "CHR ''?'' \<notin> set r" and "gu_force_query u \<longrightarrow> gu_raw_query u = []"
  shows "split_query (r @ query_text u) = (gu_force_query u, r, gu_raw_query u)"
proof (cases "gu_force_query u \<or> gu_raw_query u \<noteq> []")
  case True
  have "cut_at (CHR ''?'') (r @ CHR ''?'' # gu_raw_query u) = (r, gu_raw_query u)" by (rule cut_at_append [OF assms(1)])
  with True assms show ?thesis
    by (cases "gu_raw_query u = []") (auto simp: query_text_def split_query_def butlast_append)
next
  case False
  moreover have "\<not> (r \<noteq> [] \<and> last r = CHR ''?'')" using assms(1) last_in_set [of r] by metis
  ultimately show ?thesis
    using cut_at_free [OF assms(1)] by (auto simp: query_text_def split_query_def)
qed

text \<open>The URL as it is read back: only the record of how path and fragment were spelled may differ.\<close>

definition respelled :: "go_url \<Rightarrow> go_url" where
  "respelled u = u\<lparr>gu_raw_path := raw_unless_canonical PathPart (path_text u) (gu_path u),
     gu_raw_fragment := raw_unless_canonical FragmentPart (fragment_text u) (gu_fragment u)\<rparr>"

lemma url_string_respelled: "url_string ((respelled u)\<lparr>gu_raw_query := q\<rparr>) = url_string (u\<lparr>gu_raw_query := q\<rparr>)"
  by (simp add: url_string_def respelled_def path_text_def fragment_text_def escaped_part_again)

lemma scheme_free:
  assumes "good_scheme p" and "c \<in> set p"
  shows "32 \<le> code c \<and> code c \<noteq> 127 \<and> c \<noteq> CHR ''#''"
proof -
  have "list_all (\<lambda>c. 32 \<le> code c \<and> code c \<noteq> 127 \<and> c \<noteq> CHR ''#'') ''+-.''" by code_simp
  then have "c \<in> set ''+-.'' \<Longrightarrow> 32 \<le> code c \<and> code c \<noteq> 127 \<and> c \<noteq> CHR ''#''" unfolding list_all_iff by (rule bspec)
  moreover have "is_lower c \<or> is_upper c \<or> is_digit c \<Longrightarrow> 32 \<le> code c \<and> code c \<noteq> 127 \<and> c \<noteq> CHR ''#''"
    by (auto simp: is_lower_def is_upper_def is_digit_def code_def)
  ultimately show ?thesis using assms unfolding good_scheme_def list_all_iff scheme_char_def by blast
qed

lemma url_text_printable:
  assumes "parsed_from br t u"
  shows "list_all (\<lambda>c. 32 \<le> code c \<and> code c \<noteq> 127 \<and> c \<noteq> CHR ''#'') (gu_scheme u @ ''://'' @ authority_text u @ path_text u @ query_text u)"
proof -
  have "list_all (\<lambda>c. 32 \<le> code c \<and> code c \<noteq> 127 \<and> c \<noteq> CHR ''#'') ''://?''" by code_simp
  moreover have "list_all (\<lambda>c. 32 \<le> code c \<and> code c \<noteq> 127 \<and> c \<noteq> CHR ''#'') (gu_scheme u)"
    using assms scheme_free by (auto simp: parsed_from_def list_all_iff)
  moreover have "CHR ''#'' \<notin> set (authority_text u)"
    by (rule authority_free) (simp_all add: escaped_delimiters)
  then have "list_all (\<lambda>c. 32 \<le> code c \<and> code c \<noteq> 127 \<and> c \<noteq> CHR ''#'') (authority_text u)"
    using authority_printable [of _ u] by (fastforce simp: list_all_iff)
  moreover have "CHR ''#'' \<notin> set (path_text u)"
    unfolding path_text_def by (rule escaped_part_free) (simp_all add: escaped_delimiters code_def)
  then have "list_all (\<lambda>c. 32 \<le> code c \<and> code c \<noteq> 127 \<and> c \<noteq> CHR ''#'') (path_text u)"
    using escaped_part_printable [of _ PathPart "gu_raw_path u" "gu_path u"] by (fastforce simp: list_all_iff path_text_def)
  ultimately show ?thesis using assms by (simp add: parsed_from_def query_text_def)
qed

lemma url_string_no_nul:
  assumes "parsed_from br t u" and "c \<in> set (url_string u)"
  shows "code c \<noteq> 0"
proof -
  let ?p = "gu_scheme u @ ''://'' @ authority_text u @ path_text u @ query_text u"
  from assms(2) consider "c \<in> set ?p" | "c = CHR ''#''" | "c \<in> set (fragment_text u)"
    unfolding url_string_texts set_append [of ?p] by (cases "gu_fragment u = []") (simp_all only: simp_thms if_True if_False list.set Un_iff insert_iff empty_iff, blast+)
  then show ?thesis
  proof cases
    case 1
    with url_text_printable [OF assms(1)] have "32 \<le> code c" unfolding list_all_iff by blast
    then show ?thesis by simp
  next
    case 3
    then have "33 \<le> code c" using escaped_part_printable by (auto simp: fragment_text_def split: if_splits)
    then show ?thesis by simp
  qed (simp add: code_def)
qed

theorem parse_url_string:
  assumes "parsed_from br t u"
  shows "parse_url br (url_string u) = Some (respelled u)"
proof -
  note A = url_text_printable [OF assms]
  then have free: "CHR ''#'' \<notin> set (gu_scheme u @ ''://'' @ authority_text u @ path_text u @ query_text u)"
    unfolding list_all_iff by blast
  then have cut: "cut_at (CHR ''#'') (url_string u) =
      (gu_scheme u @ ''://'' @ authority_text u @ path_text u @ query_text u, fragment_text u)"
    unfolding url_string_texts using cut_at_append [OF free] cut_at_free [OF free]
    by (cases "gu_fragment u = []") (simp_all add: fragment_text_def del: append_assoc append.simps)
  have scheme: "get_scheme (gu_scheme u @ ''://'' @ authority_text u @ path_text u @ query_text u) =
      Some (gu_scheme u, (''//'' @ authority_text u @ path_text u) @ query_text u)"
    using get_scheme_good [of "gu_scheme u"] assms by (simp add: parsed_from_def)
  have "CHR ''?'' \<notin> set (authority_text u)" by (rule authority_free) (simp_all add: escaped_delimiters)
  moreover have "CHR ''?'' \<notin> set (path_text u)"
    unfolding path_text_def by (rule escaped_part_free) (simp_all add: escaped_delimiters code_def)
  ultimately have query: "split_query ((''//'' @ authority_text u @ path_text u) @ query_text u) =
      (gu_force_query u, ''//'' @ authority_text u @ path_text u, gu_raw_query u)"
    using assms by (intro split_query_text) (auto simp: parsed_from_def)
  have "CHR ''/'' \<notin> set (authority_text u)" by (rule authority_free) (simp_all add: escaped_delimiters)
  moreover have "slashed (path_text u)" using assms slashed_path by (simp add: parsed_from_def path_text_def)
  ultimately have slash: "takeWhile (\<lambda>c. c \<noteq> CHR ''/'') (authority_text u @ path_text u) = authority_text u"
    by (rule slashed_authority [rotated])
  have auth: "parse_authority br (authority_text u) = Some (gu_user u, gu_host u)"
    using assms by (intro parse_authority_text) (auto simp: parsed_from_def)
  have path: "url_unescape PathPart (path_text u) = Some (gu_path u)"
    by (simp add: path_text_def escaped_part_unescape)
  have frag: "url_unescape FragmentPart (fragment_text u) = Some (gu_fragment u)"
    by (simp add: fragment_text_def escaped_part_unescape)
  have ok: "list_all (\<lambda>c. 32 \<le> code c \<and> code c \<noteq> 127) (gu_scheme u @ ''://'' @ authority_text u @ path_text u @ query_text u)"
    using A by (rule list.pred_mono_strong) simp
  have "map lower_char (gu_scheme u) = gu_scheme u" using assms by (simp add: parsed_from_def)
  with scheme query slash auth path frag ok show ?thesis
    unfolding parse_url_def cut prod.case Let_def
    by (simp add: respelled_def has_prefix_def)
qed

corollary parse_url_stable:
  assumes "parse_url br raw = Some u" and "CHR ''['' \<notin> set raw"
  shows "parse_url br (url_string u) = Some (respelled u)"
  using parse_url_parts [OF assms] parse_url_string by blast

end
