(* ===== verification/FakeWireInv.thy ===== *)
theory FakeWireInv
  imports FakeWire FakeProperties GoNetUrlInv
begin

text \<open>
  What the adapters of the API read when their HTTP client reaches the local OAuth provider: the
  bytes of every document and of every token answer are followed from the encoder of one side to the
  decoder of the other.
\<close>

section \<open>The documents\<close>

lemma small_documents:
  "numbers_ok (google_document i) \<and> depth (google_document i) \<le> max_nesting_depth"
  "numbers_ok (github_document i) \<and> depth (github_document i) \<le> max_nesting_depth"
  "numbers_ok (github_emails_document i) \<and> depth (github_emails_document i) \<le> max_nesting_depth"
  by (simp_all add: google_document_def github_document_def github_emails_document_def int_literal_dec max_nesting_depth_def)

lemma unmarshal_documents:
  "json_unmarshal (encode_line (google_document i)) = Some (json_fix (google_document i))"
  "json_unmarshal (encode_line (github_document i)) = Some (json_fix (github_document i))"
  "json_unmarshal (encode_line (github_emails_document i)) = Some (json_fix (github_emails_document i))"
  using small_documents unmarshal_encode by blast+

lemma fixed_names: "utf8_fix ''email'' = ''email''" "utf8_fix ''email_verified'' = ''email_verified''" "utf8_fix ''name'' = ''name''"
  "utf8_fix ''sub'' = ''sub''" "utf8_fix ''id'' = ''id''" "utf8_fix ''login'' = ''login''" "utf8_fix ''primary'' = ''primary''"
  "utf8_fix ''verified'' = ''verified''" "utf8_fix ''visibility'' = ''visibility''" "utf8_fix ''private'' = ''private''"
  "utf8_fix ''access_token'' = ''access_token''" "utf8_fix ''expires_in'' = ''expires_in''" "utf8_fix ''token_type'' = ''token_type''"
  "utf8_fix ''bearer'' = ''bearer''" "utf8_fix ''error'' = ''error''"
  by (rule utf8_fix_ascii; code_simp)+

lemma fixed_google: "json_fix (google_document i) = JObj [(''email'', JStr (utf8_fix (fi_email i))),
   (''email_verified'', JBool (fi_email_verified i)), (''name'', JStr (utf8_fix (fi_name i))), (''sub'', JStr (utf8_fix (google_sub i)))]"
  unfolding google_document_def by (simp only: json_fix.simps json_fix_members.simps fst_conv snd_conv fixed_names)

lemma fixed_github: "json_fix (github_document i) = JObj [(''email'', JNull), (''id'', JNum (int_dec (github_id i))),
     (''login'', JStr (utf8_fix (fi_login i))), (''name'', JStr (utf8_fix (fi_name i)))]"
  unfolding github_document_def by (simp only: json_fix.simps json_fix_members.simps fst_conv snd_conv fixed_names)

lemma fixed_github_emails: "json_fix (github_emails_document i) = JArr [JObj [(''email'', JStr (utf8_fix (fi_email i))), (''primary'', JBool True),
     (''verified'', JBool (fi_email_verified i)), (''visibility'', JStr ''private'')]]"
  unfolding github_emails_document_def by (simp only: json_fix.simps json_fix_list.simps json_fix_members.simps fst_conv snd_conv fixed_names)

section \<open>Routes\<close>

lemma serve_google_userinfo:
  assumes "fq_method r = ''GET''" "fq_path r = [''google'', ''userinfo'']"
  shows "fake_serve sv E r s = user_document google_document providerGoogle r s"
  using assms by (simp add: fake_serve_def fake_routes_def method_matches_def)

lemma serve_github_user:
  assumes "fq_method r = ''GET''" "fq_path r = [''github'', ''user'']"
  shows "fake_serve sv E r s = user_document github_document providerGitHub r s"
  using assms by (simp add: fake_serve_def fake_routes_def method_matches_def)

lemma serve_github_emails:
  assumes "fq_method r = ''GET''" "fq_path r = [''github'', ''user'', ''emails'']"
  shows "fake_serve sv E r s = user_document github_emails_document providerGitHub r s"
  using assms by (simp add: fake_serve_def fake_routes_def method_matches_def)


lemma split_on_cons: "split_on c (c # s) = [] # split_on c s"
  by simp

lemma delivered_get:
  assumes "CHR ''?'' \<notin> set path" and "path = CHR ''/'' # p"
  shows "delivered base (bearer_get (base @ path) t hs) = \<lparr>fq_method = ''GET'', fq_path = split_on (CHR ''/'') p, fq_query = [],
    fq_content_type = values_get hs ''Content-Type'', fq_authorization = ''Bearer '' @ t, fq_body = Some []\<rparr>"
  using cut_at_free [OF assms(1)] by (simp add: delivered_def bearer_get_def assms(2) header_of_def values_get_def)

lemma fake_client_do:
  assumes "fake_serve sv E (delivered base q) (st n) = answers resp s1"
  shows "hc_do (fake_client sv E base st) q n = Inr (received (wire resp))" "hc_bad_url (fake_client sv E base st) u = None"
  using assms by (simp_all add: fake_client_def answers_def)

lemma bearer_prefix: "has_prefix ''Bearer '' (''Bearer '' @ t)" "drop 7 (''Bearer '' @ t) = t"
  by (simp_all add: has_prefix_def)

lemma user_document_bearer:
  assumes "fq_authorization r = ''Bearer '' @ t"
  shows "user_document doc prov r s = answers (case lookup_token prov t s of
     Inl e \<Rightarrow> FakeError 401 (store_error_text e) | Inr i \<Rightarrow> FakeJSON 200 (doc i)) s"
  using bearer_prefix [of t] by (simp add: user_document_def bearer_identity_def assms split: sum.split)

lemma received_simps [simp]:
  "hr_status (received (write_json n v)) = int n"
  "hr_content_type (received (write_json n v)) = ''application/json''"
  "hr_body (received (write_json n v)) = Inr (encode_line v)"
  "hr_status (received (http_error n m)) = int n"
  "hr_body (received (http_error n m)) = Inr (m @ [CHR 0x0A])"
  by (simp_all add: received_def write_json_def http_error_def header_of_def values_get_def)

definition refused_document :: "string \<Rightarrow> store_error \<Rightarrow> goerr" where
  "refused_document prefix e = unexpected_status prefix 401 (store_error_text e @ [CHR 0x0A])"

definition google_info :: "identity \<Rightarrow> goerr + user_info" where
  "google_info i =
     (if fi_email i \<noteq> [] \<and> fi_email_verified i
      then Inr \<lparr>ui_provider_id = utf8_fix (google_sub i), ui_email = utf8_fix (fi_email i), ui_name = utf8_fix (fi_name i)\<rparr>
      else Inl (Wrap ''google: '' (Sentinel ErrEmailNotVerified)))"

lemma google_reads:
  "google_fetch_user_info (fake_client sv E base st) (base @ ''/google/userinfo'') t w =
     (case lookup_token providerGoogle t (st (w_tick w)) of
        Inl e \<Rightarrow> Inl (refused_document ''google: userinfo: '' e)
      | Inr i \<Rightarrow> google_info i,
      ticked w)"
proof -
  let ?q = "bearer_get (base @ ''/google/userinfo'') t []" and ?s = "st (w_tick w)"
  have path: "CHR ''?'' \<notin> set ''/google/userinfo''" "split_on (CHR ''/'') ''google/userinfo'' = [''google'', ''userinfo'']"
    by code_simp+
  note q = delivered_get [OF path(1) refl, of base t "[]", unfolded path(2)]
  have serve: "fake_serve sv E (delivered base ?q) ?s = answers (case lookup_token providerGoogle t ?s of
     Inl e \<Rightarrow> FakeError 401 (store_error_text e) | Inr i \<Rightarrow> FakeJSON 200 (google_document i)) ?s"
    unfolding q by (subst serve_google_userinfo) (simp_all add: user_document_bearer)
  have run: "http_do (fake_client sv E base st) ?q w = (Inr (received (wire (case lookup_token providerGoogle t ?s of
     Inl e \<Rightarrow> FakeError 401 (store_error_text e) | Inr i \<Rightarrow> FakeJSON 200 (google_document i)))), ticked w)"
    unfolding http_do_def contact_def using fake_client_do(1) [where st = st and n = "w_tick w", OF serve] by simp
  have doc: "Option.bind (Option.bind (json_unmarshal (encode_line (google_document i))) struct_members) google_user = Some (google_info i)" for i
    unfolding unmarshal_documents fixed_google google_info_def
    by (simp add: struct_members_def google_user_def Let_def google_fields as_string_def as_bool_def)
  show ?thesis
    unfolding google_fetch_user_info_def run using fake_client_do(2) [where st = st and n = "w_tick w", OF serve]
    by (cases "lookup_token providerGoogle t ?s") (simp_all add: doc refused_document_def del: Option.bind_assoc)
qed

definition github_info_of :: "identity \<Rightarrow> identity \<Rightarrow> goerr + user_info" where
  "github_info_of i j =
     (if fi_email j \<noteq> [] \<and> fi_email_verified j
      then Inr \<lparr>ui_provider_id = int_dec (github_id i), ui_email = utf8_fix (fi_email j),
         ui_name = (if fi_name i = [] then utf8_fix (fi_login i) else utf8_fix (fi_name i))\<rparr>
      else Inl (Wrap ''github: '' (Sentinel ErrEmailNotVerified)))"

lemma github_get_json_fake:
  assumes "fake_serve sv E (delivered base (bearer_get url t [(''Accept'', ''application/vnd.github+json'')])) (st (w_tick w)) =
      answers (case lookup_token prov t (st (w_tick w)) of Inl e \<Rightarrow> FakeError 401 (store_error_text e) | Inr i \<Rightarrow> FakeJSON 200 (doc i)) s1"
    and "\<And>i. Option.bind (json_unmarshal (encode_line (doc i))) decode = Some (f i)"
  shows "github_get_json (fake_client sv E base st) url t decode w =
    (case lookup_token prov t (st (w_tick w)) of Inl e \<Rightarrow> Inl (refused_document [] e) | Inr i \<Rightarrow> Inr (f i), ticked w)"
proof -
  let ?q = "bearer_get url t [(''Accept'', ''application/vnd.github+json'')]"
  have run: "http_do (fake_client sv E base st) ?q w = (Inr (received (wire (case lookup_token prov t (st (w_tick w)) of
     Inl e \<Rightarrow> FakeError 401 (store_error_text e) | Inr i \<Rightarrow> FakeJSON 200 (doc i)))), ticked w)"
    unfolding http_do_def contact_def using fake_client_do(1) [where st = st and n = "w_tick w", OF assms(1)] by simp
  show ?thesis
    unfolding github_get_json_def run using fake_client_do(2) [where st = st and n = "w_tick w", OF assms(1)]
    by (cases "lookup_token prov t (st (w_tick w))") (simp_all add: assms(2) refused_document_def)
qed

lemma fake_github_user:
  "github_get_json (fake_client sv E base st) (base @ ''/github/user'') t github_user w =
    (case lookup_token providerGitHub t (st (w_tick w)) of Inl e \<Rightarrow> Inl (refused_document [] e)
     | Inr i \<Rightarrow> Inr \<lparr>gi_id = github_id i, gi_login = utf8_fix (fi_login i), gi_name = utf8_fix (fi_name i)\<rparr>, ticked w)"
proof (rule github_get_json_fake)
  let ?q = "bearer_get (base @ ''/github/user'') t [(''Accept'', ''application/vnd.github+json'')]" and ?s = "st (w_tick w)"
  have path: "CHR ''?'' \<notin> set ''/github/user''" "split_on (CHR ''/'') ''github/user'' = [''github'', ''user'']"
    by code_simp+
  note q = delivered_get [OF path(1) refl, of base t "[(''Accept'', ''application/vnd.github+json'')]", unfolded path(2)]
  show "fake_serve sv E (delivered base ?q) ?s = answers (case lookup_token providerGitHub t ?s of
     Inl e \<Rightarrow> FakeError 401 (store_error_text e) | Inr i \<Rightarrow> FakeJSON 200 (github_document i)) ?s"
    unfolding q by (subst serve_github_user) (simp_all add: user_document_bearer)
  have "atoi (int_dec (github_id i)) = Some (github_id i)" for i
    using github_id_range [of i] by (intro atoi_int_dec) simp_all
  then show "Option.bind (json_unmarshal (encode_line (github_document i))) github_user =
      Some \<lparr>gi_id = github_id i, gi_login = utf8_fix (fi_login i), gi_name = utf8_fix (fi_name i)\<rparr>" for i
    unfolding unmarshal_documents fixed_github
    by (simp add: struct_members_def github_user_def Let_def github_fields as_string_def as_int64_def)
qed

lemma fake_github_emails:
  "github_get_json (fake_client sv E base st) (base @ ''/github/user/emails'') t github_emails w =
    (case lookup_token providerGitHub t (st (w_tick w)) of Inl e \<Rightarrow> Inl (refused_document [] e)
     | Inr i \<Rightarrow> Inr [\<lparr>ge_email = utf8_fix (fi_email i), ge_primary = True, ge_verified = fi_email_verified i\<rparr>], ticked w)"
proof (rule github_get_json_fake)
  let ?q = "bearer_get (base @ ''/github/user/emails'') t [(''Accept'', ''application/vnd.github+json'')]" and ?s = "st (w_tick w)"
  have path: "CHR ''?'' \<notin> set ''/github/user/emails''" "split_on (CHR ''/'') ''github/user/emails'' = [''github'', ''user'', ''emails'']"
    by code_simp+
  note q = delivered_get [OF path(1) refl, of base t "[(''Accept'', ''application/vnd.github+json'')]", unfolded path(2)]
  show "fake_serve sv E (delivered base ?q) ?s = answers (case lookup_token providerGitHub t ?s of
     Inl e \<Rightarrow> FakeError 401 (store_error_text e) | Inr i \<Rightarrow> FakeJSON 200 (github_emails_document i)) ?s"
    unfolding q by (subst serve_github_emails) (simp_all add: user_document_bearer)
  show "Option.bind (json_unmarshal (encode_line (github_emails_document i))) github_emails =
      Some [\<lparr>ge_email = utf8_fix (fi_email i), ge_primary = True, ge_verified = fi_email_verified i\<rparr>]" for i
    unfolding unmarshal_documents fixed_github_emails
    by (simp add: struct_members_def array_values_def github_emails_def github_email_entry_def Let_def github_fields as_string_def as_bool_def)
qed

lemma github_reads:
  "github_fetch_user_info (fake_client sv E base st) (base @ ''/github/user'') t w =
     (case lookup_token providerGitHub t (st (w_tick w)) of
        Inl e \<Rightarrow> (Inl (Wrap ''github: userinfo: '' (refused_document [] e)), ticked w)
      | Inr i \<Rightarrow>
          (case lookup_token providerGitHub t (st (Suc (w_tick w))) of
             Inl e \<Rightarrow> Inl (Wrap ''github: emails: '' (refused_document [] e))
           | Inr j \<Rightarrow> github_info_of i j,
           ticked (ticked w)))"
proof -
  have url: "github_emails_url (base @ ''/github/user'') = base @ ''/github/user/emails''"
    by (simp add: github_emails_url_def trim_right_char_def)
  have pe: "primary_email [\<lparr>ge_email = e, ge_primary = True, ge_verified = v\<rparr>] = (if v then e else [])" for e v
    by (simp add: primary_email_def)
  show ?thesis
    unfolding github_fetch_user_info_def url fake_github_user fake_github_emails
    by (cases "lookup_token providerGitHub t (st (w_tick w))"; cases "lookup_token providerGitHub t (st (Suc (w_tick w)))")
      (simp_all add: fake_github_emails pe github_info_of_def Let_def)
qed

section \<open>The device poll over the wire\<close>

lemma json_media_type: "parse_media_type L ''application/json'' = (''application/json'', None)"
proof -
  let ?v = "''application/json''"
  have s: "takeWhile (\<lambda>c. c \<noteq> CHR '';'') ?v = ?v" "list_all is_ascii ?v" "map lower_char ?v = ?v" "trim_space ?v = ?v"
    "check_media_type ?v" "drop (length ?v) ?v = []" "media_params [] [] = None"
    by code_simp+
  have "to_lower L ?v = ?v" unfolding to_lower_def by (simp only: s if_True)
  with s show ?thesis unfolding parse_media_type_def Let_def by (simp only: s option.case if_False not_True_eq_False)
qed

definition token_url :: "string \<Rightarrow> string \<Rightarrow> string" where
  "token_url base prov = base @ ''/'' @ prov @ ''/token''"

lemma delivered_poll:
  assumes "prov = providerGoogle \<or> prov = providerGitHub" and "oc_token_url cfg = token_url base prov"
  shows "delivered base (device_token_request cfg dc) = poll_request cfg prov dc"
proof -
  have path: "trim_prefix base (oc_token_url cfg) = ''/'' @ prov @ ''/token''"
    by (simp add: assms(2) token_url_def)
  have p: "CHR ''?'' \<notin> set (''/'' @ prov @ ''/token'')" "tl (split_on (CHR ''/'') (''/'' @ prov @ ''/token'')) = [prov, ''token'']"
    using assms(1) by (elim disjE; simp only: providerGoogle_def providerGitHub_def; code_simp)+
  show ?thesis
    unfolding delivered_def device_token_request_def poll_request_def http_request.simps path cut_at_free [OF p(1)] prod.case p(2)
    by (simp add: header_of_def values_get_def)
qed

lemma serve_token:
  assumes "prov = providerGoogle \<or> prov = providerGitHub" and "fq_method r = ''POST''" "fq_path r = [prov, ''token'']"
  shows "fake_serve sv E r s = fake_token sv E r prov s"
  using assms by (elim disjE) (simp_all add: fake_serve_def fake_routes_def method_matches_def with_provider_def providerGoogle_def providerGitHub_def)

text \<open>The three members and the one member of the two kinds of answer.\<close>

definition token_members :: "string \<Rightarrow> (string \<times> json) list" where
  "token_members t = [(''access_token'', JStr t), (''expires_in'', JNum ''3600''), (''token_type'', JStr ''bearer'')]"

definition error_members :: "store_error \<Rightarrow> (string \<times> json) list" where
  "error_members e = [(''error'', JStr (store_error_text e))]"

lemma fixed_answers:
  "json_fix (JObj (token_members t)) = JObj [(''access_token'', JStr (utf8_fix t)), (''expires_in'', JNum ''3600''), (''token_type'', JStr ''bearer'')]"
  "json_fix (JObj (error_members e)) = JObj (error_members e)"
proof -
  show "json_fix (JObj (token_members t)) = JObj [(''access_token'', JStr (utf8_fix t)), (''expires_in'', JNum ''3600''), (''token_type'', JStr ''bearer'')]"
    unfolding token_members_def by (simp only: json_fix.simps json_fix_members.simps fst_conv snd_conv fixed_names)
  have "utf8_fix (store_error_text e) = store_error_text e" by (rule utf8_fix_ascii) (cases e; simp only:; code_simp)
  then show "json_fix (JObj (error_members e)) = JObj (error_members e)"
    unfolding error_members_def by (simp only: json_fix.simps json_fix_members.simps fst_conv snd_conv fixed_names)
qed

lemma answers_encodable:
  "numbers_ok (JObj (token_members t)) \<and> depth (JObj (token_members t)) \<le> max_nesting_depth"
  "numbers_ok (JObj (error_members e)) \<and> depth (JObj (error_members e)) \<le> max_nesting_depth"
proof -
  have "int_literal ''3600''" by code_simp
  then show "numbers_ok (JObj (token_members t)) \<and> depth (JObj (token_members t)) \<le> max_nesting_depth"
    by (simp add: token_members_def max_nesting_depth_def)
  show "numbers_ok (JObj (error_members e)) \<and> depth (JObj (error_members e)) \<le> max_nesting_depth"
    by (simp add: error_members_def max_nesting_depth_def)
qed

lemma read_json_answer:
  assumes "numbers_ok (JObj ms) \<and> depth (JObj ms) \<le> max_nesting_depth" and "json_fix (JObj ms) = JObj ms"
    and "read_answer n ms = Some r" and "length (encode_line (JObj ms)) \<le> 2 ^ 20"
  shows "(case parse_device_token_response L ''application/json'' (take (2 ^ 20) (encode_line (JObj ms))) of
     Inl e \<Rightarrow> Inl (f e) | Inr tok \<Rightarrow> device_token_result n tok) = r"
proof -
  have u: "json_unmarshal (encode_line (JObj ms)) = Some (JObj ms)"
    using unmarshal_encode assms(1,2) by metis
  have "''application/json'' \<noteq> ''application/x-www-form-urlencoded''" "''application/json'' \<noteq> ''text/plain''" by code_simp+
  then show ?thesis
    using assms(3) unfolding parse_device_token_response_def json_media_type take_all [OF assms(4)] u fst_conv
    by (auto simp: struct_members_def read_answer_def Let_def split: option.splits)
qed

lemma json_chars_short: "length (json_chars s) \<le> 6 * length s"
proof (induction s rule: json_chars.induct)
  case (2 a s)
  have e: "length (json_escape a) \<le> 6" by (simp add: json_escape_def)
  have r: "length (json_rune t) \<le> 6 * length t" for t
  proof (cases "line_separator t")
    case True
    then have "length (map code t) = 3" by (auto simp: line_separator_def)
    with True show ?thesis by (simp add: json_rune_def)
  qed (simp add: json_rune_def)
  show ?case
  proof (cases "is_ascii a")
    case True
    with 2 e show ?thesis by simp
  next
    case False
    show ?thesis
    proof (cases "utf8_width (a # s)")
      case 0
      with False 2 show ?thesis by simp
    next
      case (Suc n)
      have "n \<le> length s" using utf8_width_bytes [OF Suc False] by blast
      with 2(3) [OF False Suc] r [of "a # take n s"] Suc False show ?thesis by simp
    qed
  qed
qed simp

lemma answer_lengths:
  "length (encode_line (JObj (token_members t))) \<le> 80 + 6 * length t"
  "length (encode_line (JObj (error_members e))) \<le> 200"
proof -
  have k: "length (json_string ''access_token'') = 14" "length (json_string ''expires_in'') = 12" "length (json_string ''token_type'') = 12"
    "length (json_string ''bearer'') = 8" "length (json_string ''error'') = 7" "length (json_string (store_error_text e)) \<le> 40"
    by (code_simp | (cases e; simp only:; code_simp))+
  show "length (encode_line (JObj (token_members t))) \<le> 80 + 6 * length t"
    using json_chars_short [of t] k by (simp add: encode_line_def token_members_def) (simp add: json_string_def)
  show "length (encode_line (JObj (error_members e))) \<le> 200"
    using k by (simp add: encode_line_def error_members_def)
qed

lemma fake_token_poll:
  assumes "length (hq_body (device_token_request cfg dc)) \<le> max_form_size"
  shows "fake_token sv E (poll_request cfg prov dc) prov s = token_answer (poll_device E prov dc s)"
proof -
  let ?f = "values_get (sort_key (\<lambda>kv. map code (fst kv)) (device_token_form cfg dc))"
  have g: "?f ''grant_type'' = grantDeviceCode" "?f ''device_code'' = dc" "grantDeviceCode \<noteq> grantAuthorizationCode"
    unfolding values_get_sorted
    by (simp_all add: device_token_form_def values_get_def grantDeviceCode_def device_code_grant_type_def grantAuthorizationCode_def)
  show ?thesis
    unfolding fake_token_def poll_request_form [OF assms(1)] Let_def
    by (simp only: option.case g if_False refl if_True)
qed

text \<open>What a poll at the provider means to the API.\<close>

definition poll_meaning :: "store_error + string \<Rightarrow> goerr + string" where
  "poll_meaning a = (case a of Inl e \<Rightarrow> Inl (Sentinel (api_error e)) | Inr t \<Rightarrow> Inr t)"

lemma poll_device_token_text:
  assumes "poll_device E p dc s = Inr (Inr t, s')"
  shows "length t = 48 \<and> list_all is_ascii t"
  using assms
proof (cases rule: poll_device_cases)
  case (Approved d t')
  then have "length t' = 48 \<and> list_all is_ascii t'" by (auto simp: issue_token_def random_hex_ok hex_encode_ascii split: sum.splits)
  with Approved(6) show ?thesis by auto
qed simp_all

lemma poll_over_http:
  assumes "prov = providerGoogle \<or> prov = providerGitHub" and "oc_token_url cfg = token_url base prov"
    and "length (hq_body (device_token_request cfg dc)) \<le> max_form_size"
    and "poll_device E prov dc (st (w_tick w)) = Inr (a, s')"
  shows "poll_device_token L (fake_client sv E base st) cfg dc w = (poll_meaning a, ticked w)"
proof -
  let ?s = "st (w_tick w)"
  define ms where "ms = (case a of Inl e \<Rightarrow> error_members e | Inr t \<Rightarrow> token_members t)"
  define n :: nat where "n = (case a of Inl e \<Rightarrow> 400 | Inr t \<Rightarrow> 200)"
  have "fake_token sv E (poll_request cfg prov dc) prov ?s = token_answer (poll_device E prov dc ?s)"
    using fake_token_poll [OF assms(3)] .
  also have "\<dots> = answers (FakeJSON n (JObj ms)) s'"
    by (simp add: assms(4) token_answer_def ms_def n_def write_oauth_error_def error_members_def token_members_def split: sum.split)
  finally have serve: "fake_serve sv E (delivered base (device_token_request cfg dc)) ?s = answers (FakeJSON n (JObj ms)) s'"
    unfolding delivered_poll [OF assms(1,2)] by (subst serve_token [OF assms(1)]) (simp_all add: poll_request_def)
  have run: "http_do (fake_client sv E base st) (device_token_request cfg dc) w = (Inr (received (write_json n (JObj ms))), ticked w)"
    unfolding http_do_def contact_def using fake_client_do(1) [where st = st and n = "w_tick w", OF serve] by simp
  have read: "(case parse_device_token_response L ''application/json'' (take (2 ^ 20) (encode_line (JObj ms))) of
     Inl e \<Rightarrow> Inl (f e) | Inr tok \<Rightarrow> device_token_result (int n) tok) = poll_meaning a" for f
  proof (rule read_json_answer)
    show "numbers_ok (JObj ms) \<and> depth (JObj ms) \<le> max_nesting_depth"
      using answers_encodable by (simp add: ms_def split: sum.split)
    show "json_fix (JObj ms) = JObj ms"
    proof (cases a)
      case (Inr t)
      then have "utf8_fix t = t" using poll_device_token_text assms(4) utf8_fix_ascii by blast
      with fixed_answers(1) [of t] show ?thesis by (simp add: ms_def Inr) (simp add: token_members_def)
    qed (simp add: ms_def fixed_answers(2) del: json_fix.simps)
    show "read_answer (int n) ms = Some (poll_meaning a)"
    proof (cases a)
      case (Inl e)
      with poll_device_answers [OF assms(4)] read_fake_answer(2) show ?thesis
        by (simp add: ms_def n_def poll_meaning_def error_members_def)
    next
      case (Inr t)
      with poll_device_answers [OF assms(4)] read_fake_answer(1) show ?thesis
        by (simp add: ms_def n_def poll_meaning_def token_members_def)
    qed
    have "length (encode_line (JObj ms)) \<le> 400"
    proof (cases a)
      case (Inl e)
      then show ?thesis using answer_lengths(2) [of e] by (simp add: ms_def)
    next
      case (Inr t)
      then have "length t = 48" using poll_device_token_text assms(4) by blast
      then show ?thesis using answer_lengths(1) [of t] by (simp add: ms_def Inr)
    qed
    then show "length (encode_line (JObj ms)) \<le> 2 ^ 20" by simp
  qed
  show ?thesis
    using read [of "Wrap (''device token: status '' @ int_dec (int n) @ '': '')"]
    unfolding poll_device_token_def run using fake_client_do(2) [where st = st and n = "w_tick w", OF serve]
    by (cases "parse_device_token_response L ''application/json'' (take (2 ^ 20) (encode_line (JObj ms)))") simp_all
qed

end
