(* ===== verification/FakePageProperties.thy ===== *)
theory FakePageProperties
  imports FakeWireInv
begin

text \<open>
  The properties of the pages of the local OAuth provider: no data changes the structure of a page,
  and the login page, filled in by a user and sent by a browser, answers the authorization request.
\<close>

section \<open>The structure of a page\<close>

text \<open>A tag without the value of its \<open>value\<close> attribute.\<close>

fun tag_shape :: "html_tag \<Rightarrow> html_tag" where
  "tag_shape (StartTag t as) = StartTag t (map (\<lambda>a. (fst a, if fst a = ''value'' then [] else snd a)) as)"
| "tag_shape (EndTag t) = EndTag t"

lemma page_shapes:
  "map tag_shape (authorize_tags f) = map tag_shape (authorize_tags g)"
  "map tag_shape (device_tags f) = map tag_shape (device_tags g)"
  by code_simp+

text \<open>
  C38: whatever data a page is rendered with (state, scope, client, redirect URI, message), a browser
  finds the tags and the attributes it finds without data: nothing a client or a user sends opens a
  tag, leaves an attribute or adds an element; only the values of \<open>value\<close> attributes and text differ.
\<close>

theorem pages_keep_structure:
  "fst (html_run Chars (execute_template (template_named n) d)) = Chars \<and>
   map tag_shape (html_tags (execute_template (template_named n) d)) =
   map tag_shape (html_tags (execute_template (template_named n) []))"
  unfolding template_named_def html_tags_def
  using page_tags page_shapes by (simp split: if_split)

section \<open>The forms\<close>








text \<open>The forms have no \<open>action\<close>: they are sent to the URL of the page, its query included.\<close>

definition form_post :: "fake_request \<Rightarrow> (string \<times> string) list \<Rightarrow> fake_request" where
  "form_post r fs = r\<lparr>fq_method := ''POST'', fq_content_type := ''application/x-www-form-urlencoded'',
     fq_body := Some (form_urlencode fs)\<rparr>"





section \<open>The redirect URI through the form\<close>









text \<open>
  The redirect URI a code is bound to is the one \<open>url.String\<close> writes, not the one the client sent: a
  client that spells the scheme in capitals and repeats its own spelling at the token endpoint sends
  another text than the stored one.
\<close>

lemma redirect_uri_rewritten:
  "\<exists>u. valid_redirect sample_fake ''HTTP://localhost/cb'' = Some u \<and> url_string u = ''http://localhost/cb''"
proof -
  let ?u = "\<lparr>gu_scheme = ''http'', gu_user = None, gu_host = ''localhost'', gu_path = ''/cb'', gu_raw_path = [],
    gu_force_query = False, gu_raw_query = [], gu_fragment = [], gu_raw_fragment = []\<rparr>"
  have "valid_redirect sample_fake ''HTTP://localhost/cb'' = Some ?u" "url_string ?u = ''http://localhost/cb''"
    by code_simp+
  then show ?thesis by blast
qed

text \<open>
  The page is shown for a query with a malformed pair, which \<open>URL.Query\<close> drops, but its form is sent to
  the same query, which \<open>ParseForm\<close> rejects.
\<close>

lemma malformed_query_form_fails:
  assumes "parse_query (fq_query r) = None"
  shows "authorize_submit sv E (form_post r fs) prov s = answers (FakeError 400 ''invalid form'') s"
  using assms by (simp add: authorize_submit_def parse_form_def form_post_def post_form_def)

end
