(* ===== verification/FakeWireProperties.thy ===== *)
theory FakeWireProperties
  imports FakeWireInv
begin

text \<open>
  The properties of the API and the local OAuth provider together, with the bytes that go between
  them: what the adapters read, what a device poll is told, and the device sign-in from an approved
  request to the JWT of the stored account.
\<close>

section \<open>What the adapters read\<close>

text \<open>
  C39: the adapters of both providers read the local provider, byte for byte, as it is meant: Google's
  gives the account of the identity behind the token when its email is present and verified, GitHub's
  joins the user document with the email list (two requests, which may meet different stores), and a
  token the provider does not know is a 401 that names the store's error.
\<close>

theorem adapters_read_fake:
  "google_fetch_user_info (fake_client sv E base st) (base @ ''/google/userinfo'') t w =
     (case lookup_token providerGoogle t (st (w_tick w)) of
        Inl e \<Rightarrow> Inl (refused_document ''google: userinfo: '' e)
      | Inr i \<Rightarrow> google_info i,
      ticked w) \<and>
   github_fetch_user_info (fake_client sv E base st) (base @ ''/github/user'') t w =
     (case lookup_token providerGitHub t (st (w_tick w)) of
        Inl e \<Rightarrow> (Inl (Wrap ''github: userinfo: '' (refused_document [] e)), ticked w)
      | Inr i \<Rightarrow>
          (case lookup_token providerGitHub t (st (Suc (w_tick w))) of
             Inl e \<Rightarrow> Inl (Wrap ''github: emails: '' (refused_document [] e))
           | Inr j \<Rightarrow> github_info_of i j,
           ticked (ticked w)))"
  by (rule conjI [OF google_reads github_reads])

section \<open>A sign-in that succeeds\<close>

lemma provider_texts:
  "p = ProviderGoogle \<or> p = ProviderGitHub \<Longrightarrow> varchar 50 p = Some p \<and> provider_check p"
  "varchar 50 RoleUser = Some RoleUser" "role_check RoleUser"
  "providerGoogle = ProviderGoogle" "providerGitHub = ProviderGitHub"
proof -
  have "varchar 50 ProviderGoogle = Some ProviderGoogle \<and> provider_check ProviderGoogle"
    "varchar 50 ProviderGitHub = Some ProviderGitHub \<and> provider_check ProviderGitHub"
    by (simp_all add: varchar_def user_consts char_len_def is_cont_def code_def provider_check_def)
  then show "p = ProviderGoogle \<or> p = ProviderGitHub \<Longrightarrow> varchar 50 p = Some p \<and> provider_check p" by blast
  show "varchar 50 RoleUser = Some RoleUser" "role_check RoleUser"
    "providerGoogle = ProviderGoogle" "providerGitHub = ProviderGitHub"
    by (simp_all add: varchar_def user_consts char_len_def is_cont_def code_def role_check_def providerGoogle_def providerGitHub_def)
qed

lemma quiet_upsert:
  assumes "quiet E" and "users_inv (stored_users w)" and "p = ProviderGoogle \<or> p = ProviderGitHub"
    and "char_len email \<le> 255" "char_len name \<le> 255" "char_len pid \<le> 255"
    and "\<forall>v \<in> set (stored_users w). u_email v = email \<longrightarrow> user_key v = (p, pid)"
    and "uuid_at E (w_tick w) \<notin> u_id ` set (stored_users w)"
  shows "\<exists>u w'. resolve_by_oauth (pg_user_repository E) p pid email name w = (Inr u, w') \<and>
    u \<in> set (stored_users w') \<and> u_provider u = p \<and> u_provider_id u = pid \<and> u_email u = email \<and> u_name u = name"
proof -
  let ?now = "to_timestamptz (clock_at E (w_tick w))" and ?d = "w_db w"
  let ?q = "sql_upsert_user email name RoleUser p pid ?now (uuid_at E (w_tick w)) ?d"
  have texts: "varchar 255 email = Some email" "varchar 255 name = Some name" "varchar 255 pid = Some pid"
    using assms(4-6) by (simp_all add: varchar_def)
  have "\<exists>u d'. ?q = (Inr u, d') \<and> u \<in> set (db_users d') \<and> u_provider u = p \<and> u_provider_id u = pid \<and>
      u_email u = email \<and> u_name u = name"
  proof (cases "lookup_row user_key (p, pid) (db_users ?d)")
    case None
    then have "email \<notin> u_email ` set (db_users ?d)"
      using assms(7) by (auto simp: lookup_row_None_iff)
    with None assms(8) show ?thesis
      using provider_texts(1) [OF assms(3)] by (simp add: sql_upsert_user_def texts provider_texts insert_user_def)
  next
    case (Some old)
    let ?u = "old\<lparr>u_email := email, u_name := name, u_updated_at := ?now\<rparr>"
    from Some have old: "old \<in> set (db_users ?d)" "user_key old = (p, pid)" using lookup_row_SomeD [OF Some] by simp_all
    have "email \<notin> u_email ` {v \<in> set (db_users ?d). u_id v \<noteq> u_id ?u}"
    proof
      assume "email \<in> u_email ` {v \<in> set (db_users ?d). u_id v \<noteq> u_id ?u}"
      then obtain v where v: "v \<in> set (db_users ?d)" "u_id v \<noteq> u_id old" "u_email v = email" by auto
      with assms(7) old have "user_key v = user_key old" by simp
      moreover have "inj_on user_key (set (db_users ?d))"
        using assms(2) by (simp add: users_inv_def distinct_map)
      ultimately show False using v(1,2) old(1) by (auto dest: inj_onD)
    qed
    then have "?q = (Inr ?u, ?d\<lparr>db_users := update_rows u_id (u_id ?u) (\<lambda>_. ?u) (db_users ?d)\<rparr>)"
      using provider_texts(1) [OF assms(3)] by (simp add: sql_upsert_user_def texts provider_texts Some update_user_def)
    moreover have "?u \<in> set (update_rows u_id (u_id ?u) (\<lambda>_. ?u) (db_users ?d))"
      using old(1) by (auto simp: set_update_rows)
    ultimately show ?thesis using old(2) by (intro exI [of _ ?u]) auto
  qed
  then obtain u d' where q: "?q = (Inr u, d')" and u: "u \<in> set (db_users d')" "u_provider u = p" "u_provider_id u = pid"
    "u_email u = email" "u_name u = name" by blast
  have "ur_upsert (pg_user_repository E) \<lparr>u_id = 0, u_email = email, u_name = name, u_role = RoleUser, u_provider = p,
      u_provider_id = pid, u_created_at = zero_time, u_updated_at = zero_time\<rparr> w = (Inr u, ticked (w\<lparr>w_db := d'\<rparr>))"
    using q by (simp add: pg_user_repository_def pg_upsert_user_def quiet_roundtrip [OF assms(1)] Let_def)
  then show ?thesis using u by (intro exI [of _ u] exI [of _ "ticked (w\<lparr>w_db := d'\<rparr>)"]) (simp add: resolve_by_oauth_def Let_def)
qed

lemma quiet_sign_in:
  assumes "quiet E" and "jwt_lib_ok J" and "users_inv (stored_users w)" and "p = ProviderGoogle \<or> p = ProviderGitHub"
    and "char_len (ui_email info) \<le> 255" "char_len (ui_name info) \<le> 255" "char_len (ui_provider_id info) \<le> 255"
    and "\<forall>v \<in> set (stored_users w). u_email v = ui_email info \<longrightarrow> user_key v = (p, ui_provider_id info)"
    and "uuid_at E (w_tick w) \<notin> u_id ` set (stored_users w)"
  shows "\<exists>t w' u n. auth_sign_in q (new_user_manager L E (pg_user_repository E) (pg_pat_repository E)) (new_jwt_manager L E J a)
      (pm_ensure_exists (pg_profile_repository L E)) p info w = (Inr t, w') \<and>
    u \<in> set (stored_users w') \<and> u_provider u = p \<and> u_provider_id u = ui_provider_id info \<and> u_email u = ui_email info \<and>
    stored_profile w' (u_id u) \<noteq> None \<and>
    jl_verifies J (HMAC ''HS256'') (ja_secret a) t (user_claims L J a (clock_at E n) u)"
proof -
  obtain u w1 where u: "resolve_by_oauth (pg_user_repository E) p (ui_provider_id info) (ui_email info) (ui_name info) w = (Inr u, w1)"
    "u \<in> set (stored_users w1)" "u_provider u = p" "u_provider_id u = ui_provider_id info" "u_email u = ui_email info" "u_name u = ui_name info"
    using quiet_upsert [OF assms(1,3,4,5,6,7,8,9)] by blast
  have name: "varchar 255 (u_name u) = Some (u_name u)" using u(6) assms(6) by (simp add: varchar_def)
  let ?r = "pg_ensure_exists E (u_id u) (u_name u) w1"
  have "fst ?r = Inr () \<and> stored_users (snd ?r) = stored_users w1 \<and> stored_profile (snd ?r) (u_id u) \<noteq> None"
    using name u(2)
    by (cases "u_id u \<in> pw_user_id ` set (db_profiles (w_db w1))")
      (auto simp: pg_ensure_exists_def quiet_roundtrip [OF assms(1)] Let_def sql_ensure_profile_def stored_profile_def lookup_row_None_iff)
  then obtain w2 where w2: "?r = (Inr (), w2)" "stored_users w2 = stored_users w1" "stored_profile w2 (u_id u) \<noteq> None"
    by (cases ?r) auto
  obtain t where t: "jwt_sign L E J a u w2 = (Inr t, ticked w2)"
    "jl_verifies J (HMAC ''HS256'') (ja_secret a) t (user_claims L J a (clock_at E (w_tick w2)) u)"
    using jwt_sign_ok [OF assms(2)] .
  have "auth_sign_in q (new_user_manager L E (pg_user_repository E) (pg_pat_repository E)) (new_jwt_manager L E J a)
      (pm_ensure_exists (pg_profile_repository L E)) p info w = (Inr t, ticked w2)"
    using u(1) w2(1) t(1) by (simp add: auth_sign_in_def pm_ensure_exists_def)
  moreover have "stored_profile (ticked w2) (u_id u) \<noteq> None" using w2(3) by (simp add: stored_profile_def)
  ultimately show ?thesis using u w2(2) t(2) by (intro exI [of _ t] exI [of _ "ticked w2"] exI [of _ u] exI [of _ "w_tick w2"]) simp
qed

section \<open>The API and the provider together\<close>

text \<open>The configuration of a provider of the API whose endpoints are those of the fake.\<close>

definition info_url :: "string \<Rightarrow> string \<Rightarrow> string" where
  "info_url base p = base @ (if p = ProviderGoogle then ''/google/userinfo'' else ''/github/user'')"

definition points_at :: "string \<Rightarrow> provider \<Rightarrow> provider_config \<Rightarrow> bool" where
  "points_at base p pc \<longleftrightarrow> pc_client_id pc \<noteq> [] \<and> pc_token_url pc = token_url base p \<and> pc_user_info_url pc = info_url base p"

definition provider_settings :: "config \<Rightarrow> provider \<Rightarrow> provider_config" where
  "provider_settings cfg p = (if p = ProviderGoogle then cf_google cfg else cf_github cfg)"

definition oauth_settings :: "oauth_lib \<Rightarrow> config \<Rightarrow> provider \<Rightarrow> oauth_config" where
  "oauth_settings O2 cfg p = (if p = ProviderGoogle then google_config O2 (cf_google cfg) else github_config O2 (cf_github cfg))"

text \<open>The account of an identity, as the adapter of the provider reports it.\<close>

definition account_of :: "provider \<Rightarrow> identity \<Rightarrow> user_info" where
  "account_of p i = \<lparr>ui_provider_id = (if p = ProviderGoogle then utf8_fix (google_sub i) else int_dec (github_id i)),
     ui_email = utf8_fix (fi_email i),
     ui_name = (if p = ProviderGitHub \<and> fi_name i = [] then utf8_fix (fi_login i) else utf8_fix (fi_name i))\<rparr>"

lemma provider_names_distinct: "ProviderGoogle \<noteq> ProviderGitHub"
  by (simp add: user_consts)

lemma token_url_settings:
  assumes "p = ProviderGoogle \<or> p = ProviderGitHub" and "points_at base p (provider_settings cfg p)"
  shows "oc_token_url (oauth_settings O2 cfg p) = token_url base p"
    and "override (pc_user_info_url (provider_settings cfg p)) x = info_url base p"
  using assms provider_names_distinct
  by (auto simp: points_at_def provider_settings_def oauth_settings_def google_config_def github_config_def override_def
      token_url_def info_url_def split: prod.split)

text \<open>The user that a registered provider of the API reads with a token.\<close>

definition read_account :: "http_client \<Rightarrow> string \<Rightarrow> provider \<Rightarrow> string \<Rightarrow> user_info io" where
  "read_account C base p t w =
     (if p = ProviderGoogle then google_fetch_user_info C (info_url base p) t w
      else github_fetch_user_info C (info_url base p) t w)"

lemma registered_provider:
  assumes p: "p = ProviderGoogle \<or> p = ProviderGitHub" and at: "points_at base p (provider_settings cfg p)"
  obtains prov where "build_providers L E O2 C cfg p = Some prov"
    and "\<And>dc w. op_device_poll prov dc w = and_then (wrap (p @ '': device poll: '') (poll_device_token L C (oauth_settings O2 cfg p) dc w))
      (read_account C base p)"
    and "\<And>c w. op_exchange prov c w = and_then (wrap (p @ '': exchange: '') (contact (ol_exchange O2 (oauth_settings O2 cfg p) c) w))
      (read_account C base p)"
proof (cases "p = ProviderGoogle")
  case True
  have reg: "build_providers L E O2 C cfg p = Some (new_google L E O2 C (cf_google cfg))"
    using at True provider_names_distinct by (simp add: build_providers_def Let_def points_at_def provider_settings_def)
  have url: "override (pc_user_info_url (cf_google cfg)) google_user_info_url = info_url base p"
    using token_url_settings(2) [OF p at] True by (simp add: provider_settings_def)
  have "read_account C base p = google_fetch_user_info C (info_url base p)"
    using True by (simp_all add: read_account_def [abs_def])
  with reg url True show ?thesis
    by (intro that [OF reg]) (simp_all add: new_google_def Let_def oauth_settings_def user_consts)
next
  case False
  then have h: "p = ProviderGitHub" using p by simp
  have reg: "build_providers L E O2 C cfg p = Some (new_github L E O2 C (cf_github cfg))"
    using at h provider_names_distinct by (simp add: build_providers_def Let_def points_at_def provider_settings_def)
  have url: "override (pc_user_info_url (cf_github cfg)) github_user_url = info_url base p"
    using token_url_settings(2) [OF p at] False by (simp add: provider_settings_def)
  have "read_account C base p = github_fetch_user_info C (info_url base p)"
    using h provider_names_distinct by (simp_all add: read_account_def [abs_def])
  with reg url h show ?thesis
    by (intro that [OF reg]) (simp_all add: new_github_def Let_def oauth_settings_def user_consts)
qed

lemma account_over_http:
  assumes p: "p = ProviderGoogle \<or> p = ProviderGitHub"
    and tok: "\<forall>n \<ge> w_tick w. lookup_token p t (st n) = Inr i" and verified: "fi_email i \<noteq> []" "fi_email_verified i"
  shows "\<exists>n \<le> w_tick w + 2. read_account (fake_client sv F base st) base p t w = (Inr (account_of p i), w\<lparr>w_tick := n\<rparr>)"
proof (cases "p = ProviderGoogle")
  case True
  then have "read_account (fake_client sv F base st) base p t w = (Inr (account_of p i), ticked w)"
    using google_reads [of sv F base st t w] tok verified provider_names_distinct
    by (simp add: read_account_def info_url_def provider_texts google_info_def account_of_def)
  then show ?thesis by (intro exI [of _ "Suc (w_tick w)"]) simp
next
  case False
  then have h: "p = ProviderGitHub" using p by simp
  have "read_account (fake_client sv F base st) base p t w = (Inr (account_of p i), ticked (ticked w))"
    using github_reads [of sv F base st t w] tok verified h False provider_names_distinct
    by (simp add: read_account_def info_url_def provider_texts github_info_of_def account_of_def)
  then show ?thesis by (intro exI [of _ "Suc (Suc (w_tick w))"]) simp
qed

lemma device_user_over_http:
  assumes p: "p = ProviderGoogle \<or> p = ProviderGitHub" and at: "points_at base p (provider_settings cfg p)"
    and size: "length (hq_body (device_token_request (oauth_settings O2 cfg p) dc)) \<le> max_form_size"
    and poll: "poll_device F p dc (st (w_tick w)) = Inr (Inr t, s')"
    and tok: "\<forall>n > w_tick w. lookup_token p t (st n) = Inr i" and verified: "fi_email i \<noteq> []" "fi_email_verified i"
  shows "\<exists>n \<le> w_tick w + 3. oauth_device_poll (build_providers L E O2 (fake_client sv F base st) cfg) p dc w =
    (Inr (account_of p i), w\<lparr>w_tick := n\<rparr>)"
proof -
  let ?C = "fake_client sv F base st" and ?oc = "oauth_settings O2 cfg p"
  have p': "p = providerGoogle \<or> p = providerGitHub" using p by (simp add: provider_texts)
  have polled: "poll_device_token L ?C ?oc dc w = (Inr t, ticked w)"
    using poll_over_http [where st = st and w = w, OF p' token_url_settings(1) [OF p at] size poll] by (simp add: poll_meaning_def)
  obtain prov where prov: "build_providers L E O2 ?C cfg p = Some prov"
    "op_device_poll prov dc w = and_then (wrap (p @ '': device poll: '') (poll_device_token L ?C ?oc dc w)) (read_account ?C base p)"
    using registered_provider [OF p at, of L E O2 ?C] by metis
  have "\<forall>n \<ge> w_tick (ticked w). lookup_token p t (st n) = Inr i" using tok by simp
  then obtain n where "n \<le> w_tick (ticked w) + 2"
    "read_account ?C base p t (ticked w) = (Inr (account_of p i), (ticked w)\<lparr>w_tick := n\<rparr>)"
    using account_over_http [where st = st and w = "ticked w", OF p _ verified] by blast
  with polled prov show ?thesis
    by (intro exI [of _ n]) (simp add: oauth_device_poll_def oauth_provider_for_def)
qed

lemma sign_in_account:
  assumes "quiet E" and "jwt_lib_ok J" and "world_inv w" and "p = ProviderGoogle \<or> p = ProviderGitHub" and "n \<le> w_tick w + 3"
    and "char_len (ui_email (account_of p i)) \<le> 255" "char_len (ui_name (account_of p i)) \<le> 255" "char_len (ui_provider_id (account_of p i)) \<le> 255"
    and "\<forall>v \<in> set (stored_users w). u_email v = ui_email (account_of p i) \<longrightarrow> user_key v = (p, ui_provider_id (account_of p i))"
    and "\<forall>n \<le> w_tick w + 3. uuid_at E n \<notin> u_id ` set (stored_users w)"
  shows "\<exists>t w' u m. auth_sign_in q (new_user_manager L E (pg_user_repository E) (pg_pat_repository E)) (new_jwt_manager L E J a)
      (pm_ensure_exists (pg_profile_repository L E)) p (account_of p i) (w\<lparr>w_tick := n\<rparr>) = (Inr t, w') \<and>
    u \<in> set (stored_users w') \<and> u_provider u = p \<and> u_provider_id u = ui_provider_id (account_of p i) \<and>
    u_email u = ui_email (account_of p i) \<and> stored_profile w' (u_id u) \<noteq> None \<and>
    jl_verifies J (HMAC ''HS256'') (ja_secret a) t (user_claims L J a (clock_at E m) u)"
proof -
  let ?w = "w\<lparr>w_tick := n\<rparr>"
  have "users_inv (stored_users ?w)" using assms(3) by (simp add: world_inv_def db_inv_def)
  moreover have "\<forall>v \<in> set (stored_users ?w). u_email v = ui_email (account_of p i) \<longrightarrow> user_key v = (p, ui_provider_id (account_of p i))"
    using assms(9) by simp
  moreover have "uuid_at E (w_tick ?w) \<notin> u_id ` set (stored_users ?w)" using assms(5,10) by simp
  ultimately show ?thesis using quiet_sign_in [OF assms(1,2) _ assms(4,6-8)] by blast
qed

text \<open>
  C3: an approved device request signs its identity in. When the API's providers point at the local
  provider and a poll finds the request approved, one call of \<open>DevicePoll\<close> follows the bytes of the
  token answer and of the user documents and ends with a JWT for a stored account with the provider,
  the identifier and the email of the approved identity, which has a profile. It asks for a verified
  email that no other account has, texts that fit their columns, and a database that answers.
\<close>

theorem approved_device_signs_in:
  assumes p: "p = ProviderGoogle \<or> p = ProviderGitHub" and at: "points_at base p (provider_settings cfg p)"
    and size: "length (hq_body (device_token_request (oauth_settings O2 cfg p) dc)) \<le> max_form_size"
    and poll: "poll_device F p dc (st (w_tick w)) = Inr (Inr t, s')"
    and tok: "\<forall>n > w_tick w. lookup_token p t (st n) = Inr i" and verified: "fi_email i \<noteq> []" "fi_email_verified i"
    and quiet: "quiet E" and jwt: "jwt_lib_ok J" and inv: "world_inv w"
    and fits: "char_len (ui_email (account_of p i)) \<le> 255" "char_len (ui_name (account_of p i)) \<le> 255" "char_len (ui_provider_id (account_of p i)) \<le> 255"
    and owner: "\<forall>v \<in> set (stored_users w). u_email v = ui_email (account_of p i) \<longrightarrow> user_key v = (p, ui_provider_id (account_of p i))"
    and fresh: "\<forall>n \<le> w_tick w + 3. uuid_at E n \<notin> u_id ` set (stored_users w)"
  shows "\<exists>jwt w' u n. am_device_poll (server_auth_manager L E J O2 (fake_client sv F base st) cfg a) p dc w = (Inr jwt, w') \<and>
    u \<in> set (stored_users w') \<and> u_provider u = p \<and> u_provider_id u = ui_provider_id (account_of p i) \<and>
    u_email u = ui_email (account_of p i) \<and> stored_profile w' (u_id u) \<noteq> None \<and>
    jl_verifies J (HMAC ''HS256'') (ja_secret a) jwt (user_claims L J a (clock_at E n) u)"
proof -
  obtain n where le: "n \<le> w_tick w + 3" and n: "oauth_device_poll (build_providers L E O2 (fake_client sv F base st) cfg) p dc w =
      (Inr (account_of p i), w\<lparr>w_tick := n\<rparr>)"
    using device_user_over_http [where st = st and w = w, OF p at size poll tok verified] by blast
  obtain jwt w' u m where "auth_sign_in ''auth manager: DevicePoll: '' (new_user_manager L E (pg_user_repository E) (pg_pat_repository E))
      (new_jwt_manager L E J a) (pm_ensure_exists (pg_profile_repository L E)) p (account_of p i) (w\<lparr>w_tick := n\<rparr>) = (Inr jwt, w')"
    "u \<in> set (stored_users w') \<and> u_provider u = p \<and> u_provider_id u = ui_provider_id (account_of p i) \<and>
    u_email u = ui_email (account_of p i) \<and> stored_profile w' (u_id u) \<noteq> None \<and>
    jl_verifies J (HMAC ''HS256'') (ja_secret a) jwt (user_claims L J a (clock_at E m) u)"
    using sign_in_account [OF quiet jwt inv p le fits owner fresh] by blast
  with n show ?thesis
    by (simp add: server_auth_manager_def new_auth_manager_def auth_device_poll_sign_in del: new_jwt_manager_simps) blast
qed


definition approved_store :: store where
  "approved_store = sample_store\<lparr>fs_devices := [''dc'' \<mapsto> \<lparr>dv_provider = ProviderGoogle, dv_user_code = ''BBBB-BBBB'',
     dv_status = DeviceApproved, dv_identity = sample_identity, dv_expires_at = 600 * second, dv_interval = second,
     dv_last_poll = zero_time, dv_redeemed = False\<rparr>]\<rparr>"

definition fake_cfg :: config where
  "fake_cfg = load_config (\<lambda>k. if k = ''jwt.secret'' then ''s3cret'' else if k = ''google.client_id'' then ''id''
     else if k = ''google.token_url'' then ''http://fake/google/token''
     else if k = ''google.userinfo_url'' then ''http://fake/google/userinfo'' else []) (\<lambda>k. 3600 * second)"

lemma approved_poll:
  "\<exists>t s'. poll_device sample_env ProviderGoogle ''dc'' approved_store = Inr (Inr t, s') \<and>
     lookup_token ProviderGoogle t s' = Inr sample_identity"
proof -
  let ?d = "\<lparr>dv_provider = ProviderGoogle, dv_user_code = ''BBBB-BBBB'',
     dv_status = DeviceApproved, dv_identity = sample_identity, dv_expires_at = 600 * second, dv_interval = second,
     dv_last_poll = zero_time, dv_redeemed = False\<rparr>"
  have "fs_devices approved_store ''dc'' = Some ?d" by (simp add: approved_store_def)
  moreover have "now_at sample_env approved_store \<le> dv_expires_at ?d"
    by (simp add: now_at_def approved_store_def sample_store_def new_store_def sample_env_def second_def)
  ultimately show ?thesis using poll_approved [OF quiet_sample_env, of approved_store "''dc''" ?d ProviderGoogle] by simp
qed

lemma fake_settings:
  "points_at ''http://fake'' ProviderGoogle (provider_settings fake_cfg ProviderGoogle)"
  "length (hq_body (device_token_request (oauth_settings sample_oauth_lib fake_cfg ProviderGoogle) ''dc'')) \<le> max_form_size"
proof -
  show "points_at ''http://fake'' ProviderGoogle (provider_settings fake_cfg ProviderGoogle)"
    by (simp add: points_at_def provider_settings_def fake_cfg_def load_config_def load_provider_def token_url_def info_url_def user_consts)
  have "length (hq_body (device_token_request (oauth_settings sample_oauth_lib fake_cfg ProviderGoogle) ''dc'')) = 93"
    by code_simp
  then show "length (hq_body (device_token_request (oauth_settings sample_oauth_lib fake_cfg ProviderGoogle) ''dc'')) \<le> max_form_size"
    by (simp add: max_form_size_def)
qed

lemma account_of_ana:
  fixes i
  defines "i \<equiv> \<lparr>fi_login = ''ana'', fi_email = ''ana@example.com'', fi_name = ''ana'', fi_email_verified = True\<rparr>"
  shows "account_of ProviderGoogle i = \<lparr>ui_provider_id = ''fake-google-ana'', ui_email = ''ana@example.com'', ui_name = ''ana''\<rparr>"
    and "char_len (ui_email (account_of ProviderGoogle i)) \<le> 255" "char_len (ui_name (account_of ProviderGoogle i)) \<le> 255"
    and "char_len (ui_provider_id (account_of ProviderGoogle i)) \<le> 255"
    and "fi_email i \<noteq> []" "fi_email_verified i"
proof -
  have "utf8_fix ''ana'' = ''ana''" "utf8_fix ''ana@example.com'' = ''ana@example.com''" "utf8_fix ''fake-google-ana'' = ''fake-google-ana''"
    by (rule utf8_fix_ascii; code_simp)+
  then show acc: "account_of ProviderGoogle i = \<lparr>ui_provider_id = ''fake-google-ana'', ui_email = ''ana@example.com'', ui_name = ''ana''\<rparr>"
    using provider_names_distinct by (simp add: account_of_def google_sub_def i_def)
  show "char_len (ui_email (account_of ProviderGoogle i)) \<le> 255" "char_len (ui_name (account_of ProviderGoogle i)) \<le> 255"
    "char_len (ui_provider_id (account_of ProviderGoogle i)) \<le> 255"
    by (simp_all add: acc char_len_def is_cont_def code_def)
qed (simp_all add: i_def)

lemma sample_identity_is: "sample_identity = \<lparr>fi_login = ''ana'', fi_email = ''ana@example.com'', fi_name = ''ana'', fi_email_verified = True\<rparr>"
  by code_simp

theorem approved_device_signs_in_witness:
  "\<exists>jwt w' u. am_device_poll (server_auth_manager sample_libs sample_env sample_jwt sample_oauth_lib
      (fake_client sample_fake sample_env ''http://fake'' (\<lambda>n. if n = 0 then approved_store
         else (case poll_device sample_env ProviderGoogle ''dc'' approved_store of Inr (r, s) \<Rightarrow> s))) fake_cfg sample_adapter)
      ProviderGoogle ''dc'' empty_world = (Inr jwt, w') \<and>
    u \<in> set (stored_users w') \<and> u_provider_id u = ''fake-google-ana'' \<and> u_email u = ''ana@example.com''"
proof -
  obtain t s' where poll: "poll_device sample_env ProviderGoogle ''dc'' approved_store = Inr (Inr t, s')"
    and tok: "lookup_token ProviderGoogle t s' = Inr sample_identity" using approved_poll by blast
  let ?st = "\<lambda>n. if n = 0 then approved_store else (case poll_device sample_env ProviderGoogle ''dc'' approved_store of Inr (r, s) \<Rightarrow> s)"
  note ana = account_of_ana [folded sample_identity_is]
  note at = fake_settings(1) and size = fake_settings(2)
  have st: "poll_device sample_env ProviderGoogle ''dc'' (?st (w_tick empty_world)) = Inr (Inr t, s')"
    "\<forall>n > w_tick empty_world. lookup_token ProviderGoogle t (?st n) = Inr sample_identity"
    using poll tok by (simp_all add: empty_world_def)
  have none: "stored_users empty_world = []" by (simp add: empty_world_def empty_database_def)
  from approved_device_signs_in [where st = ?st and w = empty_world, OF disjI1 [OF refl] at size st ana(5,6) quiet_sample_env sample_jwt_ok empty_world_inv ana(2-4)]
  show ?thesis unfolding none ana(1) by (simp del: new_jwt_manager_simps) blast
qed

text \<open>
  C40: one poll of the API over HTTP means what the store of the local provider decides: whatever the
  request, the form goes out and the JSON comes back so that the API gets the token of an approved
  request, and for every other answer of the store the sentinel error the API has for it.
\<close>

theorem device_poll_over_http:
  assumes "prov = providerGoogle \<or> prov = providerGitHub" and "oc_token_url cfg = token_url base prov"
    and "length (hq_body (device_token_request cfg dc)) \<le> max_form_size"
    and "poll_device E prov dc (st (w_tick w)) = Inr (a, s')"
  shows "poll_device_token L (fake_client sv E base st) cfg dc w = (poll_meaning a, ticked w)"
  by (rule poll_over_http [where st = st and w = w, OF assms])

theorem device_poll_over_http_witness:
  "\<exists>t. poll_device_token sample_libs (fake_client sample_fake sample_env ''http://fake'' (\<lambda>n. approved_store))
     (oauth_settings sample_oauth_lib fake_cfg ProviderGoogle) ''dc'' empty_world = (Inr t, ticked empty_world)"
proof -
  obtain t s' where p: "poll_device sample_env providerGoogle ''dc'' approved_store = Inr (Inr t, s')"
    using approved_poll unfolding provider_texts by blast
  have url: "oc_token_url (oauth_settings sample_oauth_lib fake_cfg ProviderGoogle) = token_url ''http://fake'' providerGoogle"
    using token_url_settings(1) [OF disjI1 [OF refl] fake_settings(1)] unfolding provider_texts .
  show ?thesis
    using device_poll_over_http [where st = "\<lambda>n. approved_store" and w = empty_world, OF disjI1 [OF refl] url fake_settings(2) p]
    by (simp add: poll_meaning_def)
qed

end
