(* ===== verification/FakeLoginProperties.thy ===== *)
theory FakeLoginProperties
  imports FakePageProperties FakeWireProperties
begin

text \<open>
  The redirect flow end to end: a login at the local provider sends the browser to the API's callback
  with a code, and the callback exchanges the code over HTTP and signs the identity in.
\<close>

section \<open>The code exchange\<close>

text \<open>
  A request that posts an authorization code (RFC 6749, section 4.1.3), the answer that grants a
  token, and what the code relies on of \<open>Config.Exchange\<close>: it sends such a request and returns the
  token of the answer.
\<close>

definition posts_code :: "oauth_config \<Rightarrow> string \<Rightarrow> http_request \<Rightarrow> bool" where
  "posts_code cfg c q \<longleftrightarrow> hq_method q = ''POST'' \<and> hq_url q = oc_token_url cfg \<and>
     header_of (hq_headers q) ''Content-Type'' = ''application/x-www-form-urlencoded'' \<and>
     length (hq_body q) \<le> max_form_size \<and>
     (\<exists>form. parse_query (hq_body q) = Some form \<and> values_get form ''grant_type'' = ''authorization_code'' \<and>
        values_get form ''code'' = c \<and> values_get form ''redirect_uri'' = oc_redirect_url cfg)"

definition token_reply :: "goerr + http_response \<Rightarrow> string \<Rightarrow> bool" where
  "token_reply r t \<longleftrightarrow> (\<exists>resp body ms. r = Inr resp \<and> hr_status resp = 200 \<and> hr_content_type resp = ''application/json'' \<and>
     hr_body resp = Inr body \<and> json_unmarshal body = Some (JObj ms) \<and>
     map_of ms ''access_token'' = Some (JStr t) \<and> map_of ms ''token_type'' = Some (JStr ''bearer'') \<and> t \<noteq> [])"

definition exchanges :: "oauth_lib \<Rightarrow> http_client \<Rightarrow> oauth_config \<Rightarrow> string \<Rightarrow> bool" where
  "exchanges O2 C cfg c \<longleftrightarrow> (\<forall>n. \<exists>q. posts_code cfg c q \<and>
     (\<forall>t. token_reply (hc_do C q n) t \<longrightarrow> ol_exchange O2 cfg c n = Inr t))"

lemma redeemed_token_text:
  assumes "redeem_code E p c u s = Inr (Inr t, s')"
  shows "length t = 48 \<and> list_all is_ascii t"
  using assms
  by (auto simp: redeem_code_def Let_def answer_token_ok issue_token_def random_hex_ok hex_encode_ascii
      split: option.splits if_splits sum.splits)

lemma json_token_reply:
  assumes "utf8_fix t = t" and "t \<noteq> []"
  shows "token_reply (Inr (received (write_json 200 (JObj (token_members t))))) t"
proof -
  have "json_unmarshal (encode_line (JObj (token_members t))) = Some (json_fix (JObj (token_members t)))"
    using unmarshal_encode answers_encodable(1) by blast
  also have "json_fix (JObj (token_members t)) = JObj (token_members t)"
    using assms(1) unfolding fixed_answers by (simp add: token_members_def)
  finally show ?thesis
    using assms(2) unfolding token_reply_def
    by (intro exI [of _ "received (write_json 200 (JObj (token_members t)))"] exI [of _ "encode_line (JObj (token_members t))"]
        exI [of _ "token_members t"]) (simp add: token_members_def)
qed

lemma exchange_over_http:
  assumes p: "prov = providerGoogle \<or> prov = providerGitHub" and url: "oc_token_url cfg = token_url base prov"
    and lib: "exchanges O2 (fake_client sv E base st) cfg c"
    and redeem: "redeem_code E prov c (oc_redirect_url cfg) (st n) = Inr (Inr t, s')"
  shows "ol_exchange O2 cfg c n = Inr t"
proof -
  obtain q where q: "posts_code cfg c q"
    and reply: "\<And>t. token_reply (hc_do (fake_client sv E base st) q n) t \<Longrightarrow> ol_exchange O2 cfg c n = Inr t"
    using lib unfolding exchanges_def by blast
  obtain form where form: "parse_query (hq_body q) = Some form" "values_get form ''grant_type'' = ''authorization_code''"
    "values_get form ''code'' = c" "values_get form ''redirect_uri'' = oc_redirect_url cfg"
    using q unfolding posts_code_def by blast
  have path: "trim_prefix base (hq_url q) = ''/'' @ prov @ ''/token''"
    using q url by (simp add: posts_code_def token_url_def)
  have pp: "CHR ''?'' \<notin> set (''/'' @ prov @ ''/token'')" "tl (split_on (CHR ''/'') (''/'' @ prov @ ''/token'')) = [prov, ''token'']"
    using p by (elim disjE; simp only: providerGoogle_def providerGitHub_def; code_simp)+
  have d: "delivered base q = \<lparr>fq_method = ''POST'', fq_path = [prov, ''token''], fq_query = [],
      fq_content_type = ''application/x-www-form-urlencoded'', fq_authorization = header_of (hq_headers q) ''Authorization'',
      fq_body = Some (hq_body q)\<rparr>"
    using q unfolding delivered_def path cut_at_free [OF pp(1)] prod.case pp(2) by (simp add: posts_code_def)
  have pf: "parse_form (sv_libs sv) (delivered base q) = Some form"
  proof -
    have "parse_query [] = Some []" by (simp add: parse_query_def parse_pair_def)
    then show ?thesis
      using q form(1) form_media_type [of "sv_libs sv"] unfolding d
      by (simp add: parse_form_def post_form_def posts_code_def not_less)
  qed
  have "fake_token sv E (delivered base q) prov (st n) = token_answer (redeem_code E prov c (oc_redirect_url cfg) (st n))"
    using form(2-4) unfolding fake_token_def pf by (simp add: grantAuthorizationCode_def)
  also have "\<dots> = answers (FakeJSON 200 (JObj (token_members t))) s'"
    by (simp add: redeem token_answer_def token_members_def)
  finally have "fake_serve sv E (delivered base q) (st n) = answers (FakeJSON 200 (JObj (token_members t))) s'"
    by (subst serve_token [OF p]) (simp_all add: d)
  from fake_client_do(1) [where st = st and n = n, OF this]
  have "hc_do (fake_client sv E base st) q n = Inr (received (write_json 200 (JObj (token_members t))))" by simp
  moreover have "utf8_fix t = t" "t \<noteq> []" using redeemed_token_text [OF redeem] utf8_fix_ascii by auto
  ultimately show ?thesis using reply json_token_reply by simp
qed

section \<open>The redirect flow from the login to the JWT\<close>

text \<open>
  C4: the redirect flow signs in from end to end. A scripted login at the local provider sends the
  browser to the API's redirect URI with a code and the state of the request; the API's callback,
  called with that code while it lives, exchanges it over HTTP, reads the account behind the token, and
  redirects the browser to the front end with a JWT for a stored account with the provider, the
  identifier and the email of the identity that logged in, which has a profile. It asks for the
  documented behaviour of \<open>Config.Exchange\<close>, a redirect URI spelled as \<open>url.String\<close> spells it, a verified
  email that no other account has, texts that fit their columns, and a database that answers.
\<close>

theorem redirect_login_signs_in:
  fixes r
  defines "q \<equiv> values_get (query_values (fq_query r))"
  defines "i \<equiv> scripted_identity q"
  assumes p: "p = ProviderGoogle \<or> p = ProviderGitHub" and at: "points_at base p (provider_settings cfg p)"
    and login: "quiet F" "valid_redirect sv (q ''redirect_uri'') = Some u" "q ''response_type'' = ''code''"
      "q ''client_id'' \<noteq> []" "q ''fake_user'' \<noteq> []" "authorize_form sv F r p s = answers resp (st (w_tick w))"
    and uri: "oc_redirect_url (oauth_settings O2 cfg p) = url_string u"
    and alive: "clock_at F (fs_tick s + 2) \<le> clock_at F (fs_tick s + 1) + fs_code_ttl s"
    and lib: "\<And>c. length c = 32 \<Longrightarrow> exchanges O2 (fake_client sv F base st) (oauth_settings O2 cfg p) c"
    and later: "\<And>c t s2 n. redeem_code F p c (url_string u) (st (w_tick w)) = Inr (Inr t, s2) \<Longrightarrow> n > w_tick w \<Longrightarrow>
      lookup_token p t (st n) = lookup_token p t s2"
    and verified: "fi_email i \<noteq> []" "fi_email_verified i"
    and quiet: "quiet E" and jwt: "jwt_lib_ok J" and inv: "world_inv w"
    and fits: "char_len (ui_email (account_of p i)) \<le> 255" "char_len (ui_name (account_of p i)) \<le> 255" "char_len (ui_provider_id (account_of p i)) \<le> 255"
    and owner: "\<forall>v \<in> set (stored_users w). u_email v = ui_email (account_of p i) \<longrightarrow> user_key v = (p, ui_provider_id (account_of p i))"
    and fresh: "\<forall>n \<le> w_tick w + 3. uuid_at E n \<notin> u_id ` set (stored_users w)"
  shows "\<exists>Q. resp = fake_redirect (url_string (u\<lparr>gu_raw_query := Q\<rparr>)) \<and>
    (q ''state'' \<noteq> [] \<longrightarrow> values_get (query_values Q) ''state'' = q ''state'') \<and>
    (\<forall>k. k \<noteq> ''code'' \<longrightarrow> k \<noteq> ''state'' \<longrightarrow> values_get (query_values Q) k = values_get (query_values (gu_raw_query u)) k) \<and>
    (\<forall>rq cx. rq_param rq ''provider'' = p \<longrightarrow> rq_query rq ''code'' = values_get (query_values Q) ''code'' \<longrightarrow>
      (\<exists>jwt w' usr n. oauth_callback (server_auth_manager L E J O2 (fake_client sv F base st) cfg a) cx rq w =
          (Redirect 302 (''/?token='' @ jwt), w') \<and>
        usr \<in> set (stored_users w') \<and> u_provider usr = p \<and> u_provider_id usr = ui_provider_id (account_of p i) \<and>
        u_email usr = ui_email (account_of p i) \<and> stored_profile w' (u_id usr) \<noteq> None \<and>
        jl_verifies J (HMAC ''HS256'') (ja_secret a) jwt (user_claims L J a (clock_at E n) usr)))"
proof -
  let ?C = "fake_client sv F base st" and ?oc = "oauth_settings O2 cfg p"
  obtain Q s1 c where c: "authorize_form sv F r p s = answers (fake_redirect (url_string (u\<lparr>gu_raw_query := Q\<rparr>))) s1"
    "q ''state'' \<noteq> [] \<longrightarrow> values_get (query_values Q) ''state'' = q ''state''"
    "\<forall>k. k \<noteq> ''code'' \<longrightarrow> k \<noteq> ''state'' \<longrightarrow> values_get (query_values Q) k = values_get (query_values (gu_raw_query u)) k"
    "values_get (query_values Q) ''code'' = c" "length c = 32" "fs_tick s1 = fs_tick s + 2"
    "fs_codes s1 = (fs_codes s)(c \<mapsto> \<lparr>ac_provider = p, ac_redirect_uri = url_string u, ac_identity = i,
       ac_expires_at = clock_at F (Suc (fs_tick s)) + fs_code_ttl s\<rparr>)"
    using scripted_login_code [OF login(1-5) [unfolded q_def], of p s, folded q_def, folded i_def]
    by (elim exE conjE) (rule that)
  have resp: "resp = fake_redirect (url_string (u\<lparr>gu_raw_query := Q\<rparr>))" "s1 = st (w_tick w)"
    using c(1) login(6) by (simp_all add: answers_def)
  have stored: "fs_codes s1 c = Some \<lparr>ac_provider = p, ac_redirect_uri = url_string u, ac_identity = i,
       ac_expires_at = clock_at F (Suc (fs_tick s)) + fs_code_ttl s\<rparr>" using c(7) by simp
  obtain t s2 where t: "redeem_code F p c (url_string u) (st (w_tick w)) = Inr (Inr t, s2)" "lookup_token p t s2 = Inr i"
    using quiet_redeem [OF login(1) stored, of p "url_string u"] alive c(6) resp(2) by auto
  have p': "p = providerGoogle \<or> p = providerGitHub" using p by (simp add: provider_texts)
  have exchange: "ol_exchange O2 ?oc c (w_tick w) = Inr t"
    using exchange_over_http [where st = st and n = "w_tick w", OF p' token_url_settings(1) [OF p at] lib [OF c(5)]] t(1)
    unfolding uri by blast
  obtain prov where prov: "build_providers L E O2 ?C cfg p = Some prov"
    "op_exchange prov c w = and_then (wrap (p @ '': exchange: '') (contact (ol_exchange O2 ?oc c) w)) (read_account ?C base p)"
    using registered_provider [OF p at, of L E O2 ?C] by metis
  have tok: "\<forall>n \<ge> w_tick (ticked w). lookup_token p t (st n) = Inr i"
    using later [OF t(1)] t(2) by simp
  obtain n where n: "n \<le> w_tick (ticked w) + 2" "read_account ?C base p t (ticked w) = (Inr (account_of p i), (ticked w)\<lparr>w_tick := n\<rparr>)"
    using account_over_http [where st = st and w = "ticked w", OF p tok verified] by blast
  have info: "oauth_exchange (build_providers L E O2 ?C cfg) p c w = (Inr (account_of p i), w\<lparr>w_tick := n\<rparr>)"
    using prov exchange n(2) by (simp add: oauth_exchange_def oauth_provider_for_def contact_def)
  have le: "n \<le> w_tick w + 3" using n(1) by simp
  obtain jwt w' usr m where "auth_sign_in ''auth manager: OAuthCallback: '' (new_user_manager L E (pg_user_repository E) (pg_pat_repository E))
      (new_jwt_manager L E J a) (pm_ensure_exists (pg_profile_repository L E)) p (account_of p i) (w\<lparr>w_tick := n\<rparr>) = (Inr jwt, w')"
    and usr: "usr \<in> set (stored_users w') \<and> u_provider usr = p \<and> u_provider_id usr = ui_provider_id (account_of p i) \<and>
    u_email usr = ui_email (account_of p i) \<and> stored_profile w' (u_id usr) \<noteq> None \<and>
    jl_verifies J (HMAC ''HS256'') (ja_secret a) jwt (user_claims L J a (clock_at E m) usr)"
    using sign_in_account [OF quiet jwt inv p le fits owner fresh] by blast
  then have "am_oauth_callback (server_auth_manager L E J O2 ?C cfg a) p c w = (Inr jwt, w')"
    using info by (simp add: server_auth_manager_def new_auth_manager_def auth_oauth_callback_sign_in del: new_jwt_manager_simps)
  moreover have "parse_provider p = Inr p" using p by (auto simp: parse_provider_def user_consts)
  moreover have "c \<noteq> []" using c(5) by auto
  ultimately have "oauth_callback (server_auth_manager L E J O2 ?C cfg a) cx rq w = (Redirect 302 (''/?token='' @ jwt), w')"
    if "rq_param rq ''provider'' = p" "rq_query rq ''code'' = values_get (query_values Q) ''code''" for rq cx
    using that c(4) by (simp add: oauth_callback_def)
  then have signed: "\<forall>rq cx. rq_param rq ''provider'' = p \<longrightarrow> rq_query rq ''code'' = values_get (query_values Q) ''code'' \<longrightarrow>
      (\<exists>jwt w' usr n. oauth_callback (server_auth_manager L E J O2 ?C cfg a) cx rq w = (Redirect 302 (''/?token='' @ jwt), w') \<and>
        usr \<in> set (stored_users w') \<and> u_provider usr = p \<and> u_provider_id usr = ui_provider_id (account_of p i) \<and>
        u_email usr = ui_email (account_of p i) \<and> stored_profile w' (u_id usr) \<noteq> None \<and>
        jl_verifies J (HMAC ''HS256'') (ja_secret a) jwt (user_claims L J a (clock_at E n) usr))"
    using usr by blast
  show ?thesis by (rule exI [of _ Q], intro conjI resp(1) c(2,3) signed)
qed

section \<open>A login from the browser to the JWT\<close>

text \<open>A \<open>Config.Exchange\<close> that posts the form and reads the token of the answer.\<close>

definition code_form :: "oauth_config \<Rightarrow> string \<Rightarrow> (string \<times> string) list" where
  "code_form cfg c = [(''grant_type'', ''authorization_code''), (''code'', c), (''redirect_uri'', oc_redirect_url cfg)]"

definition code_request :: "oauth_config \<Rightarrow> string \<Rightarrow> http_request" where
  "code_request cfg c = \<lparr>hq_method = ''POST'', hq_url = oc_token_url cfg,
     hq_headers = [(''Content-Type'', ''application/x-www-form-urlencoded'')], hq_body = form_urlencode (code_form cfg c)\<rparr>"

definition token_of_answer :: "goerr + http_response \<Rightarrow> goerr + string" where
  "token_of_answer r =
     (case r of
        Inl e \<Rightarrow> Inl e
      | Inr resp \<Rightarrow>
          (case hr_body resp of
             Inl e \<Rightarrow> Inl e
           | Inr body \<Rightarrow>
               (case json_unmarshal body of
                  Some (JObj ms) \<Rightarrow>
                    (case map_of ms ''access_token'' of Some (JStr t) \<Rightarrow> Inr t | _ \<Rightarrow> Inl (Msg [Txt ''oauth2'']))
                | _ \<Rightarrow> Inl (Msg [Txt ''oauth2'']))))"

definition code_lib :: "http_client \<Rightarrow> oauth_lib" where
  "code_lib C = sample_oauth_lib\<lparr>ol_exchange := (\<lambda>cfg c n. token_of_answer (hc_do C (code_request cfg c) n))\<rparr>"

lemma length_form_escape: "length (form_escape s) \<le> 3 * length s"
  by (induction s) (simp_all add: form_escape_def form_escape_char_def)

lemma code_lib_exchanges:
  assumes "length c = 32" and "length (oc_redirect_url cfg) \<le> 1000"
  shows "exchanges (code_lib C) C cfg c"
proof -
  have t: "form_escape ''grant_type'' = ''grant_type''" "form_escape ''authorization_code'' = ''authorization_code''"
    "form_escape ''code'' = ''code''" "form_escape ''redirect_uri'' = ''redirect_uri''" by code_simp+
  have "length (form_urlencode (code_form cfg c)) \<le> 10000"
    using assms length_form_escape [of c] length_form_escape [of "oc_redirect_url cfg"]
    by (simp add: form_urlencode_def code_form_def t)
  then have "length (form_urlencode (code_form cfg c)) \<le> max_form_size" by (simp add: max_form_size_def)
  moreover have "parse_query (form_urlencode (code_form cfg c)) = Some (code_form cfg c)"
    by (rule parse_form_urlencode) (simp add: code_form_def)
  ultimately have "posts_code cfg c (code_request cfg c)"
    unfolding posts_code_def by (simp add: code_request_def header_of_def) (simp add: code_form_def values_get_def)
  moreover have "token_of_answer r = Inr t" if "token_reply r t" for r t
    using that unfolding token_reply_def token_of_answer_def by force
  ultimately show ?thesis unfolding exchanges_def code_lib_def by (auto intro!: exI [of _ "code_request cfg c"])
qed

definition login_cfg :: config where
  "login_cfg = load_config (\<lambda>k. if k = ''jwt.secret'' then ''s3cret'' else if k = ''google.client_id'' then ''id''
     else if k = ''google.redirect_url'' then ''http://localhost/cb?a=b''
     else if k = ''google.token_url'' then ''http://fake/google/token''
     else if k = ''google.userinfo_url'' then ''http://fake/google/userinfo'' else []) (\<lambda>k. 3600 * second)"

definition login_url :: go_url where
  "login_url = \<lparr>gu_scheme = ''http'', gu_user = None, gu_host = ''localhost'', gu_path = ''/cb'', gu_raw_path = [],
    gu_force_query = False, gu_raw_query = ''a=b'', gu_fragment = [], gu_raw_fragment = []\<rparr>"

definition callback_with :: "string \<Rightarrow> request" where
  "callback_with Q = anonymous\<lparr>rq_param := (\<lambda>k. if k = ''provider'' then ProviderGoogle else []),
     rq_query := values_get (query_values Q)\<rparr>"

text \<open>The store after the login, and the one that an exchange of its code leaves.\<close>

lemma redeemed_only_code:
  assumes "fs_codes s = Map.empty(c \<mapsto> a)" and "redeem_code E p d u s = Inr (Inr t, s')"
  shows "d = c"
  using assms by (simp add: redeem_code_def split: if_splits)

lemma sample_login_values:
  fixes q
  defines "q \<equiv> values_get (query_values (fq_query sample_login))"
  shows "q ''response_type'' = ''code''" "q ''client_id'' \<noteq> []" "q ''fake_user'' \<noteq> []"
    "valid_redirect sample_fake (q ''redirect_uri'') = Some login_url"
    "scripted_identity q = \<lparr>fi_login = ''ana'', fi_email = ''ana@example.com'', fi_name = ''ana'', fi_email_verified = True\<rparr>"
    "url_string login_url = ''http://localhost/cb?a=b''"
  unfolding q_def by code_simp+

lemma sample_login_stores:
  obtains st resp where "authorize_form sample_fake sample_env sample_login ProviderGoogle sample_store = answers resp (st (0::nat))"
    and "\<And>c t s2 n. redeem_code sample_env ProviderGoogle c u (st 0) = Inr (Inr t, s2) \<Longrightarrow> n > 0 \<Longrightarrow>
      lookup_token ProviderGoogle t (st n) = lookup_token ProviderGoogle t s2"
proof -
  note q = sample_login_values(1-3) and url = sample_login_values(4)
  obtain resp s1 c a where s1: "authorize_form sample_fake sample_env sample_login ProviderGoogle sample_store = answers resp s1"
    "fs_codes s1 = (fs_codes sample_store)(c \<mapsto> a)"
    using scripted_login_code [OF quiet_sample_env url q] by metis
  then have only: "fs_codes s1 = Map.empty(c \<mapsto> a)" by (simp add: sample_store_def new_store_def)
  define st where "st n = (if n = (0::nat) then s1 else (case redeem_code sample_env ProviderGoogle c u s1 of Inr (r, s2) \<Rightarrow> s2))" for n
  show thesis
  proof (rule that [of resp st])
    show "authorize_form sample_fake sample_env sample_login ProviderGoogle sample_store = answers resp (st 0)"
      using s1(1) by (simp add: st_def)
    fix d t s2 and n :: nat
    assume r: "redeem_code sample_env ProviderGoogle d u (st 0) = Inr (Inr t, s2)" and "n > 0"
    then have "d = c" using redeemed_only_code [OF only] by (simp add: st_def)
    with r \<open>n > 0\<close> show "lookup_token ProviderGoogle t (st n) = lookup_token ProviderGoogle t s2" by (simp add: st_def)
  qed
qed

lemma login_settings:
  fixes C
  defines "oc \<equiv> oauth_settings (code_lib C) login_cfg ProviderGoogle"
  shows "points_at ''http://fake'' ProviderGoogle (provider_settings login_cfg ProviderGoogle)"
    and "oc_redirect_url oc = url_string login_url" and "length c = 32 \<Longrightarrow> exchanges (code_lib C) C oc c"
proof -
  show "points_at ''http://fake'' ProviderGoogle (provider_settings login_cfg ProviderGoogle)"
    by (simp add: points_at_def provider_settings_def login_cfg_def load_config_def load_provider_def token_url_def info_url_def user_consts)
  have "oc_redirect_url oc = ''http://localhost/cb?a=b''"
    by (simp add: oc_def oauth_settings_def google_config_def code_lib_def sample_oauth_lib_def login_cfg_def load_config_def load_provider_def user_consts)
  then show uri: "oc_redirect_url oc = url_string login_url" by (simp add: sample_login_values(6))
  have "length (url_string login_url) = 23" by (simp add: sample_login_values(6))
  then show "length c = 32 \<Longrightarrow> exchanges (code_lib C) C oc c" using code_lib_exchanges uri by simp
qed

text \<open>What the callback ends with.\<close>

definition signs_ana_in :: "http_client \<Rightarrow> request \<Rightarrow> bool" where
  "signs_ana_in C rq \<longleftrightarrow>
     (\<exists>jwt w' usr. oauth_callback (server_auth_manager sample_libs sample_env sample_jwt (code_lib C) C login_cfg sample_adapter)
          empty_ctx rq empty_world = (Redirect 302 (''/?token='' @ jwt), w') \<and>
        usr \<in> set (stored_users w') \<and> u_provider_id usr = ''fake-google-ana'' \<and> u_email usr = ''ana@example.com'')"

theorem redirect_login_signs_in_witness:
  "\<exists>st resp Q. authorize_form sample_fake sample_env sample_login ProviderGoogle sample_store = answers resp (st (0::nat)) \<and>
    resp = fake_redirect (url_string (login_url\<lparr>gu_raw_query := Q\<rparr>)) \<and>
    signs_ana_in (fake_client sample_fake sample_env ''http://fake'' st) (callback_with Q)"
proof -
  note q = sample_login_values(1-3) and url = sample_login_values(4) and i = sample_login_values(5)
  note ana = account_of_ana [folded i]
  have tick: "w_tick empty_world = 0" and none: "stored_users empty_world = []" by (simp_all add: empty_world_def empty_database_def)
  obtain st resp where st: "authorize_form sample_fake sample_env sample_login ProviderGoogle sample_store = answers resp (st (w_tick empty_world))"
    and later: "\<And>c t s2 n. redeem_code sample_env ProviderGoogle c (url_string login_url) (st (w_tick empty_world)) = Inr (Inr t, s2) \<Longrightarrow>
      n > w_tick empty_world \<Longrightarrow> lookup_token ProviderGoogle t (st n) = lookup_token ProviderGoogle t s2"
    by (rule sample_login_stores [of "url_string login_url"]) (rule that; simp only: tick)
  let ?C = "fake_client sample_fake sample_env ''http://fake'' st"
  let ?state = "values_get (query_values (fq_query sample_login)) ''state''"
  let ?signed = "\<lambda>rq cx. \<exists>jwt w' usr n. oauth_callback (server_auth_manager sample_libs sample_env sample_jwt (code_lib ?C) ?C login_cfg sample_adapter) cx rq empty_world =
          (Redirect 302 (''/?token='' @ jwt), w') \<and>
        usr \<in> set (stored_users w') \<and> u_provider usr = ProviderGoogle \<and> u_provider_id usr = ''fake-google-ana'' \<and>
        u_email usr = ''ana@example.com'' \<and> stored_profile w' (u_id usr) \<noteq> None \<and>
        jl_verifies sample_jwt (HMAC ''HS256'') (ja_secret sample_adapter) jwt (user_claims sample_libs sample_jwt sample_adapter (clock_at sample_env n) usr)"
  have alive: "clock_at sample_env (fs_tick sample_store + 2) \<le> clock_at sample_env (fs_tick sample_store + 1) + fs_code_ttl sample_store"
    by (simp add: sample_env_def second_def sample_store_def new_store_def)
  have param: "rq_param (callback_with Q) ''provider'' = ProviderGoogle"
    "rq_query (callback_with Q) ''code'' = values_get (query_values Q) ''code''" for Q
    by (simp_all add: callback_with_def)
  have "\<exists>Q. resp = fake_redirect (url_string (login_url\<lparr>gu_raw_query := Q\<rparr>)) \<and>
    (?state \<noteq> [] \<longrightarrow> values_get (query_values Q) ''state'' = ?state) \<and>
    (\<forall>k. k \<noteq> ''code'' \<longrightarrow> k \<noteq> ''state'' \<longrightarrow> values_get (query_values Q) k = values_get (query_values (gu_raw_query login_url)) k) \<and>
    (\<forall>rq cx. rq_param rq ''provider'' = ProviderGoogle \<longrightarrow> rq_query rq ''code'' = values_get (query_values Q) ''code'' \<longrightarrow> ?signed rq cx)"
    by (rule redirect_login_signs_in [where st = st and w = empty_world and r = sample_login and s = sample_store and resp = resp,
          OF disjI1 [OF refl] login_settings(1) quiet_sample_env url q st login_settings(2) alive _ _ ana(5,6) quiet_sample_env sample_jwt_ok
            empty_world_inv ana(2-4), unfolded ana(1) user_info.simps none])
      (erule login_settings(3), erule (1) later, simp_all)
  then obtain Q where resp: "resp = fake_redirect (url_string (login_url\<lparr>gu_raw_query := Q\<rparr>))" and go: "?signed (callback_with Q) empty_ctx"
    by (elim exE conjE) (erule that, drule spec, drule spec, drule mp, rule param(1), erule mp, rule param(2))
  from go have "signs_ana_in ?C (callback_with Q)"
    unfolding signs_ana_in_def by (elim exE conjE, intro exI conjI) assumption+
  with st resp show ?thesis unfolding tick by blast
qed

end
