(* ===== verification/Spec2Isabelle.thy ===== *)
theory Spec2Isabelle
  imports ErrorProperties FakePageProperties FakeLoginProperties
begin

text \<open>
  Court Knights: a verification library for the Go code of the repository, the API server (\<open>src/api\<close>)
  and the local OAuth provider for development (\<open>src/tools/oauthfake\<close>).

  \<^bold>\<open>The program.\<close> The server reads its configuration, connects to PostgreSQL, creates the first
  administrator when it is told to, and serves JSON over HTTP (\<open>cmd/server\<close>). Handlers (\<open>internal/api\<close>)
  call managers (\<open>internal/application\<close>), which call repositories and adapters
  (\<open>internal/infrastructure\<close>) through the interfaces of the domain (\<open>internal/domain\<close>). A user signs in
  through Google or GitHub (redirect flow or device flow) or with a personal access token, gets a JWT,
  and reads and edits a profile. The fake provider serves the same two flows from a store in memory.

  \<^bold>\<open>How it is modelled.\<close> A Go interface is a record of operations, a constructor builds the record, and
  a method that can fail and touches the world is a function \<open>world \<Rightarrow> (goerr + 'a) \<times> world\<close>. The world is
  the database and the number of contacts with the outside; an environment gives for each contact the
  clock, the generated identifier, the random bytes, whether the connection fails before or after the
  statement ran, and the statements other clients ran just before. So failures and interleavings are
  inputs, and a property that does not say \<open>quiet E\<close> (no failure, no other client) holds for all of them.
  Errors are trees of sentinels and wrappers with \<open>errors.Is\<close> and \<open>errors.As\<close>. Strings are lists of
  bytes. Times are nanoseconds as integers; the page arithmetic is on 64-bit words, as in the code.

  \<^bold>\<open>The theories.\<close>
  \<^item> \<open>Prelude\<close> holds the collections and lemmas the components share; \<open>GoStrings\<close>, \<open>GoTime\<close>, \<open>GoCivil\<close>,
    \<open>GoJson\<close> (decoding), \<open>GoJsonEnc\<close> (encoding), \<open>GoMime\<close>, \<open>GoUrl\<close> and \<open>GoNetUrl\<close> model what the code uses
    of \<open>strings\<close>, \<open>strconv\<close>, \<open>time\<close>, \<open>encoding/json\<close>, \<open>mime\<close>, \<open>net/url\<close> and \<open>Request.ParseForm\<close>;
    \<open>GoNetUrlInv\<close> shows that parsing what \<open>url.String\<close> writes gives the same URL up to its spelling.
  \<^item> \<open>CkErrors\<close> and \<open>Domain\<close> are \<open>internal/domain\<close>: errors, users, tokens, profiles, three-state patch
    fields, the location rules, the repository interfaces.
  \<^item> \<open>Database\<close> and \<open>DatabaseInv\<close> are the tables of \<open>src/db/schema\<close> and the statements the repositories
    send, with keys, foreign keys, checks, column widths and the order in which PostgreSQL reports their
    violations; \<open>db_inv\<close> is a database that meets the constraints. \<open>World\<close> adds the environment.
  \<^item> \<open>PgRows\<close> reads rows as \<open>Scan\<close> does: the columns of each \<open>SELECT\<close> list by position, with the contract
    \<open>row_reader\<close> that list and scan agree, interpreted on the four of them. \<open>RepoInterfaces\<close> states the
    contracts of the repositories as locales; \<open>PgRepositories\<close>, \<open>PgProfiles\<close> and \<open>PgProfileContract\<close> are
    \<open>infrastructure/postgres\<close> and interpret them.
  \<^item> \<open>UserManager\<close>, \<open>ProfileManager\<close>, \<open>OAuthManager\<close>, \<open>JwtAdapter\<close> and \<open>AuthManager\<close> are the managers of
    \<open>internal/application\<close> and the JWT adapter; their lemmas are proved once against the contracts, in
    the locales, and interpreted on the PostgreSQL repositories.
  \<^item> \<open>OAuthAdapters\<close> is \<open>infrastructure/oauth2\<close>: Google, GitHub and the poll of the device flow.
  \<^item> \<open>HttpCommon\<close>, \<open>HttpAuth\<close>, \<open>ProfilePatchApi\<close> and \<open>HttpProfile\<close> are \<open>internal/api\<close>: the middleware, the
    handlers and the merge patch. \<open>Server\<close> is \<open>cmd/server\<close>: configuration, composition, routes, bootstrap,
    the start of the process and its exit status. \<open>ApiContract\<close> is the documented contract: a type for
    each JSON body (\<open>schema\<close>, \<open>conforms\<close>), the answers of each endpoint, and that the handlers keep to them.
  \<^item> \<open>FakeStore\<close>, \<open>FakeStoreInv\<close>, \<open>FakeServer\<close> and \<open>FakeServerInv\<close> are \<open>tools/oauthfake\<close>: the store as a state
    machine with a labelled step relation and runs, its invariant, the handlers, the dispatch, the start.
    \<open>FakePages\<close> is \<open>templates.go\<close> with the escapes of \<open>html/template\<close>, and on the other side the tags a
    browser finds in a page and the form it sends; \<open>FakeWire\<close> writes the answers as bytes and is an HTTP
    client of the API that reaches the fake; \<open>FakeWireInv\<close> follows documents and token answers through.
  \<^item> \<open>Samples\<close> gives concrete libraries and a concrete world for the witnesses; \<open>ServerInv\<close> and \<open>PgFlows\<close>
    the lemmas on whole handlers and on runs in a quiet environment.
  \<^item> \<open>AuthProperties\<close>, \<open>ApiProperties\<close>, \<open>ProfileProperties\<close>, \<open>ServerProperties\<close>, \<open>ErrorProperties\<close>,
    \<open>FakeProperties\<close>, \<open>FakePageProperties\<close>, \<open>FakeWireProperties\<close> and \<open>FakeLoginProperties\<close> hold the properties;
    \<open>ServerProperties\<close> also has the order in which Viper looks for a setting (\<open>viper_reads\<close>),
    \<open>ErrorProperties\<close> the texts an answer with an error may have (\<open>fixed_texts\<close>), \<open>FakeLoginProperties\<close> the exchange of a code.

  \<^bold>\<open>What is shown.\<close> Of authentication: protected routes refuse requests without a valid token; every
  reachable state meets the constraints; a created token signs in, an exchanged one was stored and
  unexpired, a revoked one is refused; a JWT validates exactly until its expiry; a refresh signs the
  current record; sign-in keeps roles and discloses no more than the provider of the email's owner; the
  bootstrap creates one administrator, but not atomically. Of the providers: only verified emails give
  a user, and each answer of a device poll has its meaning and its status. Of profiles: which merge
  patches are accepted, that an accepted one is stored exactly when its location is valid, that it
  merges into the row as it then is, that the generated UPDATE is the patch, and what a page of the
  list holds and shows, with the bound beyond which the offset wraps. Of the server: it listens only
  on a database that meets its constraints and, when it is told to, has a user, or fails with status
  1; every documented setting reaches its field; every answer has a documented status and type, also
  once its bytes are decoded, and one with an error says nothing internal; a provider that is not
  configured is off and leaves the other one alone. Of the fake: its
  invariant and the absence of panics, one-time use of codes and device requests, no device token
  without approval, the two flows from end to end; no data changes the structure of its pages, and the
  login page answers the request that opened it. Of both: the adapters read the bytes of the fake as
  they are meant, and an approved device request, or a login with the redirect it leads to, ends with
  a JWT for the stored account.

  \<^bold>\<open>Termination.\<close> Every function is total but \<open>new_user_code\<close> of the fake, whose loop draws until a code
  is free: it is a partial function, and \<open>user_code_loop_returns\<close> shows that it returns with the first
  free draw. The JSON and media-type parsers recur on the length of the rest.

  \<^bold>\<open>Parameters.\<close> Third-party packages are arguments: the ISO country tables, \<open>uuid\<close>, the signatures of
  \<open>golang-jwt\<close>, \<open>golang.org/x/oauth2\<close> with the network behind it, and the body binder of Echo. So are
  SHA-256, the Unicode tables of \<open>ToUpper\<close> and \<open>ToLower\<close> above ASCII, the \<open>%q\<close> verb, the collation of the
  database, and the check of bracketed IPv6 hosts. What the code relies on is a named hypothesis
  (\<open>jwt_lib_ok\<close>, \<open>sha_lib_ok\<close>, \<open>uuid_lib_ok\<close>, \<open>iso_regions_prefixed\<close>, \<open>exchanges\<close> for \<open>Config.Exchange\<close>,
  \<open>viper_reads\<close>), met by the samples.

  The decoder of JSON reads back what the encoder writes for nesting up to \<open>max_nesting_depth\<close> (10000,
  the limit of \<open>encoding/json\<close>); the documents here nest at most three deep. A form is read up to
  \<open>max_form_size\<close> (10 MB, the limit of \<open>ParseForm\<close>), which the properties of forms ask for.

  \<^bold>\<open>Not modelled.\<close> The connection pool and the listening sockets beyond what they answer (\<open>host\<close>); Cobra
  and Viper beyond the keys that are read and the order of their sources; the routing of Echo and the JSON body it makes of an error;
  the paths that \<open>net/http\<close> cleans before the fake's dispatch; the body of a redirect and the \<open>Allow\<close>
  header; logging; of HTML, what a browser shows (tags, attributes and form data are modelled); the
  migrations (the schema they lead to is modelled); tests, documentation and infrastructure.
\<close>

end
